(* ===== verification/Prelude.thy ===== *)
theory Prelude
  imports Complex_Main
begin

text \<open>
  Shared vocabulary of the development: Python strings and their methods, exceptions as
  values, clock readings, database tables as row lists, and the generic lemmas on them.

  A Python \<^verbatim>\<open>str\<close> is the list of the bytes of its UTF-8 encoding (a HOL
  \<open>string\<close>); \<open>uni\<close> writes a text by its code points and \<open>py_len\<close>,
  \<open>py_take\<close> count and cut code points, as \<^verbatim>\<open>len\<close> and slicing do. The
  classification methods (\<^verbatim>\<open>strip\<close>, \<^verbatim>\<open>upper\<close>,
  \<^verbatim>\<open>lower\<close>, \<^verbatim>\<open>isdigit\<close>, \<^verbatim>\<open>isprintable\<close>) are those of ASCII
  characters and leave the bytes of other characters alone. A clock reading is a number of
  microseconds, the resolution of \<^verbatim>\<open>datetime\<close>. A table is the list of its rows in
  insertion order.
\<close>

section \<open>Automation\<close>

named_theorems tbl_simps \<open>reading a table after an update\<close>
named_theorems str_simps \<open>Python string methods on built strings\<close>

section \<open>Exceptions\<close>

text \<open>The exceptions the program raises or catches; \<open>HTTPException\<close> carries the status code.\<close>

datatype exn =
    ValueError | TypeError | KeyError | IndexError | OSError | RuntimeError
  | HTTPError | HTTPStatusError nat | DispatchError | WhatsAppClientUnavailable
  | RateLimitExceeded | InvalidRefreshToken | UploadTooLarge | UploadTypeNotAllowed
  | IntegrityError | NoResultFound | MultipleResultsFound | PyJWTError | AssertionError
  | AttributeError | HTTPException nat

text \<open>\<^verbatim>\<open>scalar_one_or_none()\<close>: more than one row raises.\<close>

fun scalar_one_or_none :: "'r list \<Rightarrow> exn + 'r option" where
  "scalar_one_or_none [] = Inr None"
| "scalar_one_or_none [r] = Inr (Some r)"
| "scalar_one_or_none (r # s # rs) = Inl MultipleResultsFound"

text \<open>Sequencing of steps that may raise, and \<^verbatim>\<open>[f(x) for x in xs]\<close>.\<close>

definition bindE :: "exn + 'a \<Rightarrow> ('a \<Rightarrow> exn + 'b) \<Rightarrow> exn + 'b" where
  "bindE x k = (case x of Inl e \<Rightarrow> Inl e | Inr v \<Rightarrow> k v)"

lemma bindE_simps [simp]: "bindE (Inl e) k = Inl e" "bindE (Inr v) k = k v"
  by (simp_all add: bindE_def)

lemma bindE_Inr_iff: "bindE x k = Inr r \<longleftrightarrow> (\<exists>v. x = Inr v \<and> k v = Inr r)"
  by (cases x) simp_all

fun mapE :: "('a \<Rightarrow> exn + 'b) \<Rightarrow> 'a list \<Rightarrow> exn + 'b list" where
  "mapE f [] = Inr []"
| "mapE f (x # xs) = bindE (f x) (\<lambda>y. bindE (mapE f xs) (\<lambda>ys. Inr (y # ys)))"

lemma mapE_Inr_iff: "mapE f xs = Inr ys \<longleftrightarrow> list_all2 (\<lambda>x y. f x = Inr y) xs ys"
  by (induction xs arbitrary: ys) (auto simp: bindE_Inr_iff list_all2_Cons1)

section \<open>Time\<close>

type_synonym time = int

definition seconds :: "int \<Rightarrow> time" where "seconds n = n * 1000000"
definition minutes :: "int \<Rightarrow> time" where "minutes n = seconds (60 * n)"
definition hours :: "int \<Rightarrow> time" where "hours n = seconds (3600 * n)"
definition days :: "int \<Rightarrow> time" where "days n = seconds (86400 * n)"

lemmas time_defs = seconds_def minutes_def hours_def days_def

section \<open>Strings\<close>

definition NL :: string where "NL = [CHR 0x0A]"

fun utf8_char :: "nat \<Rightarrow> string" where
  "utf8_char c =
     (if c < 128 then [char_of c]
      else if c < 2048 then [char_of (192 + c div 64), char_of (128 + c mod 64)]
      else if c < 65536 then
        [char_of (224 + c div 4096), char_of (128 + c div 64 mod 64), char_of (128 + c mod 64)]
      else [char_of (240 + c div 262144), char_of (128 + c div 4096 mod 64),
            char_of (128 + c div 64 mod 64), char_of (128 + c mod 64)])"

definition uni :: "nat list \<Rightarrow> string" where
  "uni cs = concat (map utf8_char cs)"

definition is_cont :: "char \<Rightarrow> bool" where
  "is_cont c = (128 \<le> (of_char c :: nat) \<and> (of_char c :: nat) < 192)"

function py_chars :: "string \<Rightarrow> string list" where
  "py_chars [] = []"
| "py_chars (c # cs) = (c # takeWhile is_cont cs) # py_chars (dropWhile is_cont cs)"
  by pat_completeness auto
termination
  by (relation "measure length") (auto simp: le_imp_less_Suc length_dropWhile_le)

definition py_len :: "string \<Rightarrow> nat" where
  "py_len s = length (py_chars s)"

definition py_take :: "nat \<Rightarrow> string \<Rightarrow> string" where
  "py_take n s = concat (take n (py_chars s))"

definition is_space :: "char \<Rightarrow> bool" where
  "is_space c = (let n = (of_char c :: nat) in 9 \<le> n \<and> n \<le> 13 \<or> 28 \<le> n \<and> n \<le> 32)"

definition is_digit :: "char \<Rightarrow> bool" where
  "is_digit c = (let n = (of_char c :: nat) in 48 \<le> n \<and> n \<le> 57)"

definition is_upper_ascii :: "char \<Rightarrow> bool" where
  "is_upper_ascii c = (let n = (of_char c :: nat) in 65 \<le> n \<and> n \<le> 90)"

definition is_lower_ascii :: "char \<Rightarrow> bool" where
  "is_lower_ascii c = (let n = (of_char c :: nat) in 97 \<le> n \<and> n \<le> 122)"

definition is_printable :: "char \<Rightarrow> bool" where
  "is_printable c = (let n = (of_char c :: nat) in 32 \<le> n \<and> n \<noteq> 127)"

definition upper_char :: "char \<Rightarrow> char" where
  "upper_char c = (if is_lower_ascii c then char_of ((of_char c :: nat) - 32) else c)"

definition lower_char :: "char \<Rightarrow> char" where
  "lower_char c = (if is_upper_ascii c then char_of ((of_char c :: nat) + 32) else c)"

definition py_upper :: "string \<Rightarrow> string" where "py_upper = map upper_char"
definition py_lower :: "string \<Rightarrow> string" where "py_lower = map lower_char"

definition py_strip :: "string \<Rightarrow> string" where
  "py_strip s = rev (dropWhile is_space (rev (dropWhile is_space s)))"

text \<open>\<^verbatim>\<open>s.split(sep)\<close> for a one-character separator, and \<^verbatim>\<open>s.split()\<close>.\<close>

fun py_split :: "char \<Rightarrow> string \<Rightarrow> string list" where
  "py_split sep [] = [[]]"
| "py_split sep (c # cs) =
     (if c = sep then [] # py_split sep cs
      else case py_split sep cs of [] \<Rightarrow> [[c]] | w # ws \<Rightarrow> (c # w) # ws)"

fun split_ws :: "string \<Rightarrow> string \<Rightarrow> string list" where
  "split_ws acc [] = (if acc = [] then [] else [acc])"
| "split_ws acc (c # cs) =
     (if is_space c then (if acc = [] then split_ws [] cs else acc # split_ws [] cs)
      else split_ws (acc @ [c]) cs)"

fun py_join :: "string \<Rightarrow> string list \<Rightarrow> string" where
  "py_join sep [] = []"
| "py_join sep [w] = w"
| "py_join sep (w # v # ws) = w @ sep @ py_join sep (v # ws)"

text \<open>\<^verbatim>\<open>s.partition(sep)\<close>: the part before, whether the separator occurs, the part after.\<close>

definition py_partition :: "char \<Rightarrow> string \<Rightarrow> string \<times> bool \<times> string" where
  "py_partition sep s =
     (takeWhile (\<lambda>c. c \<noteq> sep) s, sep \<in> set s, drop 1 (dropWhile (\<lambda>c. c \<noteq> sep) s))"

definition startswith :: "string \<Rightarrow> string \<Rightarrow> bool" where
  "startswith s p = (take (length p) s = p)"

definition removeprefix :: "string \<Rightarrow> string \<Rightarrow> string" where
  "removeprefix s p = (if startswith s p then drop (length p) s else s)"

fun contains :: "string \<Rightarrow> string \<Rightarrow> bool" where
  "contains [] p = (p = [])"
| "contains (c # cs) p = (startswith (c # cs) p \<or> contains cs p)"

fun replace_char :: "char \<Rightarrow> char \<Rightarrow> string \<Rightarrow> string" where
  "replace_char a b [] = []"
| "replace_char a b (c # cs) = (if c = a then b else c) # replace_char a b cs"

definition digit_char :: "nat \<Rightarrow> char" where "digit_char d = char_of (48 + d)"

fun show_nat :: "nat \<Rightarrow> string" where
  "show_nat n = (if n < 10 then [digit_char n] else show_nat (n div 10) @ [digit_char (n mod 10)])"

declare show_nat.simps [simp del]

text \<open>\<^verbatim>\<open>int(s)\<close> and \<^verbatim>\<open>float(s)\<close> of a decimal numeral; \<open>None\<close> is
  \<^verbatim>\<open>ValueError\<close>. Digit separators, \<^verbatim>\<open>nan\<close> and \<^verbatim>\<open>inf\<close> are not accepted.\<close>

definition nat_of_digits :: "string \<Rightarrow> nat" where
  "nat_of_digits s = foldl (\<lambda>n c. 10 * n + ((of_char c :: nat) - 48)) 0 s"

definition is_numeral :: "string \<Rightarrow> bool" where
  "is_numeral s = (s \<noteq> [] \<and> list_all is_digit s)"

definition split_sign :: "string \<Rightarrow> int \<times> string" where
  "split_sign s =
     (case s of
        c # cs \<Rightarrow> if c = CHR ''-'' then (-1, cs) else if c = CHR ''+'' then (1, cs) else (1, s)
      | [] \<Rightarrow> (1, []))"

definition py_int :: "string \<Rightarrow> int option" where
  "py_int s =
     (case split_sign (py_strip s) of
        (sg, ds) \<Rightarrow> if is_numeral ds then Some (sg * int (nat_of_digits ds)) else None)"

definition py_float :: "string \<Rightarrow> real option" where
  "py_float s =
     (let (sg, body) = split_sign (py_strip s);
          (mant, has_e, ex) = py_partition (CHR ''e'') (py_lower body);
          (whole, has_dot, frac) = py_partition (CHR ''.'') mant;
          (esg, eds) = split_sign ex
      in if list_all is_digit whole \<and> list_all is_digit frac \<and> whole @ frac \<noteq> [] \<and>
            (\<not> has_e \<or> is_numeral eds)
         then Some (of_int sg * (real (nat_of_digits (whole @ frac)) / 10 ^ length frac) *
                    (if esg = 1 then 10 ^ nat_of_digits eds else 1 / 10 ^ nat_of_digits eds))
         else None)"

definition zpad :: "nat \<Rightarrow> string \<Rightarrow> string" where
  "zpad w s = replicate (w - length s) (CHR ''0'') @ s"

text \<open>Truth value of a \<^verbatim>\<open>str | None\<close>, and \<^verbatim>\<open>s or default\<close>.\<close>

definition truthy :: "string option \<Rightarrow> bool" where
  "truthy x = (case x of None \<Rightarrow> False | Some s \<Rightarrow> s \<noteq> [])"

definition str_or :: "string option \<Rightarrow> string \<Rightarrow> string" where
  "str_or x d = (case x of None \<Rightarrow> d | Some s \<Rightarrow> if s = [] then d else s)"

definition opt_or :: "string option \<Rightarrow> string option \<Rightarrow> string option" where
  "opt_or x y = (if truthy x then x else y)"

section \<open>Tables\<close>

definition tget :: "('r \<Rightarrow> 'k) \<Rightarrow> 'k \<Rightarrow> 'r list \<Rightarrow> 'r option" where
  "tget key k t = find (\<lambda>r. key r = k) t"

text \<open>\<^verbatim>\<open>UPDATE ... SET ... WHERE\<close>.\<close>

definition tupd :: "('r \<Rightarrow> bool) \<Rightarrow> ('r \<Rightarrow> 'r) \<Rightarrow> 'r list \<Rightarrow> 'r list" where
  "tupd P f t = map (\<lambda>r. if P r then f r else r) t"

text \<open>\<^verbatim>\<open>ORDER BY x DESC\<close>: rows with equal keys keep their order.\<close>

definition order_by :: "('r \<Rightarrow> time) \<Rightarrow> 'r list \<Rightarrow> 'r list" where
  "order_by f t = sort_key f t"

definition order_by_desc :: "('r \<Rightarrow> time) \<Rightarrow> 'r list \<Rightarrow> 'r list" where
  "order_by_desc f t = sort_key (\<lambda>r. - f r) t"

section \<open>Lemmas on tables\<close>

lemma tget_Nil [simp]: "tget key k [] = None"
  by (simp add: tget_def)

lemma tget_Cons: "tget key k (r # t) = (if key r = k then Some r else tget key k t)"
  by (simp add: tget_def)

lemma tget_append [tbl_simps]:
  "tget key k (t @ u) = (case tget key k t of None \<Rightarrow> tget key k u | Some r \<Rightarrow> Some r)"
  by (induction t) (auto simp: tget_Cons)

lemma tget_SomeD: "tget key k t = Some r \<Longrightarrow> key r = k \<and> r \<in> set t"
  by (induction t) (auto simp: tget_Cons split: if_splits)

lemma tget_None_iff: "tget key k t = None \<longleftrightarrow> k \<notin> key ` set t"
  by (induction t) (auto simp: tget_Cons)

lemma tget_unique: "distinct (map key t) \<Longrightarrow> r \<in> set t \<Longrightarrow> tget key (key r) t = Some r"
  by (induction t) (auto simp: tget_Cons)

lemma tget_tupd [tbl_simps]:
  "(\<And>r. key (f r) = key r) \<Longrightarrow>
   tget key k (tupd P f t) = map_option (\<lambda>r. if P r then f r else r) (tget key k t)"
  by (induction t) (auto simp: tupd_def tget_Cons)

lemma map_key_tupd [simp]: "(\<And>r. key (f r) = key r) \<Longrightarrow> map key (tupd P f t) = map key t"
  by (simp add: tupd_def)

lemma length_tupd [simp]: "length (tupd P f t) = length t"
  by (simp add: tupd_def)

lemma set_tupd: "set (tupd P f t) = (\<lambda>r. if P r then f r else r) ` set t"
  by (simp add: tupd_def)

lemma tupd_Nil [simp]: "tupd P f [] = []"
  by (simp add: tupd_def)

lemma tupd_append [simp]: "tupd P f (t @ u) = tupd P f t @ tupd P f u"
  by (simp add: tupd_def)

lemma image_key_tupd [simp]:
  "(\<And>r. key (f r) = key r) \<Longrightarrow> key ` set (tupd P f t) = key ` set t"
  by (metis list.set_map map_key_tupd)

lemma distinct_key_eq:
  "distinct (map key t) \<Longrightarrow> r \<in> set t \<Longrightarrow> q \<in> set t \<Longrightarrow> key r = key q \<Longrightarrow> r = q"
  by (metis option.inject tget_unique)

lemma tupd_none: "(\<And>r. r \<in> set t \<Longrightarrow> \<not> P r) \<Longrightarrow> tupd P f t = t"
  by (induction t) (auto simp: tupd_def)

lemma set_order_by [simp]: "set (order_by f t) = set t"
  by (simp add: order_by_def)

lemma set_order_by_desc [simp]: "set (order_by_desc f t) = set t"
  by (simp add: order_by_desc_def)

lemma scalar_None_iff: "scalar_one_or_none t = Inr None \<longleftrightarrow> t = []"
  by (cases t rule: scalar_one_or_none.cases) auto

lemma scalar_Some_iff: "scalar_one_or_none t = Inr (Some r) \<longleftrightarrow> t = [r]"
  by (cases t rule: scalar_one_or_none.cases) auto

section \<open>Lemmas on strings\<close>

lemma py_split_not_Nil [simp]: "py_split sep s \<noteq> []"
  by (induction s) (auto split: list.splits)

lemma py_split_no_sep: "sep \<notin> set s \<Longrightarrow> py_split sep s = [s]"
  by (induction s) auto

lemma py_split_append_sep [str_simps]:
  "sep \<notin> set a \<Longrightarrow> py_split sep (a @ sep # b) = a # py_split sep b"
  by (induction a) auto

lemma py_split_parts: "w \<in> set (py_split sep s) \<Longrightarrow> sep \<notin> set w"
  by (induction s arbitrary: w) (auto split: if_splits list.splits)

lemma py_join_split: "py_join [sep] (py_split sep s) = s"
proof (induction s)
  case Nil
  show ?case by simp
next
  case (Cons c cs)
  obtain w ws where w: "py_split sep cs = w # ws"
    by (meson neq_Nil_conv py_split_not_Nil)
  with Cons show ?case
    by (cases ws) auto
qed

lemma py_partition_sep [str_simps]:
  "sep \<notin> set a \<Longrightarrow> py_partition sep (a @ sep # b) = (a, True, b)"
proof -
  assume a: "sep \<notin> set a"
  have "takeWhile (\<lambda>c. c \<noteq> sep) (a @ sep # b) = a \<and> dropWhile (\<lambda>c. c \<noteq> sep) (a @ sep # b) = sep # b"
    using a by (induction a) auto
  then show ?thesis by (simp add: py_partition_def)
qed

lemma py_partition_no_sep: "sep \<notin> set a \<Longrightarrow> py_partition sep a = (a, False, [])"
proof -
  assume a: "sep \<notin> set a"
  have "takeWhile (\<lambda>c. c \<noteq> sep) a = a \<and> dropWhile (\<lambda>c. c \<noteq> sep) a = []"
    using a by (induction a) auto
  with a show ?thesis by (simp add: py_partition_def del: dropWhile_eq_Nil_conv)
qed

lemma py_upper_append [str_simps]: "py_upper (a @ b) = py_upper a @ py_upper b"
  by (simp add: py_upper_def)

lemma startswith_append [simp]: "startswith (p @ s) p"
  by (simp add: startswith_def)

lemma removeprefix_append [simp]: "removeprefix (p @ s) p = s"
  by (simp add: removeprefix_def)

subsection \<open>Code points\<close>

lemma concat_py_chars [simp]: "concat (py_chars s) = s"
  by (induction s rule: py_chars.induct) auto

definition wf_char :: "string \<Rightarrow> bool" where
  "wf_char w = (case w of [] \<Rightarrow> False | c # cs \<Rightarrow> list_all is_cont cs)"

definition starts_char :: "string \<Rightarrow> bool" where
  "starts_char w = (case w of [] \<Rightarrow> False | c # cs \<Rightarrow> \<not> is_cont c)"

lemma takeWhile_dropWhile_cont:
  assumes "list_all P cs" and "rest = [] \<or> \<not> P (hd rest)"
  shows "takeWhile P (cs @ rest) = cs \<and> dropWhile P (cs @ rest) = rest"
  using assms by (induction cs) (cases rest, auto)+

lemma concat_starts: "list_all starts_char ws \<Longrightarrow> concat ws = [] \<or> \<not> is_cont (hd (concat ws))"
  by (cases ws) (auto simp: starts_char_def split: list.splits)

lemma py_chars_concat:
  assumes "list_all wf_char ws" and "list_all starts_char (tl ws)"
  shows "py_chars (concat ws) = ws"
  using assms
proof (induction ws)
  case Nil
  then show ?case by simp
next
  case (Cons w ws)
  then obtain c cs where w: "w = c # cs" and cs: "list_all is_cont cs"
    by (cases w) (auto simp: wf_char_def)
  have rest: "concat ws = [] \<or> \<not> is_cont (hd (concat ws))"
    by (rule concat_starts) (use Cons.prems in simp)
  have "py_chars (concat ws) = ws"
    using Cons by (cases ws) auto
  then show ?case
    using takeWhile_dropWhile_cont [OF cs rest] w by simp
qed

lemma py_chars_wf: "list_all wf_char (py_chars s) \<and> list_all starts_char (tl (py_chars s))"
proof (induction s rule: py_chars.induct)
  case 1
  show ?case by simp
next
  case (2 c cs)
  have "list_all is_cont (takeWhile is_cont cs)"
    by (auto simp: list_all_iff dest: set_takeWhileD)
  moreover have "list_all starts_char (py_chars (dropWhile is_cont cs))"
  proof (cases "dropWhile is_cont cs")
    case Nil
    then show ?thesis by (simp only: py_chars.simps list.pred_inject)
  next
    case (Cons d ds)
    then have "\<not> is_cont d"
      by (metis hd_dropWhile list.distinct(1) list.sel(1))
    then have "starts_char (d # takeWhile is_cont ds)" by (simp add: starts_char_def)
    with Cons 2 show ?thesis by simp
  qed
  ultimately show ?case using 2 by (simp add: wf_char_def)
qed

lemma py_chars_py_take [simp]: "py_chars (py_take n s) = take n (py_chars s)"
proof -
  have a: "list_all wf_char (take n (py_chars s))"
    using py_chars_wf [of s] by (auto simp: list_all_iff dest: in_set_takeD)
  have b: "list_all starts_char (tl (take n (py_chars s)))"
    using py_chars_wf [of s]
    by (cases n; cases "py_chars s") (auto simp: list_all_iff dest: in_set_takeD)
  show ?thesis
    unfolding py_take_def by (rule py_chars_concat [OF a b])
qed

lemma py_len_py_take [simp]: "py_len (py_take n s) = min n (py_len s)"
  by (simp add: py_len_def min.commute)

lemma py_take_Nil_iff: "0 < n \<Longrightarrow> py_take n s = [] \<longleftrightarrow> s = []"
  by (cases s; cases n) (auto simp: py_take_def)

subsection \<open>Decimal numbers\<close>

lemma show_nat_not_Nil [simp]: "show_nat n \<noteq> []"
  by (subst show_nat.simps) simp

lemma digit_char_is_digit: "d < 10 \<Longrightarrow> is_digit (digit_char d)"
  by (simp add: is_digit_def digit_char_def Let_def)

lemma show_nat_digits: "list_all is_digit (show_nat n)"
proof (induction n rule: show_nat.induct)
  case (1 n)
  then show ?case
    by (subst show_nat.simps) (auto simp: digit_char_is_digit)
qed

lemma length_show_nat: "0 < k \<Longrightarrow> n < 10 ^ k \<Longrightarrow> length (show_nat n) \<le> k"
proof (induction n arbitrary: k rule: show_nat.induct)
  case (1 n)
  show ?case
  proof (cases "n < 10")
    case True
    with 1 show ?thesis by (subst show_nat.simps) simp
  next
    case False
    with 1(3) obtain j where j: "k = Suc j" by (cases k) auto
    with 1(3) False have "0 < j" by (cases j) auto
    have "n div 10 < 10 ^ j" using 1(3) j by (simp add: less_mult_imp_div_less mult.commute)
    with 1(1) False \<open>0 < j\<close> have "length (show_nat (n div 10)) \<le> j" by blast
    with False j show ?thesis by (subst show_nat.simps) simp
  qed
qed

lemma digit_char_inj: "a < 10 \<Longrightarrow> b < 10 \<Longrightarrow> digit_char a = digit_char b \<Longrightarrow> a = b"
proof -
  assume a: "a < 10" and b: "b < 10" and e: "digit_char a = digit_char b"
  have "(of_char (digit_char a) :: nat) = of_char (digit_char b)" using e by simp
  with a b show "a = b" by (simp add: digit_char_def)
qed

lemma show_nat_inj: "show_nat m = show_nat n \<Longrightarrow> m = n"
proof (induction m arbitrary: n rule: show_nat.induct)
  case (1 m)
  have l: "k < 10 \<or> length (show_nat k) > 1" for k
    by (subst show_nat.simps) (cases "show_nat (k div 10)", auto)
  have s: "k < 10 \<Longrightarrow> show_nat k = [digit_char k]" for k
    by (subst show_nat.simps) simp
  have b: "\<not> k < 10 \<Longrightarrow> show_nat k = show_nat (k div 10) @ [digit_char (k mod 10)]" for k
    by (subst show_nat.simps) simp
  show ?case
  proof (cases "m < 10")
    case True
    with 1(2) have e: "show_nat n = [digit_char m]" by (simp add: s)
    have "n < 10" using l [of n] unfolding e by simp
    with True 1(2) show ?thesis by (simp add: s digit_char_inj)
  next
    case False
    have n: "\<not> n < 10"
    proof
      assume "n < 10"
      with 1(2) have e: "show_nat m = [digit_char n]" by (simp add: s)
      show False using l [of m] False unfolding e by simp
    qed
    from 1(2) have "show_nat (m div 10) = show_nat (n div 10)"
      and "digit_char (m mod 10) = digit_char (n mod 10)"
      by (simp_all add: b [OF False] b [OF n])
    with 1(1) False have "m div 10 = n div 10" and "m mod 10 = n mod 10"
      by (auto intro: digit_char_inj)
    then show ?thesis by (metis div_mult_mod_eq)
  qed
qed

end
