(* ===== verification/Taxonomy.thy ===== *)
theory Taxonomy
  imports Prelude
begin

text \<open>
  The civic service taxonomy and its routing policy (\<^verbatim>\<open>pipeline/taxonomy.py\<close>): the
  category rows, departments and legacy aliases as tables, the bundled demo profile, the lookup
  functions, the policy that turns extracted facts into an operational decision, and the
  import-time self-check. Category and department keys stay strings, because callers look up
  arbitrary ones; the small fixed vocabularies are datatypes. A Python dict literal is an
  association list read by \<open>dict_get\<close>, where a later entry for a key wins.
\<close>

section \<open>Vocabularies and records\<close>

definition TAXONOMY_VERSION :: string where "TAXONOMY_VERSION = ''2026-07-v2''"
definition DEMO_JURISDICTION_ID :: string where "DEMO_JURISDICTION_ID = ''demo-ulb''"

datatype safety_level = Safety_none | Safety_possible | Safety_immediate
datatype asset_scope = Scope_public | Scope_private | Scope_unknown
datatype disposition =
    Municipal_ticket | Municipal_ticket_and_escalate | Redirect | Emergency_redirect
  | Needs_human_review
datatype priority = Pr_priority | Pr_normal
datatype term_hint = Short_term | Long_term

record category =
  cat_key :: string
  cat_label :: string
  cat_department_key :: string
  cat_default_priority :: priority
  cat_term_hint :: term_hint
  cat_parent_key :: string
  cat_aggregation_key :: "string option"
  cat_hindi_label :: string
  cat_synonyms :: "string list"
  cat_active :: bool

record department =
  dep_key :: string
  dep_name :: string
  dep_email :: string

record jurisdiction_route =
  jr_category_key :: string
  jr_department_key :: string
  jr_owning_agency :: string
  jr_sla_hours :: "nat option"
  jr_dispatch_enabled :: bool
  jr_official_service_url :: "string option"
  jr_source_url :: "string option"

record jurisdiction_profile =
  jp_key :: string
  jp_name :: string
  jp_is_demo :: bool
  jp_routes :: "(string \<times> jurisdiction_route) list"

record routing_decision =
  rd_disposition :: disposition
  rd_priority :: priority
  rd_dedup_eligible :: bool
  rd_needs_official_review :: bool
  rd_reason :: string

definition dict_get :: "('k \<times> 'v) list \<Rightarrow> 'k \<Rightarrow> 'v option" where
  "dict_get d k = map_of (rev d) k"

definition DOMAIN_LABELS :: "(string \<times> string) list" where
  "DOMAIN_LABELS = [
    (''roads_mobility'', ''Roads & Mobility''),
    (''street_lighting_electrical'', ''Street Lighting & Electrical Hazards''),
    (''solid_waste_cleanliness'', ''Solid Waste, Cleanliness & Public Toilets''),
    (''water_supply'', ''Water Supply''),
    (''sewerage_drainage_flooding'', ''Sewerage, Drainage & Flooding''),
    (''parks_trees_public_spaces'', ''Parks, Trees & Public Spaces''),
    (''public_health_vector_control'', ''Public Health & Vector Control''),
    (''animal_welfare'', ''Animal Welfare''),
    (''land_use_building_public_realm'', ''Land Use, Buildings & Public Realm''),
    (''civic_documents_service_delivery'', ''Civic Documents & Service Delivery''),
    (''other_needs_review'', ''Other / Needs Review'')]"

definition mk_category ::
    "string \<Rightarrow> string \<Rightarrow> string \<Rightarrow> string \<Rightarrow> priority \<Rightarrow> term_hint \<Rightarrow> string \<Rightarrow> string list
     \<Rightarrow> string option \<Rightarrow> category" where
  "mk_category key label parent department prio term hindi synonyms aggregation =
     \<lparr>cat_key = key, cat_label = label, cat_department_key = department,
      cat_default_priority = prio, cat_term_hint = term, cat_parent_key = parent,
      cat_aggregation_key = Some (str_or aggregation key), cat_hindi_label = hindi,
      cat_synonyms = synonyms, cat_active = True\<rparr>"

section \<open>The category rows\<close>

definition unmapped_service_row :: category where
  "unmapped_service_row =
    mk_category ''unmapped_service'' ''Unmapped service''
      ''other_needs_review'' ''general'' Pr_normal Short_term [] [] None"

definition rows_roads_mobility :: "category list" where
  "rows_roads_mobility = [
    mk_category ''pothole_surface_damage'' ''Pothole or road surface damage''
      ''roads_mobility'' ''public_works'' Pr_normal Long_term [] [''pothole'', ''gaddha'', uni [2327, 2337, 2381, 2338, 2366]] None,
    mk_category ''road_cave_in'' ''Road cave-in or collapse''
      ''roads_mobility'' ''public_works'' Pr_priority Long_term [] [] None,
    mk_category ''footpath_damage_or_obstruction'' ''Footpath damage or obstruction''
      ''roads_mobility'' ''public_works'' Pr_normal Long_term [] [] None,
    mk_category ''median_or_guardrail_damage'' ''Median or guardrail damage''
      ''roads_mobility'' ''public_works'' Pr_normal Long_term [] [] None,
    mk_category ''road_marking_or_signage'' ''Road marking or signage''
      ''roads_mobility'' ''public_works'' Pr_normal Short_term [] [] None,
    mk_category ''speed_breaker_or_traffic_calming'' ''Speed breaker or traffic calming''
      ''roads_mobility'' ''public_works'' Pr_normal Long_term [] [] None,
    mk_category ''municipal_parking'' ''Municipal parking''
      ''roads_mobility'' ''public_works'' Pr_normal Short_term [] [] None,
    mk_category ''drain_cover_on_road'' ''Road drain cover''
      ''roads_mobility'' ''public_works'' Pr_priority Short_term [] [] None]"

definition rows_street_lighting_electrical :: "category list" where
  "rows_street_lighting_electrical = [
    mk_category ''streetlight_out'' ''Streetlight not working''
      ''street_lighting_electrical'' ''electrical'' Pr_normal Short_term [] [''street light'', uni [2348, 2340, 2381, 2340, 2368]] None,
    mk_category ''streetlight_flickering'' ''Streetlight flickering''
      ''street_lighting_electrical'' ''electrical'' Pr_normal Short_term [] [] None,
    mk_category ''damaged_pole_or_fixture'' ''Damaged lighting pole or fixture''
      ''street_lighting_electrical'' ''electrical'' Pr_priority Short_term [] [] None,
    mk_category ''exposed_or_low_hanging_wire'' ''Exposed or low-hanging wire''
      ''street_lighting_electrical'' ''external_referral'' Pr_priority Short_term [] [] None,
    mk_category ''electrical_box_or_transformer_hazard'' ''Electrical box or transformer hazard''
      ''street_lighting_electrical'' ''external_referral'' Pr_priority Short_term [] [] None,
    mk_category ''unauthorized_connection'' ''Unauthorized electrical connection report''
      ''street_lighting_electrical'' ''external_referral'' Pr_normal Short_term [] [] None]"

definition rows_solid_waste_cleanliness :: "category list" where
  "rows_solid_waste_cleanliness = [
    mk_category ''missed_door_to_door_collection'' ''Missed door-to-door waste collection''
      ''solid_waste_cleanliness'' ''sanitation'' Pr_normal Short_term [] [] None,
    mk_category ''overflowing_community_bin'' ''Overflowing community bin''
      ''solid_waste_cleanliness'' ''sanitation'' Pr_normal Short_term [] [] None,
    mk_category ''open_dumping_or_litter'' ''Open dumping or litter''
      ''solid_waste_cleanliness'' ''sanitation'' Pr_normal Short_term [] [] None,
    mk_category ''construction_and_demolition_waste'' ''Construction and demolition waste''
      ''solid_waste_cleanliness'' ''sanitation'' Pr_normal Short_term [] [] None,
    mk_category ''bulk_or_commercial_waste'' ''Bulk or commercial waste''
      ''solid_waste_cleanliness'' ''sanitation'' Pr_normal Short_term [] [] None,
    mk_category ''burning_waste'' ''Burning waste''
      ''solid_waste_cleanliness'' ''sanitation'' Pr_priority Short_term [] [] None,
    mk_category ''dead_animal_collection'' ''Dead animal collection''
      ''solid_waste_cleanliness'' ''sanitation'' Pr_normal Short_term [] [] None,
    mk_category ''street_sweeping'' ''Street sweeping''
      ''solid_waste_cleanliness'' ''sanitation'' Pr_normal Short_term [] [] None,
    mk_category ''public_toilet_cleanliness_or_maintenance'' ''Public toilet cleanliness or maintenance''
      ''solid_waste_cleanliness'' ''sanitation'' Pr_normal Short_term [] [] None]"

definition rows_water_supply :: "category list" where
  "rows_water_supply = [
    mk_category ''no_or_low_supply'' ''No or low water supply''
      ''water_supply'' ''water_works'' Pr_normal Short_term [] [] None,
    mk_category ''pipeline_leak'' ''Water pipeline leak''
      ''water_supply'' ''water_works'' Pr_normal Short_term [] [] None,
    mk_category ''public_tap_or_standpost'' ''Public tap or standpost''
      ''water_supply'' ''water_works'' Pr_normal Short_term [] [] None,
    mk_category ''meter_or_connection_issue'' ''Water meter or connection issue''
      ''water_supply'' ''water_works'' Pr_normal Short_term [] [] None,
    mk_category ''water_quality_or_contamination'' ''Water quality or contamination''
      ''water_supply'' ''water_works'' Pr_priority Short_term [] [] None,
    mk_category ''illegal_water_connection_report'' ''Illegal water connection report''
      ''water_supply'' ''water_works'' Pr_normal Short_term [] [] None,
    mk_category ''waterlogging_from_supply_leak'' ''Waterlogging from supply leak''
      ''water_supply'' ''water_works'' Pr_normal Short_term [] [] None]"

definition rows_sewerage_drainage_flooding :: "category list" where
  "rows_sewerage_drainage_flooding = [
    mk_category ''blocked_storm_drain'' ''Blocked storm drain''
      ''sewerage_drainage_flooding'' ''public_works'' Pr_normal Short_term [] [] None,
    mk_category ''stormwater_flooding'' ''Stormwater flooding''
      ''sewerage_drainage_flooding'' ''public_works'' Pr_priority Short_term [] [] None,
    mk_category ''sewage_overflow'' ''Sewage overflow''
      ''sewerage_drainage_flooding'' ''public_works'' Pr_priority Short_term [] [] None,
    mk_category ''blocked_sewer_or_manhole'' ''Blocked sewer or manhole''
      ''sewerage_drainage_flooding'' ''public_works'' Pr_normal Short_term [] [] None,
    mk_category ''open_or_damaged_manhole'' ''Open or damaged manhole''
      ''sewerage_drainage_flooding'' ''public_works'' Pr_priority Short_term [] [] None,
    mk_category ''septic_or_faecal_sludge_service'' ''Septic or faecal sludge service''
      ''sewerage_drainage_flooding'' ''public_works'' Pr_normal Short_term [] [] None,
    mk_category ''drain_desilting'' ''Drain desilting''
      ''sewerage_drainage_flooding'' ''public_works'' Pr_normal Short_term [] [] None,
    mk_category ''mosquito_breeding_site'' ''Mosquito breeding site''
      ''sewerage_drainage_flooding'' ''public_health'' Pr_normal Short_term [] [] None]"

definition rows_parks_trees_public_spaces :: "category list" where
  "rows_parks_trees_public_spaces = [
    mk_category ''park_maintenance'' ''Park maintenance''
      ''parks_trees_public_spaces'' ''parks'' Pr_normal Long_term [] [] None,
    mk_category ''playground_or_open_gym_equipment'' ''Playground or open-gym equipment''
      ''parks_trees_public_spaces'' ''parks'' Pr_priority Short_term [] [] None,
    mk_category ''fallen_or_hazardous_tree'' ''Fallen or hazardous tree''
      ''parks_trees_public_spaces'' ''parks'' Pr_priority Short_term [] [] None,
    mk_category ''tree_pruning_request'' ''Tree pruning request''
      ''parks_trees_public_spaces'' ''parks'' Pr_normal Short_term [] [] None,
    mk_category ''public_space_cleanliness'' ''Public-space cleanliness''
      ''parks_trees_public_spaces'' ''parks'' Pr_normal Short_term [] [] None,
    mk_category ''public_fountain_or_amenity'' ''Public fountain or amenity''
      ''parks_trees_public_spaces'' ''parks'' Pr_normal Short_term [] [] None,
    mk_category ''illegal_tree_cutting_report'' ''Illegal tree cutting report''
      ''parks_trees_public_spaces'' ''parks'' Pr_priority Short_term [] [] None]"

definition rows_public_health_vector_control :: "category list" where
  "rows_public_health_vector_control = [
    mk_category ''mosquito_or_vector_control'' ''Mosquito or vector control''
      ''public_health_vector_control'' ''public_health'' Pr_normal Short_term [] [] None,
    mk_category ''stray_dog_bite_public_health_referral'' ''Animal bite health referral''
      ''public_health_vector_control'' ''external_referral'' Pr_priority Short_term [] [] None,
    mk_category ''public_nuisance_sanitation'' ''Public sanitation nuisance''
      ''public_health_vector_control'' ''public_health'' Pr_normal Short_term [] [] None,
    mk_category ''food_safety_public_premises_referral'' ''Food safety referral''
      ''public_health_vector_control'' ''external_referral'' Pr_normal Short_term [] [] None,
    mk_category ''unsafe_public_toilet'' ''Unsafe public toilet''
      ''public_health_vector_control'' ''public_health'' Pr_priority Short_term [] [] None]"

definition rows_animal_welfare :: "category list" where
  "rows_animal_welfare = [
    mk_category ''injured_or_trapped_animal'' ''Injured or trapped animal''
      ''animal_welfare'' ''animal_welfare'' Pr_priority Short_term [] [] None,
    mk_category ''aggressive_or_nuisance_animal'' ''Aggressive or nuisance animal''
      ''animal_welfare'' ''animal_welfare'' Pr_priority Short_term [] [] None,
    mk_category ''stray_dog_population_management'' ''Stray dog population management''
      ''animal_welfare'' ''animal_welfare'' Pr_normal Short_term [] [] None,
    mk_category ''animal_cruelty_report'' ''Animal cruelty report''
      ''animal_welfare'' ''external_referral'' Pr_priority Short_term [] [] None,
    mk_category ''animal_carcass'' ''Animal carcass''
      ''animal_welfare'' ''sanitation'' Pr_normal Short_term [] [] None,
    mk_category ''livestock_on_road'' ''Livestock on road''
      ''animal_welfare'' ''animal_welfare'' Pr_priority Short_term [] [] None]"

definition rows_land_use_building_public_realm :: "category list" where
  "rows_land_use_building_public_realm = [
    mk_category ''public_land_encroachment'' ''Public-land encroachment''
      ''land_use_building_public_realm'' ''town_planning'' Pr_normal Long_term [] [] None,
    mk_category ''unsafe_or_illegal_construction_report'' ''Unsafe or illegal construction report''
      ''land_use_building_public_realm'' ''town_planning'' Pr_normal Long_term [] [] None,
    mk_category ''unauthorized_hawking_or_obstruction'' ''Hawking or public-way obstruction''
      ''land_use_building_public_realm'' ''town_planning'' Pr_normal Short_term [] [] None,
    mk_category ''advertising_or_hoarding'' ''Advertising or hoarding''
      ''land_use_building_public_realm'' ''town_planning'' Pr_normal Short_term [] [] None,
    mk_category ''abandoned_vehicle_on_public_way'' ''Abandoned vehicle on public way''
      ''land_use_building_public_realm'' ''external_referral'' Pr_normal Short_term [] [] None,
    mk_category ''public_property_damage'' ''Public-property damage''
      ''land_use_building_public_realm'' ''general'' Pr_normal Long_term [] [] None]"

definition rows_civic_documents_service_delivery :: "category list" where
  "rows_civic_documents_service_delivery = [
    mk_category ''municipal_tax_or_bill_query'' ''Municipal tax or bill query''
      ''civic_documents_service_delivery'' ''citizen_services'' Pr_normal Short_term [] [] None,
    mk_category ''birth_death_certificate_referral'' ''Birth or death certificate referral''
      ''civic_documents_service_delivery'' ''citizen_services'' Pr_normal Short_term [] [] None,
    mk_category ''trade_license_referral'' ''Trade licence referral''
      ''civic_documents_service_delivery'' ''citizen_services'' Pr_normal Short_term [] [] None,
    mk_category ''building_permission_status'' ''Building permission status''
      ''civic_documents_service_delivery'' ''town_planning'' Pr_normal Short_term [] [] None,
    mk_category ''grievance_status_or_escalation'' ''Grievance status or escalation''
      ''civic_documents_service_delivery'' ''general'' Pr_normal Short_term [] [] None,
    mk_category ''accessibility_or_service_centre_issue'' ''Accessibility or service-centre issue''
      ''civic_documents_service_delivery'' ''citizen_services'' Pr_normal Short_term [] [] None]"

definition rows_other_needs_review :: "category list" where
  "rows_other_needs_review = [
    mk_category ''insufficient_information'' ''Insufficient information''
      ''other_needs_review'' ''general'' Pr_normal Short_term [] [] None,
    mk_category ''multi_issue'' ''Multiple civic issues''
      ''other_needs_review'' ''general'' Pr_normal Short_term [] [] None,
    unmapped_service_row,
    mk_category ''possible_non_municipal'' ''Possible non-municipal issue''
      ''other_needs_review'' ''external_referral'' Pr_normal Short_term [] [] None]"

definition category_rows :: "category list" where
  "category_rows =
     rows_roads_mobility @ rows_street_lighting_electrical @ rows_solid_waste_cleanliness @
     rows_water_supply @ rows_sewerage_drainage_flooding @ rows_parks_trees_public_spaces @
     rows_public_health_vector_control @ rows_animal_welfare @
     rows_land_use_building_public_realm @ rows_civic_documents_service_delivery @
     rows_other_needs_review"

definition CANONICAL_CATEGORIES :: "(string \<times> category) list" where
  "CANONICAL_CATEGORIES = map (\<lambda>c. (cat_key c, c)) category_rows"

definition mk_department :: "string \<Rightarrow> string \<Rightarrow> string \<Rightarrow> string \<times> department" where
  "mk_department k n e = (k, \<lparr>dep_key = k, dep_name = n, dep_email = e\<rparr>)"

definition DEPARTMENTS :: "(string \<times> department) list" where
  "DEPARTMENTS = [
    mk_department ''public_works'' ''Public Works Department'' ''public-works@municipal.example'',
    mk_department ''electrical'' ''Street Lighting Department'' ''electrical@municipal.example'',
    mk_department ''sanitation'' ''Sanitation Department'' ''sanitation@municipal.example'',
    mk_department ''water_works'' ''Water Works Department'' ''water-works@municipal.example'',
    mk_department ''public_health'' ''Public Health Department'' ''public-health@municipal.example'',
    mk_department ''animal_welfare'' ''Animal Welfare Department'' ''animal-welfare@municipal.example'',
    mk_department ''parks'' ''Parks & Gardens Department'' ''parks@municipal.example'',
    mk_department ''town_planning'' ''Town Planning Department'' ''town-planning@municipal.example'',
    mk_department ''citizen_services'' ''Citizen Services'' ''citizen-services@municipal.example'',
    mk_department ''general'' ''General Grievance Cell'' ''grievance-cell@municipal.example'',
    mk_department ''external_referral'' ''External Authority Referral'' ''referrals@municipal.example'']"

definition LEGACY_CATEGORY_ALIASES :: "(string \<times> string) list" where
  "LEGACY_CATEGORY_ALIASES = [
    (''roads_potholes'', ''pothole_surface_damage''),
    (''streetlights'', ''streetlight_out''),
    (''drainage_sewerage'', ''blocked_storm_drain''),
    (''water_supply'', ''no_or_low_supply''),
    (''garbage_collection'', ''missed_door_to_door_collection''),
    (''stray_animals'', ''stray_dog_population_management''),
    (''parks'', ''park_maintenance'')]"

definition AMBIGUOUS_LEGACY_CATEGORIES :: "string list" where
  "AMBIGUOUS_LEGACY_CATEGORIES = [''sanitation'', ''encroachment'', ''electricity'', ''other'']"

definition canon_entry :: "string \<Rightarrow> category" where
  "canon_entry k =
     (case dict_get CANONICAL_CATEGORIES k of Some c \<Rightarrow> c | None \<Rightarrow> unmapped_service_row)"

definition CATEGORIES :: "(string \<times> category) list" where
  "CATEGORIES =
     CANONICAL_CATEGORIES @
     map (\<lambda>(legacy, canonical). (legacy, canon_entry canonical)) LEGACY_CATEGORY_ALIASES @
     [(''water_supply'', canon_entry ''no_or_low_supply''),
      (''sanitation'', canon_entry ''public_nuisance_sanitation''),
      (''encroachment'', canon_entry ''public_land_encroachment''),
      (''electricity'', canon_entry ''electrical_box_or_transformer_hazard''),
      (''other'', canon_entry ''unmapped_service'')]"

definition demo_route :: "category \<Rightarrow> string \<times> jurisdiction_route" where
  "demo_route c =
     (cat_key c,
      \<lparr>jr_category_key = cat_key c, jr_department_key = cat_department_key c,
       jr_owning_agency = ''Demo Municipal Corporation'',
       jr_sla_hours = Some (if cat_default_priority c = Pr_priority then 24 else 72),
       jr_dispatch_enabled = False, jr_official_service_url = None, jr_source_url = None\<rparr>)"

definition DEMO_PROFILE :: jurisdiction_profile where
  "DEMO_PROFILE =
     \<lparr>jp_key = DEMO_JURISDICTION_ID,
      jp_name = ''Demo Municipal Corporation (non-production)'',
      jp_is_demo = True,
      jp_routes = map demo_route category_rows\<rparr>"

definition IMMEDIATE_SAFETY_CATEGORIES :: "string list" where
  "IMMEDIATE_SAFETY_CATEGORIES = [
    ''road_cave_in'', ''exposed_or_low_hanging_wire'',
    ''electrical_box_or_transformer_hazard'', ''open_or_damaged_manhole'',
    ''stray_dog_bite_public_health_referral'']"

definition EXTERNAL_REFERRAL_CATEGORIES :: "string list" where
  "EXTERNAL_REFERRAL_CATEGORIES =
     map cat_key (filter (\<lambda>c. cat_department_key c = ''external_referral'') category_rows)"

section \<open>Lookup functions\<close>

definition legacy_defaults :: "(string \<times> string) list" where
  "legacy_defaults = [
    (''sanitation'', ''public_nuisance_sanitation''),
    (''encroachment'', ''public_land_encroachment''),
    (''electricity'', ''electrical_box_or_transformer_hazard''),
    (''other'', ''unmapped_service'')]"

definition canonical_category_key :: "string option \<Rightarrow> string option" where
  "canonical_category_key key =
     (case key of
        None \<Rightarrow> None
      | Some k \<Rightarrow>
          if k = [] then None
          else if dict_get CANONICAL_CATEGORIES k \<noteq> None then Some k
          else case dict_get LEGACY_CATEGORY_ALIASES k of
                 Some c \<Rightarrow> Some c
               | None \<Rightarrow> dict_get legacy_defaults k)"

text \<open>The fallback entry is \<^verbatim>\<open>CANONICAL_CATEGORIES["unmapped_service"]\<close>;
  \<open>canonical_unmapped\<close> below shows that this is what the table holds.\<close>

definition category_or_default :: "string option \<Rightarrow> category" where
  "category_or_default key =
     (case dict_get CANONICAL_CATEGORIES (str_or (canonical_category_key key) []) of
        Some c \<Rightarrow> c
      | None \<Rightarrow> unmapped_service_row)"

text \<open>Indexing \<^verbatim>\<open>DEPARTMENTS\<close> raises \<^verbatim>\<open>KeyError\<close> on a missing key.\<close>

definition department_for_category :: "string option \<Rightarrow> exn + department" where
  "department_for_category key =
     (case dict_get DEPARTMENTS (cat_department_key (category_or_default key)) of
        Some d \<Rightarrow> Inr d
      | None \<Rightarrow> Inl KeyError)"

definition route_for_category :: "string option \<Rightarrow> jurisdiction_profile \<Rightarrow> jurisdiction_route option" where
  "route_for_category key profile =
     dict_get (jp_routes profile) (str_or (canonical_category_key key) [])"

section \<open>The routing policy\<close>

definition REVIEW_CATEGORIES :: "string list" where
  "REVIEW_CATEGORIES =
     [''insufficient_information'', ''multi_issue'', ''unmapped_service'', ''possible_non_municipal'']"

definition decide :: "disposition \<Rightarrow> priority \<Rightarrow> bool \<Rightarrow> bool \<Rightarrow> string \<Rightarrow> routing_decision" where
  "decide d p e r why =
     \<lparr>rd_disposition = d, rd_priority = p, rd_dedup_eligible = e,
      rd_needs_official_review = r, rd_reason = why\<rparr>"

definition evaluate_routing_policy ::
    "string option \<Rightarrow> safety_level \<Rightarrow> asset_scope \<Rightarrow> bool \<Rightarrow> real \<Rightarrow> jurisdiction_profile
     \<Rightarrow> routing_decision" where
  "evaluate_routing_policy key safety scope jurisdiction_known extraction_confidence profile =
     (let canonical = canonical_category_key key in
      if safety = Safety_immediate \<or> (\<exists>c \<in> set IMMEDIATE_SAFETY_CATEGORIES. canonical = Some c) then
        decide Emergency_redirect Pr_priority False True
          ''Immediate safety indicator requires emergency guidance and official escalation.''
      else if \<not> jurisdiction_known then
        decide Redirect Pr_normal False True
          ''Location is outside or not resolved to a configured jurisdiction.''
      else if canonical = None \<or> (\<exists>c \<in> set REVIEW_CATEGORIES. canonical = Some c) then
        decide Needs_human_review Pr_normal False True
          ''Issue is ambiguous, multi-issue, or outside the configured taxonomy.''
      else if scope = Scope_private then
        decide Redirect Pr_normal False True
          ''Reported asset appears private and ownership must be verified.''
      else if (\<exists>c \<in> set EXTERNAL_REFERRAL_CATEGORIES. canonical = Some c) then
        decide Redirect (if safety = Safety_possible then Pr_priority else Pr_normal) False True
          ''Configured service belongs to an external authority.''
      else if route_for_category canonical profile = None then
        decide Needs_human_review (cat_default_priority (category_or_default canonical)) False True
          ''No configured municipal route is available for this service.''
      else if safety = Safety_possible then
        decide Municipal_ticket_and_escalate Pr_priority False False
          ''Possible safety risk is filed with expedited handling.''
      else
        decide Municipal_ticket (cat_default_priority (category_or_default canonical))
          (cat_default_priority (category_or_default canonical) \<noteq> Pr_priority) False
          ''Configured public municipal service with sufficient evidence.'')"

section \<open>The import-time self-check\<close>

fun first_error :: "(bool \<times> exn) list \<Rightarrow> exn + unit" where
  "first_error [] = Inr ()"
| "first_error ((bad, e) # rest) = (if bad then Inl e else first_error rest)"

definition check_category :: "category \<Rightarrow> (bool \<times> exn) list" where
  "check_category c =
     [(dict_get DOMAIN_LABELS (cat_parent_key c) = None, ValueError),
      (dict_get DEPARTMENTS (cat_department_key c) = None, ValueError),
      (\<not> truthy (cat_aggregation_key c), ValueError)]"

definition validate_taxonomy :: "exn + unit" where
  "validate_taxonomy =
     first_error
       ([(length (remdups (map fst CANONICAL_CATEGORIES)) \<noteq> length category_rows, ValueError)] @
        concat (map (check_category \<circ> snd) CANONICAL_CATEGORIES) @
        map (\<lambda>(legacy, canonical).
               (dict_get CANONICAL_CATEGORIES legacy \<noteq> None \<or>
                dict_get CANONICAL_CATEGORIES canonical = None, ValueError))
            LEGACY_CATEGORY_ALIASES @
        [(\<not> jp_is_demo DEMO_PROFILE \<or>
          list_ex (\<lambda>(k, r). jr_dispatch_enabled r) (jp_routes DEMO_PROFILE), ValueError)])"

section \<open>Facts about the tables\<close>

text \<open>The table is evaluated once, to the list of its keys; everything else rests on that list.\<close>

lemmas row_defs =
  category_rows_def rows_roads_mobility_def rows_street_lighting_electrical_def
  rows_solid_waste_cleanliness_def rows_water_supply_def rows_sewerage_drainage_flooding_def
  rows_parks_trees_public_spaces_def rows_public_health_vector_control_def rows_animal_welfare_def
  rows_land_use_building_public_realm_def rows_civic_documents_service_delivery_def
  rows_other_needs_review_def unmapped_service_row_def mk_category_def

lemma canonical_keys: "map cat_key category_rows = [
    ''pothole_surface_damage'', ''road_cave_in'', ''footpath_damage_or_obstruction'',
    ''median_or_guardrail_damage'', ''road_marking_or_signage'',
    ''speed_breaker_or_traffic_calming'', ''municipal_parking'', ''drain_cover_on_road'',
    ''streetlight_out'', ''streetlight_flickering'', ''damaged_pole_or_fixture'',
    ''exposed_or_low_hanging_wire'', ''electrical_box_or_transformer_hazard'',
    ''unauthorized_connection'', ''missed_door_to_door_collection'',
    ''overflowing_community_bin'', ''open_dumping_or_litter'',
    ''construction_and_demolition_waste'', ''bulk_or_commercial_waste'', ''burning_waste'',
    ''dead_animal_collection'', ''street_sweeping'',
    ''public_toilet_cleanliness_or_maintenance'', ''no_or_low_supply'', ''pipeline_leak'',
    ''public_tap_or_standpost'', ''meter_or_connection_issue'',
    ''water_quality_or_contamination'', ''illegal_water_connection_report'',
    ''waterlogging_from_supply_leak'', ''blocked_storm_drain'', ''stormwater_flooding'',
    ''sewage_overflow'', ''blocked_sewer_or_manhole'', ''open_or_damaged_manhole'',
    ''septic_or_faecal_sludge_service'', ''drain_desilting'', ''mosquito_breeding_site'',
    ''park_maintenance'', ''playground_or_open_gym_equipment'', ''fallen_or_hazardous_tree'',
    ''tree_pruning_request'', ''public_space_cleanliness'', ''public_fountain_or_amenity'',
    ''illegal_tree_cutting_report'', ''mosquito_or_vector_control'',
    ''stray_dog_bite_public_health_referral'', ''public_nuisance_sanitation'',
    ''food_safety_public_premises_referral'', ''unsafe_public_toilet'',
    ''injured_or_trapped_animal'', ''aggressive_or_nuisance_animal'',
    ''stray_dog_population_management'', ''animal_cruelty_report'', ''animal_carcass'',
    ''livestock_on_road'', ''public_land_encroachment'',
    ''unsafe_or_illegal_construction_report'', ''unauthorized_hawking_or_obstruction'',
    ''advertising_or_hoarding'', ''abandoned_vehicle_on_public_way'', ''public_property_damage'',
    ''municipal_tax_or_bill_query'', ''birth_death_certificate_referral'',
    ''trade_license_referral'', ''building_permission_status'',
    ''grievance_status_or_escalation'', ''accessibility_or_service_centre_issue'',
    ''insufficient_information'', ''multi_issue'', ''unmapped_service'',
    ''possible_non_municipal''] "
  by (simp add: row_defs)

lemma canonical_keys_distinct: "distinct (map cat_key category_rows)"
  unfolding canonical_keys by simp

lemma fst_CANONICAL [simp]: "map fst CANONICAL_CATEGORIES = map cat_key category_rows"
  by (simp add: CANONICAL_CATEGORIES_def)

lemma map_of_rev: "distinct (map fst d) \<Longrightarrow> map_of (rev d) = map_of d"
  by (rule map_of_eqI) (auto simp: distinct_map inj_on_def rev_map [symmetric] dest!: map_of_SomeD)

lemma dict_get_distinct: "distinct (map fst d) \<Longrightarrow> dict_get d k = map_of d k"
  by (simp add: dict_get_def map_of_rev)

lemma dict_get_append: "dict_get (d @ e) k = (case dict_get e k of None \<Rightarrow> dict_get d k | Some v \<Rightarrow> Some v)"
  by (simp add: dict_get_def map_add_def split: option.splits)

lemma dict_get_Some_set: "dict_get d k = Some v \<Longrightarrow> (k, v) \<in> set d"
  by (auto simp: dict_get_def dest: map_of_SomeD)

lemma dict_get_None_iff: "dict_get d k = None \<longleftrightarrow> k \<notin> set (map fst d)"
  by (simp add: dict_get_def map_of_eq_None_iff)

lemma dict_get_map:
  "dict_get (map (\<lambda>x. (f x, g x)) xs) k = map_option g (dict_get (map (\<lambda>x. (f x, x)) xs) k)"
  by (induction xs) (auto simp: dict_get_append [of _ "[_]"] dict_get_def map_add_def split: option.splits)

lemma canonical_None_iff: "dict_get CANONICAL_CATEGORIES k = None \<longleftrightarrow> k \<notin> set (map cat_key category_rows)"
  by (simp only: dict_get_None_iff fst_CANONICAL)

lemma canonical_entry_key: "dict_get CANONICAL_CATEGORIES k = Some c \<Longrightarrow> cat_key c = k \<and> c \<in> set category_rows"
  by (auto dest!: dict_get_Some_set simp: CANONICAL_CATEGORIES_def)

lemma canonical_get_row: "c \<in> set category_rows \<Longrightarrow> dict_get CANONICAL_CATEGORIES (cat_key c) = Some c"
  using canonical_keys_distinct
  by (auto simp: dict_get_distinct CANONICAL_CATEGORIES_def comp_def intro!: map_of_is_SomeI)

lemma unmapped_in_rows: "unmapped_service_row \<in> set category_rows"
  by (simp add: category_rows_def rows_other_needs_review_def)

lemma canonical_unmapped: "dict_get CANONICAL_CATEGORIES ''unmapped_service'' = Some unmapped_service_row"
  using canonical_get_row [OF unmapped_in_rows] by (simp add: unmapped_service_row_def mk_category_def)

lemma aliases_canonical:
  "list_all (\<lambda>(l, c). dict_get CANONICAL_CATEGORIES l = None \<and> dict_get CANONICAL_CATEGORIES c \<noteq> None)
     (LEGACY_CATEGORY_ALIASES @ legacy_defaults)"
  unfolding canonical_None_iff canonical_keys LEGACY_CATEGORY_ALIASES_def legacy_defaults_def by simp

lemma alias_entry:
  "(l, c) \<in> set LEGACY_CATEGORY_ALIASES \<union> set legacy_defaults \<Longrightarrow>
   dict_get CANONICAL_CATEGORIES l = None \<and> dict_get CANONICAL_CATEGORIES c \<noteq> None"
  using aliases_canonical by (fastforce simp: list_all_iff)

lemma fst_DEPARTMENTS: "map fst DEPARTMENTS = [''public_works'', ''electrical'', ''sanitation'',
    ''water_works'', ''public_health'', ''animal_welfare'', ''parks'', ''town_planning'',
    ''citizen_services'', ''general'', ''external_referral'']"
  by (simp add: DEPARTMENTS_def mk_department_def)

lemma departments_known: "list_all (\<lambda>c. dict_get DEPARTMENTS (cat_department_key c) \<noteq> None) category_rows"
  unfolding dict_get_None_iff fst_DEPARTMENTS by (simp add: row_defs)

lemma domains_known: "list_all (\<lambda>c. dict_get DOMAIN_LABELS (cat_parent_key c) \<noteq> None) category_rows"
  unfolding dict_get_None_iff DOMAIN_LABELS_def by (simp add: row_defs)

lemma aggregation_known: "list_all (\<lambda>c. truthy (cat_aggregation_key c)) category_rows"
  by (simp add: row_defs truthy_def str_or_def)

lemma empty_key_unknown: "dict_get CANONICAL_CATEGORIES [] = None"
  unfolding canonical_None_iff canonical_keys by simp

lemma first_error_ok: "first_error cs = Inr () \<longleftrightarrow> list_all (\<lambda>(bad, e). \<not> bad) cs"
  by (induction cs rule: first_error.induct) auto

lemma canonical_range:
  assumes "canonical_category_key key = Some c"
  shows "\<exists>e. dict_get CANONICAL_CATEGORIES c = Some e \<and> cat_key e = c"
proof -
  have al: "dict_get CANONICAL_CATEGORIES c' \<noteq> None"
    if "(l, c') \<in> set LEGACY_CATEGORY_ALIASES \<union> set legacy_defaults" for l c'
    using aliases_canonical that by (fastforce simp: list_all_iff)
  have "dict_get CANONICAL_CATEGORIES c \<noteq> None"
    using assms al
    by (auto simp: canonical_category_key_def split: option.splits if_splits
        dest!: dict_get_Some_set)
  then show ?thesis by (auto dest: canonical_entry_key)
qed

lemma canonical_idem: "canonical_category_key (canonical_category_key key) = canonical_category_key key"
proof (cases "canonical_category_key key")
  case None
  then show ?thesis by (simp add: canonical_category_key_def)
next
  case (Some c)
  from canonical_range [OF Some] empty_key_unknown show ?thesis
    unfolding Some by (auto simp: canonical_category_key_def)
qed

lemma canonical_fix: "dict_get CANONICAL_CATEGORIES k \<noteq> None \<Longrightarrow> canonical_category_key (Some k) = Some k"
  using empty_key_unknown by (auto simp: canonical_category_key_def)

lemma category_or_default_Some:
  "canonical_category_key key = Some c \<Longrightarrow>
   dict_get CANONICAL_CATEGORIES c = Some (category_or_default key)"
  using canonical_range [of key c] empty_key_unknown
  by (auto simp: category_or_default_def str_or_def split: if_splits)

lemma category_or_default_None:
  "canonical_category_key key = None \<Longrightarrow> category_or_default key = unmapped_service_row"
  by (simp add: category_or_default_def str_or_def empty_key_unknown)

lemma category_or_default_in: "category_or_default key \<in> set category_rows"
proof (cases "canonical_category_key key")
  case None
  then show ?thesis
    using canonical_entry_key [OF canonical_unmapped] by (simp add: category_or_default_None)
next
  case (Some c)
  then show ?thesis using canonical_entry_key category_or_default_Some by blast
qed

lemma category_key_or_default:
  "canonical_category_key key = Some c \<Longrightarrow> cat_key (category_or_default key) = c"
  using category_or_default_Some canonical_entry_key by blast

lemma category_or_default_canonical [simp]:
  "category_or_default (canonical_category_key key) = category_or_default key"
  by (simp add: category_or_default_def canonical_idem)

lemma demo_route_pair: "demo_route = (\<lambda>c. (cat_key c, snd (demo_route c)))"
  by (simp add: demo_route_def fun_eq_iff)

lemma jp_routes_demo: "jp_routes DEMO_PROFILE = map demo_route category_rows"
  by (simp add: DEMO_PROFILE_def)

lemma canonical_table: "CANONICAL_CATEGORIES = map (\<lambda>c. (cat_key c, c)) category_rows"
  by (simp add: CANONICAL_CATEGORIES_def)

lemma demo_routes_get:
  "dict_get (jp_routes DEMO_PROFILE) k = map_option (\<lambda>c. snd (demo_route c)) (dict_get CANONICAL_CATEGORIES k)"
  unfolding jp_routes_demo canonical_table
  by (subst demo_route_pair) (rule dict_get_map)

lemma demo_route_exists:
  "route_for_category key DEMO_PROFILE =
     map_option (\<lambda>_. snd (demo_route (category_or_default key))) (canonical_category_key key)"
proof (cases "canonical_category_key key")
  case None
  then show ?thesis by (simp add: route_for_category_def str_or_def demo_routes_get empty_key_unknown)
next
  case (Some c)
  then have "c \<noteq> []" using canonical_range empty_key_unknown by fastforce
  with Some show ?thesis
    by (simp add: route_for_category_def str_or_def demo_routes_get category_or_default_Some)
qed

lemma demo_dispatch_disabled:
  "route_for_category key DEMO_PROFILE = Some r \<Longrightarrow> \<not> jr_dispatch_enabled r"
  by (auto simp: demo_route_exists demo_route_def)

lemma department_total: "\<exists>d. department_for_category key = Inr d"
  using departments_known category_or_default_in [of key]
  by (auto simp: department_for_category_def list_all_iff)

section \<open>Facts about the policy\<close>

lemma decide_sel [simp]:
  "rd_disposition (decide d p e r why) = d" "rd_priority (decide d p e r why) = p"
  "rd_dedup_eligible (decide d p e r why) = e" "rd_needs_official_review (decide d p e r why) = r"
  by (simp_all add: decide_def)

lemmas policy_defs = evaluate_routing_policy_def decide_def Let_def

definition auto_fileable :: "string option \<Rightarrow> safety_level \<Rightarrow> asset_scope \<Rightarrow> bool \<Rightarrow> bool" where
  "auto_fileable key safety scope known \<longleftrightarrow>
     safety \<noteq> Safety_immediate \<and> known \<and> scope \<noteq> Scope_private \<and>
     (\<exists>c. canonical_category_key key = Some c \<and>
          c \<notin> set IMMEDIATE_SAFETY_CATEGORIES \<union> set REVIEW_CATEGORIES \<union> set EXTERNAL_REFERRAL_CATEGORIES)"

lemma canonical_key_fix: "canonical_category_key key = Some c \<Longrightarrow> canonical_category_key (Some c) = Some c"
  using canonical_idem [of key] by simp

lemma category_or_default_key: "canonical_category_key key = Some c \<Longrightarrow> category_or_default (Some c) = category_or_default key"
  using category_or_default_canonical [of key] by simp

lemma policy_review_iff:
  "\<not> rd_needs_official_review (evaluate_routing_policy key safety scope known conf DEMO_PROFILE)
   \<longleftrightarrow> auto_fileable key safety scope known"
  by (cases "canonical_category_key key"; cases safety)
     (auto simp: policy_defs auto_fileable_def demo_route_exists canonical_key_fix)

lemma policy_auto_disposition:
  "auto_fileable key safety scope known \<Longrightarrow>
   evaluate_routing_policy key safety scope known conf DEMO_PROFILE =
     (if safety = Safety_possible
      then decide Municipal_ticket_and_escalate Pr_priority False False
             ''Possible safety risk is filed with expedited handling.''
      else decide Municipal_ticket (cat_default_priority (category_or_default key))
             (cat_default_priority (category_or_default key) \<noteq> Pr_priority) False
             ''Configured public municipal service with sufficient evidence.'')"
  by (auto simp: evaluate_routing_policy_def Let_def auto_fileable_def demo_route_exists
      canonical_key_fix category_or_default_key)

lemma policy_emergency:
  "safety = Safety_immediate \<or> (\<exists>c \<in> set IMMEDIATE_SAFETY_CATEGORIES. canonical_category_key key = Some c) \<Longrightarrow>
   rd_disposition (evaluate_routing_policy key safety scope known conf profile) = Emergency_redirect \<and>
   rd_priority (evaluate_routing_policy key safety scope known conf profile) = Pr_priority"
  by (simp add: policy_defs)

lemma if_neq: "a \<noteq> e \<Longrightarrow> b \<noteq> e \<Longrightarrow> (if P then a else b) \<noteq> e"
  by simp

lemma policy_not_emergency:
  assumes "\<not> (safety = Safety_immediate \<or>
    (\<exists>c \<in> set IMMEDIATE_SAFETY_CATEGORIES. canonical_category_key key = Some c))"
  shows "rd_disposition (evaluate_routing_policy key safety scope known conf profile) \<noteq> Emergency_redirect"
  unfolding evaluate_routing_policy_def Let_def if_not_P [OF assms] if_distrib [of rd_disposition]
    decide_sel
  by (intro if_neq) (rule disposition.distinct)+

lemma policy_ignores_confidence:
  "evaluate_routing_policy key safety scope known conf profile =
   evaluate_routing_policy key safety scope known conf' profile"
  by (simp add: evaluate_routing_policy_def)

lemma policy_dedup_eligible:
  "rd_dedup_eligible (evaluate_routing_policy key safety scope known conf profile) \<Longrightarrow>
   evaluate_routing_policy key safety scope known conf profile =
     decide Municipal_ticket Pr_normal True False
       ''Configured public municipal service with sufficient evidence.''"
  by (cases "cat_default_priority (category_or_default key)")
     (auto simp: policy_defs category_or_default_key split: if_splits)

lemma policy_review_disposition:
  "rd_needs_official_review (evaluate_routing_policy key safety scope known conf profile) \<longleftrightarrow>
   rd_disposition (evaluate_routing_policy key safety scope known conf profile)
     \<in> {Redirect, Emergency_redirect, Needs_human_review}"
  by (auto simp: policy_defs)

section \<open>The import-time self-check passes\<close>

lemma check_category_ok:
  "c \<in> set category_rows \<Longrightarrow> list_all (\<lambda>(bad, e). \<not> bad) (check_category c)"
  using departments_known domains_known aggregation_known
  by (auto simp: list_all_iff check_category_def)

lemma demo_never_enabled: "\<not> list_ex (\<lambda>(k, r). jr_dispatch_enabled r) (jp_routes DEMO_PROFILE)"
  by (auto simp: jp_routes_demo demo_route_def list_ex_iff)

lemma demo_is_demo: "jp_is_demo DEMO_PROFILE"
  by (simp add: DEMO_PROFILE_def)

lemma no_duplicate_keys:
  "length (remdups (map fst CANONICAL_CATEGORIES)) = length category_rows"
  using canonical_keys_distinct by (simp add: distinct_remdups_id)

text \<open>The taxonomy that ships with the program passes the check it runs at import: keys are
  unique, every category has a known domain, a known department and an aggregation key, every
  legacy alias points from a non-canonical key to a canonical one, and no route of the demo
  profile has dispatch enabled.\<close>

theorem taxonomy_validates: "validate_taxonomy = Inr ()"
proof -
  have "list_all (\<lambda>(bad, e). \<not> bad) (concat (map (check_category \<circ> snd) CANONICAL_CATEGORIES))"
    using check_category_ok unfolding canonical_table by (fastforce simp: list_all_iff)
  moreover have "list_all (\<lambda>(bad, e). \<not> bad) (map (\<lambda>(legacy, canonical).
      (dict_get CANONICAL_CATEGORIES legacy \<noteq> None \<or>
       dict_get CANONICAL_CATEGORIES canonical = None, ValueError)) LEGACY_CATEGORY_ALIASES)"
    using alias_entry by (simp add: list_all_iff split_beta del: not_None_eq) (metis UnI1 prod.collapse)
  ultimately show ?thesis
    unfolding validate_taxonomy_def first_error_ok list_all_append
    by (simp add: no_duplicate_keys demo_is_demo demo_never_enabled del: fst_CANONICAL)
qed

text \<open>C23. A report needs no official review exactly when its category is a recognised one that is
  neither an emergency nor an external nor a review category, no immediate safety risk is claimed,
  the location is known and the asset is not private; and then it becomes a municipal ticket.\<close>

theorem auto_file_exactly:
  "(\<not> rd_needs_official_review (evaluate_routing_policy key safety scope known conf DEMO_PROFILE)
      \<longleftrightarrow> auto_fileable key safety scope known) \<and>
   (auto_fileable key safety scope known \<longleftrightarrow>
      rd_disposition (evaluate_routing_policy key safety scope known conf DEMO_PROFILE)
        \<in> {Municipal_ticket, Municipal_ticket_and_escalate})"
  using policy_review_iff [of key safety scope known conf]
    policy_review_disposition [of key safety scope known conf DEMO_PROFILE]
  by (cases "rd_disposition (evaluate_routing_policy key safety scope known conf DEMO_PROFILE)")
    simp_all


text \<open>Category keys normalise to a canonical key or to nothing, normalising twice is the same
  as once, and every key, recognised or not, has a department.\<close>

theorem category_normalisation:
  "canonical_category_key (canonical_category_key key) = canonical_category_key key \<and>
   (case canonical_category_key key of
      None \<Rightarrow> category_or_default key = unmapped_service_row
    | Some c \<Rightarrow> cat_key (category_or_default key) = c) \<and>
   category_or_default key \<in> set category_rows \<and>
   (\<exists>d. department_for_category key = Inr d)"
  using canonical_idem category_or_default_in department_total
  by (auto simp: category_or_default_None category_key_or_default split: option.split)

end
