(* ===== verification/Models.thy ===== *)
theory Models
  imports Taxonomy "HOL-Library.AList"
begin

text \<open>
  The database of \<^verbatim>\<open>db/models.py\<close>: one record per table, with the columns of the
  mapped class, and the record \<open>db\<close> of all tables. Columns with a fixed vocabulary are
  datatypes. Identifiers are the canonical texts of UUIDs, drawn from the counter
  \<open>db_ids\<close>; timestamps are clock readings. Columns that hold JSON written by the program
  itself are records; JSON that comes from outside is the datatype \<open>json\<close>.
\<close>

section \<open>JSON values\<close>

text \<open>What \<^verbatim>\<open>json.loads\<close> returns. A \<^verbatim>\<open>dict\<close> is the list of its items in
  insertion order; numbers with a fraction or exponent are reals (the non-standard tokens
  \<^verbatim>\<open>NaN\<close> and \<^verbatim>\<open>Infinity\<close> are not modelled).\<close>

datatype json =
    JNull | JBool bool | JInt int | JFloat real | JStr string
  | JArr "json list" | JObj "(string \<times> json) list"

type_synonym jobject = "(string \<times> json) list"

text \<open>\<^verbatim>\<open>d.get(key)\<close> on a \<^verbatim>\<open>dict\<close>, and the truth value of a value.\<close>

definition jget :: "jobject \<Rightarrow> string \<Rightarrow> json" where
  "jget d k = (case map_of d k of None \<Rightarrow> JNull | Some v \<Rightarrow> v)"

fun jtruthy :: "json \<Rightarrow> bool" where
  "jtruthy JNull = False"
| "jtruthy (JBool b) = b"
| "jtruthy (JInt i) = (i \<noteq> 0)"
| "jtruthy (JFloat r) = (r \<noteq> 0)"
| "jtruthy (JStr s) = (s \<noteq> [])"
| "jtruthy (JArr xs) = (xs \<noteq> [])"
| "jtruthy (JObj d) = (d \<noteq> [])"

definition jopt :: "string option \<Rightarrow> json" where
  "jopt x = (case x of None \<Rightarrow> JNull | Some s \<Rightarrow> JStr s)"

definition jstrs :: "string list \<Rightarrow> json" where
  "jstrs xs = JArr (map JStr xs)"

section \<open>Identifiers\<close>

definition hex_char :: "nat \<Rightarrow> char" where
  "hex_char d = (if d < 10 then char_of (48 + d) else char_of (87 + d))"

fun hex_digits :: "nat \<Rightarrow> nat \<Rightarrow> string" where
  "hex_digits 0 n = []"
| "hex_digits (Suc k) n = hex_digits k (n div 16) @ [hex_char (n mod 16)]"

type_synonym uuid = string

text \<open>The canonical text of the \<open>n\<close>-th UUID the process draws.\<close>

definition uuid_str :: "nat \<Rightarrow> uuid" where
  "uuid_str n =
     (let h = hex_digits 32 n; dash = ''-'' in
      take 8 h @ dash @ take 4 (drop 8 h) @ dash @ take 4 (drop 12 h) @ dash @
      take 4 (drop 16 h) @ dash @ drop 20 h)"

section \<open>Contacts and messages\<close>

record contact =
  ct_id :: uuid
  ct_wa_id :: string
  ct_profile_name :: "string option"
  ct_created_at :: time
  ct_updated_at :: time

datatype direction = Incoming | Outgoing

datatype msg_status = Ms_received | Ms_pending | Ms_sending | Ms_sent | Ms_failed | Ms_blocked_24h

record message =
  ms_id :: uuid
  ms_contact_id :: "uuid option"
  ms_meta_message_id :: "string option"
  ms_direction :: direction
  ms_message_type :: string
  ms_text_body :: "string option"
  ms_media_id :: "string option"
  ms_media_mime_type :: "string option"
  ms_location_latitude :: "real option"
  ms_location_longitude :: "real option"
  ms_location_name :: "string option"
  ms_location_address :: "string option"
  ms_location_url :: "string option"
  ms_raw_payload :: json
  ms_received_at :: time
  ms_reply_id :: "string option"
  ms_interactive_type :: "string option"
  ms_button_payload :: "string option"
  ms_context_message_id :: "string option"
  ms_status :: msg_status
  ms_idempotency_key :: "string option"
  ms_reply_kind :: "string option"
  ms_conversation_id :: "uuid option"
  ms_in_response_to :: "string option"
  ms_locked_until :: "time option"
  ms_attempt_count :: nat
  ms_created_at :: time

section \<open>Conversations\<close>

text \<open>The states of the dialog; a stored state outside the vocabulary is kept as it is.\<close>

datatype conv_state =
    Awaiting_location | Confirming_location | Awaiting_issue | Awaiting_photo | Processing
  | Photo_mismatch | Awaiting_confirmation | Done | Expired | Other_state string

text \<open>One entry of \<^verbatim>\<open>context["issue"]["messages"]\<close> and of
  \<^verbatim>\<open>Grievance.issue_messages\<close>; a key that the writer leaves out is \<open>None\<close>.\<close>

record issue_message =
  im_message_id :: "string option"
  im_received_at :: "time option"
  im_type :: string
  im_text :: "string option"
  im_media_id :: "string option"
  im_mime_type :: "string option"
  im_local_path :: "string option"
  im_recording_id :: "string option"
  im_segment_index :: "int option"

record location_ctx =
  lc_lat :: "real option"
  lc_lon :: "real option"
  lc_display_address :: "string option"
  lc_source_message_id :: "string option"
  lc_geocode_status :: "string option"
  lc_confirmed_at :: "time option"

record issue_ctx =
  ic_messages :: "issue_message list option"
  ic_source_message_id :: "string option"

record photo_ctx =
  pc_media_id :: "string option"
  pc_mime_type :: "string option"
  pc_skipped :: "bool option"

record draft_ctx =
  dc_grievance_id :: "string option"
  dc_recheck_count :: "nat option"

record conv_context =
  cx_location :: location_ctx
  cx_issue :: issue_ctx
  cx_photo :: photo_ctx
  cx_draft :: "draft_ctx option"

record conversation =
  cv_id :: uuid
  cv_contact_id :: uuid
  cv_state :: conv_state
  cv_context :: conv_context
  cv_state_version :: nat
  cv_active :: bool
  cv_last_user_message_at :: "time option"
  cv_service_window_expires_at :: "time option"
  cv_expires_at :: "time option"

record consumption =
  fc_id :: uuid
  fc_inbound_message_id :: string
  fc_conversation_id :: "uuid option"
  fc_state_before :: "conv_state option"
  fc_state_after :: "conv_state option"

section \<open>Geocode cache and rate limits\<close>

record geocode_row =
  gc_provider :: string
  gc_lat_round :: real
  gc_lon_round :: real
  gc_accept_language :: string
  gc_status :: string
  gc_display_address :: "string option"
  gc_raw :: "json option"

record rate_limit =
  rl_provider :: string
  rl_next_allowed_at :: time

section \<open>Grievances\<close>

datatype gr_status =
    Gs_draft | Gs_processing | Gs_photo_mismatch | Gs_awaiting_confirmation | Gs_registered
  | Gs_dispatching | Gs_pending_window | Gs_submitted | Gs_duplicate | Gs_cancelled
  | Gs_dispatch_failed

datatype review_status =
    Rv_pending_official | Rv_citizen_review | Rv_approved | Rv_redirected | Rv_rejected
  | Rv_awaiting_citizen

datatype image_match = Im_none | Im_matched | Im_mismatched | Im_unverified | Im_skipped

datatype flag =
    Fl_transcription_failed | Fl_classification_failed | Fl_image_check_degraded
  | Fl_official_review_required | Fl_multiple_issues | Fl_photo_mismatch_accepted
  | Fl_category_dispute

datatype source = Src_whatsapp | Src_web

record route_snapshot =
  rs_taxonomy_version :: string
  rs_category_id :: string
  rs_department_key :: string
  rs_owning_agency :: "string option"
  rs_dispatch_enabled :: bool
  rs_sla_hours :: "nat option"
  rs_disposition :: disposition

record transcript =
  tr_recording_id :: string
  tr_segment_index :: int
  tr_text :: string
  tr_language :: string
  tr_mime_type :: string
  tr_model :: string

record grievance =
  gr_id :: uuid
  gr_human_id :: string
  gr_contact_id :: uuid
  gr_conversation_id :: "uuid option"
  gr_user_id :: "uuid option"
  gr_source :: source
  gr_location_latitude :: "real option"
  gr_location_longitude :: "real option"
  gr_location_address :: "string option"
  gr_issue_messages :: "issue_message list"
  gr_issue_text :: "string option"
  gr_source_language :: "string option"
  gr_photo_media_id :: "string option"
  gr_photo_path :: "string option"
  gr_pdf_path :: "string option"
  gr_status :: gr_status
  gr_category :: "string option"
  gr_department_key :: "string option"
  gr_priority :: "priority option"
  gr_term :: "term_hint option"
  gr_confidence :: "real option"
  gr_image_match_status :: "image_match option"
  gr_flags :: "flag list"
  gr_report_count :: nat
  gr_duplicate_of_id :: "uuid option"
  gr_window_expires_at :: "time option"
  gr_dispatch_ref :: "string option"
  gr_dispatch_attempts :: nat
  gr_confirmed_at :: "time option"
  gr_taxonomy_version :: "string option"
  gr_category_id :: "string option"
  gr_aggregation_key :: "string option"
  gr_jurisdiction_id :: "string option"
  gr_safety_level :: "safety_level option"
  gr_asset_scope :: "asset_scope option"
  gr_disposition :: "disposition option"
  gr_review_status :: "review_status option"
  gr_policy_version :: "string option"
  gr_routing_snapshot :: "route_snapshot option"
  gr_structured_facts :: "jobject option"
  gr_transcript_metadata :: "transcript list"
  gr_state_version :: nat
  gr_created_at :: time
  gr_updated_at :: time

record grievance_event =
  ge_id :: uuid
  ge_grievance_id :: uuid
  ge_status :: gr_status
  ge_note :: "string option"
  ge_created_at :: time

section \<open>Accounts\<close>

record user =
  us_id :: uuid
  us_phone :: string
  us_contact_id :: "uuid option"
  us_name :: "string option"

datatype verification_status = Pv_pending | Pv_verified | Pv_consumed

record phone_verification =
  pv_id :: uuid
  pv_phone :: string
  pv_code_hash :: string
  pv_status :: verification_status
  pv_expires_at :: time
  pv_verified_at :: "time option"
  pv_user_id :: "uuid option"
  pv_created_at :: time

record refresh_token =
  rt_id :: uuid
  rt_user_id :: uuid
  rt_token_hash :: string
  rt_expires_at :: time
  rt_revoked_at :: "time option"

datatype approval_status =
    La_pending | La_approved | La_denied | La_consumed | La_superseded | La_fallback

record login_approval =
  la_id :: uuid
  la_user_id :: uuid
  la_contact_id :: uuid
  la_phone :: string
  la_verifier_hash :: string
  la_browser_nonce_hash :: string
  la_browser_label :: "string option"
  la_status :: approval_status
  la_requested_at :: time
  la_expires_at :: time
  la_decided_at :: "time option"
  la_consumed_at :: "time option"
  la_decision_message_id :: "string option"
  la_outbound_message_id :: "uuid option"
  la_request_ip_hash :: "string option"

section \<open>Events, jobs and officials\<close>

record webhook_event =
  we_id :: uuid
  we_signature_valid :: bool
  we_payload :: jobject
  we_created_at :: time
  we_processed_at :: "time option"
  we_attempt_count :: nat
  we_locked_until :: "time option"

record route_row =
  rr_jurisdiction_id :: string
  rr_taxonomy_version :: string
  rr_category_id :: string
  rr_department_key :: string
  rr_owning_agency :: string
  rr_dispatch_enabled :: bool
  rr_sla_hours :: "nat option"
  rr_source_url :: "string option"
  rr_reviewed_by :: "string option"
  rr_effective_from :: "time option"
  rr_effective_to :: "time option"

record extraction_row =
  ex_id :: uuid
  ex_grievance_id :: uuid
  ex_extraction_version :: string
  ex_taxonomy_version :: string
  ex_prompt_version :: string
  ex_provider :: string
  ex_requested_models :: "string list"
  ex_actual_model :: "string option"
  ex_degraded :: bool
  ex_raw_response :: "jobject option"
  ex_normalized_result :: jobject
  ex_confidence :: real
  ex_needs_review :: bool
  ex_degradation_reason :: "string option"

datatype job_stage = Stage_intelligence | Stage_reextract

datatype job_status = Js_pending | Js_retry | Js_processing | Js_completed | Js_dead_letter

record pipeline_job =
  pj_id :: uuid
  pj_grievance_id :: uuid
  pj_stage :: job_stage
  pj_status :: job_status
  pj_idempotency_key :: string
  pj_attempt_count :: nat
  pj_max_attempts :: nat
  pj_next_attempt_at :: time
  pj_locked_until :: "time option"
  pj_last_error :: "exn option"

datatype official_role =
    Ro_triage_officer | Ro_department_officer | Ro_supervisor | Ro_auditor | Ro_admin
  | Ro_other string

record official =
  of_id :: uuid
  of_email :: string
  of_name :: string
  of_role :: official_role
  of_jurisdiction_id :: string
  of_department_keys :: "string list"
  of_active :: bool
  of_last_login_at :: "time option"

record official_challenge =
  oc_id :: uuid
  oc_official_user_id :: "uuid option"
  oc_email_hash :: string
  oc_code_hash :: string
  oc_expires_at :: time
  oc_consumed_at :: "time option"
  oc_attempt_count :: nat
  oc_created_at :: time

datatype audit_action =
    Au_login | Au_view | Au_view_evidence | Au_approve | Au_correct | Au_redirect | Au_reject
  | Au_request_clarification

record audit_event =
  oa_id :: uuid
  oa_official_user_id :: uuid
  oa_grievance_id :: "uuid option"
  oa_action :: audit_action
  oa_reason :: "string option"
  oa_before :: "json option"
  oa_after :: "json option"
  oa_request_id :: "string option"
  oa_created_at :: time

section \<open>The database\<close>

record db =
  db_contacts :: "contact list"
  db_messages :: "message list"
  db_conversations :: "conversation list"
  db_consumptions :: "consumption list"
  db_geocodes :: "geocode_row list"
  db_rate_limits :: "rate_limit list"
  db_grievances :: "grievance list"
  db_grievance_events :: "grievance_event list"
  db_users :: "user list"
  db_verifications :: "phone_verification list"
  db_refresh_tokens :: "refresh_token list"
  db_login_approvals :: "login_approval list"
  db_events :: "webhook_event list"
  db_routes :: "route_row list"
  db_extractions :: "extraction_row list"
  db_jobs :: "pipeline_job list"
  db_officials :: "official list"
  db_official_challenges :: "official_challenge list"
  db_audit :: "audit_event list"
  db_human_seq :: nat
  db_ids :: nat

definition empty_db :: db where
  "empty_db =
     \<lparr>db_contacts = [], db_messages = [], db_conversations = [], db_consumptions = [],
      db_geocodes = [], db_rate_limits = [], db_grievances = [], db_grievance_events = [],
      db_users = [], db_verifications = [], db_refresh_tokens = [], db_login_approvals = [],
      db_events = [], db_routes = [], db_extractions = [], db_jobs = [], db_officials = [],
      db_official_challenges = [], db_audit = [], db_human_seq = 1, db_ids = 0\<rparr>"

definition new_id :: "db \<Rightarrow> uuid \<times> db" where
  "new_id d = (uuid_str (db_ids d), d\<lparr>db_ids := Suc (db_ids d)\<rparr>)"

definition db_wf :: "db \<Rightarrow> bool" where
  "db_wf d \<longleftrightarrow>
     distinct (map ms_id (db_messages d)) \<and>
     distinct (map cv_id (db_conversations d)) \<and>
     distinct (map gr_id (db_grievances d)) \<and>
     distinct (map we_id (db_events d)) \<and>
     distinct (map pj_id (db_jobs d))"

end
