(* ===== verification/Contracts.thy ===== *)
theory Contracts
  imports Prelude
begin

text \<open>
  The contracts the components rely on, stated once as locales and interpreted on the
  repository functions: a compare-and-set that several callers race for (\<open>guarded_op\<close>), a
  flip that can succeed only once (\<open>single_use\<close>), an insert behind a unique key
  (\<open>unique_insert\<close>), and a row lease that expires (\<open>row_lease\<close>). Callers that race are
  serialised by the database, so a race is a list of attempts.
\<close>

text \<open>The attempts of a list that succeed, and the state after the last one.\<close>

fun attempts_won :: "('a \<Rightarrow> 'd \<Rightarrow> bool \<times> 'd) \<Rightarrow> 'a list \<Rightarrow> 'd \<Rightarrow> 'a list" where
  "attempts_won f [] d = []"
| "attempts_won f (a # as) d =
     (case f a d of (won, d') \<Rightarrow> (if won then [a] else []) @ attempts_won f as d')"

fun attempts_state :: "('a \<Rightarrow> 'd \<Rightarrow> bool \<times> 'd) \<Rightarrow> 'a list \<Rightarrow> 'd \<Rightarrow> 'd" where
  "attempts_state f [] d = d"
| "attempts_state f (a # as) d = attempts_state f as (snd (f a d))"

locale guarded_op =
  fixes attempt :: "'a \<Rightarrow> 'k \<Rightarrow> 'd \<Rightarrow> bool \<times> 'd"
    and ready :: "'a \<Rightarrow> 'k \<Rightarrow> 'd \<Rightarrow> bool"
    and inv :: "'d \<Rightarrow> bool"
  assumes won_iff: "inv d \<Longrightarrow> fst (attempt a k d) \<longleftrightarrow> ready a k d"
    and lost_same: "inv d \<Longrightarrow> \<not> ready a k d \<Longrightarrow> snd (attempt a k d) = d"
    and inv_kept: "inv d \<Longrightarrow> inv (snd (attempt a k d))"
begin

lemma lost_pair: "inv d \<Longrightarrow> \<not> ready a k d \<Longrightarrow> attempt a k d = (False, d)"
  using won_iff lost_same by (metis prod.collapse)

lemma unready_no_win:
  "inv d \<Longrightarrow> (\<And>a. a \<in> set as \<Longrightarrow> \<not> ready a k d) \<Longrightarrow> attempts_won (\<lambda>a. attempt a k) as d = []"
  by (induction as) (simp_all add: lost_pair)

lemma attempts_inv: "inv d \<Longrightarrow> inv (attempts_state (\<lambda>a. attempt a k) as d)"
  by (induction as arbitrary: d) (simp_all add: inv_kept)

lemma attempts_won_ready:
  "inv d \<Longrightarrow> ready a k d \<Longrightarrow>
   attempts_won (\<lambda>a. attempt a k) (a # as) d = a # attempts_won (\<lambda>a. attempt a k) as (snd (attempt a k d))"
  by (simp add: case_prod_beta won_iff)

end

locale single_use = guarded_op +
  assumes used_up: "inv d \<Longrightarrow> ready a k d \<Longrightarrow> \<not> ready b k (snd (attempt a k d))"
begin

lemma first_ready_wins:
  "inv d \<Longrightarrow> ready a k d \<Longrightarrow> attempts_won (\<lambda>a. attempt a k) (a # as) d = [a]"
  using unready_no_win [of "snd (attempt a k d)" as k] used_up inv_kept
  by (simp add: attempts_won_ready del: attempts_won.simps)

lemma at_most_once: "inv d \<Longrightarrow> length (attempts_won (\<lambda>a. attempt a k) as d) \<le> 1"
proof (induction as arbitrary: d)
  case Nil
  show ?case by simp
next
  case (Cons a as)
  then show ?case
    by (cases "ready a k d")
      (simp add: first_ready_wins del: attempts_won.simps, simp add: lost_pair)
qed

end

locale unique_insert =
  fixes insert_row :: "'a \<Rightarrow> 'k \<Rightarrow> 'd \<Rightarrow> bool \<times> 'd"
    and has_key :: "'k \<Rightarrow> 'd \<Rightarrow> bool"
    and inv :: "'d \<Rightarrow> bool"
  assumes inserted_iff: "inv d \<Longrightarrow> fst (insert_row a k d) \<longleftrightarrow> \<not> has_key k d"
    and conflict_same: "inv d \<Longrightarrow> has_key k d \<Longrightarrow> snd (insert_row a k d) = d"
    and key_present: "inv d \<Longrightarrow> has_key k (snd (insert_row a k d))"
    and insert_inv: "inv d \<Longrightarrow> inv (snd (insert_row a k d))"

sublocale unique_insert \<subseteq> single_use insert_row "\<lambda>_ k d. \<not> has_key k d" inv
  by unfold_locales (auto simp: inserted_iff conflict_same key_present insert_inv)

context unique_insert
begin

lemma replay_is_noop:
  "inv d \<Longrightarrow> insert_row b k (snd (insert_row a k d)) = (False, snd (insert_row a k d))"
  by (rule lost_pair) (simp_all add: key_present insert_inv)

end

locale row_lease =
  guarded_op claim free inv
  for claim :: "time \<Rightarrow> 'k \<Rightarrow> 'd \<Rightarrow> bool \<times> 'd" and free :: "time \<Rightarrow> 'k \<Rightarrow> 'd \<Rightarrow> bool"
    and inv :: "'d \<Rightarrow> bool" +
  fixes lease :: time
    and attempts :: "'k \<Rightarrow> 'd \<Rightarrow> nat"
  assumes held: "inv d \<Longrightarrow> free now k d \<Longrightarrow> t \<le> now + lease \<Longrightarrow> \<not> free t k (snd (claim now k d))"
    and counted: "inv d \<Longrightarrow> free now k d \<Longrightarrow> attempts k (snd (claim now k d)) = Suc (attempts k d)"
begin

lemma attempts_exact:
  "inv d \<Longrightarrow> attempts k (attempts_state (\<lambda>t. claim t k) ts d) =
   attempts k d + length (attempts_won (\<lambda>t. claim t k) ts d)"
proof (induction ts arbitrary: d)
  case Nil
  show ?case by simp
next
  case (Cons t ts)
  show ?case
  proof (cases "free t k d")
    case True
    with Cons counted inv_kept show ?thesis by (simp add: case_prod_beta won_iff)
  next
    case False
    with Cons show ?thesis by (simp add: lost_pair)
  qed
qed

text \<open>Once a claim has succeeded, every further claim up to the end of the lease fails.\<close>

lemma lease_excludes:
  "inv d \<Longrightarrow> free now k d \<Longrightarrow> (\<And>t. t \<in> set ts \<Longrightarrow> t \<le> now + lease) \<Longrightarrow>
   attempts_won (\<lambda>t. claim t k) (now # ts) d = [now]"
  using unready_no_win [of "snd (claim now k d)" ts k] held inv_kept
  by (simp add: attempts_won_ready del: attempts_won.simps)

end

end
