(* ===== verification/Copy.thy ===== *)
theory Copy
  imports Prelude
begin

text \<open>
  The citizen-facing texts of \<^verbatim>\<open>whatsapp/copy.py\<close>. A template is the function of its
  placeholders; \<open>uni\<close> gives the Hindi parts by their code points.
\<close>

section \<open>Formatting\<close>

text \<open>\<^verbatim>\<open>f"{x:.5f}"\<close>: correctly rounded, ties to even; the sign of a negative number
  stays when it rounds to zero.\<close>

definition round_half_even :: "real \<Rightarrow> int" where
  "round_half_even x =
     (let f = \<lfloor>x\<rfloor>; d = x - of_int f in
      if d < 1 / 2 then f else if d > 1 / 2 then f + 1 else if even f then f else f + 1)"

definition fmt_fixed5 :: "real \<Rightarrow> string" where
  "fmt_fixed5 x =
     (let n = nat (round_half_even (\<bar>x\<bar> * 100000)) in
      (if x < 0 then ''-'' else []) @ show_nat (n div 100000) @ ''.'' @
      zpad 5 (show_nat (n mod 100000)))"

section \<open>Texts and identifiers\<close>

definition CONFIRM_YES_ID :: "string" where
  "CONFIRM_YES_ID =
     ''loc_confirm_yes''"

definition CONFIRM_NO_ID :: "string" where
  "CONFIRM_NO_ID =
     ''loc_confirm_no''"

definition GREETING :: "string" where
  "GREETING =
     uni [2344, 2350, 2360, 2381, 2340, 2375, 33, 32, 2332, 2344, 32, 2360, 2375, 2340, 2369, 32,
     2350, 2375, 2306, 32, 2310, 2346, 2325, 2366, 32, 2360, 2381, 2357, 2366, 2327, 2340, 32,
     2361, 2376, 2404, 32, 2310, 2346, 2325, 2368, 32, 2358, 2367, 2325, 2366, 2351, 2340, 32,
     2342, 2352, 2381, 2332, 32, 2325, 2352, 2344, 2375, 32, 2325, 2375, 32, 2354, 2367, 2319, 32,
     2361, 2350, 2375, 2306, 32, 2310, 2346, 2325, 2366, 32, 2360, 2381, 2341, 2366, 2344, 32,
     2330, 2366, 2361, 2367, 2319, 2404] @ NL @ NL @
     ''Hello! Welcome to Jan Setu. To register your grievance we need your location.''"

definition LOCATION_REQUEST :: "string" where
  "LOCATION_REQUEST =
     uni [2325, 2371, 2346, 2351, 2366, 32, 2344, 2368, 2330, 2375, 32, 2342, 2367, 2319, 32, 2327,
     2319, 32, 2348, 2335, 2344, 32, 2360, 2375, 32, 2309, 2346, 2344, 2366, 32, 2357, 2352, 2381,
     2340, 2350, 2366, 2344, 32, 2360, 2381, 2341, 2366, 2344, 32, 2360, 2366, 2333, 2366, 32,
     2325, 2352, 2375, 2306, 2404] @ NL @ NL @
     ''Please share your current location using the button below.''"

definition LOCATION_REPROMPT :: "string" where
  "LOCATION_REPROMPT =
     uni [2361, 2350, 32, 2310, 2346, 2325, 2375, 32, 2360, 2335, 2368, 2325, 32, 2360, 2381, 2341,
     2366, 2344, 32, 2325, 2375, 32, 2348, 2367, 2344, 2366, 32, 2310, 2327, 2375, 32, 2344, 2361,
     2368, 2306, 32, 2348, 2338, 2364, 32, 2360, 2325, 2340, 2375, 2404, 32, 2325, 2371, 2346,
     2351, 2366, 32, 2348, 2335, 2344, 32, 2360, 2375, 32, 2309, 2346, 2344, 2366, 32, 2360, 2381,
     2341, 2366, 2344, 32, 2360, 2366, 2333, 2366, 32, 2325, 2352, 2375, 2306, 2404] @ NL @ NL @
     ''We cannot proceed without your exact location. Please share it using the button.''"

definition CONFIRM_YES_TITLE :: "string" where
  "CONFIRM_YES_TITLE =
     uni [2361, 2366, 2305] @ '' / Yes''"

definition CONFIRM_NO_TITLE :: "string" where
  "CONFIRM_NO_TITLE =
     uni [2344, 2361, 2368, 2306] @ '' / No''"

definition CONFIRM_LOCATION :: "string \<Rightarrow> string" where
  "CONFIRM_LOCATION address =
     uni [2325, 2381, 2351, 2366, 32, 2351, 2361, 32, 2310, 2346, 2325, 2366, 32, 2357, 2352, 2381,
     2340, 2350, 2366, 2344, 32, 2360, 2381, 2341, 2366, 2344, 32, 2361, 2376] @ ''?'' @ NL @
     address @ NL @ NL @ ''Is this your current location?'' @ NL @ address"

definition RAW_COORDINATES :: "real \<Rightarrow> real \<Rightarrow> string" where
  "RAW_COORDINATES lat lon =
     uni [2309, 2325, 2381, 2359, 2366, 2306, 2358] @ ''/Lat '' @ fmt_fixed5 lat @ '', '' @ uni
     [2342, 2375, 2358, 2366, 2306, 2340, 2352] @ ''/Lon '' @ fmt_fixed5 lon"

definition ASK_ISSUE :: "string" where
  "ASK_ISSUE =
     uni [2343, 2344, 2381, 2351, 2357, 2366, 2342, 33, 32, 2309, 2348, 32, 2325, 2371, 2346, 2351,
     2366, 32, 2309, 2346, 2344, 2368, 32, 2360, 2350, 2360, 2381, 2351, 2366, 32, 2348, 2340,
     2366, 2319, 2306, 32, 8212, 32, 2310, 2346, 32, 2335, 2375, 2325, 2381, 2360, 2381, 2335, 32,
     2351, 2366, 32, 2357, 2377, 2311, 2360, 32, 2350, 2376, 2360, 2375, 2332, 32, 2349, 2375,
     2332, 32, 2360, 2325, 2340, 2375, 32, 2361, 2376, 2306, 2404] @ NL @ NL @
     ''Thank you! Now please describe your issue '' @ uni [8212] @
     '' you can send a text or a voice message.''"

definition ISSUE_DONE_ID :: "string" where
  "ISSUE_DONE_ID =
     ''issue_done''"

definition ISSUE_DONE_TITLE :: "string" where
  "ISSUE_DONE_TITLE =
     uni [2361, 2379, 32, 2327, 2351, 2366] @ '' / Done''"

definition ISSUE_EMPTY :: "string" where
  "ISSUE_EMPTY =
     uni [2325, 2371, 2346, 2351, 2366, 32, 2346, 2361, 2354, 2375, 32, 2309, 2346, 2344, 2368, 32,
     2360, 2350, 2360, 2381, 2351, 2366, 32, 2348, 2340, 2366, 2319, 2306, 44, 32, 2347, 2367,
     2352, 32] @ [CHR 0x27] @ uni [2361, 2379, 32, 2327, 2351, 2366] @ [CHR 0x27] @ '' '' @ uni
     [2342, 2348, 2366, 2319, 2306, 2404] @ NL @ NL @
     ''Please describe your issue first, then tap '' @ [CHR 0x27] @ ''Done'' @ [CHR 0x27] @ ''.''"

definition ISSUE_RECEIVED :: "string" where
  "ISSUE_RECEIVED =
     uni [2361, 2350, 2375, 2306, 32, 2310, 2346, 2325, 2375, 32, 2360, 2306, 2342, 2375, 2358, 32,
     2350, 2367, 2354, 32, 2327, 2319, 32, 2361, 2376, 2306, 2404] @ NL @ NL @
     ''We have received your messages.''"

definition PHOTO_PROMPT :: "string" where
  "PHOTO_PROMPT =
     uni [2325, 2381, 2351, 2366, 32, 2310, 2346, 32, 2328, 2335, 2344, 2366, 32, 2325, 2368, 32,
     2319, 2325, 32, 2354, 2366, 2311, 2357, 32, 2347, 2364, 2379, 2335, 2379, 32, 2360, 2366,
     2333, 2366, 32, 2325, 2352, 2344, 2366, 32, 2330, 2366, 2361, 2340, 2375, 32, 2361, 2376,
     2306, 32, 2340, 2366, 2325, 2367, 32, 2309, 2343, 2367, 2325, 2366, 2352, 2368, 32, 2313,
     2360, 2375, 32, 2310, 2360, 2366, 2344, 2368, 32, 2360, 2375, 32, 2346, 2361, 2330, 2366,
     2344, 32, 2360, 2325, 2375, 2306] @ ''?'' @ NL @ NL @
     ''Would you like to share a live photo of the incident so authorities can identify it easily?''"

definition PHOTO_SHARE_ID :: "string" where
  "PHOTO_SHARE_ID =
     ''photo_share''"

definition PHOTO_SHARE_TITLE :: "string" where
  "PHOTO_SHARE_TITLE =
     uni [2347, 2364, 2379, 2335, 2379, 32, 2349, 2375, 2332, 2375, 2306] @ ''/Photo''"

definition PHOTO_SKIP_ID :: "string" where
  "PHOTO_SKIP_ID =
     ''photo_skip''"

definition PHOTO_SKIP_TITLE :: "string" where
  "PHOTO_SKIP_TITLE =
     uni [2344, 2361, 2368, 2306] @ '' / Skip''"

definition PHOTO_INSTRUCTION :: "string" where
  "PHOTO_INSTRUCTION =
     uni [2325, 2371, 2346, 2351, 2366, 32, 2309, 2349, 2368, 32, 2328, 2335, 2344, 2366, 32, 2325,
     2368, 32, 2319, 2325, 32, 2354, 2366, 2311, 2357, 32, 2347, 2364, 2379, 2335, 2379, 32, 2354,
     2375, 2306, 32, 2324, 2352, 32, 2349, 2375, 2332, 2375, 2306, 2404] @ NL @ NL @
     ''Please take a live photo of the incident now and send it.''"

definition REGISTERED :: "string \<Rightarrow> string" where
  "REGISTERED grievance_id =
     uni [2310, 2346, 2325, 2368, 32, 2358, 2367, 2325, 2366, 2351, 2340, 32, 2332, 2344, 32, 2360,
     2375, 2340, 2369, 32, 2350, 2375, 2306, 32, 2342, 2352, 2381, 2332, 32, 2361, 2379, 32, 2327,
     2312, 32, 2361, 2376, 2404] @ NL @ uni [2346, 2306, 2332, 2368, 2325, 2352, 2339, 32, 2325,
     2381, 2352, 2350, 2366, 2306, 2325] @ '': '' @ grievance_id @ NL @ uni [2361, 2350, 32, 2310,
     2346, 2325, 2379, 32, 2346, 2369, 2359, 2381, 2335, 2367, 2325, 2352, 2339, 32, 2352, 2367,
     2346, 2379, 2352, 2381, 2335, 32, 2349, 2375, 2332, 2375, 2306, 2327, 2375, 2404] @ NL @ NL @
     ''Your complaint is registered with Jan Setu.'' @ NL @ ''Reference ID: '' @ grievance_id @ NL
     @ ''We will send you a confirmation report.''"

definition PROCESSING_WAIT :: "string" where
  "PROCESSING_WAIT =
     uni [2343, 2344, 2381, 2351, 2357, 2366, 2342, 33, 32, 2361, 2350, 32, 2310, 2346, 2325, 2368,
     32, 2358, 2367, 2325, 2366, 2351, 2340, 32, 2325, 2368, 32, 2332, 2366, 2306, 2330, 32, 2325,
     2352, 32, 2352, 2361, 2375, 32, 2361, 2376, 2306, 2404, 32, 2325, 2371, 2346, 2351, 2366, 32,
     2325, 2369, 2331, 32, 2346, 2354, 32, 2346, 2381, 2352, 2340, 2368, 2325, 2381, 2359, 2366,
     32, 2325, 2352, 2375, 2306, 2404] @ NL @ NL @
     ''Thank you! We are processing your complaint. Please wait a moment.''"

definition STILL_PROCESSING :: "string" where
  "STILL_PROCESSING =
     uni [2361, 2350, 32, 2309, 2349, 2368, 32, 2349, 2368, 32, 2310, 2346, 2325, 2368, 32, 2358,
     2367, 2325, 2366, 2351, 2340, 32, 2325, 2368, 32, 2332, 2366, 2306, 2330, 32, 2325, 2352, 32,
     2352, 2361, 2375, 32, 2361, 2376, 2306, 2404, 32, 2325, 2371, 2346, 2351, 2366, 32, 2346,
     2381, 2352, 2340, 2368, 2325, 2381, 2359, 2366, 32, 2325, 2352, 2375, 2306, 2404] @ NL @ NL @
     ''We are still processing your complaint. Please wait.''"

definition PDF_CONFIRM :: "string \<Rightarrow> string" where
  "PDF_CONFIRM summary =
     uni [2325, 2371, 2346, 2351, 2366, 32, 2344, 2368, 2330, 2375, 32, 2342, 2368, 32, 2327, 2312,
     32, 2358, 2367, 2325, 2366, 2351, 2340, 32, 2325, 2366, 32, 2357, 2367, 2357, 2352, 2339, 32,
     2332, 2366, 2306, 2330, 2375, 2306, 2404, 32, 2346, 2369, 2359, 2381, 2335, 2367, 32, 2325,
     2352, 2344, 2375, 32, 2346, 2352, 32, 2351, 2361, 32, 2360, 2306, 2348, 2306, 2343, 2367,
     2340, 32, 2357, 2367, 2349, 2366, 2327, 32, 2325, 2379, 32, 2349, 2375, 2332, 32, 2342, 2368,
     32, 2332, 2366, 2319, 2327, 2368, 2404] @ NL @ NL @
     ''Please verify your complaint details below. Confirming will send it to the concerned department.''
     @ NL @ NL @ summary"

definition CONFIRM_GRV_YES_TITLE :: "string" where
  "CONFIRM_GRV_YES_TITLE =
     uni [2346, 2369, 2359, 2381, 2335, 2367, 32, 2325, 2352, 2375, 2306] @ ''/Confirm''"

definition CONFIRM_GRV_NO_TITLE :: "string" where
  "CONFIRM_GRV_NO_TITLE =
     uni [2352, 2342, 2381, 2342, 32, 2325, 2352, 2375, 2306] @ ''/Cancel''"

definition IMAGE_MISMATCH_PROMPT :: "string \<Rightarrow> string" where
  "IMAGE_MISMATCH_PROMPT note =
     uni [2354, 2327, 2340, 2366, 32, 2361, 2376, 32, 2325, 2367, 32, 2349, 2375, 2332, 2368, 32,
     2327, 2312, 32, 2347, 2364, 2379, 2335, 2379, 32, 2310, 2346, 2325, 2375, 32, 2357, 2367,
     2357, 2352, 2339, 32, 2360, 2375, 32, 2350, 2375, 2354, 32, 2344, 2361, 2368, 2306, 32, 2326,
     2366, 2340, 2368, 2404, 32, 2325, 2371, 2346, 2351, 2366, 32, 2319, 2325, 32, 2324, 2352, 32,
     2347, 2364, 2379, 2335, 2379, 32, 2349, 2375, 2332, 2375, 2306, 44, 32, 2351, 2366, 32, 2348,
     2367, 2344, 2366, 32, 2347, 2364, 2379, 2335, 2379, 32, 2325, 2375, 32, 2310, 2327, 2375, 32,
     2348, 2338, 2364, 2375, 2306, 2404] @ note @ NL @ NL @ ''The photo doesn'' @ [CHR 0x27] @
     ''t seem to match your description. Please send another photo, or continue without one.'' @
     note"

definition PHOTO_CONTINUE_TITLE :: "string" where
  "PHOTO_CONTINUE_TITLE =
     uni [2332, 2366, 2352, 2368, 32, 2352, 2326, 2375, 2306] @ ''/Continue''"

definition REGISTERED_FINAL :: "string \<Rightarrow> string" where
  "REGISTERED_FINAL grievance_id =
     uni [2310, 2346, 2325, 2368, 32, 2358, 2367, 2325, 2366, 2351, 2340, 32, 2332, 2344, 32, 2360,
     2375, 2340, 2369, 32, 2350, 2375, 2306, 32, 2342, 2352, 2381, 2332, 32, 2361, 2379, 32, 2327,
     2312, 32, 2361, 2376, 2404] @ NL @ uni [2346, 2306, 2332, 2368, 2325, 2352, 2339, 32, 2325,
     2381, 2352, 2350, 2366, 2306, 2325] @ '': '' @ grievance_id @ NL @ NL @
     ''Your complaint is registered with Jan Setu.'' @ NL @ ''Reference ID: '' @ grievance_id"

definition DUPLICATE_NOTE :: "string \<Rightarrow> string" where
  "DUPLICATE_NOTE count =
     NL @ NL @ count @ '' '' @ uni [2309, 2344, 2381, 2351, 32, 2354, 2379, 2327, 2379, 2306, 32,
     2344, 2375, 32, 2349, 2368, 32, 2351, 2361, 2368, 32, 2360, 2350, 2360, 2381, 2351, 2366, 32,
     2342, 2352, 2381, 2332, 32, 2325, 2368, 32, 2361, 2376, 2404] @ NL @ NL @ count @
     '' other people have also reported this issue.''"

definition CANCELLED :: "string" where
  "CANCELLED =
     uni [2310, 2346, 2325, 2368, 32, 2358, 2367, 2325, 2366, 2351, 2340, 32, 2352, 2342, 2381,
     2342, 32, 2325, 2352, 32, 2342, 2368, 32, 2327, 2312, 32, 2361, 2376, 2404, 32, 2310, 2346,
     32, 2325, 2349, 2368, 32, 2349, 2368, 32, 2344, 2312, 32, 2358, 2367, 2325, 2366, 2351, 2340,
     32, 2342, 2352, 2381, 2332, 32, 2325, 2352, 32, 2360, 2325, 2340, 2375, 32, 2361, 2376, 2306,
     2404] @ NL @ NL @ ''Your complaint has been cancelled. You may start a new one anytime.''"

definition STATUS_HEADER :: "string" where
  "STATUS_HEADER =
     uni [2310, 2346, 2325, 2368, 32, 2361, 2366, 2354, 32, 2325, 2368, 32, 2358, 2367, 2325, 2366,
     2351, 2340, 2375, 2306] @ '':'' @ NL @ NL @ ''Your recent complaints:''"

definition STATUS_LINE :: "string \<Rightarrow> string \<Rightarrow> string \<Rightarrow> string" where
  "STATUS_LINE human_id category status =
     NL @ human_id @ '' '' @ uni [8212, 32] @ category @ '' '' @ uni [8212, 32] @ status"

definition STATUS_EMPTY :: "string" where
  "STATUS_EMPTY =
     uni [2310, 2346, 2325, 2368, 32, 2325, 2379, 2312, 32, 2342, 2352, 2381, 2332, 32, 2358, 2367,
     2325, 2366, 2351, 2340, 32, 2344, 2361, 2368, 2306, 32, 2350, 2367, 2354, 2368, 2404] @ NL @
     NL @ ''We couldn'' @ [CHR 0x27] @ ''t find any complaints registered by you.''"

definition VERIFY_SUCCESS :: "string" where
  "VERIFY_SUCCESS =
     uni [2360, 2340, 2381, 2351, 2366, 2346, 2344, 32, 2360, 2347, 2354, 33, 32, 2309, 2348, 32,
     2310, 2346, 32, 2332, 2344, 32, 2360, 2375, 2340, 2369, 32, 2357, 2375, 2348, 32, 2320, 2346,
     32, 2350, 2375, 2306, 32, 2354, 2377, 2327, 32, 2311, 2344, 32, 2325, 2352, 32, 2360, 2325,
     2340, 2375, 32, 2361, 2376, 2306, 2404] @ NL @ NL @
     ''Verification successful! You can now log in to the Jan Setu web app.''"

definition VERIFY_INVALID :: "string" where
  "VERIFY_INVALID =
     uni [2351, 2361, 32, 2360, 2340, 2381, 2351, 2366, 2346, 2344, 32, 2325, 2379, 2337, 32, 2350,
     2366, 2344, 2381, 2351, 32, 2344, 2361, 2368, 2306, 32, 2361, 2376, 32, 2351, 2366, 32, 2360,
     2350, 2366, 2346, 2381, 2340, 32, 2361, 2379, 32, 2327, 2351, 2366, 32, 2361, 2376, 2404, 32,
     2325, 2371, 2346, 2351, 2366, 32, 2357, 2375, 2348, 32, 2320, 2346, 32, 2360, 2375, 32, 2319,
     2325, 32, 2344, 2351, 2366, 32, 2325, 2379, 2337, 32, 2346, 2381, 2352, 2366, 2346, 2381,
     2340, 32, 2325, 2352, 2375, 2306, 2404] @ NL @ NL @
     ''This verification code is invalid or has expired. Please request a new one from the web app.''"

end
