(* ===== verification/WaClient.thy ===== *)
theory WaClient
  imports Models
begin

text \<open>
  \<^verbatim>\<open>whatsapp/client.py\<close>: the Graph message payloads, the signature check of a webhook
  body, and the parser from a webhook payload to the list of incoming messages. The HTTP
  exchange of \<^verbatim>\<open>send_raw\<close> is a parameter of the model of the dispatcher. An attribute
  or an iteration that the payload does not support raises as in Python.
\<close>

section \<open>Outgoing payloads\<close>

definition build_text_payload :: "string \<Rightarrow> string \<Rightarrow> json" where
  "build_text_payload to body =
     JObj [(''messaging_product'', JStr ''whatsapp''), (''recipient_type'', JStr ''individual''),
           (''to'', JStr to), (''type'', JStr ''text''),
           (''text'', JObj [(''preview_url'', JBool False), (''body'', JStr body)])]"

definition build_location_request_payload :: "string \<Rightarrow> string \<Rightarrow> json" where
  "build_location_request_payload to body =
     JObj [(''messaging_product'', JStr ''whatsapp''), (''recipient_type'', JStr ''individual''),
           (''to'', JStr to), (''type'', JStr ''interactive''),
           (''interactive'', JObj [
              (''type'', JStr ''location_request_message''),
              (''body'', JObj [(''text'', JStr body)]),
              (''action'', JObj [(''name'', JStr ''send_location'')])])]"

definition reply_button :: "string \<times> string \<Rightarrow> json" where
  "reply_button b =
     JObj [(''type'', JStr ''reply''),
           (''reply'', JObj [(''id'', JStr (fst b)), (''title'', JStr (snd b))])]"

definition build_reply_buttons_payload :: "string \<Rightarrow> string \<Rightarrow> (string \<times> string) list \<Rightarrow> json" where
  "build_reply_buttons_payload to body buttons =
     JObj [(''messaging_product'', JStr ''whatsapp''), (''recipient_type'', JStr ''individual''),
           (''to'', JStr to), (''type'', JStr ''interactive''),
           (''interactive'', JObj [
              (''type'', JStr ''button''),
              (''body'', JObj [(''text'', JStr body)]),
              (''action'', JObj [(''buttons'', JArr (map reply_button buttons))])])]"

definition build_document_button_payload ::
    "string \<Rightarrow> string \<Rightarrow> string \<Rightarrow> string \<Rightarrow> (string \<times> string) list \<Rightarrow> json" where
  "build_document_button_payload to header_media_id header_filename body buttons =
     JObj [(''messaging_product'', JStr ''whatsapp''), (''recipient_type'', JStr ''individual''),
           (''to'', JStr to), (''type'', JStr ''interactive''),
           (''interactive'', JObj [
              (''type'', JStr ''button''),
              (''header'', JObj [
                 (''type'', JStr ''document''),
                 (''document'', JObj [(''id'', JStr header_media_id),
                                      (''filename'', JStr header_filename)])]),
              (''body'', JObj [(''text'', JStr body)]),
              (''action'', JObj [(''buttons'', JArr (map reply_button buttons))])])]"

section \<open>The webhook signature\<close>

text \<open>\<open>hmac_sha256 key msg\<close> is the hexadecimal digest of \<^verbatim>\<open>hmac.new\<close>.\<close>

definition verify_meta_signature ::
    "(string \<Rightarrow> string \<Rightarrow> string) \<Rightarrow> string \<Rightarrow> string option \<Rightarrow> string option \<Rightarrow> bool" where
  "verify_meta_signature hmac_sha256 raw_body signature_header app_secret =
     (case app_secret of
        None \<Rightarrow> True
      | Some secret \<Rightarrow>
          (case signature_header of
             None \<Rightarrow> False
           | Some h \<Rightarrow>
               if h = [] \<or> \<not> startswith h ''sha256='' then False
               else h = ''sha256='' @ hmac_sha256 secret raw_body))"

section \<open>Incoming messages\<close>

record incoming =
  in_wa_id :: string
  in_profile_name :: "string option"
  in_meta_message_id :: string
  in_message_type :: string
  in_text_body :: "string option"
  in_raw_payload :: json
  in_received_at :: time
  in_media_id :: "string option"
  in_media_mime_type :: "string option"
  in_location_latitude :: "real option"
  in_location_longitude :: "real option"
  in_location_name :: "string option"
  in_location_address :: "string option"
  in_location_url :: "string option"
  in_reply_id :: "string option"
  in_interactive_type :: "string option"
  in_button_payload :: "string option"
  in_context_message_id :: "string option"

text \<open>\<^verbatim>\<open>for x in v\<close> and \<^verbatim>\<open>v.get(key, default)\<close> on a JSON value of any shape.
  A text column that receives another kind of value raises \<^verbatim>\<open>TypeError\<close> here; the
  program raises when the row that holds it is bound.\<close>

definition jiter :: "json \<Rightarrow> exn + json list" where
  "jiter v = (case v of
      JArr xs \<Rightarrow> Inr xs
    | JObj d \<Rightarrow> Inr (map (\<lambda>(k, _). JStr k) d)
    | JStr s \<Rightarrow> Inr (map JStr (py_chars s))
    | _ \<Rightarrow> Inl TypeError)"

definition jattr :: "json \<Rightarrow> string \<Rightarrow> json \<Rightarrow> exn + json" where
  "jattr v key dflt = (case v of
      JObj d \<Rightarrow> Inr (case map_of d key of None \<Rightarrow> dflt | Some x \<Rightarrow> x)
    | _ \<Rightarrow> Inl AttributeError)"

definition jtext :: "json \<Rightarrow> exn + string option" where
  "jtext v = (case v of JNull \<Rightarrow> Inr None | JStr s \<Rightarrow> Inr (Some s) | _ \<Rightarrow> Inl TypeError)"

definition jfield :: "jobject \<Rightarrow> string \<Rightarrow> exn + string option" where
  "jfield d key = jtext (jget d key)"

definition jdict :: "jobject \<Rightarrow> string \<Rightarrow> jobject option" where
  "jdict d key = (case map_of d key of
      None \<Rightarrow> Some [] | Some (JObj e) \<Rightarrow> Some e | Some _ \<Rightarrow> None)"

definition MEDIA_MESSAGE_TYPES :: "string list" where
  "MEDIA_MESSAGE_TYPES = [''image'', ''audio'', ''video'', ''document'', ''voice'', ''sticker'']"

definition parse_whatsapp_timestamp :: "time \<Rightarrow> json \<Rightarrow> time" where
  "parse_whatsapp_timestamp now v =
     (case (case v of
              JStr s \<Rightarrow> py_int s
            | JInt i \<Rightarrow> Some i
            | JFloat r \<Rightarrow> Some (if r < 0 then \<lceil>r\<rceil> else \<lfloor>r\<rfloor>)
            | JBool b \<Rightarrow> Some (if b then 1 else 0)
            | _ \<Rightarrow> None) of
        None \<Rightarrow> now
      | Some i \<Rightarrow> if -62135596800 \<le> i \<and> i \<le> 253402300799 then seconds i else now)"

definition extract_message_content ::
    "jobject \<Rightarrow> string \<Rightarrow> exn + (string option \<times> string option \<times> string option)" where
  "extract_message_content message message_type =
     (if message_type = ''text'' then
        (case jdict message ''text'' of
           None \<Rightarrow> Inr (None, None, None)
         | Some body \<Rightarrow> bindE (jfield body ''body'') (\<lambda>t. Inr (t, None, None)))
      else if message_type \<in> set MEDIA_MESSAGE_TYPES then
        (case jdict message message_type of
           None \<Rightarrow> Inr (None, None, None)
         | Some media \<Rightarrow>
             bindE (jfield media ''caption'') (\<lambda>c.
             bindE (jfield media ''id'') (\<lambda>i.
             bindE (jfield media ''mime_type'') (\<lambda>m. Inr (c, i, m)))))
      else Inr (None, None, None))"

definition as_float :: "json \<Rightarrow> real option" where
  "as_float v = (case v of
      JFloat r \<Rightarrow> Some r
    | JInt i \<Rightarrow> Some (of_int i)
    | JBool b \<Rightarrow> Some (if b then 1 else 0)
    | JStr s \<Rightarrow> py_float s
    | _ \<Rightarrow> None)"

definition extract_location ::
    "jobject \<Rightarrow> string \<Rightarrow>
     exn + (real option \<times> real option \<times> string option \<times> string option \<times> string option)" where
  "extract_location message message_type =
     (if message_type \<noteq> ''location'' then Inr (None, None, None, None, None)
      else (case jdict message ''location'' of
              None \<Rightarrow> Inr (None, None, None, None, None)
            | Some l \<Rightarrow>
                bindE (jfield l ''name'') (\<lambda>n.
                bindE (jfield l ''address'') (\<lambda>a.
                bindE (jfield l ''url'') (\<lambda>u.
                  Inr (as_float (jget l ''latitude''), as_float (jget l ''longitude''), n, a, u))))))"

definition extract_reply ::
    "jobject \<Rightarrow> string \<Rightarrow> exn + (string option \<times> string option \<times> string option)" where
  "extract_reply message message_type =
     (if message_type = ''interactive'' then
        (case jdict message ''interactive'' of
           None \<Rightarrow> Inr (None, None, None)
         | Some inner \<Rightarrow>
             bindE (jfield inner ''type'') (\<lambda>ity.
               (case (if truthy ity then jdict inner (the ity) else Some []) of
                  None \<Rightarrow> Inr (None, ity, None)
                | Some reply \<Rightarrow> bindE (jfield reply ''id'') (\<lambda>rid. Inr (rid, ity, None)))))
      else if message_type = ''button'' then
        (case jdict message ''button'' of
           None \<Rightarrow> Inr (None, None, None)
         | Some button \<Rightarrow>
             bindE (jfield button ''payload'') (\<lambda>p. Inr (p, Some ''button'', p)))
      else Inr (None, None, None))"

definition parse_content ::
    "time \<Rightarrow> (string option \<times> string option) list \<Rightarrow> jobject \<Rightarrow> string \<Rightarrow> string \<Rightarrow> string \<Rightarrow> exn + incoming" where
  "parse_content now contact_names message wa_id meta_id message_type =
     bindE (extract_message_content message message_type) (\<lambda>content.
     bindE (extract_location message message_type) (\<lambda>(lat, lon, name, addr, url).
     bindE (extract_reply message message_type) (\<lambda>(rid, ity, payload).
     bindE (case jdict message ''context'' of
              None \<Rightarrow> Inr None | Some c \<Rightarrow> jfield c ''id'') (\<lambda>ctx.
       Inr \<lparr>in_wa_id = wa_id,
            in_profile_name =
              (case map_of (rev contact_names) (Some wa_id) of None \<Rightarrow> None | Some n \<Rightarrow> n),
            in_meta_message_id = meta_id,
            in_message_type = message_type,
            in_text_body = fst content,
            in_raw_payload = JObj message,
            in_received_at = parse_whatsapp_timestamp now (jget message ''timestamp''),
            in_media_id = fst (snd content),
            in_media_mime_type = snd (snd content),
            in_location_latitude = lat,
            in_location_longitude = lon,
            in_location_name = name,
            in_location_address = addr,
            in_location_url = url,
            in_reply_id = rid,
            in_interactive_type = ity,
            in_button_payload = payload,
            in_context_message_id = ctx\<rparr>))))"

text \<open>One message of one change: \<open>None\<close> when the sender or the identifier is missing.\<close>

definition parse_message :: "time \<Rightarrow> (string option \<times> string option) list \<Rightarrow> json \<Rightarrow> exn + incoming option" where
  "parse_message now contact_names mjson =
     (case mjson of
        JObj message \<Rightarrow>
          bindE (jfield message ''from'') (\<lambda>wa_id.
          bindE (jfield message ''id'') (\<lambda>meta_id.
            if \<not> truthy wa_id \<or> \<not> truthy meta_id then Inr None
            else
              bindE (case map_of message ''type'' of
                       None \<Rightarrow> Inr (Some ''unknown'') | Some t \<Rightarrow> jtext t) (\<lambda>ty.
              case ty of
                None \<Rightarrow> Inl TypeError
              | Some message_type \<Rightarrow>
                  bindE (parse_content now contact_names message (the wa_id) (the meta_id) message_type)
                    (\<lambda>m. Inr (Some m)))))
      | _ \<Rightarrow> Inl AttributeError)"

definition contact_entry :: "json \<Rightarrow> exn + (string option \<times> string option)" where
  "contact_entry c =
     bindE (jattr c ''profile'' (JObj [])) (\<lambda>profile.
     bindE (jattr profile ''name'' JNull) (\<lambda>n.
     bindE (jattr c ''wa_id'' JNull) (\<lambda>w.
     bindE (jtext w) (\<lambda>wa. bindE (jtext n) (\<lambda>name. Inr (wa, name))))))"

definition parse_change :: "time \<Rightarrow> json \<Rightarrow> exn + incoming list" where
  "parse_change now change =
     bindE (jattr change ''value'' (JObj [])) (\<lambda>value.
     bindE (jattr value ''contacts'' (JArr [])) (\<lambda>cs.
     bindE (jiter cs) (\<lambda>contacts.
     bindE (mapE contact_entry contacts) (\<lambda>names.
     bindE (jattr value ''messages'' (JArr [])) (\<lambda>ms.
     bindE (jiter ms) (\<lambda>messages.
     bindE (mapE (parse_message now names) messages) (\<lambda>parsed.
       Inr (List.map_filter id parsed))))))))"

definition parse_entry :: "time \<Rightarrow> json \<Rightarrow> exn + incoming list" where
  "parse_entry now entry =
     bindE (jattr entry ''changes'' (JArr [])) (\<lambda>cs.
     bindE (jiter cs) (\<lambda>changes.
     bindE (mapE (parse_change now) changes) (\<lambda>parsed. Inr (concat parsed))))"

definition iter_incoming_messages :: "time \<Rightarrow> jobject \<Rightarrow> exn + incoming list" where
  "iter_incoming_messages now payload =
     bindE (jattr (JObj payload) ''entry'' (JArr [])) (\<lambda>es.
     bindE (jiter es) (\<lambda>entries.
     bindE (mapE (parse_entry now) entries) (\<lambda>parsed. Inr (concat parsed))))"

section \<open>Facts about the parser\<close>

lemma parse_content_ids:
  assumes "parse_content now names message wa_id meta_id ty = Inr m"
  shows "in_wa_id m = wa_id \<and> in_meta_message_id m = meta_id \<and> in_message_type m = ty \<and>
         in_raw_payload m = JObj message"
  using assms by (auto simp: parse_content_def bindE_Inr_iff)

lemma extract_location_other:
  "extract_location message ty = Inr (lat, lon, n, a, u) \<Longrightarrow> ty \<noteq> ''location'' \<Longrightarrow> lat = None \<and> lon = None"
  by (simp add: extract_location_def)

lemma parse_content_location:
  assumes "parse_content now names message wa_id meta_id ty = Inr m" and "ty \<noteq> ''location''"
  shows "in_location_latitude m = None \<and> in_location_longitude m = None"
  using assms extract_location_other by (auto simp: parse_content_def bindE_Inr_iff)

lemma parse_message_content:
  assumes "parse_message now names j = Inr (Some m)"
  shows "\<exists>message wa_id meta_id ty. j = JObj message \<and> wa_id \<noteq> [] \<and> meta_id \<noteq> [] \<and>
           parse_content now names message wa_id meta_id ty = Inr m"
proof (cases j)
  case (JObj message)
  with assms obtain wa_id meta_id where w: "truthy wa_id" "truthy meta_id"
    and rest: "bindE (case map_of message ''type'' of
                 None \<Rightarrow> Inr (Some ''unknown'') | Some t \<Rightarrow> jtext t) (\<lambda>ty.
              case ty of
                None \<Rightarrow> Inl TypeError
              | Some message_type \<Rightarrow>
                  bindE (parse_content now names message (the wa_id) (the meta_id) message_type)
                    (\<lambda>m. Inr (Some m))) = Inr (Some m)"
    unfolding parse_message_def by (auto simp: bindE_Inr_iff split: if_splits)
  from rest obtain ty where "parse_content now names message (the wa_id) (the meta_id) ty = Inr m"
    by (auto simp: bindE_Inr_iff split: option.splits)
  moreover have "the wa_id \<noteq> []" "the meta_id \<noteq> []"
    using w by (auto simp: truthy_def split: option.splits)
  ultimately show ?thesis using JObj by blast
qed (use assms in \<open>simp_all add: parse_message_def\<close>)

lemma parse_message_ids:
  "parse_message now names j = Inr (Some m) \<Longrightarrow>
   in_wa_id m \<noteq> [] \<and> in_meta_message_id m \<noteq> [] \<and> in_raw_payload m = j"
  using parse_message_content parse_content_ids by blast

lemma parse_message_location:
  "parse_message now names j = Inr (Some m) \<Longrightarrow>
   in_message_type m = ''location'' \<or>
   in_location_latitude m = None \<and> in_location_longitude m = None"
  using parse_message_content parse_content_location parse_content_ids by blast

lemma set_map_filter_id: "x \<in> set (List.map_filter id xs) \<longleftrightarrow> Some x \<in> set xs"
  by (induction xs) (auto simp: List.map_filter_def)

lemma mapE_in: "mapE f xs = Inr ys \<Longrightarrow> y \<in> set ys \<Longrightarrow> \<exists>x \<in> set xs. f x = Inr y"
  by (induction xs arbitrary: ys) (auto simp: bindE_Inr_iff)

lemma parse_change_source:
  assumes "parse_change now c = Inr ms" and "m \<in> set ms"
  shows "\<exists>names j. parse_message now names j = Inr (Some m)"
  using assms unfolding parse_change_def
  by (auto simp: bindE_Inr_iff set_map_filter_id dest!: mapE_in)

lemma iter_incoming_source:
  assumes "iter_incoming_messages now payload = Inr ms" and "m \<in> set ms"
  shows "\<exists>names j. parse_message now names j = Inr (Some m)"
proof -
  from assms obtain es e ms' where "mapE (parse_entry now) es = Inr e" "ms' \<in> set e" "m \<in> set ms'"
    by (auto simp: iter_incoming_messages_def bindE_Inr_iff)
  then obtain j where "parse_entry now j = Inr ms'" by (meson mapE_in)
  with \<open>m \<in> set ms'\<close> obtain cs c ms'' where "mapE (parse_change now) cs = Inr c" "ms'' \<in> set c" "m \<in> set ms''"
    by (auto simp: parse_entry_def bindE_Inr_iff)
  then show ?thesis by (meson mapE_in parse_change_source)
qed

lemma iter_incoming_ids:
  "iter_incoming_messages now payload = Inr ms \<Longrightarrow> m \<in> set ms \<Longrightarrow>
   in_wa_id m \<noteq> [] \<and> in_meta_message_id m \<noteq> []"
  using iter_incoming_source parse_message_ids by blast

end
