(* ===== verification/Conversation.thy ===== *)
theory Conversation
  imports WaClient Copy
begin

text \<open>
  \<^verbatim>\<open>whatsapp/conversation.py\<close>: the dialog as a pure function from a state, a context and
  an incoming message to the next state, the next context, the replies and the side effect
  the driver has to perform. \<open>advance\<close> dispatches on the state to one function per branch
  of the source. Log records are left out; timestamps in the context are clock readings
  (the source stores their ISO text).
\<close>

section \<open>Types\<close>

datatype action = Start_pipeline | Recheck_photo | Proceed_without_photo | Finalize | Cancel

record intent =
  it_reply_kind :: string
  it_message_type :: string
  it_payload :: json
  it_text_body :: "string option"

record fsm_result =
  fr_state :: conv_state
  fr_context :: conv_context
  fr_intents :: "intent list"
  fr_action :: "action option"
  fr_close :: bool

record geocode =
  ge_geo_status :: string
  ge_display_address :: "string option"
  ge_raw :: "json option"

definition ISSUE_CONTENT_TYPES :: "string list" where
  "ISSUE_CONTENT_TYPES = [''text'', ''audio'', ''voice'', ''image'', ''video'', ''document'']"

definition CONFIRM_GRV_YES_ID :: string where "CONFIRM_GRV_YES_ID = ''grv_confirm''"
definition CONFIRM_GRV_NO_ID :: string where "CONFIRM_GRV_NO_ID = ''grv_cancel''"
definition PHOTO_CONTINUE_ID :: string where "PHOTO_CONTINUE_ID = ''photo_continue''"

lemmas id_defs = CONFIRM_YES_ID_def CONFIRM_NO_ID_def ISSUE_DONE_ID_def PHOTO_SHARE_ID_def
  PHOTO_SKIP_ID_def CONFIRM_GRV_YES_ID_def CONFIRM_GRV_NO_ID_def PHOTO_CONTINUE_ID_def

definition default_location :: location_ctx where
  "default_location =
     \<lparr>lc_lat = None, lc_lon = None, lc_display_address = None, lc_source_message_id = None,
      lc_geocode_status = None, lc_confirmed_at = None\<rparr>"

definition default_draft :: draft_ctx where
  "default_draft = \<lparr>dc_grievance_id = None, dc_recheck_count = Some 0\<rparr>"

definition default_context :: conv_context where
  "default_context =
     \<lparr>cx_location = default_location,
      cx_issue = \<lparr>ic_messages = Some [], ic_source_message_id = None\<rparr>,
      cx_photo = \<lparr>pc_media_id = None, pc_mime_type = None, pc_skipped = None\<rparr>,
      cx_draft = Some default_draft\<rparr>"

section \<open>Reply identifiers\<close>

definition parse_confirm_reply :: "string option \<Rightarrow> string option \<times> string option" where
  "parse_confirm_reply reply_id =
     (if \<not> truthy reply_id then (None, None)
      else case py_partition (CHR '':'') (the reply_id) of
             (base, _, token) \<Rightarrow> (Some base, if token = [] then None else Some token))"

text \<open>\<^verbatim>\<open>f"{base}:{token}"\<close>; an absent token is written \<^verbatim>\<open>None\<close>.\<close>

definition button_id :: "string \<Rightarrow> string option \<Rightarrow> string" where
  "button_id base token =
     base @ '':'' @ (case token of None \<Rightarrow> ''None'' | Some t \<Rightarrow> t)"

section \<open>Replies\<close>

definition text_intent :: "string \<Rightarrow> string \<Rightarrow> string \<Rightarrow> intent" where
  "text_intent wa_id body reply_kind =
     \<lparr>it_reply_kind = reply_kind, it_message_type = ''text'',
      it_payload = build_text_payload wa_id body, it_text_body = Some body\<rparr>"

definition location_request_intent :: "string \<Rightarrow> string \<Rightarrow> string \<Rightarrow> intent" where
  "location_request_intent wa_id body reply_kind =
     \<lparr>it_reply_kind = reply_kind, it_message_type = ''interactive'',
      it_payload = build_location_request_payload wa_id body, it_text_body = Some body\<rparr>"

definition buttons_intent :: "string \<Rightarrow> string \<Rightarrow> (string \<times> string) list \<Rightarrow> string \<Rightarrow> intent" where
  "buttons_intent wa_id body buttons reply_kind =
     \<lparr>it_reply_kind = reply_kind, it_message_type = ''interactive'',
      it_payload = build_reply_buttons_payload wa_id body buttons, it_text_body = Some body\<rparr>"

definition ask_issue_intent :: "string \<Rightarrow> intent" where
  "ask_issue_intent wa_id =
     buttons_intent wa_id ASK_ISSUE [(ISSUE_DONE_ID, ISSUE_DONE_TITLE)] ''ask_issue''"

definition photo_prompt_intent :: "string \<Rightarrow> string \<Rightarrow> string \<Rightarrow> intent" where
  "photo_prompt_intent wa_id body reply_kind =
     buttons_intent wa_id body
       [(PHOTO_SHARE_ID, PHOTO_SHARE_TITLE), (PHOTO_SKIP_ID, PHOTO_SKIP_TITLE)] reply_kind"

definition still_processing_intent :: "string \<Rightarrow> intent" where
  "still_processing_intent wa_id = text_intent wa_id STILL_PROCESSING ''still_processing''"

definition mismatch_prompt_intent :: "string \<Rightarrow> string option \<Rightarrow> intent" where
  "mismatch_prompt_intent wa_id note =
     buttons_intent wa_id (IMAGE_MISMATCH_PROMPT (str_or note []))
       [(PHOTO_SHARE_ID, PHOTO_SHARE_TITLE), (PHOTO_CONTINUE_ID, PHOTO_CONTINUE_TITLE)]
       ''image_mismatch''"

definition build_confirmation_intent :: "string \<Rightarrow> string \<Rightarrow> string option \<Rightarrow> string \<Rightarrow> intent" where
  "build_confirmation_intent wa_id draft_id header_media_id body =
     (let buttons =
            [(CONFIRM_GRV_YES_ID @ '':'' @ draft_id, CONFIRM_GRV_YES_TITLE),
             (CONFIRM_GRV_NO_ID @ '':'' @ draft_id, CONFIRM_GRV_NO_TITLE)]
      in case header_media_id of
           None \<Rightarrow> buttons_intent wa_id body buttons ''pdf_confirm''
         | Some mid \<Rightarrow>
             \<lparr>it_reply_kind = ''pdf_confirm'', it_message_type = ''interactive'',
              it_payload =
                build_document_button_payload wa_id mid (draft_id @ ''.pdf'') body buttons,
              it_text_body = Some body\<rparr>)"

definition build_mismatch_intent :: "string \<Rightarrow> string option \<Rightarrow> intent" where
  "build_mismatch_intent wa_id note = mismatch_prompt_intent wa_id note"

section \<open>Recognisers\<close>

definition code_char :: "char \<Rightarrow> bool" where
  "code_char c = (is_upper_ascii c \<or> is_digit c)"

definition is_verification_code :: "string option \<Rightarrow> bool" where
  "is_verification_code text_body =
     (truthy text_body \<and>
      (let t = py_upper (py_strip (the text_body)) in
       length t = 9 \<and> take 3 t = ''JS-'' \<and> list_all code_char (drop 3 t)))"

definition STATUS_HINDI :: string where
  "STATUS_HINDI = uni [2360, 2381, 2341, 2367, 2340, 2367]"

definition is_status_query :: "string option \<Rightarrow> bool" where
  "is_status_query text_body =
     (truthy text_body \<and> py_lower (py_strip (the text_body)) \<in> {''status'', STATUS_HINDI})"

section \<open>Transitions\<close>

definition fsm :: "conv_state \<Rightarrow> conv_context \<Rightarrow> intent list \<Rightarrow> fsm_result" where
  "fsm state ctx intents =
     \<lparr>fr_state = state, fr_context = ctx, fr_intents = intents, fr_action = None, fr_close = False\<rparr>"

definition fsm_act :: "conv_state \<Rightarrow> conv_context \<Rightarrow> intent list \<Rightarrow> action \<Rightarrow> bool \<Rightarrow> fsm_result" where
  "fsm_act state ctx intents act cl =
     \<lparr>fr_state = state, fr_context = ctx, fr_intents = intents, fr_action = Some act,
      fr_close = cl\<rparr>"

definition is_location :: "incoming \<Rightarrow> bool" where
  "is_location inbound =
     (in_message_type inbound = ''location'' \<and> in_location_latitude inbound \<noteq> None)"

text \<open>Formatting a missing coordinate raises \<^verbatim>\<open>TypeError\<close>.\<close>

definition raw_coordinates :: "real option \<Rightarrow> real option \<Rightarrow> exn + string" where
  "raw_coordinates lat lon =
     (case (lat, lon) of
        (Some a, Some b) \<Rightarrow> Inr (RAW_COORDINATES a b)
      | _ \<Rightarrow> Inl TypeError)"

definition address_text :: "geocode option \<Rightarrow> real option \<Rightarrow> real option \<Rightarrow> exn + string" where
  "address_text geo lat lon =
     (case geo of
        Some g \<Rightarrow>
          if truthy (ge_display_address g) then Inr (the (ge_display_address g))
          else raw_coordinates lat lon
      | None \<Rightarrow> raw_coordinates lat lon)"

definition confirm_buttons :: "string option \<Rightarrow> (string \<times> string) list" where
  "confirm_buttons token =
     [(button_id CONFIRM_YES_ID token, CONFIRM_YES_TITLE),
      (button_id CONFIRM_NO_ID token, CONFIRM_NO_TITLE)]"

definition staged_location :: "incoming \<Rightarrow> geocode option \<Rightarrow> location_ctx" where
  "staged_location inbound geo =
     \<lparr>lc_lat = in_location_latitude inbound,
      lc_lon = in_location_longitude inbound,
      lc_display_address = Option.bind geo ge_display_address,
      lc_source_message_id = Some (in_meta_message_id inbound),
      lc_geocode_status = map_option ge_geo_status geo,
      lc_confirmed_at = None\<rparr>"

definition stage_location_and_confirm ::
    "string \<Rightarrow> conv_context \<Rightarrow> incoming \<Rightarrow> geocode option \<Rightarrow> string \<Rightarrow> exn + fsm_result" where
  "stage_location_and_confirm wa_id ctx inbound geo body_prefix =
     bindE (address_text geo (in_location_latitude inbound) (in_location_longitude inbound))
       (\<lambda>address.
          let body = body_prefix @ CONFIRM_LOCATION address;
              token = Some (in_meta_message_id inbound)
          in Inr (fsm Confirming_location (ctx\<lparr>cx_location := staged_location inbound geo\<rparr>)
                    [buttons_intent wa_id body (confirm_buttons token) ''confirm_location'']))"

definition advance_initial ::
    "string \<Rightarrow> conv_context \<Rightarrow> incoming \<Rightarrow> geocode option \<Rightarrow> exn + fsm_result" where
  "advance_initial wa_id ctx inbound geo =
     (let greeting_prefix = GREETING @ NL @ NL in
      if is_location inbound then
        stage_location_and_confirm wa_id ctx inbound geo greeting_prefix
      else
        Inr (fsm Awaiting_location ctx
               [location_request_intent wa_id (greeting_prefix @ LOCATION_REQUEST)
                  ''greeting_location'']))"

definition advance_awaiting_location ::
    "string \<Rightarrow> conv_context \<Rightarrow> incoming \<Rightarrow> geocode option \<Rightarrow> exn + fsm_result" where
  "advance_awaiting_location wa_id ctx inbound geo =
     (if is_location inbound then stage_location_and_confirm wa_id ctx inbound geo []
      else
        Inr (fsm Awaiting_location ctx
               [location_request_intent wa_id LOCATION_REPROMPT ''location_reprompt'']))"

definition advance_confirming_location ::
    "time \<Rightarrow> string \<Rightarrow> conv_context \<Rightarrow> incoming \<Rightarrow> geocode option \<Rightarrow> exn + fsm_result" where
  "advance_confirming_location now wa_id ctx inbound geo =
     (if is_location inbound then stage_location_and_confirm wa_id ctx inbound geo []
      else
        let (base, token) = parse_confirm_reply (in_reply_id inbound);
            loc = cx_location ctx;
            staged_token = lc_source_message_id loc
        in if token = staged_token \<and> base = Some CONFIRM_YES_ID then
             Inr (fsm Awaiting_issue (ctx\<lparr>cx_location := loc\<lparr>lc_confirmed_at := Some now\<rparr>\<rparr>)
                    [ask_issue_intent wa_id])
           else if token = staged_token \<and> base = Some CONFIRM_NO_ID then
             Inr (fsm Awaiting_location (ctx\<lparr>cx_location := default_location\<rparr>)
                    [location_request_intent wa_id LOCATION_REQUEST ''location_request''])
           else
             bindE (if truthy (lc_display_address loc) then Inr (the (lc_display_address loc))
                    else if lc_lat loc \<noteq> None then raw_coordinates (lc_lat loc) (lc_lon loc)
                    else Inr [])
               (\<lambda>address.
                  Inr (fsm Confirming_location ctx
                         [buttons_intent wa_id (CONFIRM_LOCATION address)
                            (confirm_buttons staged_token) ''confirm_location''])))"

definition issue_entry :: "incoming \<Rightarrow> issue_message" where
  "issue_entry inbound =
     \<lparr>im_message_id = Some (in_meta_message_id inbound),
      im_received_at = Some (in_received_at inbound),
      im_type = in_message_type inbound,
      im_text = in_text_body inbound,
      im_media_id = in_media_id inbound,
      im_mime_type = in_media_mime_type inbound,
      im_local_path = None, im_recording_id = None, im_segment_index = None\<rparr>"

definition advance_awaiting_issue :: "string \<Rightarrow> conv_context \<Rightarrow> incoming \<Rightarrow> fsm_result" where
  "advance_awaiting_issue wa_id ctx0 inbound =
     (let issue0 = cx_issue ctx0;
          msgs = (case ic_messages issue0 of None \<Rightarrow> [] | Some ms \<Rightarrow> ms);
          issue = issue0\<lparr>ic_messages := Some msgs\<rparr>;
          ctx = ctx0\<lparr>cx_issue := issue\<rparr>;
          base = fst (parse_confirm_reply (in_reply_id inbound))
      in if base = Some ISSUE_DONE_ID then
           if msgs = [] then
             fsm Awaiting_issue ctx [text_intent wa_id ISSUE_EMPTY ''issue_empty'']
           else
             fsm Awaiting_photo ctx
               [photo_prompt_intent wa_id (ISSUE_RECEIVED @ NL @ NL @ PHOTO_PROMPT) ''photo_prompt'']
         else if in_message_type inbound \<in> set ISSUE_CONTENT_TYPES then
           fsm Awaiting_issue
             (ctx\<lparr>cx_issue := issue\<lparr>
                ic_messages := Some (msgs @ [issue_entry inbound]),
                ic_source_message_id :=
                  (case ic_source_message_id issue of
                     None \<Rightarrow> Some (in_meta_message_id inbound) | Some s \<Rightarrow> Some s)\<rparr>\<rparr>) []
         else fsm Awaiting_issue ctx [])"

definition shared_photo :: "incoming \<Rightarrow> photo_ctx" where
  "shared_photo inbound =
     \<lparr>pc_media_id = in_media_id inbound, pc_mime_type = in_media_mime_type inbound,
      pc_skipped = Some False\<rparr>"

definition has_photo :: "incoming \<Rightarrow> bool" where
  "has_photo inbound = (in_message_type inbound = ''image'' \<and> truthy (in_media_id inbound))"

definition processing_wait :: "string \<Rightarrow> intent list" where
  "processing_wait wa_id = [text_intent wa_id PROCESSING_WAIT ''processing_wait'']"

definition advance_awaiting_photo :: "string \<Rightarrow> conv_context \<Rightarrow> incoming \<Rightarrow> fsm_result" where
  "advance_awaiting_photo wa_id ctx inbound =
     (let base = fst (parse_confirm_reply (in_reply_id inbound)) in
      if has_photo inbound then
        fsm_act Processing (ctx\<lparr>cx_photo := shared_photo inbound\<rparr>) (processing_wait wa_id)
          Start_pipeline False
      else if base = Some PHOTO_SKIP_ID then
        fsm_act Processing
          (ctx\<lparr>cx_photo := \<lparr>pc_media_id = None, pc_mime_type = None, pc_skipped = Some True\<rparr>\<rparr>)
          (processing_wait wa_id) Start_pipeline False
      else if base = Some PHOTO_SHARE_ID then
        fsm Awaiting_photo ctx [text_intent wa_id PHOTO_INSTRUCTION ''photo_instruction'']
      else fsm Awaiting_photo ctx [photo_prompt_intent wa_id PHOTO_PROMPT ''photo_prompt''])"

text \<open>\<^verbatim>\<open>context["draft"]\<close> exists: \<open>advance\<close> sets it when it is missing.\<close>

definition the_draft :: "conv_context \<Rightarrow> draft_ctx" where
  "the_draft ctx = (case cx_draft ctx of Some dr \<Rightarrow> dr | None \<Rightarrow> default_draft)"

definition advance_photo_mismatch :: "string \<Rightarrow> conv_context \<Rightarrow> incoming \<Rightarrow> fsm_result" where
  "advance_photo_mismatch wa_id ctx inbound =
     (let base = fst (parse_confirm_reply (in_reply_id inbound));
          dr = the_draft ctx
      in if has_photo inbound then
           fsm_act Processing
             (ctx\<lparr>cx_photo := shared_photo inbound,
                  cx_draft := Some (dr\<lparr>dc_recheck_count :=
                    Some ((case dc_recheck_count dr of None \<Rightarrow> 0 | Some n \<Rightarrow> n) + 1)\<rparr>)\<rparr>)
             (processing_wait wa_id) Recheck_photo False
         else if base = Some PHOTO_CONTINUE_ID then
           fsm_act Processing ctx (processing_wait wa_id) Proceed_without_photo False
         else fsm Photo_mismatch ctx [mismatch_prompt_intent wa_id None])"

definition advance_awaiting_confirmation :: "conv_context \<Rightarrow> incoming \<Rightarrow> fsm_result" where
  "advance_awaiting_confirmation ctx inbound =
     (let (base, token) = parse_confirm_reply (in_reply_id inbound);
          draft_id = dc_grievance_id (the_draft ctx)
      in if token = draft_id \<and> base = Some CONFIRM_GRV_YES_ID then fsm_act Done ctx [] Finalize True
         else if token = draft_id \<and> base = Some CONFIRM_GRV_NO_ID then fsm_act Done ctx [] Cancel True
         else fsm Awaiting_confirmation ctx [])"

definition prepare_context :: "conv_context option \<Rightarrow> conv_context" where
  "prepare_context context0 =
     (let ctx = (case context0 of None \<Rightarrow> default_context | Some c \<Rightarrow> c) in
      case cx_draft ctx of
        None \<Rightarrow> ctx\<lparr>cx_draft := Some default_draft\<rparr>
      | Some _ \<Rightarrow> ctx)"

definition advance ::
    "time \<Rightarrow> string \<Rightarrow> conv_state option \<Rightarrow> conv_context option \<Rightarrow> incoming \<Rightarrow> geocode option
     \<Rightarrow> exn + fsm_result" where
  "advance now wa_id state context0 inbound geo =
     (let ctx = prepare_context context0 in
      case state of
        None \<Rightarrow> advance_initial wa_id ctx inbound geo
      | Some Expired \<Rightarrow> advance_initial wa_id ctx inbound geo
      | Some Awaiting_location \<Rightarrow> advance_awaiting_location wa_id ctx inbound geo
      | Some Confirming_location \<Rightarrow> advance_confirming_location now wa_id ctx inbound geo
      | Some Awaiting_issue \<Rightarrow> Inr (advance_awaiting_issue wa_id ctx inbound)
      | Some Awaiting_photo \<Rightarrow> Inr (advance_awaiting_photo wa_id ctx inbound)
      | Some Processing \<Rightarrow> Inr (fsm Processing ctx [still_processing_intent wa_id])
      | Some Photo_mismatch \<Rightarrow> Inr (advance_photo_mismatch wa_id ctx inbound)
      | Some Awaiting_confirmation \<Rightarrow> Inr (advance_awaiting_confirmation ctx inbound)
      | Some Done \<Rightarrow> Inr (fsm Done ctx [])
      | Some (Other_state s) \<Rightarrow> Inr (fsm (Other_state s) ctx []))"

section \<open>Reply identifiers round-trip\<close>

lemma parse_confirm_None [simp]: "parse_confirm_reply None = (None, None)"
  by (simp add: parse_confirm_reply_def truthy_def)

lemma parse_button_id:
  assumes "CHR '':'' \<notin> set base" and "t \<noteq> []"
  shows "parse_confirm_reply (Some (button_id base (Some t))) = (Some base, Some t)"
proof -
  have "py_partition (CHR '':'') (base @ CHR '':'' # t) = (base, True, t)"
    using assms(1) by (rule py_partition_sep)
  with assms(2) show ?thesis by (simp add: parse_confirm_reply_def button_id_def truthy_def)
qed

lemma partition_parts:
  "py_partition c s = (a, True, b) \<Longrightarrow> s = a @ c # b" "py_partition c s = (a, False, b) \<Longrightarrow> s = a \<and> b = []"
proof -
  have e: "s = takeWhile (\<lambda>x. x \<noteq> c) s @ dropWhile (\<lambda>x. x \<noteq> c) s" by simp
  show "py_partition c s = (a, True, b) \<Longrightarrow> s = a @ c # b"
  proof -
    assume p: "py_partition c s = (a, True, b)"
    then have "c \<in> set s" by (simp add: py_partition_def)
    then have "dropWhile (\<lambda>x. x \<noteq> c) s \<noteq> []" by (simp add: dropWhile_eq_Nil_conv)
    then obtain y ys where d: "dropWhile (\<lambda>x. x \<noteq> c) s = y # ys" by (cases "dropWhile (\<lambda>x. x \<noteq> c) s") auto
    then have "y = c" using hd_dropWhile [of "\<lambda>x. x \<noteq> c" s] by simp
    with p d e show ?thesis by (simp add: py_partition_def)
  qed
  show "py_partition c s = (a, False, b) \<Longrightarrow> s = a \<and> b = []"
    using py_partition_no_sep [of c s] by (auto simp: py_partition_def)
qed

lemma parse_confirm_reply_iff:
  "parse_confirm_reply r = (Some base, Some t) \<longleftrightarrow>
     r = Some (button_id base (Some t)) \<and> CHR '':'' \<notin> set base \<and> t \<noteq> []"
proof
  assume a: "parse_confirm_reply r = (Some base, Some t)"
  then obtain s where r: "r = Some s" by (cases r) auto
  obtain x f y where p: "py_partition (CHR '':'') s = (x, f, y)" by (metis prod_cases3)
  with a r have xy: "x = base" "y = t" "t \<noteq> []"
    by (auto simp: parse_confirm_reply_def split: if_splits)
  with p have f: "f" using partition_parts(2) by (cases f) auto
  then have "s = base @ CHR '':'' # t" using p xy partition_parts(1) by simp
  moreover have "CHR '':'' \<notin> set base"
    using p xy(1) by (auto simp: py_partition_def dest: set_takeWhileD)
  ultimately show "r = Some (button_id base (Some t)) \<and> CHR '':'' \<notin> set base \<and> t \<noteq> []"
    using r xy by (simp add: button_id_def)
next
  assume "r = Some (button_id base (Some t)) \<and> CHR '':'' \<notin> set base \<and> t \<noteq> []"
  then show "parse_confirm_reply r = (Some base, Some t)" using parse_button_id by blast
qed

lemma ids_no_colon:
  "CHR '':'' \<notin> set CONFIRM_YES_ID" "CHR '':'' \<notin> set CONFIRM_NO_ID"
  "CHR '':'' \<notin> set CONFIRM_GRV_YES_ID" "CHR '':'' \<notin> set CONFIRM_GRV_NO_ID"
  by (simp_all add: id_defs)

lemma ids_distinct:
  "CONFIRM_YES_ID \<noteq> CONFIRM_NO_ID" "CONFIRM_GRV_YES_ID \<noteq> CONFIRM_GRV_NO_ID"
  "PHOTO_SHARE_ID \<noteq> PHOTO_SKIP_ID"
  by (simp_all add: id_defs)

section \<open>Transitions: shared facts\<close>

lemma fsm_sel [simp]:
  "fr_state (fsm s c is) = s" "fr_context (fsm s c is) = c" "fr_intents (fsm s c is) = is"
  "fr_action (fsm s c is) = None" "fr_close (fsm s c is) = False"
  by (simp_all add: fsm_def)

lemma fsm_act_sel [simp]:
  "fr_state (fsm_act s c is a cl) = s" "fr_context (fsm_act s c is a cl) = c"
  "fr_intents (fsm_act s c is a cl) = is" "fr_action (fsm_act s c is a cl) = Some a"
  "fr_close (fsm_act s c is a cl) = cl"
  by (simp_all add: fsm_act_def)

lemmas advance_steps =
  advance_initial_def advance_awaiting_location_def advance_confirming_location_def
  advance_awaiting_issue_def advance_awaiting_photo_def advance_photo_mismatch_def
  advance_awaiting_confirmation_def stage_location_and_confirm_def

lemma prepare_context_draft [simp]: "cx_draft (prepare_context c) \<noteq> None"
  by (simp add: prepare_context_def default_context_def Let_def split: option.splits)

lemma prepare_context_Some: "cx_draft c \<noteq> None \<Longrightarrow> prepare_context (Some c) = c"
  by (simp add: prepare_context_def Let_def split: option.splits)

lemma prepare_context_same [simp]:
  "cx_location (prepare_context (Some c)) = cx_location c"
  "cx_issue (prepare_context (Some c)) = cx_issue c"
  "cx_photo (prepare_context (Some c)) = cx_photo c"
  by (simp_all add: prepare_context_def Let_def split: option.splits)

lemma the_draft_prepare:
  "dc_grievance_id (the_draft (prepare_context (Some c))) =
   Option.bind (cx_draft c) dc_grievance_id"
  by (auto simp: prepare_context_def the_draft_def default_draft_def Let_def split: option.splits)

lemma stage_Inr:
  assumes "stage_location_and_confirm wa_id ctx inbound geo pre = Inr r"
  shows "fr_state r = Confirming_location \<and> fr_action r = None \<and> \<not> fr_close r \<and>
         fr_context r = ctx\<lparr>cx_location := staged_location inbound geo\<rparr>"
  using assms by (auto simp: stage_location_and_confirm_def bindE_Inr_iff Let_def)

section \<open>Actions and closing\<close>

lemma advance_action_state:
  assumes "advance now wa_id st c inbound geo = Inr r"
  shows "(fr_close r \<longleftrightarrow> fr_action r = Some Finalize \<or> fr_action r = Some Cancel) \<and>
         (fr_close r \<longrightarrow> fr_state r = Done \<and> st = Some Awaiting_confirmation \<and> fr_intents r = []) \<and>
         (fr_action r \<noteq> None \<and> \<not> fr_close r \<longrightarrow> fr_state r = Processing)"
proof -
  have [simp]: "fr_action r = None \<and> \<not> fr_close r" if "bindE x (\<lambda>a. Inr (fsm s c' (is a))) = Inr r"
    for x :: "exn + string" and s c' "is" using that by (auto simp: bindE_Inr_iff)
  show ?thesis
    using assms stage_Inr
    by (cases st; cases "the st")
      (fastforce simp: advance_def advance_steps Let_def split: if_splits prod.splits
        simp del: stage_location_and_confirm_def)+
qed

section \<open>Reachable dialogs\<close>

text \<open>The dialogs of a contact: a conversation starts without a state, each incoming message is a
  turn of \<open>advance\<close> (the driver records the draft it created when the turn starts the
  pipeline), and the pipeline moves a conversation in \<open>Processing\<close> on.\<close>

definition record_draft :: "fsm_result \<Rightarrow> string \<Rightarrow> conv_context" where
  "record_draft r gid =
     (if fr_action r = Some Start_pipeline
      then (fr_context r)\<lparr>cx_draft := Some ((the_draft (fr_context r))\<lparr>dc_grievance_id := Some gid\<rparr>)\<rparr>
      else fr_context r)"

inductive dialog :: "conv_state option \<Rightarrow> conv_context option \<Rightarrow> bool" where
  start: "dialog None None"
| turn: "dialog st c \<Longrightarrow> advance now wa_id st c inbound geo = Inr r \<Longrightarrow>
         dialog (Some (fr_state r)) (Some (record_draft r gid))"
| pipeline: "dialog (Some Processing) (Some c) \<Longrightarrow> st \<in> {Photo_mismatch, Awaiting_confirmation} \<Longrightarrow>
         dialog (Some st) (Some c)"
| reset: "dialog st c \<Longrightarrow> dialog None None"

inductive_cases dialog_SomeE: "dialog (Some st) (Some c)"
inductive_simps dialog_None_Some: "dialog None (Some c)"

definition staged :: "conv_context \<Rightarrow> bool" where
  "staged c \<longleftrightarrow>
     (let l = cx_location c in
      lc_source_message_id l \<noteq> None \<and> lc_lat l \<noteq> None \<and>
      (truthy (lc_display_address l) \<or> lc_lon l \<noteq> None))"

definition confirmed :: "conv_context \<Rightarrow> bool" where
  "confirmed c \<longleftrightarrow> staged c \<and> lc_confirmed_at (cx_location c) \<noteq> None"

definition described :: "conv_context \<Rightarrow> bool" where
  "described c \<longleftrightarrow> (\<exists>m ms. ic_messages (cx_issue c) = Some (m # ms))"

definition drafted :: "conv_context \<Rightarrow> bool" where
  "drafted c \<longleftrightarrow> dc_grievance_id (the_draft c) \<noteq> None"

fun dialog_inv :: "conv_state \<Rightarrow> conv_context \<Rightarrow> bool" where
  "dialog_inv Awaiting_location c = True"
| "dialog_inv Confirming_location c = staged c"
| "dialog_inv Awaiting_issue c = confirmed c"
| "dialog_inv Awaiting_photo c = (confirmed c \<and> described c)"
| "dialog_inv Expired c = False"
| "dialog_inv (Other_state s) c = False"
| "dialog_inv _ c = (confirmed c \<and> described c \<and> drafted c)"

lemmas inv_defs = staged_def confirmed_def described_def drafted_def

lemma inv_cong:
  "cx_location c' = cx_location c \<Longrightarrow> staged c' = staged c"
  "cx_location c' = cx_location c \<Longrightarrow> confirmed c' = confirmed c"
  "cx_issue c' = cx_issue c \<Longrightarrow> described c' = described c"
  by (simp_all add: inv_defs)

lemma record_draft_same [simp]:
  "cx_location (record_draft r gid) = cx_location (fr_context r)"
  "cx_issue (record_draft r gid) = cx_issue (fr_context r)"
  by (simp_all add: record_draft_def)

lemma record_draft_drafted:
  "fr_action r = Some Start_pipeline \<or> drafted (fr_context r) \<Longrightarrow> drafted (record_draft r gid)"
  by (auto simp: record_draft_def drafted_def the_draft_def)

lemma drafted_prepare: "drafted c \<Longrightarrow> drafted (prepare_context (Some c))"
  using the_draft_prepare [of c]
  by (auto simp: drafted_def the_draft_def default_draft_def split: option.splits)

lemma staged_staged:
  assumes "is_location inbound"
    and "stage_location_and_confirm wa_id ctx inbound geo pre = Inr r"
  shows "staged (fr_context r)"
proof -
  from assms(2) have r: "fr_context r = ctx\<lparr>cx_location := staged_location inbound geo\<rparr>"
    by (simp add: stage_Inr)
  from assms(2) have "\<exists>a. address_text geo (in_location_latitude inbound) (in_location_longitude inbound) = Inr a"
    by (auto simp: stage_location_and_confirm_def bindE_Inr_iff)
  with assms(1) show ?thesis
    unfolding r by (auto simp: staged_def staged_location_def is_location_def address_text_def
        raw_coordinates_def Let_def split: option.splits if_splits)
qed

lemma initial_inv:
  assumes "advance_initial wa_id ctx inbound geo = Inr r"
  shows "dialog_inv (fr_state r) (record_draft r gid)"
proof (cases "is_location inbound")
  case True
  with assms have s: "stage_location_and_confirm wa_id ctx inbound geo (GREETING @ NL @ NL) = Inr r"
    by (simp add: advance_initial_def)
  with staged_staged [OF True s] stage_Inr [OF s] show ?thesis
    by (simp add: inv_cong(1) [of "record_draft r gid" "fr_context r"])
next
  case False
  with assms show ?thesis by (auto simp: advance_initial_def)
qed

lemma location_turn_inv:
  assumes "is_location inbound" and "stage_location_and_confirm wa_id ctx inbound geo pre = Inr r"
  shows "dialog_inv (fr_state r) (record_draft r gid)"
  using staged_staged [OF assms] stage_Inr [OF assms(2)]
  by (simp add: inv_cong(1) [of "record_draft r gid" "fr_context r"])

lemma confirming_inv:
  assumes "staged c" and "advance_confirming_location now wa_id (prepare_context (Some c)) inbound geo = Inr r"
  shows "dialog_inv (fr_state r) (record_draft r gid)"
proof (cases "is_location inbound")
  case True
  then show ?thesis
    using assms(2) location_turn_inv by (simp add: advance_confirming_location_def)
next
  case False
  with assms show ?thesis
    by (auto simp: advance_confirming_location_def bindE_Inr_iff record_draft_def Let_def inv_defs
        split: prod.splits if_splits)
qed

lemma awaiting_issue_inv:
  assumes "confirmed c" and "r = advance_awaiting_issue wa_id (prepare_context (Some c)) inbound"
  shows "dialog_inv (fr_state r) (record_draft r gid)"
proof -
  have loc: "cx_location (fr_context r) = cx_location c" and act: "fr_action r = None"
    using assms(2) by (auto simp: advance_awaiting_issue_def Let_def)
  have con: "confirmed (record_draft r gid)"
    using assms(1) loc inv_cong(2) [of "record_draft r gid" c] by simp
  have "fr_state r = Awaiting_issue \<or> fr_state r = Awaiting_photo \<and> described (record_draft r gid)"
    unfolding assms(2)
    by (auto simp: advance_awaiting_issue_def Let_def record_draft_def described_def neq_Nil_conv
        split: option.splits)
  with con show ?thesis by auto
qed

lemma awaiting_photo_inv:
  assumes "confirmed c \<and> described c" and "r = advance_awaiting_photo wa_id (prepare_context (Some c)) inbound"
  shows "dialog_inv (fr_state r) (record_draft r gid)"
proof -
  have same: "cx_location (fr_context r) = cx_location c" "cx_issue (fr_context r) = cx_issue c"
    using assms(2) by (auto simp: advance_awaiting_photo_def Let_def)
  have st: "fr_state r = Awaiting_photo \<or> fr_state r = Processing \<and> fr_action r = Some Start_pipeline"
    using assms(2) by (auto simp: advance_awaiting_photo_def Let_def)
  from st show ?thesis
    using assms(1) same inv_cong [of "record_draft r gid" c] record_draft_drafted [of r gid] by auto
qed

lemma late_inv:
  assumes c: "confirmed c \<and> described c \<and> drafted c"
    and same: "cx_location (fr_context r) = cx_location c" "cx_issue (fr_context r) = cx_issue c"
    and dr: "dc_grievance_id (the_draft (fr_context r)) = dc_grievance_id (the_draft (prepare_context (Some c)))"
    and st: "fr_state r \<in> {Processing, Photo_mismatch, Awaiting_confirmation, Done}"
  shows "dialog_inv (fr_state r) (record_draft r gid)"
proof -
  have "drafted (fr_context r)"
    using drafted_prepare [of c] c dr by (simp add: drafted_def)
  then have "drafted (record_draft r gid)" by (simp add: record_draft_drafted)
  then show ?thesis
    using st c same inv_cong [of "record_draft r gid" c] by auto
qed

lemma photo_mismatch_inv:
  assumes "confirmed c \<and> described c \<and> drafted c"
    and "r = advance_photo_mismatch wa_id (prepare_context (Some c)) inbound"
  shows "dialog_inv (fr_state r) (record_draft r gid)"
  by (rule late_inv [OF assms(1)])
    (use assms(2) in \<open>auto simp: advance_photo_mismatch_def the_draft_def Let_def\<close>)

lemma awaiting_confirmation_inv:
  assumes "confirmed c \<and> described c \<and> drafted c"
    and "r = advance_awaiting_confirmation (prepare_context (Some c)) inbound"
  shows "dialog_inv (fr_state r) (record_draft r gid)"
  by (rule late_inv [OF assms(1)])
    (use assms(2) in \<open>auto simp: advance_awaiting_confirmation_def Let_def split: prod.splits\<close>)

lemma dialog_inv_turn:
  assumes inv: "dialog_inv st c" and adv: "advance now wa_id (Some st) (Some c) inbound geo = Inr r"
  shows "dialog_inv (fr_state r) (record_draft r gid)"
proof (cases st)
  case Awaiting_location
  show ?thesis
  proof (cases "is_location inbound")
    case True
    with adv Awaiting_location show ?thesis
      by (intro location_turn_inv) (simp_all add: advance_def advance_awaiting_location_def Let_def)
  next
    case False
    with adv Awaiting_location show ?thesis
      by (auto simp: advance_def advance_awaiting_location_def Let_def)
  qed
next
  case Confirming_location
  with inv adv confirming_inv show ?thesis by (simp add: advance_def)
next
  case Awaiting_issue
  with inv adv show ?thesis by (intro awaiting_issue_inv) (auto simp: advance_def Let_def)
next
  case Awaiting_photo
  with inv adv show ?thesis by (intro awaiting_photo_inv) (auto simp: advance_def Let_def)
next
  case Processing
  with inv have "confirmed c \<and> described c \<and> drafted c" by simp
  then show ?thesis using Processing adv by (intro late_inv [of c]) (auto simp: advance_def)
next
  case Photo_mismatch
  with inv adv show ?thesis by (intro photo_mismatch_inv) (auto simp: advance_def Let_def)
next
  case Awaiting_confirmation
  with inv adv show ?thesis by (intro awaiting_confirmation_inv) (auto simp: advance_def Let_def)
next
  case Done
  with inv have "confirmed c \<and> described c \<and> drafted c" by simp
  then show ?thesis using Done adv by (intro late_inv [of c]) (auto simp: advance_def)
qed (use inv in simp_all)

lemma dialog_shape: "dialog st c \<Longrightarrow>
   (st = None \<longleftrightarrow> c = None) \<and> (\<forall>s k. st = Some s \<longrightarrow> c = Some k \<longrightarrow> dialog_inv s k)"
proof (induction rule: dialog.induct)
  case (turn st c now wa_id inbound geo r gid)
  show ?case
  proof (cases st)
    case None
    with turn show ?thesis using initial_inv by (simp add: advance_def)
  next
    case (Some s)
    with turn obtain k where "c = Some k" by auto
    with turn Some show ?thesis using dialog_inv_turn by blast
  qed
qed auto

section \<open>Properties of the dialog\<close>

lemma advance_error:
  assumes "advance now wa_id st c inbound geo = Inl e"
    and "\<And>s k. st = Some s \<Longrightarrow> c = Some k \<Longrightarrow> dialog_inv s k" and "st = None \<longleftrightarrow> c = None"
  shows "e = TypeError \<and> is_location inbound \<and> in_location_longitude inbound = None \<and>
         \<not> truthy (Option.bind geo ge_display_address)"
proof -
  have stage: "e = TypeError \<and> in_location_longitude inbound = None \<and>
      \<not> truthy (Option.bind geo ge_display_address)"
    if "stage_location_and_confirm w ctx inbound geo pre = Inl e" "is_location inbound" for w ctx pre
    using that by (auto simp: stage_location_and_confirm_def bindE_def address_text_def is_location_def
        raw_coordinates_def Let_def truthy_def split: option.splits if_splits sum.splits)
  show ?thesis
  proof (cases st)
    case None
    with assms(1) stage show ?thesis
      by (auto simp: advance_def advance_initial_def Let_def split: if_splits)
  next
    case (Some s)
    with assms(3) obtain k where k: "c = Some k" by auto
    have inv: "dialog_inv s k" using assms(2) Some k by blast
    show ?thesis
    proof (cases s)
      case Awaiting_location
      with assms(1) Some k stage show ?thesis
        by (auto simp: advance_def advance_awaiting_location_def Let_def split: if_splits)
    next
      case Confirming_location
      have no: "raw_coordinates (lc_lat (cx_location k)) (lc_lon (cx_location k)) \<noteq> Inl e"
        if "\<not> truthy (lc_display_address (cx_location k))"
        using inv Confirming_location that
        by (auto simp: staged_def raw_coordinates_def Let_def split: option.splits)
      show ?thesis
      proof (cases "is_location inbound")
        case True
        with assms(1) Some k Confirming_location stage show ?thesis
          by (auto simp: advance_def advance_confirming_location_def Let_def)
      next
        case False
        with assms(1) Some k Confirming_location no show ?thesis
          by (auto simp: advance_def advance_confirming_location_def Let_def bindE_def
              split: prod.splits if_splits sum.splits)
      qed
    qed (use assms(1) Some k inv in \<open>simp_all add: advance_def\<close>)
  qed
qed


text \<open>A turn of a reachable conversation raises only on a shared location that has a latitude
  but no longitude and no resolved address; every other message gets an answer of the state
  machine.\<close>

theorem advance_raises_only:
  assumes "dialog st c" and "advance now wa_id st c inbound geo = Inl e"
  shows "e = TypeError \<and> is_location inbound \<and> in_location_longitude inbound = None \<and>
         \<not> truthy (Option.bind geo ge_display_address)"
  using advance_error [OF assms(2)] dialog_shape [OF assms(1)] by blast

text \<open>While a location is staged under the token \<open>t\<close>, the dialog moves on exactly when the
  tapped button carries that token: a Yes or No from an older confirmation card, a bare button
  identifier or a text changes neither the state nor the context.\<close>

theorem stale_location_tap_ignored:
  assumes "lc_source_message_id (cx_location c) = Some t" and "t \<noteq> []" and "\<not> is_location inbound"
    and "advance now wa_id (Some Confirming_location) (Some c) inbound geo = Inr r"
  shows "(fr_state r = Awaiting_issue \<longleftrightarrow> in_reply_id inbound = Some (button_id CONFIRM_YES_ID (Some t))) \<and>
         (fr_state r = Awaiting_location \<longleftrightarrow> in_reply_id inbound = Some (button_id CONFIRM_NO_ID (Some t))) \<and>
         (fr_state r \<notin> {Awaiting_issue, Awaiting_location} \<longrightarrow>
            fr_state r = Confirming_location \<and> fr_context r = prepare_context (Some c))"
proof -
  obtain base token where p: "parse_confirm_reply (in_reply_id inbound) = (base, token)"
    by fastforce
  have yes: "token = Some t \<and> base = Some CONFIRM_YES_ID \<longleftrightarrow>
      in_reply_id inbound = Some (button_id CONFIRM_YES_ID (Some t))"
    using p parse_confirm_reply_iff [of "in_reply_id inbound" CONFIRM_YES_ID t] assms(2) ids_no_colon
    by auto
  have no: "token = Some t \<and> base = Some CONFIRM_NO_ID \<longleftrightarrow>
      in_reply_id inbound = Some (button_id CONFIRM_NO_ID (Some t))"
    using p parse_confirm_reply_iff [of "in_reply_id inbound" CONFIRM_NO_ID t] assms(2) ids_no_colon
    by auto
  show ?thesis
    unfolding yes [symmetric] no [symmetric]
    using assms(1,3,4) p ids_distinct(1)
    by (auto simp: advance_def advance_confirming_location_def Let_def bindE_Inr_iff split: if_splits)
qed

text \<open>The post-pipeline card: a complaint is finalised exactly by its own Confirm button and
  cancelled exactly by its own Cancel button; a card of another draft does nothing, and the
  conversation closes in these two cases only.\<close>

theorem confirmation_card_bound_to_draft:
  assumes "Option.bind (cx_draft c) dc_grievance_id = Some gid" and "gid \<noteq> []"
    and "advance now wa_id (Some Awaiting_confirmation) (Some c) inbound geo = Inr r"
  shows "(fr_action r = Some Finalize \<longleftrightarrow>
            in_reply_id inbound = Some (button_id CONFIRM_GRV_YES_ID (Some gid))) \<and>
         (fr_action r = Some Cancel \<longleftrightarrow>
            in_reply_id inbound = Some (button_id CONFIRM_GRV_NO_ID (Some gid))) \<and>
         (fr_close r \<longleftrightarrow> fr_action r \<noteq> None) \<and>
         (fr_action r = None \<longrightarrow> fr_state r = Awaiting_confirmation)"
proof -
  obtain base token where p: "parse_confirm_reply (in_reply_id inbound) = (base, token)"
    by fastforce
  have yes: "token = Some gid \<and> base = Some CONFIRM_GRV_YES_ID \<longleftrightarrow>
      in_reply_id inbound = Some (button_id CONFIRM_GRV_YES_ID (Some gid))"
    using p parse_confirm_reply_iff [of "in_reply_id inbound" CONFIRM_GRV_YES_ID gid] assms(2) ids_no_colon
    by auto
  have no: "token = Some gid \<and> base = Some CONFIRM_GRV_NO_ID \<longleftrightarrow>
      in_reply_id inbound = Some (button_id CONFIRM_GRV_NO_ID (Some gid))"
    using p parse_confirm_reply_iff [of "in_reply_id inbound" CONFIRM_GRV_NO_ID gid] assms(2) ids_no_colon
    by auto
  show ?thesis
    unfolding yes [symmetric] no [symmetric]
    using assms(3) p ids_distinct(2) the_draft_prepare [of c] unfolding assms(1)
    by (auto simp: advance_def advance_awaiting_confirmation_def Let_def split: if_splits)
qed

text \<open>A run of messages in \<open>Awaiting_issue\<close>.\<close>

definition collect_issue :: "string \<Rightarrow> conv_context \<Rightarrow> incoming list \<Rightarrow> conv_context" where
  "collect_issue wa_id c ins =
     foldl (\<lambda>k i. fr_context (advance_awaiting_issue wa_id (prepare_context (Some k)) i)) c ins"

lemma awaiting_issue_content:
  assumes "in_message_type i \<in> set ISSUE_CONTENT_TYPES"
    and "fst (parse_confirm_reply (in_reply_id i)) \<noteq> Some ISSUE_DONE_ID"
    and "ic_messages (cx_issue c) = Some ms"
  shows "ic_messages (cx_issue (fr_context (advance_awaiting_issue wa_id (prepare_context (Some c)) i))) =
           Some (ms @ [issue_entry i])"
  using assms by (simp add: advance_awaiting_issue_def Let_def)

text \<open>While the issue is described, messages accumulate: any number of text, voice and media
  messages leave one entry each, in the order they were processed, and none is dropped.\<close>

theorem issue_messages_accumulate:
  assumes "ic_messages (cx_issue c) = Some ms"
    and "\<forall>i \<in> set ins. in_message_type i \<in> set ISSUE_CONTENT_TYPES \<and>
           fst (parse_confirm_reply (in_reply_id i)) \<noteq> Some ISSUE_DONE_ID"
  shows "ic_messages (cx_issue (collect_issue wa_id c ins)) = Some (ms @ map issue_entry ins)"
  using assms
proof (induction ins arbitrary: c ms)
  case Nil
  then show ?case by (simp add: collect_issue_def)
next
  case (Cons i ins)
  have "ic_messages (cx_issue (fr_context (advance_awaiting_issue wa_id (prepare_context (Some c)) i)))
      = Some (ms @ [issue_entry i])"
    using Cons.prems by (intro awaiting_issue_content) auto
  with Cons show ?case by (simp add: collect_issue_def)
qed

section \<open>Witnesses\<close>

text \<open>A dialog from the first shared location to the photo prompt.\<close>

definition sample_in :: "string \<Rightarrow> string \<Rightarrow> string option \<Rightarrow> string option \<Rightarrow> incoming" where
  "sample_in mid ty text reply =
     \<lparr>in_wa_id = ''919812345678'', in_profile_name = None, in_meta_message_id = mid,
      in_message_type = ty, in_text_body = text, in_raw_payload = JNull, in_received_at = 0,
      in_media_id = None, in_media_mime_type = None,
      in_location_latitude = (if ty = ''location'' then Some 20 else None),
      in_location_longitude = None, in_location_name = None, in_location_address = None,
      in_location_url = None, in_reply_id = reply, in_interactive_type = None,
      in_button_payload = None, in_context_message_id = None\<rparr>"

definition sample_geo :: geocode where
  "sample_geo = \<lparr>ge_geo_status = ''ok'', ge_display_address = Some ''MG Road'', ge_raw = None\<rparr>"

definition sample_location :: incoming where
  "sample_location = sample_in ''w1'' ''location'' None None"

definition sample_issue :: incoming where
  "sample_issue = sample_in ''w3'' ''text'' (Some ''deep pothole'') None"

definition sample_c1 :: conv_context where
  "sample_c1 = default_context\<lparr>cx_location := staged_location sample_location (Some sample_geo)\<rparr>"

definition sample_c2 :: conv_context where
  "sample_c2 = sample_c1\<lparr>cx_location := (cx_location sample_c1)\<lparr>lc_confirmed_at := Some 5\<rparr>\<rparr>"

definition sample_c3 :: conv_context where
  "sample_c3 = sample_c2\<lparr>cx_issue :=
     \<lparr>ic_messages = Some [issue_entry sample_issue], ic_source_message_id = Some ''w3''\<rparr>\<rparr>"

lemmas sample_defs = sample_in_def sample_geo_def sample_location_def sample_issue_def
  sample_c1_def sample_c2_def sample_c3_def default_context_def default_location_def
  default_draft_def staged_location_def

lemma sample_draft: "cx_draft sample_c1 = Some default_draft" "cx_draft sample_c2 = Some default_draft"
    "cx_draft sample_c3 = Some default_draft"
  by (simp_all add: sample_c1_def sample_c2_def sample_c3_def default_context_def)

lemma sample_prepare [simp]: "prepare_context (Some sample_c1) = sample_c1"
    "prepare_context (Some sample_c2) = sample_c2" "prepare_context (Some sample_c3) = sample_c3"
  by (simp_all add: prepare_context_Some sample_draft)

lemma turn_no_draft:
  "dialog st c \<Longrightarrow> advance now wa_id st c inbound geo = Inr r \<Longrightarrow> fr_action r = None \<Longrightarrow>
   dialog (Some (fr_state r)) (Some (fr_context r))"
  using dialog.turn [of st c now wa_id inbound geo r] by (simp add: record_draft_def)

lemma sample_dialog1: "dialog (Some Confirming_location) (Some sample_c1)"
  using turn_no_draft [OF dialog.start, of 0 "''919812345678''" sample_location "Some sample_geo"]
  by (simp add: advance_def advance_initial_def prepare_context_def stage_location_and_confirm_def
      is_location_def address_text_def truthy_def Let_def sample_defs)

lemma sample_token: "lc_source_message_id (cx_location sample_c1) = Some ''w1''"
  by (simp add: sample_defs)

definition sample_yes :: incoming where
  "sample_yes = sample_in ''w2'' ''interactive'' None (Some (button_id CONFIRM_YES_ID (Some ''w1'')))"

lemma sample_yes_parse:
  "parse_confirm_reply (in_reply_id sample_yes) = (Some CONFIRM_YES_ID, Some ''w1'')"
  unfolding sample_yes_def sample_in_def by (simp add: parse_button_id ids_no_colon)

lemma sample_yes_turn:
  "advance 5 ''919812345678'' (Some Confirming_location) (Some sample_c1) sample_yes None =
   Inr (fsm Awaiting_issue sample_c2 [ask_issue_intent ''919812345678''])"
proof -
  have "\<not> is_location sample_yes" by (simp add: is_location_def sample_yes_def sample_in_def)
  then show ?thesis
    by (simp add: advance_def advance_confirming_location_def sample_yes_parse sample_token
        sample_c2_def Let_def)
qed

lemma sample_dialog2: "dialog (Some Awaiting_issue) (Some sample_c2)"
  using turn_no_draft [OF sample_dialog1 sample_yes_turn] by simp

lemma sample_dialog3: "dialog (Some Awaiting_issue) (Some sample_c3)"
proof -
  have "advance 6 ''919812345678'' (Some Awaiting_issue) (Some sample_c2) sample_issue None =
      Inr (fsm Awaiting_issue sample_c3 [])"
    by (simp add: advance_def advance_awaiting_issue_def Let_def sample_defs ISSUE_CONTENT_TYPES_def
        prepare_context_def)
  from turn_no_draft [OF sample_dialog2 this] show ?thesis by simp
qed

lemma sample_dialog4: "dialog (Some Awaiting_photo) (Some sample_c3)"
proof -
  have p: "parse_confirm_reply (Some ISSUE_DONE_ID) = (Some ISSUE_DONE_ID, None)"
    by (simp add: parse_confirm_reply_def py_partition_def ISSUE_DONE_ID_def truthy_def)
  have "advance 7 ''919812345678'' (Some Awaiting_issue) (Some sample_c3)
      (sample_in ''w4'' ''interactive'' None (Some ISSUE_DONE_ID)) None =
      Inr (fsm Awaiting_photo sample_c3 [photo_prompt_intent ''919812345678''
             (ISSUE_RECEIVED @ NL @ NL @ PHOTO_PROMPT) ''photo_prompt''])"
    by (simp add: advance_def advance_awaiting_issue_def Let_def p sample_in_def)
      (simp add: sample_c3_def)
  from turn_no_draft [OF sample_dialog3 this] show ?thesis by simp
qed

definition sample_skip :: incoming where
  "sample_skip = sample_in ''w5'' ''interactive'' None (Some PHOTO_SKIP_ID)"

lemma sample_skip_turn:
  "advance 8 ''919812345678'' (Some Awaiting_photo) (Some sample_c3) sample_skip None =
   Inr (fsm_act Processing
      (sample_c3\<lparr>cx_photo := \<lparr>pc_media_id = None, pc_mime_type = None, pc_skipped = Some True\<rparr>\<rparr>)
      (processing_wait ''919812345678'') Start_pipeline False)"
proof -
  have p: "parse_confirm_reply (Some PHOTO_SKIP_ID) = (Some PHOTO_SKIP_ID, None)"
    by (simp add: parse_confirm_reply_def py_partition_def PHOTO_SKIP_ID_def truthy_def)
  show ?thesis
    by (simp add: advance_def advance_awaiting_photo_def has_photo_def Let_def p sample_skip_def
        sample_in_def)
qed


theorem advance_raises_only_witness:
  "advance 0 ''919812345678'' None None sample_location None = Inl TypeError \<and>
   in_location_longitude sample_location = None"
proof -
  have "advance 0 ''919812345678'' None None sample_location None = Inl TypeError"
    by (simp add: advance_def advance_initial_def stage_location_and_confirm_def is_location_def
        address_text_def raw_coordinates_def Let_def sample_location_def sample_in_def)
  with advance_raises_only [OF dialog.start this] show ?thesis by simp
qed

theorem stale_location_tap_ignored_witness:
  "in_reply_id sample_yes = Some (button_id CONFIRM_YES_ID (Some ''w1''))"
proof -
  have "\<not> is_location sample_yes" by (simp add: is_location_def sample_yes_def sample_in_def)
  from stale_location_tap_ignored [OF sample_token _ this sample_yes_turn] show ?thesis by simp
qed

theorem confirmation_card_bound_to_draft_witness:
  "in_reply_id (sample_in ''w6'' ''interactive'' None (Some (button_id CONFIRM_GRV_YES_ID (Some ''g1''))))
   = Some (button_id CONFIRM_GRV_YES_ID (Some ''g1''))"
proof -
  let ?i = "sample_in ''w6'' ''interactive'' None (Some (button_id CONFIRM_GRV_YES_ID (Some ''g1'')))"
  let ?c = "sample_c3\<lparr>cx_draft := Some \<lparr>dc_grievance_id = Some ''g1'', dc_recheck_count = Some 0\<rparr>\<rparr>"
  have p: "parse_confirm_reply (in_reply_id ?i) = (Some CONFIRM_GRV_YES_ID, Some ''g1'')"
    unfolding sample_in_def by (simp add: parse_button_id ids_no_colon)
  have "advance 9 ''919812345678'' (Some Awaiting_confirmation) (Some ?c) ?i None =
      Inr (fsm_act Done (prepare_context (Some ?c)) [] Finalize True)"
    by (simp add: advance_def advance_awaiting_confirmation_def the_draft_prepare p Let_def)
  from confirmation_card_bound_to_draft [OF _ _ this, of "''g1''"] show ?thesis by simp
qed

theorem issue_messages_accumulate_witness:
  "ic_messages (cx_issue (collect_issue ''919812345678'' sample_c3 [sample_issue, sample_issue])) =
   Some [issue_entry sample_issue, issue_entry sample_issue, issue_entry sample_issue]"
  using issue_messages_accumulate [of sample_c3 "[issue_entry sample_issue]" "[sample_issue, sample_issue]"]
  by (simp add: sample_c3_def sample_issue_def sample_in_def ISSUE_CONTENT_TYPES_def)

end
