(* ===== verification/ReposChat.thy ===== *)
theory ReposChat
  imports Conversation Contracts
begin

text \<open>
  \<^verbatim>\<open>repositories/contacts.py\<close>, \<^verbatim>\<open>conversations.py\<close>, \<^verbatim>\<open>messages.py\<close> and
  \<^verbatim>\<open>webhook_events.py\<close>: the statements on the chat tables, each a function from the database
  to its result and the new database. \<open>now\<close> is the clock reading of the call. A statement
  guarded by a unique key or by a lease is an instance of a contract of \<open>Contracts\<close>.
\<close>

section \<open>Contacts\<close>

definition upsert_contact :: "time \<Rightarrow> string \<Rightarrow> string option \<Rightarrow> db \<Rightarrow> contact \<times> db" where
  "upsert_contact now wa_id profile_name d =
     (case tget ct_wa_id wa_id (db_contacts d) of
        Some c \<Rightarrow>
          let c' = c\<lparr>ct_updated_at := now,
                      ct_profile_name := (if profile_name = None then ct_profile_name c
                                          else profile_name)\<rparr>
          in (c', d\<lparr>db_contacts := tupd (\<lambda>r. ct_wa_id r = wa_id) (\<lambda>_. c') (db_contacts d)\<rparr>)
      | None \<Rightarrow>
          let (i, d1) = new_id d;
              c = \<lparr>ct_id = i, ct_wa_id = wa_id, ct_profile_name = profile_name,
                   ct_created_at = now, ct_updated_at = now\<rparr>
          in (c, d1\<lparr>db_contacts := db_contacts d1 @ [c]\<rparr>))"

definition get_contact :: "uuid \<Rightarrow> db \<Rightarrow> contact option" where
  "get_contact contact_id d = tget ct_id contact_id (db_contacts d)"

definition list_contacts :: "nat \<Rightarrow> nat \<Rightarrow> db \<Rightarrow> contact list" where
  "list_contacts limit offset d =
     take limit (drop offset (order_by_desc ct_updated_at (db_contacts d)))"

section \<open>Conversations\<close>

text \<open>Serialising the messages of one contact is the row lock; the result is the active
  conversation that has not expired.\<close>

definition lock_contact_and_get_conversation ::
    "time \<Rightarrow> uuid \<Rightarrow> db \<Rightarrow> exn + (conversation option \<times> db)" where
  "lock_contact_and_get_conversation now contact_id d =
     bindE (scalar_one_or_none
              (filter (\<lambda>v. cv_contact_id v = contact_id \<and> cv_active v) (db_conversations d)))
       (\<lambda>found.
          case found of
            None \<Rightarrow> Inr (None, d)
          | Some v \<Rightarrow>
              (case cv_expires_at v of
                 Some t \<Rightarrow>
                   if t < now then
                     Inr (None, d\<lparr>db_conversations :=
                       tupd (\<lambda>r. cv_id r = cv_id v) (\<lambda>r. r\<lparr>cv_active := False\<rparr>)
                         (db_conversations d)\<rparr>)
                   else Inr (Some v, d)
               | None \<Rightarrow> Inr (Some v, d)))"

definition consumed :: "string \<Rightarrow> db \<Rightarrow> bool" where
  "consumed mid d = (\<exists>r \<in> set (db_consumptions d). fc_inbound_message_id r = mid)"

definition claim_inbound :: "string \<Rightarrow> db \<Rightarrow> bool \<times> db" where
  "claim_inbound mid d =
     (if consumed mid d then (False, d)
      else
        let (i, d1) = new_id d in
        (True, d1\<lparr>db_consumptions := db_consumptions d1 @
           [\<lparr>fc_id = i, fc_inbound_message_id = mid, fc_conversation_id = None,
             fc_state_before = None, fc_state_after = None\<rparr>]\<rparr>))"

definition annotate_consumption ::
    "string \<Rightarrow> uuid option \<Rightarrow> conv_state option \<Rightarrow> conv_state option \<Rightarrow> db \<Rightarrow> db" where
  "annotate_consumption mid conversation_id state_before state_after d =
     d\<lparr>db_consumptions :=
        tupd (\<lambda>r. fc_inbound_message_id r = mid)
          (\<lambda>r. r\<lparr>fc_conversation_id := conversation_id, fc_state_before := state_before,
                  fc_state_after := state_after\<rparr>) (db_consumptions d)\<rparr>"

definition upsert_conversation_state ::
    "time \<Rightarrow> conversation option \<Rightarrow> uuid \<Rightarrow> conv_state \<Rightarrow> conv_context \<Rightarrow> time \<Rightarrow> nat \<Rightarrow> nat \<Rightarrow> db
     \<Rightarrow> conversation \<times> db" where
  "upsert_conversation_state now conv contact_id state ctx last_user_message_at ttl_hours
       service_window_hours d =
     (case conv of
        None \<Rightarrow>
          let (i, d1) = new_id d;
              v = \<lparr>cv_id = i, cv_contact_id = contact_id, cv_state = state, cv_context = ctx,
                   cv_state_version = 0, cv_active = True,
                   cv_last_user_message_at = Some last_user_message_at,
                   cv_service_window_expires_at =
                     Some (last_user_message_at + hours (int service_window_hours)),
                   cv_expires_at = Some (now + hours (int ttl_hours))\<rparr>
          in (v, d1\<lparr>db_conversations := db_conversations d1 @ [v]\<rparr>)
      | Some v0 \<Rightarrow>
          let v = v0\<lparr>cv_state := state, cv_context := ctx,
                      cv_state_version := cv_state_version v0 + 1,
                      cv_last_user_message_at := Some last_user_message_at,
                      cv_service_window_expires_at :=
                        Some (last_user_message_at + hours (int service_window_hours)),
                      cv_expires_at := Some (now + hours (int ttl_hours))\<rparr>
          in (v, d\<lparr>db_conversations :=
                    tupd (\<lambda>r. cv_id r = cv_id v0) (\<lambda>_. v) (db_conversations d)\<rparr>))"

section \<open>Messages\<close>

definition meta_id_stored :: "string \<Rightarrow> db \<Rightarrow> bool" where
  "meta_id_stored mid d = (\<exists>r \<in> set (db_messages d). ms_meta_message_id r = Some mid)"

definition incoming_row :: "time \<Rightarrow> uuid \<Rightarrow> uuid \<Rightarrow> incoming \<Rightarrow> message" where
  "incoming_row now i contact_id m =
     \<lparr>ms_id = i, ms_contact_id = Some contact_id,
      ms_meta_message_id = Some (in_meta_message_id m), ms_direction = Incoming,
      ms_message_type = in_message_type m, ms_text_body = in_text_body m,
      ms_media_id = in_media_id m, ms_media_mime_type = in_media_mime_type m,
      ms_location_latitude = in_location_latitude m,
      ms_location_longitude = in_location_longitude m,
      ms_location_name = in_location_name m, ms_location_address = in_location_address m,
      ms_location_url = in_location_url m, ms_raw_payload = in_raw_payload m,
      ms_received_at = in_received_at m, ms_reply_id = in_reply_id m,
      ms_interactive_type = in_interactive_type m, ms_button_payload = in_button_payload m,
      ms_context_message_id = in_context_message_id m, ms_status = Ms_received,
      ms_idempotency_key = None, ms_reply_kind = None, ms_conversation_id = None,
      ms_in_response_to = None, ms_locked_until = None, ms_attempt_count = 0,
      ms_created_at = now\<rparr>"

definition store_incoming :: "time \<Rightarrow> incoming \<Rightarrow> db \<Rightarrow> bool \<times> db" where
  "store_incoming now m d =
     (let (contact, d1) = upsert_contact now (in_wa_id m) (in_profile_name m) d in
      if meta_id_stored (in_meta_message_id m) d1 then (False, d1)
      else
        let (i, d2) = new_id d1 in
        (True, d2\<lparr>db_messages := db_messages d2 @ [incoming_row now i (ct_id contact) m]\<rparr>))"

text \<open>The \<^verbatim>\<open>created\<close> flags, in the order of the messages.\<close>

fun store_incoming_messages :: "time \<Rightarrow> incoming list \<Rightarrow> db \<Rightarrow> bool list \<times> db" where
  "store_incoming_messages now [] d = ([], d)"
| "store_incoming_messages now (m # ms) d =
     (let (created, d1) = store_incoming now m d;
          (flags, d2) = store_incoming_messages now ms d1
      in (created # flags, d2))"

definition key_stored :: "string \<Rightarrow> db \<Rightarrow> bool" where
  "key_stored key d = (\<exists>r \<in> set (db_messages d). ms_idempotency_key r = Some key)"

record outgoing =
  og_contact_id :: uuid
  og_conversation_id :: "uuid option"
  og_reply_kind :: string
  og_message_type :: string
  og_text_body :: "string option"
  og_payload :: json
  og_in_response_to :: "string option"

definition outgoing_row :: "time \<Rightarrow> uuid \<Rightarrow> string \<Rightarrow> outgoing \<Rightarrow> message" where
  "outgoing_row now i key g =
     \<lparr>ms_id = i, ms_contact_id = Some (og_contact_id g), ms_meta_message_id = None,
      ms_direction = Outgoing, ms_message_type = og_message_type g,
      ms_text_body = og_text_body g, ms_media_id = None, ms_media_mime_type = None,
      ms_location_latitude = None, ms_location_longitude = None, ms_location_name = None,
      ms_location_address = None, ms_location_url = None, ms_raw_payload = og_payload g,
      ms_received_at = now, ms_reply_id = None, ms_interactive_type = None,
      ms_button_payload = None, ms_context_message_id = None, ms_status = Ms_pending,
      ms_idempotency_key = Some key, ms_reply_kind = Some (og_reply_kind g),
      ms_conversation_id = og_conversation_id g, ms_in_response_to = og_in_response_to g,
      ms_locked_until = None, ms_attempt_count = 0, ms_created_at = now\<rparr>"

text \<open>The identifier of the new row, or \<open>None\<close> when the key is taken.\<close>

definition store_outgoing_pending :: "time \<Rightarrow> string \<Rightarrow> outgoing \<Rightarrow> db \<Rightarrow> uuid option \<times> db" where
  "store_outgoing_pending now key g d =
     (if key_stored key d then (None, d)
      else
        let (i, d1) = new_id d in
        (Some i, d1\<lparr>db_messages := db_messages d1 @ [outgoing_row now i key g]\<rparr>))"

definition store_outgoing_message ::
    "time \<Rightarrow> string \<Rightarrow> string option \<Rightarrow> string \<Rightarrow> json \<Rightarrow> db \<Rightarrow> exn + (message \<times> db)" where
  "store_outgoing_message now wa_id meta_id text_body raw_payload d =
     (let (contact, d1) = upsert_contact now wa_id None d;
          (i, d2) = new_id d1;
          row = \<lparr>ms_id = i, ms_contact_id = Some (ct_id contact), ms_meta_message_id = meta_id,
                 ms_direction = Outgoing, ms_message_type = ''text'',
                 ms_text_body = Some text_body, ms_media_id = None, ms_media_mime_type = None,
                 ms_location_latitude = None, ms_location_longitude = None,
                 ms_location_name = None, ms_location_address = None, ms_location_url = None,
                 ms_raw_payload = raw_payload, ms_received_at = now, ms_reply_id = None,
                 ms_interactive_type = None, ms_button_payload = None,
                 ms_context_message_id = None, ms_status = Ms_received,
                 ms_idempotency_key = None, ms_reply_kind = None, ms_conversation_id = None,
                 ms_in_response_to = None, ms_locked_until = None, ms_attempt_count = 0,
                 ms_created_at = now\<rparr>
      in case meta_id of
           Some mid \<Rightarrow> if meta_id_stored mid d2 then Inl IntegrityError
                        else Inr (row, d2\<lparr>db_messages := db_messages d2 @ [row]\<rparr>)
         | None \<Rightarrow> Inr (row, d2\<lparr>db_messages := db_messages d2 @ [row]\<rparr>))"

definition list_messages :: "nat \<Rightarrow> string option \<Rightarrow> db \<Rightarrow> message list" where
  "list_messages limit wa_id d =
     take limit (order_by_desc ms_received_at
       (filter (\<lambda>m. truthy wa_id \<longrightarrow>
                  (\<exists>c \<in> set (db_contacts d). ms_contact_id m = Some (ct_id c) \<and> Some (ct_wa_id c) = wa_id))
          (db_messages d)))"

text \<open>The condition of the outbound lease: pending, or sending with an expired lease.\<close>

definition sendable :: "time \<Rightarrow> message \<Rightarrow> bool" where
  "sendable now r =
     (ms_direction r = Outgoing \<and>
      (ms_status r = Ms_pending \<or>
       ms_status r = Ms_sending \<and> (case ms_locked_until r of None \<Rightarrow> False | Some t \<Rightarrow> t < now)))"

definition claim_outbound :: "time \<Rightarrow> uuid \<Rightarrow> nat \<Rightarrow> db \<Rightarrow> bool \<times> db" where
  "claim_outbound now message_id lease_seconds d =
     (let hit = (\<lambda>r. ms_id r = message_id \<and> sendable now r) in
      (list_ex hit (db_messages d),
       d\<lparr>db_messages := tupd hit
          (\<lambda>r. r\<lparr>ms_status := Ms_sending,
                  ms_locked_until := Some (now + seconds (int lease_seconds)),
                  ms_attempt_count := ms_attempt_count r + 1\<rparr>) (db_messages d)\<rparr>))"

definition mark_outbound :: "uuid \<Rightarrow> msg_status \<Rightarrow> string option \<Rightarrow> db \<Rightarrow> db" where
  "mark_outbound message_id status meta_id d =
     d\<lparr>db_messages := tupd (\<lambda>r. ms_id r = message_id)
        (\<lambda>r. r\<lparr>ms_status := status, ms_locked_until := None,
                ms_meta_message_id := (if meta_id = None then ms_meta_message_id r else meta_id)\<rparr>)
        (db_messages d)\<rparr>"

definition fetch_sweepable_outbound :: "time \<Rightarrow> nat \<Rightarrow> db \<Rightarrow> uuid list" where
  "fetch_sweepable_outbound now limit d =
     take limit (map ms_id (order_by ms_created_at (filter (sendable now) (db_messages d))))"

section \<open>Webhook events\<close>

definition store_webhook_event :: "time \<Rightarrow> jobject \<Rightarrow> bool \<Rightarrow> db \<Rightarrow> uuid \<times> db" where
  "store_webhook_event now payload signature_valid d =
     (let (i, d1) = new_id d in
      (i, d1\<lparr>db_events := db_events d1 @
        [\<lparr>we_id = i, we_signature_valid = signature_valid, we_payload = payload,
          we_created_at = now, we_processed_at = None, we_attempt_count = 0,
          we_locked_until = None\<rparr>]\<rparr>))"

definition mark_event_processed :: "time \<Rightarrow> uuid \<Rightarrow> db \<Rightarrow> db" where
  "mark_event_processed now event_id d =
     d\<lparr>db_events := tupd (\<lambda>e. we_id e = event_id)
        (\<lambda>e. e\<lparr>we_processed_at := Some now, we_locked_until := None\<rparr>) (db_events d)\<rparr>"

definition drivable :: "time \<Rightarrow> webhook_event \<Rightarrow> bool" where
  "drivable now e =
     (we_processed_at e = None \<and>
      (case we_locked_until e of None \<Rightarrow> True | Some t \<Rightarrow> t < now))"

text \<open>The payload and the attempt count after the claim.\<close>

definition claim_event :: "time \<Rightarrow> uuid \<Rightarrow> nat \<Rightarrow> db \<Rightarrow> (jobject \<times> nat) option \<times> db" where
  "claim_event now event_id lease_seconds d =
     (let hit = (\<lambda>e. we_id e = event_id \<and> drivable now e);
          d' = d\<lparr>db_events := tupd hit
                  (\<lambda>e. e\<lparr>we_locked_until := Some (now + seconds (int lease_seconds)),
                          we_attempt_count := we_attempt_count e + 1\<rparr>) (db_events d)\<rparr>
      in (map_option (\<lambda>e. (we_payload e, we_attempt_count e + 1)) (find hit (db_events d)), d'))"

definition fetch_unprocessed_event_ids :: "time \<Rightarrow> nat \<Rightarrow> db \<Rightarrow> uuid list" where
  "fetch_unprocessed_event_ids now limit d =
     take limit (map we_id (order_by we_created_at (filter (drivable now) (db_events d))))"

section \<open>Contracts\<close>

text \<open>Primary keys are unique.\<close>

definition message_ids :: "db \<Rightarrow> bool" where
  "message_ids d = distinct (map ms_id (db_messages d))"

definition event_ids :: "db \<Rightarrow> bool" where
  "event_ids d = distinct (map we_id (db_events d))"

definition outbound_free :: "time \<Rightarrow> uuid \<Rightarrow> db \<Rightarrow> bool" where
  "outbound_free now i d = (\<exists>r. tget ms_id i (db_messages d) = Some r \<and> sendable now r)"

definition outbound_attempts :: "uuid \<Rightarrow> db \<Rightarrow> nat" where
  "outbound_attempts i d = (case tget ms_id i (db_messages d) of None \<Rightarrow> 0 | Some r \<Rightarrow> ms_attempt_count r)"

definition event_free :: "time \<Rightarrow> uuid \<Rightarrow> db \<Rightarrow> bool" where
  "event_free now i d = (\<exists>e. tget we_id i (db_events d) = Some e \<and> drivable now e)"

definition event_attempts :: "uuid \<Rightarrow> db \<Rightarrow> nat" where
  "event_attempts i d = (case tget we_id i (db_events d) of None \<Rightarrow> 0 | Some e \<Rightarrow> we_attempt_count e)"

lemma key_hit: "distinct (map key t) \<Longrightarrow> list_ex (\<lambda>r. key r = k \<and> P r) t \<longleftrightarrow> (\<exists>r. tget key k t = Some r \<and> P r)"
  by (auto simp: list_ex_iff tget_unique dest: tget_SomeD)

lemma find_key_hit: "find (\<lambda>r. key r = k \<and> P r) t = None \<longleftrightarrow> \<not> list_ex (\<lambda>r. key r = k \<and> P r) t"
  by (auto simp: find_None_iff list_ex_iff)

lemma find_key_Some:
  "distinct (map key t) \<Longrightarrow> find (\<lambda>r. key r = k \<and> P r) t = Some r \<longleftrightarrow> tget key k t = Some r \<and> P r"
  by (induction t) (auto simp: tget_Cons find_None_iff image_iff dest!: tget_SomeD)

lemma tupd_hit_none: "\<not> list_ex P t \<Longrightarrow> tupd P f t = t"
  by (rule tupd_none) (simp add: list_ex_iff)

lemma claim_outbound_tget:
  "tget ms_id i (db_messages (snd (claim_outbound now i n d))) =
   map_option (\<lambda>r. if sendable now r then r\<lparr>ms_status := Ms_sending,
       ms_locked_until := Some (now + seconds (int n)), ms_attempt_count := ms_attempt_count r + 1\<rparr> else r)
     (tget ms_id i (db_messages d))"
  using tget_SomeD [of ms_id i "db_messages d"]
  by (cases "tget ms_id i (db_messages d)") (auto simp: claim_outbound_def Let_def tget_tupd)

interpretation ob: row_lease "\<lambda>now i d. claim_outbound now i n d" outbound_free message_ids
    "seconds (int n)" outbound_attempts
  for n
proof unfold_locales
  fix d now i t
  assume inv: "message_ids d"
  show "fst (claim_outbound now i n d) = outbound_free now i d"
    using inv key_hit [of ms_id "db_messages d" i]
    by (simp add: claim_outbound_def outbound_free_def message_ids_def Let_def)
  show "snd (claim_outbound now i n d) = d" if "\<not> outbound_free now i d"
    using inv that key_hit [of ms_id "db_messages d" i]
    by (simp add: claim_outbound_def outbound_free_def message_ids_def Let_def tupd_hit_none)
  show "message_ids (snd (claim_outbound now i n d))"
    using inv by (simp add: claim_outbound_def message_ids_def Let_def)
  show "\<not> outbound_free t i (snd (claim_outbound now i n d))"
    if "outbound_free now i d" "t \<le> now + seconds (int n)"
    using that by (auto simp: outbound_free_def claim_outbound_tget) (simp add: sendable_def)
  show "outbound_attempts i (snd (claim_outbound now i n d)) = Suc (outbound_attempts i d)"
    if "outbound_free now i d"
    using that by (auto simp: outbound_free_def outbound_attempts_def claim_outbound_tget)
qed

lemma claim_event_tget:
  "tget we_id i (db_events (snd (claim_event now i n d))) =
   map_option (\<lambda>e. if drivable now e then e\<lparr>we_locked_until := Some (now + seconds (int n)),
       we_attempt_count := we_attempt_count e + 1\<rparr> else e) (tget we_id i (db_events d))"
  using tget_SomeD [of we_id i "db_events d"]
  by (cases "tget we_id i (db_events d)") (auto simp: claim_event_def Let_def tget_tupd)

definition claim_event_won :: "time \<Rightarrow> uuid \<Rightarrow> nat \<Rightarrow> db \<Rightarrow> bool \<times> db" where
  "claim_event_won now i n d = (case claim_event now i n d of (c, d') \<Rightarrow> (c \<noteq> None, d'))"

interpretation ev: row_lease "\<lambda>now i d. claim_event_won now i n d" event_free event_ids
    "seconds (int n)" event_attempts
  for n
proof unfold_locales
  fix d now i t
  assume inv: "event_ids d"
  have snd: "snd (claim_event_won now i n d) = snd (claim_event now i n d)"
    by (simp add: claim_event_won_def case_prod_beta)
  have hit: "list_ex (\<lambda>e. we_id e = i \<and> drivable now e) (db_events d) = event_free now i d"
    using inv key_hit [of we_id "db_events d" i] by (simp add: event_free_def event_ids_def)
  show "fst (claim_event_won now i n d) = event_free now i d"
    using hit find_key_hit [of we_id i "drivable now" "db_events d"]
    by (auto simp: claim_event_won_def claim_event_def Let_def simp del: not_None_eq)
  show "snd (claim_event_won now i n d) = d" if "\<not> event_free now i d"
    using that hit by (simp add: snd claim_event_def Let_def tupd_hit_none)
  show "event_ids (snd (claim_event_won now i n d))"
    using inv by (simp add: snd claim_event_def event_ids_def Let_def)
  show "\<not> event_free t i (snd (claim_event_won now i n d))"
    if "event_free now i d" "t \<le> now + seconds (int n)"
    using that by (auto simp: event_free_def snd claim_event_tget) (simp add: drivable_def)
  show "event_attempts i (snd (claim_event_won now i n d)) = Suc (event_attempts i d)"
    if "event_free now i d"
    using that by (auto simp: event_free_def event_attempts_def snd claim_event_tget)
qed

interpretation inbound: unique_insert "\<lambda>_ :: unit. claim_inbound" consumed "\<lambda>_. True"
  by unfold_locales (auto simp: claim_inbound_def consumed_def new_id_def Let_def)

definition outgoing_stored :: "time \<times> outgoing \<Rightarrow> string \<Rightarrow> db \<Rightarrow> bool \<times> db" where
  "outgoing_stored a key d =
     (case store_outgoing_pending (fst a) key (snd a) d of (r, d') \<Rightarrow> (r \<noteq> None, d'))"

interpretation outgoing: unique_insert outgoing_stored key_stored "\<lambda>_. True"
  by unfold_locales
    (auto simp: outgoing_stored_def store_outgoing_pending_def key_stored_def new_id_def
        outgoing_row_def Let_def)

section \<open>Storing a replayed webhook\<close>

lemma upsert_contact_messages [simp]: "db_messages (snd (upsert_contact now w p d)) = db_messages d"
  by (auto simp: upsert_contact_def new_id_def Let_def split: option.splits)

lemma store_incoming_iff: "fst (store_incoming now m d) \<longleftrightarrow> \<not> meta_id_stored (in_meta_message_id m) d"
  by (simp add: store_incoming_def new_id_def meta_id_stored_def Let_def case_prod_beta)

lemma store_incoming_stores: "meta_id_stored (in_meta_message_id m) (snd (store_incoming now m d))"
  by (auto simp: store_incoming_def new_id_def meta_id_stored_def incoming_row_def Let_def case_prod_beta)

lemma store_incoming_mono: "meta_id_stored k d \<Longrightarrow> meta_id_stored k (snd (store_incoming now m d))"
  by (auto simp: store_incoming_def new_id_def meta_id_stored_def Let_def case_prod_beta)

lemma store_incoming_messages_mono:
  "meta_id_stored k d \<Longrightarrow> meta_id_stored k (snd (store_incoming_messages now ms d))"
  by (induction ms arbitrary: d) (auto simp: Let_def case_prod_beta store_incoming_mono)

lemma store_incoming_messages_stores:
  "m \<in> set ms \<Longrightarrow> meta_id_stored (in_meta_message_id m) (snd (store_incoming_messages now ms d))"
  by (induction ms arbitrary: d)
    (auto simp: Let_def case_prod_beta store_incoming_stores store_incoming_messages_mono)

lemma store_incoming_messages_replay:
  "(\<And>m. m \<in> set ms \<Longrightarrow> meta_id_stored (in_meta_message_id m) d) \<Longrightarrow>
   fst (store_incoming_messages now ms d) = replicate (length ms) False"
  by (induction ms arbitrary: d) (auto simp: Let_def case_prod_beta store_incoming_iff store_incoming_mono)

lemma store_incoming_messages_length [simp]:
  "length (fst (store_incoming_messages now ms d)) = length ms"
  by (induction ms arbitrary: d) (simp_all add: Let_def case_prod_beta)

text \<open>Among any number of workers that try to lease one pending reply, the first one wins and
  every other attempt until the lease runs out fails; the attempt counter counts exactly the
  successful claims.\<close>

theorem outbound_lease_exclusive:
  assumes "message_ids d"
  shows "outbound_attempts i (attempts_state (\<lambda>t. claim_outbound t i n) ts d) =
           outbound_attempts i d + length (attempts_won (\<lambda>t. claim_outbound t i n) ts d) \<and>
         (outbound_free now i d \<and> (\<forall>t \<in> set ts. t \<le> now + seconds (int n)) \<longrightarrow>
           attempts_won (\<lambda>t. claim_outbound t i n) (now # ts) d = [now])"
  using ob.attempts_exact [where n = n and k = i and ts = ts, OF assms]
    ob.lease_excludes [where n = n and k = i and ts = ts and now = now, OF assms] by blast

text \<open>A webhook event is claimed by one caller at a time: of the in-request task and any number
  of worker sweeps, the first to claim it excludes the others for the length of the lease, and the
  attempt counter counts exactly the claims that succeeded.\<close>

theorem event_lease_exclusive:
  assumes "event_ids d"
  shows "event_attempts i (attempts_state (\<lambda>t. claim_event_won t i n) ts d) =
           event_attempts i d + length (attempts_won (\<lambda>t. claim_event_won t i n) ts d) \<and>
         (event_free now i d \<and> (\<forall>t \<in> set ts. t \<le> now + seconds (int n)) \<longrightarrow>
           attempts_won (\<lambda>t. claim_event_won t i n) (now # ts) d = [now])"
  using ev.attempts_exact [where n = n and k = i and ts = ts, OF assms]
    ev.lease_excludes [where n = n and k = i and ts = ts and now = now, OF assms] by blast

text \<open>Replays: of any sequence of attempts to consume one inbound message, or to store a reply
  under one idempotency key, at most one succeeds, and the later ones leave the database as it is.\<close>

theorem replay_consumed_once:
  "length (attempts_won (\<lambda>_ :: unit. claim_inbound mid) us d) \<le> 1 \<and>
   length (attempts_won (\<lambda>a. outgoing_stored a key) gs d) \<le> 1 \<and>
   claim_inbound mid (snd (claim_inbound mid d)) = (False, snd (claim_inbound mid d)) \<and>
   (\<forall>a b. outgoing_stored b key (snd (outgoing_stored a key d)) =
      (False, snd (outgoing_stored a key d)))"
  using inbound.at_most_once [where d = d and k = mid and as = us]
    outgoing.at_most_once [where d = d and k = key and as = gs]
    inbound.replay_is_noop outgoing.replay_is_noop by simp

section \<open>Witnesses\<close>

definition sample_reply :: outgoing where
  "sample_reply =
     \<lparr>og_contact_id = ''c1'', og_conversation_id = None, og_reply_kind = ''cancelled'',
      og_message_type = ''text'', og_text_body = Some ''ok'',
      og_payload = build_text_payload ''91'' ''ok'', og_in_response_to = None\<rparr>"

definition sample_chat_db :: db where
  "sample_chat_db = snd (store_webhook_event 0 [] True
     (snd (store_outgoing_pending 0 ''k1'' sample_reply empty_db)))"

lemma sample_chat_tables:
  "db_messages sample_chat_db = [outgoing_row 0 (uuid_str 0) ''k1'' sample_reply]"
  "map we_id (db_events sample_chat_db) = [uuid_str 1]"
  "drivable 5 (hd (db_events sample_chat_db))"
  by (simp_all add: sample_chat_db_def store_outgoing_pending_def store_webhook_event_def key_stored_def
      empty_db_def new_id_def Let_def drivable_def)

lemma sample_chat_ids: "message_ids sample_chat_db" "event_ids sample_chat_db"
  by (simp_all add: message_ids_def event_ids_def sample_chat_tables)

lemma sample_chat_free: "outbound_free 5 (uuid_str 0) sample_chat_db"
    "event_free 5 (uuid_str 1) sample_chat_db"
proof -
  show "outbound_free 5 (uuid_str 0) sample_chat_db"
    by (simp add: outbound_free_def sample_chat_tables outgoing_row_def tget_Cons sendable_def)
  obtain e where "db_events sample_chat_db = [e]" "we_id e = uuid_str 1"
    using sample_chat_tables(2) by auto
  then show "event_free 5 (uuid_str 1) sample_chat_db"
    using sample_chat_tables(3) by (simp add: event_free_def tget_Cons)
qed

theorem outbound_lease_exclusive_witness:
  "attempts_won (\<lambda>t. claim_outbound t (uuid_str 0) 30) [5, 6, 20000000] sample_chat_db = [5]"
  using outbound_lease_exclusive [OF sample_chat_ids(1), where n = 30 and i = "uuid_str 0" and now = 5
      and ts = "[6, 20000000]"] sample_chat_free
  by (simp add: time_defs del: attempts_won.simps)

theorem event_lease_exclusive_witness:
  "attempts_won (\<lambda>t. claim_event_won t (uuid_str 1) 60) [5, 6, 20000000] sample_chat_db = [5]"
  using event_lease_exclusive [OF sample_chat_ids(2), where n = 60 and i = "uuid_str 1" and now = 5
      and ts = "[6, 20000000]"] sample_chat_free
  by (simp add: time_defs del: attempts_won.simps)

end
