(* ===== verification/Config.thy ===== *)
theory Config
  imports Prelude
begin

text \<open>
  \<^verbatim>\<open>config.py\<close>: the settings, their validators, and the checks made at startup. A secret is
  its text, an unset secret is \<open>None\<close>. Durations given as floats are in microseconds.
\<close>

datatype environment = Development | Test | Staging | Production

datatype dispatcher_kind = Mock_api | Smtp

record settings =
  s_environment :: environment
  s_postgres_host :: string
  s_postgres_port :: nat
  s_postgres_db :: string
  s_postgres_user :: string
  s_postgres_password :: string
  s_database_url :: "string option"
  s_whatsapp_verify_token :: string
  s_whatsapp_app_secret :: "string option"
  s_whatsapp_access_token :: "string option"
  s_whatsapp_phone_number_id :: "string option"
  s_public_wa_number :: "string option"
  s_api_key :: "string option"
  s_auto_reply_enabled :: bool
  s_worker_batch_size :: nat
  s_geocoder_provider :: string
  s_geocoder_min_interval :: time
  s_geocoder_language :: string
  s_conversation_ttl_hours :: nat
  s_service_window_hours :: nat
  s_sarvam_api_key :: "string option"
  s_sarvam_model :: string
  s_sarvam_min_interval :: time
  s_google_api_key :: "string option"
  s_google_base_url :: string
  s_google_models :: string
  s_google_min_interval :: time
  s_groq_api_key :: "string option"
  s_groq_base_url :: string
  s_groq_models :: string
  s_groq_min_interval :: time
  s_openrouter_api_key :: "string option"
  s_openrouter_base_url :: string
  s_openrouter_models :: string
  s_openrouter_min_interval :: time
  s_dedup_window_hours :: nat
  s_dedup_radius_m :: real
  s_image_recheck_cap :: nat
  s_dispatcher :: dispatcher_kind
  s_upload_dir :: string
  s_max_audio_bytes :: nat
  s_max_image_bytes :: nat
  s_jwt_secret :: string
  s_access_token_minutes :: nat
  s_refresh_token_days :: nat
  s_verification_code_ttl_minutes :: nat
  s_verification_max_per_hour :: nat
  s_official_code_max_per_hour :: nat
  s_official_dev_login_code :: "string option"
  s_cors_origins :: string

definition DEV_POSTGRES_PASSWORD :: string where
  "DEV_POSTGRES_PASSWORD = ''jan_setu_dev_password''"
definition DEV_VERIFY_TOKEN :: string where "DEV_VERIFY_TOKEN = ''dev_verify_token''"
definition DEV_JWT_SECRET :: string where
  "DEV_JWT_SECRET = ''jan_setu_local_jwt_secret_only_change_me_32''"
definition MIN_JWT_SECRET_BYTES :: nat where "MIN_JWT_SECRET_BYTES = 32"

definition deployed :: "settings \<Rightarrow> bool" where
  "deployed s = (s_environment s \<in> {Staging, Production})"

section \<open>Validators\<close>

definition validate_jwt_secret :: "settings \<Rightarrow> exn + settings" where
  "validate_jwt_secret s =
     (if length (s_jwt_secret s) < MIN_JWT_SECRET_BYTES then Inl ValueError
      else if deployed s \<and> s_jwt_secret s = DEV_JWT_SECRET then Inl ValueError
      else Inr s)"

definition reject_dev_login_code_outside_dev :: "settings \<Rightarrow> exn + settings" where
  "reject_dev_login_code_outside_dev s =
     (if s_official_dev_login_code s \<noteq> None \<and> s_environment s \<notin> {Development, Test}
      then Inl ValueError else Inr s)"

definition empty_to_none :: "string option \<Rightarrow> string option" where
  "empty_to_none v = (if v = Some [] then None else v)"

text \<open>The field validators, which run before the model validators.\<close>

definition empty_secrets_to_none :: "settings \<Rightarrow> settings" where
  "empty_secrets_to_none s =
     s\<lparr>s_whatsapp_app_secret := empty_to_none (s_whatsapp_app_secret s),
       s_whatsapp_access_token := empty_to_none (s_whatsapp_access_token s),
       s_api_key := empty_to_none (s_api_key s),
       s_sarvam_api_key := empty_to_none (s_sarvam_api_key s),
       s_google_api_key := empty_to_none (s_google_api_key s),
       s_groq_api_key := empty_to_none (s_groq_api_key s),
       s_openrouter_api_key := empty_to_none (s_openrouter_api_key s),
       s_official_dev_login_code := empty_to_none (s_official_dev_login_code s),
       s_database_url := empty_to_none (s_database_url s),
       s_whatsapp_phone_number_id := empty_to_none (s_whatsapp_phone_number_id s),
       s_public_wa_number := empty_to_none (s_public_wa_number s)\<rparr>"

definition load_settings :: "settings \<Rightarrow> exn + settings" where
  "load_settings raw =
     bindE (validate_jwt_secret (empty_secrets_to_none raw)) reject_dev_login_code_outside_dev"

section \<open>Derived values\<close>

definition sqlalchemy_database_url :: "settings \<Rightarrow> string" where
  "sqlalchemy_database_url s =
     (if truthy (s_database_url s) then the (s_database_url s)
      else ''postgresql+asyncpg://'' @ s_postgres_user s @ '':'' @ s_postgres_password s @ ''@'' @
           s_postgres_host s @ '':'' @ show_nat (s_postgres_port s) @ ''/'' @ s_postgres_db s)"

definition comma_list :: "string \<Rightarrow> string list" where
  "comma_list s = filter (\<lambda>w. w \<noteq> []) (map py_strip (py_split (CHR '','') s))"

definition cors_origin_list :: "settings \<Rightarrow> string list" where
  "cors_origin_list s = comma_list (s_cors_origins s)"

definition google_model_chain :: "settings \<Rightarrow> string list" where
  "google_model_chain s = comma_list (s_google_models s)"

definition openrouter_model_chain :: "settings \<Rightarrow> string list" where
  "openrouter_model_chain s = comma_list (s_openrouter_models s)"

definition groq_model_chain :: "settings \<Rightarrow> string list" where
  "groq_model_chain s = comma_list (s_groq_models s)"

definition insecure_production_defaults :: "settings \<Rightarrow> string list" where
  "insecure_production_defaults s =
     (if \<not> deployed s then []
      else
        (if s_postgres_password s = DEV_POSTGRES_PASSWORD
         then [''POSTGRES_PASSWORD is the dev default''] else []) @
        (if s_whatsapp_verify_token s = DEV_VERIFY_TOKEN
         then [''WHATSAPP_VERIFY_TOKEN is the dev default''] else []) @
        (if s_jwt_secret s = DEV_JWT_SECRET then [''JWT_SECRET is the dev default''] else []) @
        (if length (s_jwt_secret s) < MIN_JWT_SECRET_BYTES
         then [''JWT_SECRET is shorter than 32 bytes''] else []) @
        (if s_whatsapp_app_secret s = None then [''WHATSAPP_APP_SECRET is not set''] else []) @
        (if s_api_key s = None then [''API_KEY is not set''] else []))"

section \<open>Facts\<close>

lemma comma_list_clean: "w \<in> set (comma_list s) \<Longrightarrow> w \<noteq> []"
  by (auto simp: comma_list_def)

lemma load_settings_Inr:
  assumes "load_settings raw = Inr s"
  shows "s = empty_secrets_to_none raw \<and> 32 \<le> length (s_jwt_secret s) \<and>
         (deployed s \<longrightarrow> s_jwt_secret s \<noteq> DEV_JWT_SECRET \<and> s_official_dev_login_code s = None)"
proof -
  from assms have s: "s = empty_secrets_to_none raw"
    and a: "\<not> length (s_jwt_secret s) < MIN_JWT_SECRET_BYTES"
    and b: "\<not> (deployed s \<and> s_jwt_secret s = DEV_JWT_SECRET)"
    and c: "\<not> (s_official_dev_login_code s \<noteq> None \<and> s_environment s \<notin> {Development, Test})"
    unfolding load_settings_def validate_jwt_secret_def reject_dev_login_code_outside_dev_def
    by (auto simp: bindE_Inr_iff simp del: not_None_eq split: if_splits)
  show ?thesis
    using s a b c by (auto simp: MIN_JWT_SECRET_BYTES_def deployed_def)
qed

text \<open>Settings that load are safe to deploy as far as the boot check goes: the signing secret
  has at least 32 bytes, and in staging and production it is not the development default and no
  fixed official login code is set; the startup report then never names the signing secret, and it
  is empty outside staging and production.\<close>

theorem loaded_settings_safe:
  assumes "load_settings raw = Inr s"
  shows "32 \<le> length (s_jwt_secret s) \<and>
         (deployed s \<longrightarrow> s_jwt_secret s \<noteq> DEV_JWT_SECRET \<and> s_official_dev_login_code s = None) \<and>
         (\<not> deployed s \<longrightarrow> insecure_production_defaults s = []) \<and>
         ''JWT_SECRET is the dev default'' \<notin> set (insecure_production_defaults s) \<and>
         ''JWT_SECRET is shorter than 32 bytes'' \<notin> set (insecure_production_defaults s)"
  using load_settings_Inr [OF assms]
  by (auto simp: insecure_production_defaults_def MIN_JWT_SECRET_BYTES_def)

definition sample_settings :: settings where
  "sample_settings =
     \<lparr>s_environment = Production, s_postgres_host = ''db'', s_postgres_port = 5432,
      s_postgres_db = ''jan_setu'', s_postgres_user = ''app'', s_postgres_password = ''pw'',
      s_database_url = None, s_whatsapp_verify_token = ''vt'', s_whatsapp_app_secret = Some ''as'',
      s_whatsapp_access_token = Some ''tk'', s_whatsapp_phone_number_id = Some ''1'',
      s_public_wa_number = Some ''2'', s_api_key = Some ''k'', s_auto_reply_enabled = True,
      s_worker_batch_size = 10, s_geocoder_provider = ''nominatim'',
      s_geocoder_min_interval = 1000000, s_geocoder_language = ''hi,en'',
      s_conversation_ttl_hours = 168, s_service_window_hours = 24, s_sarvam_api_key = None,
      s_sarvam_model = ''saaras:v3'', s_sarvam_min_interval = 1000000, s_google_api_key = Some ''g'',
      s_google_base_url = ''https://g'', s_google_models = ''gemini'', s_google_min_interval = 0,
      s_groq_api_key = Some ''q'', s_groq_base_url = ''https://q'', s_groq_models = ''a,b'',
      s_groq_min_interval = 6000000, s_openrouter_api_key = Some ''o'',
      s_openrouter_base_url = ''https://o'', s_openrouter_models = ''c,d,e,f'',
      s_openrouter_min_interval = 3000000, s_dedup_window_hours = 24, s_dedup_radius_m = 300,
      s_image_recheck_cap = 2, s_dispatcher = Mock_api, s_upload_dir = ''data/uploads'',
      s_max_audio_bytes = 10485760, s_max_image_bytes = 5242880,
      s_jwt_secret = ''0123456789abcdef0123456789abcdef'', s_access_token_minutes = 15,
      s_refresh_token_days = 30, s_verification_code_ttl_minutes = 10,
      s_verification_max_per_hour = 3, s_official_code_max_per_hour = 5,
      s_official_dev_login_code = Some [], s_cors_origins = ''http://a''\<rparr>"

theorem loaded_settings_safe_witness:
  "s_official_dev_login_code (empty_secrets_to_none sample_settings) = None"
proof -
  have "load_settings sample_settings = Inr (empty_secrets_to_none sample_settings)"
    by (simp add: load_settings_def validate_jwt_secret_def reject_dev_login_code_outside_dev_def
        sample_settings_def empty_secrets_to_none_def empty_to_none_def deployed_def
        MIN_JWT_SECRET_BYTES_def DEV_JWT_SECRET_def)
  from loaded_settings_safe [OF this] show ?thesis
    by (simp add: deployed_def empty_secrets_to_none_def sample_settings_def)
qed

end
