(* ===== verification/Outbound.thy ===== *)
theory Outbound
  imports ReposChat Config
begin

text \<open>
  \<^verbatim>\<open>whatsapp/dispatch.py\<close> and \<^verbatim>\<open>WhatsAppCloudClient.send_raw\<close>: sending one persisted
  reply. \<open>prepare_send\<close> is the transaction before the HTTP call (lease, attempt limit, 24-hour
  gate, login-approval gate), \<open>record_send\<close> the one after it, and \<open>send_pending\<close> their
  composition. The exchange with Graph is the parameter \<open>post\<close>: the decoded body of a 2xx
  response, or the exception of the client. A crash between the two transactions is a run of
  \<open>prepare_send\<close> alone; \<open>outbound_run\<close> below allows it.
\<close>

section \<open>The Graph client\<close>

definition first_message_id :: "json \<Rightarrow> exn + string option" where
  "first_message_id result =
     (case result of
        JObj r \<Rightarrow>
          (case jget r ''messages'' of
             JArr (x # _) \<Rightarrow> bindE (jattr x ''id'' JNull) jtext
           | JObj (_ # _) \<Rightarrow> Inl KeyError
           | JStr (_ # _) \<Rightarrow> Inl AttributeError
           | v \<Rightarrow> if jtruthy v then Inl TypeError else Inr None)
      | _ \<Rightarrow> Inr None)"

definition send_raw :: "settings \<Rightarrow> (json \<Rightarrow> exn + json) \<Rightarrow> json \<Rightarrow> exn + json" where
  "send_raw s post payload =
     (if \<not> truthy (s_whatsapp_access_token s) \<or> \<not> truthy (s_whatsapp_phone_number_id s)
      then Inl WhatsAppClientUnavailable
      else bindE (post payload) (\<lambda>result. bindE (first_message_id result) (\<lambda>_. Inr result)))"

section \<open>Sending one reply\<close>

definition LEASE_SECONDS :: nat where "LEASE_SECONDS = 30"
definition MAX_SEND_ATTEMPTS :: nat where "MAX_SEND_ATTEMPTS = 5"

datatype send_status = Sd_sent | Sd_blocked_24h | Sd_failed | Sd_skipped

datatype send_gate = Gate_done send_status | Gate_send json

definition window_closed :: "time \<Rightarrow> message \<Rightarrow> db \<Rightarrow> bool" where
  "window_closed now m d =
     (case Option.bind (ms_conversation_id m) (\<lambda>c. tget cv_id c (db_conversations d)) of
        None \<Rightarrow> False
      | Some v \<Rightarrow>
          (case cv_service_window_expires_at v of None \<Rightarrow> False | Some t \<Rightarrow> now > t))"

definition latest_inbound_at :: "uuid \<Rightarrow> db \<Rightarrow> time option" where
  "latest_inbound_at contact_id d =
     (case order_by_desc ms_received_at
             (filter (\<lambda>m. ms_contact_id m = Some contact_id \<and> ms_direction m = Incoming)
                (db_messages d)) of
        [] \<Rightarrow> None | m # _ \<Rightarrow> Some (ms_received_at m))"

definition live_challenges :: "time \<Rightarrow> uuid \<Rightarrow> db \<Rightarrow> login_approval list" where
  "live_challenges now message_id d =
     filter (\<lambda>c. la_outbound_message_id c = Some message_id \<and> la_status c = La_pending \<and>
                 la_expires_at c > now) (db_login_approvals d)"

definition approval_window_closed :: "settings \<Rightarrow> time \<Rightarrow> login_approval \<Rightarrow> db \<Rightarrow> bool" where
  "approval_window_closed s now c d =
     (case latest_inbound_at (la_contact_id c) d of
        None \<Rightarrow> True
      | Some t \<Rightarrow> now > t + hours (int (s_service_window_hours s)))"

definition approval_to_fallback :: "time \<Rightarrow> uuid \<Rightarrow> db \<Rightarrow> db" where
  "approval_to_fallback now challenge_id d =
     d\<lparr>db_login_approvals := tupd (\<lambda>c. la_id c = challenge_id)
        (\<lambda>c. c\<lparr>la_status := La_fallback, la_decided_at := Some now\<rparr>) (db_login_approvals d)\<rparr>"

definition prepare_send :: "settings \<Rightarrow> time \<Rightarrow> uuid \<Rightarrow> db \<Rightarrow> exn + (send_gate \<times> db)" where
  "prepare_send s now message_id d =
     (case claim_outbound now message_id LEASE_SECONDS d of
        (claimed, d1) \<Rightarrow>
          if \<not> claimed then Inr (Gate_done Sd_skipped, d1)
          else
            (case tget ms_id message_id (db_messages d1) of
               None \<Rightarrow> Inr (Gate_done Sd_skipped, d1)
             | Some m \<Rightarrow>
                 if ms_attempt_count m > MAX_SEND_ATTEMPTS then
                   Inr (Gate_done Sd_failed, mark_outbound message_id Ms_failed None d1)
                 else if window_closed now m d1 then
                   Inr (Gate_done Sd_blocked_24h, mark_outbound message_id Ms_blocked_24h None d1)
                 else if ms_reply_kind m = Some ''login_approval'' then
                   bindE (scalar_one_or_none (live_challenges now message_id d1))
                     (\<lambda>challenge.
                        case challenge of
                          None \<Rightarrow>
                            Inr (Gate_done Sd_failed, mark_outbound message_id Ms_failed None d1)
                        | Some c \<Rightarrow>
                            if approval_window_closed s now c d1 then
                              Inr (Gate_done Sd_blocked_24h,
                                   approval_to_fallback now (la_id c)
                                     (mark_outbound message_id Ms_blocked_24h None d1))
                            else Inr (Gate_send (ms_raw_payload m), d1))
                 else Inr (Gate_send (ms_raw_payload m), d1)))"

fun send_caught :: "exn \<Rightarrow> bool" where
  "send_caught HTTPError = True"
| "send_caught (HTTPStatusError n) = True"
| "send_caught WhatsAppClientUnavailable = True"
| "send_caught ValueError = True"
| "send_caught _ = False"

text \<open>The transaction after the call; an exception that is not caught leaves the row leased.\<close>

definition record_send :: "uuid \<Rightarrow> exn + json \<Rightarrow> db \<Rightarrow> (exn + send_status) \<times> db" where
  "record_send message_id response d =
     (case response of
        Inl e \<Rightarrow>
          if send_caught e then (Inr Sd_failed, mark_outbound message_id Ms_pending None d)
          else (Inl e, d)
      | Inr r \<Rightarrow>
          (case first_message_id r of
             Inl e \<Rightarrow> (Inl e, d)
           | Inr meta_id \<Rightarrow> (Inr Sd_sent, mark_outbound message_id Ms_sent meta_id d)))"

definition send_pending ::
    "settings \<Rightarrow> (json \<Rightarrow> exn + json) \<Rightarrow> time \<Rightarrow> uuid \<Rightarrow> db \<Rightarrow> (exn + send_status) \<times> db" where
  "send_pending s post now message_id d =
     (case prepare_send s now message_id d of
        Inl e \<Rightarrow> (Inl e, d)
      | Inr (Gate_done st, d1) \<Rightarrow> (Inr st, d1)
      | Inr (Gate_send payload, d1) \<Rightarrow> record_send message_id (send_raw s post payload) d1)"

text \<open>The sweep sends the fetched rows one after the other; \<open>tick k\<close> is the clock at the
  \<open>k\<close>-th row. An exception ends the sweep.\<close>

fun sweep_rows ::
    "settings \<Rightarrow> (json \<Rightarrow> exn + json) \<Rightarrow> (nat \<Rightarrow> time) \<Rightarrow> nat \<Rightarrow> uuid list \<Rightarrow> db \<Rightarrow> (exn + unit) \<times> db" where
  "sweep_rows s post tick k [] d = (Inr (), d)"
| "sweep_rows s post tick k (i # is) d =
     (case send_pending s post (tick k) i d of
        (Inl e, d1) \<Rightarrow> (Inl e, d1)
      | (Inr _, d1) \<Rightarrow> sweep_rows s post tick (Suc k) is d1)"

definition sweep_pending_outbound ::
    "settings \<Rightarrow> (json \<Rightarrow> exn + json) \<Rightarrow> (nat \<Rightarrow> time) \<Rightarrow> nat \<Rightarrow> db \<Rightarrow> (exn + nat) \<times> db" where
  "sweep_pending_outbound s post tick limit d =
     (let rows = fetch_sweepable_outbound (tick 0) limit d in
      case sweep_rows s post tick 1 rows d of
        (Inl e, d1) \<Rightarrow> (Inl e, d1)
      | (Inr _, d1) \<Rightarrow> (Inr (length rows), d1))"

section \<open>Facts about one attempt\<close>

lemma mark_outbound_ids [simp]: "message_ids (mark_outbound i st m d) = message_ids d"
  by (simp add: mark_outbound_def message_ids_def)

lemma mark_outbound_tget:
  "tget ms_id j (db_messages (mark_outbound i st m d)) =
   map_option (\<lambda>r. if j = i then r\<lparr>ms_status := st, ms_locked_until := None,
       ms_meta_message_id := (if m = None then ms_meta_message_id r else m)\<rparr> else r)
     (tget ms_id j (db_messages d))"
  using tget_SomeD [of ms_id j "db_messages d"]
  by (cases "tget ms_id j (db_messages d)") (auto simp: mark_outbound_def tget_tupd)

lemma mark_outbound_attempts [simp]:
  "outbound_attempts j (mark_outbound i st m d) = outbound_attempts j d"
  by (simp add: outbound_attempts_def mark_outbound_tget split: option.splits)

lemma approval_to_fallback_same [simp]:
  "db_messages (approval_to_fallback now c d) = db_messages d"
  "message_ids (approval_to_fallback now c d) = message_ids d"
  "outbound_attempts j (approval_to_fallback now c d) = outbound_attempts j d"
  by (simp_all add: approval_to_fallback_def message_ids_def outbound_attempts_def)

lemma claim_attempts_other:
  "j \<noteq> i \<Longrightarrow> outbound_attempts j (snd (claim_outbound now i n d)) = outbound_attempts j d"
proof -
  assume "j \<noteq> i"
  then have "tget ms_id j (db_messages (snd (claim_outbound now i n d))) = tget ms_id j (db_messages d)"
    using tget_SomeD [of ms_id j "db_messages d"]
    by (cases "tget ms_id j (db_messages d)") (auto simp: claim_outbound_def Let_def tget_tupd)
  then show ?thesis by (simp add: outbound_attempts_def)
qed

lemma prepare_send_not_free:
  assumes "message_ids d" and "\<not> outbound_free now i d"
  shows "prepare_send s now i d = Inr (Gate_done Sd_skipped, d)"
  using ob.lost_pair [OF assms, of LEASE_SECONDS] by (simp add: prepare_send_def)

lemma claim_won:
  assumes "message_ids d" and "outbound_free now i d"
  obtains dc where "claim_outbound now i LEASE_SECONDS d = (True, dc)" and "message_ids dc"
    and "outbound_attempts i dc = Suc (outbound_attempts i d)"
    and "\<exists>m. tget ms_id i (db_messages dc) = Some m"
proof -
  obtain w dc where c: "claim_outbound now i LEASE_SECONDS d = (w, dc)" by fastforce
  have w: "w" using ob.won_iff [where n = LEASE_SECONDS and k = i and a = now, OF assms(1)] assms(2) c
    by simp
  have "message_ids dc" "outbound_attempts i dc = Suc (outbound_attempts i d)"
    using ob.inv_kept [where n = LEASE_SECONDS and k = i and a = now, OF assms(1)]
      ob.counted [where n = LEASE_SECONDS, OF assms] c by auto
  moreover have "\<exists>m. tget ms_id i (db_messages dc) = Some m"
    using assms(2) claim_outbound_tget [of i now LEASE_SECONDS d] c by (auto simp: outbound_free_def)
  ultimately show thesis using that c w by simp
qed

text \<open>What the first transaction has checked when it decides to send.\<close>

lemma prepare_send_go:
  assumes ids: "message_ids d" and go: "prepare_send s now i d = Inr (Gate_send p, d1)"
  shows "outbound_free now i d \<and> d1 = snd (claim_outbound now i LEASE_SECONDS d) \<and>
    (\<exists>m. tget ms_id i (db_messages d1) = Some m \<and> p = ms_raw_payload m \<and>
         ms_attempt_count m \<le> MAX_SEND_ATTEMPTS \<and> \<not> window_closed now m d1 \<and>
         (ms_reply_kind m = Some ''login_approval'' \<longrightarrow>
            (\<exists>c. live_challenges now i d1 = [c] \<and> \<not> approval_window_closed s now c d1)))"
proof -
  have free: "outbound_free now i d"
    using go prepare_send_not_free [OF ids] by fastforce
  from claim_won [OF ids free] obtain dc where won: "claim_outbound now i LEASE_SECONDS d = (True, dc)"
    by metis
  from go show ?thesis
    unfolding prepare_send_def won
    using free
    by (auto simp: bindE_Inr_iff scalar_Some_iff scalar_None_iff
        split: option.splits if_splits)
qed

lemma prepare_send_attempts:
  assumes ids: "message_ids d" and p: "prepare_send s now i d = Inr (g, d1)"
  shows "message_ids d1 \<and> outbound_attempts i d \<le> outbound_attempts i d1"
proof (cases "outbound_free now i d")
  case False
  with p prepare_send_not_free [OF ids False] ids show ?thesis by simp
next
  case True
  from claim_won [OF ids True] obtain dc where won: "claim_outbound now i LEASE_SECONDS d = (True, dc)"
    and c: "message_ids dc" "outbound_attempts i d \<le> outbound_attempts i dc"
    by (metis le_SucI order_refl)
  from p show ?thesis
    unfolding prepare_send_def won
    using c by (auto simp: bindE_Inr_iff scalar_Some_iff scalar_None_iff
        split: option.splits if_splits)
qed

lemma prepare_send_go_attempts:
  assumes ids: "message_ids d" and go: "prepare_send s now i d = Inr (Gate_send p, d1)"
  shows "outbound_attempts i d1 = Suc (outbound_attempts i d) \<and> outbound_attempts i d1 \<le> MAX_SEND_ATTEMPTS"
  using prepare_send_go [OF assms] ob.counted [where n = LEASE_SECONDS, OF ids, of now i]
  by (auto simp: outbound_attempts_def)

lemma record_send_same [simp]:
  "message_ids (snd (record_send i resp d)) = message_ids d"
  "outbound_attempts j (snd (record_send i resp d)) = outbound_attempts j d"
  by (auto simp: record_send_def split: sum.splits)

section \<open>Runs of one reply\<close>

text \<open>Everything that can happen to one reply: callers prepare and send it, record the result or
  crash before they do, and the rest of the system changes the database without touching the
  attempt counter of this row. The counter of the relation is the number of HTTP calls.\<close>

inductive outbound_run :: "settings \<Rightarrow> uuid \<Rightarrow> db \<Rightarrow> nat \<Rightarrow> bool" for s :: settings and i :: uuid where
  stored: "message_ids d \<Longrightarrow> outbound_run s i d 0"
| not_sent: "outbound_run s i d n \<Longrightarrow> prepare_send s now i d = Inr (Gate_done st, d1) \<Longrightarrow>
     outbound_run s i d1 n"
| sent: "outbound_run s i d n \<Longrightarrow> prepare_send s now i d = Inr (Gate_send p, d1) \<Longrightarrow>
     outbound_run s i d1 (Suc n)"
| recorded: "outbound_run s i d n \<Longrightarrow> outbound_run s i (snd (record_send i resp d)) n"
| elsewhere: "outbound_run s i d n \<Longrightarrow> message_ids d1 \<Longrightarrow>
     outbound_attempts i d1 = outbound_attempts i d \<Longrightarrow> outbound_run s i d1 n"

inductive_cases outbound_run_SucE: "outbound_run s i d (Suc n)"

lemma outbound_run_inv:
  "outbound_run s i d n \<Longrightarrow> message_ids d \<and> n \<le> outbound_attempts i d \<and> n \<le> MAX_SEND_ATTEMPTS"
proof (induction rule: outbound_run.induct)
  case (stored d)
  then show ?case by simp
next
  case (not_sent d n now st d1)
  with prepare_send_attempts [of d s now i "Gate_done st" d1] show ?case by auto
next
  case (sent d n now p d1)
  with prepare_send_attempts [of d s now i "Gate_send p" d1]
    prepare_send_go_attempts [of d s now i p d1] show ?case by auto
next
  case (recorded d n resp)
  then show ?case by simp
next
  case (elsewhere d n d1)
  then show ?case by simp
qed

text \<open>C11. A reply is handed to the Graph API at most five times, whatever the callers, the
  responses, the crashes between the call and its record, and the order of late records.\<close>

theorem at_most_five_sends:
  assumes "outbound_run s i d n"
  shows "n \<le> 5"
  using outbound_run_inv [OF assms] by (simp add: MAX_SEND_ATTEMPTS_def)

text \<open>C21. A reply is only handed to Graph inside the customer-service window: its conversation, if
  it has one, has not passed its expiry, and a login approval has exactly one live challenge
  whose contact wrote within the configured window.\<close>

theorem sends_only_inside_window:
  assumes "message_ids d" and "prepare_send s now i d = Inr (Gate_send p, d1)"
  shows "\<exists>m. tget ms_id i (db_messages d1) = Some m \<and> p = ms_raw_payload m \<and>
    (\<forall>v t. Option.bind (ms_conversation_id m) (\<lambda>c. tget cv_id c (db_conversations d1)) = Some v \<longrightarrow>
        cv_service_window_expires_at v = Some t \<longrightarrow> now \<le> t) \<and>
    (ms_reply_kind m = Some ''login_approval'' \<longrightarrow>
      (\<exists>c t. live_challenges now i d1 = [c] \<and> latest_inbound_at (la_contact_id c) d1 = Some t \<and>
             now \<le> t + hours (int (s_service_window_hours s))))"
proof -
  from prepare_send_go [OF assms] obtain m where m: "tget ms_id i (db_messages d1) = Some m"
    "p = ms_raw_payload m" "\<not> window_closed now m d1"
    and la: "ms_reply_kind m = Some ''login_approval'' \<longrightarrow>
            (\<exists>c. live_challenges now i d1 = [c] \<and> \<not> approval_window_closed s now c d1)"
    by blast
  show ?thesis
  proof (intro exI [of _ m] conjI allI impI)
    show "now \<le> t" if "Option.bind (ms_conversation_id m) (\<lambda>c. tget cv_id c (db_conversations d1)) = Some v"
      "cv_service_window_expires_at v = Some t" for v t
      using m(3) that by (simp add: window_closed_def)
    show "\<exists>c t. live_challenges now i d1 = [c] \<and> latest_inbound_at (la_contact_id c) d1 = Some t \<and>
             now \<le> t + hours (int (s_service_window_hours s))"
      if "ms_reply_kind m = Some ''login_approval''"
      using la that by (auto simp: approval_window_closed_def split: option.splits)
  qed (use m in auto)
qed

text \<open>The result of a send tells the state the row is left in: sent, parked outside the window,
  given up, or pending again for the next sweep; a row that is leased by another sender is not
  touched.\<close>

theorem send_result_matches_row:
  assumes "message_ids d" and "send_pending s post now i d = (Inr st, d1)"
  shows "case st of
      Sd_skipped \<Rightarrow> d1 = d
    | Sd_sent \<Rightarrow> \<exists>m. tget ms_id i (db_messages d1) = Some m \<and> ms_status m = Ms_sent
    | Sd_blocked_24h \<Rightarrow> \<exists>m. tget ms_id i (db_messages d1) = Some m \<and> ms_status m = Ms_blocked_24h
    | Sd_failed \<Rightarrow> \<exists>m. tget ms_id i (db_messages d1) = Some m \<and> ms_status m \<in> {Ms_failed, Ms_pending}"
proof (cases "outbound_free now i d")
  case False
  with assms prepare_send_not_free [OF assms(1) False] show ?thesis by (simp add: send_pending_def)
next
  case True
  from claim_won [OF assms(1) True] obtain dc m
    where won: "claim_outbound now i LEASE_SECONDS d = (True, dc)"
      and m: "tget ms_id i (db_messages dc) = Some m"
    by metis
  note rows = mark_outbound_tget [of i i _ _ dc, unfolded m]
  show ?thesis
    using assms(2) unfolding send_pending_def prepare_send_def won
    by (auto simp: m rows bindE_def record_send_def scalar_None_iff
        split: option.splits if_splits sum.splits)
qed

section \<open>Witnesses\<close>

definition sample_payload :: json where "sample_payload = build_text_payload ''91'' ''ok''"

lemma sample_claim:
  "claim_outbound 5 (uuid_str 0) LEASE_SECONDS sample_chat_db =
   (True, sample_chat_db\<lparr>db_messages := [(outgoing_row 0 (uuid_str 0) ''k1'' sample_reply)
      \<lparr>ms_status := Ms_sending, ms_locked_until := Some 30000005, ms_attempt_count := 1\<rparr>]\<rparr>)"
  by (simp add: claim_outbound_def sample_chat_tables outgoing_row_def sendable_def LEASE_SECONDS_def
      time_defs tupd_def Let_def)

lemma sample_prepare_send:
  "\<exists>d1. prepare_send sample_settings 5 (uuid_str 0) sample_chat_db = Inr (Gate_send sample_payload, d1)"
  by (simp add: prepare_send_def sample_claim tget_Cons outgoing_row_def MAX_SEND_ATTEMPTS_def
      window_closed_def sample_reply_def sample_payload_def)

theorem at_most_five_sends_witness:
  "\<exists>d1. outbound_run sample_settings (uuid_str 0) d1 1 \<and> (1 :: nat) \<le> 5"
proof -
  obtain d1 where "prepare_send sample_settings 5 (uuid_str 0) sample_chat_db = Inr (Gate_send sample_payload, d1)"
    using sample_prepare_send by blast
  then have "outbound_run sample_settings (uuid_str 0) d1 1"
    using outbound_run.sent [OF outbound_run.stored [OF sample_chat_ids(1)]] by simp
  then show ?thesis using at_most_five_sends by blast
qed

theorem sends_only_inside_window_witness:
  "\<exists>(d1 :: db) m. tget ms_id (uuid_str 0) (db_messages d1) = Some m \<and> sample_payload = ms_raw_payload m"
proof -
  obtain d1 where "prepare_send sample_settings 5 (uuid_str 0) sample_chat_db = Inr (Gate_send sample_payload, d1)"
    using sample_prepare_send by blast
  from sends_only_inside_window [OF sample_chat_ids(1) this] show ?thesis by blast
qed

theorem send_result_matches_row_witness:
  "\<exists>d1. send_pending sample_settings (\<lambda>_. Inl HTTPError) 5 (uuid_str 0) sample_chat_db = (Inr Sd_failed, d1) \<and>
     (\<exists>m. tget ms_id (uuid_str 0) (db_messages d1) = Some m \<and> ms_status m \<in> {Ms_failed, Ms_pending})"
proof -
  obtain d1 where "prepare_send sample_settings 5 (uuid_str 0) sample_chat_db = Inr (Gate_send sample_payload, d1)"
    using sample_prepare_send by blast
  then have "send_pending sample_settings (\<lambda>_. Inl HTTPError) 5 (uuid_str 0) sample_chat_db =
      (Inr Sd_failed, mark_outbound (uuid_str 0) Ms_pending None d1)"
    by (simp add: send_pending_def record_send_def send_raw_def sample_settings_def truthy_def)
  with send_result_matches_row [OF sample_chat_ids(1) this] show ?thesis by auto
qed

end
