(* ===== verification/ReposWork.thy ===== *)
theory ReposWork
  imports ReposChat
begin

text \<open>
  \<^verbatim>\<open>repositories/grievances.py\<close>, \<^verbatim>\<open>jobs.py\<close>, \<^verbatim>\<open>jurisdictions.py\<close> and
  \<^verbatim>\<open>pipeline/routing.py\<close>: the statements on complaints and on the job queue, and the
  resolution of a category to the route in force.
\<close>

section \<open>Dates\<close>

text \<open>The civil date of a clock reading (days are counted from 1970-01-01; the year is shifted to
  start in March, as in the proleptic Gregorian calendar of \<^verbatim>\<open>datetime\<close>).\<close>

definition civil_date :: "time \<Rightarrow> int \<times> int \<times> int" where
  "civil_date t =
     (let z = t div days 1 + 719468;
          era = z div 146097;
          doe = z mod 146097;
          yoe = (doe - doe div 1460 + doe div 36524 - doe div 146096) div 365;
          doy = doe - (365 * yoe + yoe div 4 - yoe div 100);
          mp = (5 * doy + 2) div 153;
          dd = doy - (153 * mp + 2) div 5 + 1;
          mm = (if mp < 10 then mp + 3 else mp - 9);
          yy = yoe + era * 400 + (if mm \<le> 2 then 1 else 0)
      in (yy, mm, dd))"

definition show_date :: "time \<Rightarrow> string" where
  "show_date t =
     (case civil_date t of
        (y, m, dd) \<Rightarrow> zpad 4 (show_nat (nat y)) @ zpad 2 (show_nat (nat m)) @ zpad 2 (show_nat (nat dd)))"

section \<open>Grievances\<close>

record draft_input =
  di_lat :: "real option"
  di_lon :: "real option"
  di_address :: "string option"
  di_messages :: "issue_message list"
  di_photo_media_id :: "string option"

definition draft_of_context :: "conv_context \<Rightarrow> draft_input" where
  "draft_of_context c =
     \<lparr>di_lat = lc_lat (cx_location c), di_lon = lc_lon (cx_location c),
      di_address = lc_display_address (cx_location c),
      di_messages = (case ic_messages (cx_issue c) of None \<Rightarrow> [] | Some ms \<Rightarrow> ms),
      di_photo_media_id = pc_media_id (cx_photo c)\<rparr>"

definition human_id_of :: "time \<Rightarrow> nat \<Rightarrow> string" where
  "human_id_of now sequence = ''JS-'' @ show_date now @ ''-'' @ zpad 5 (show_nat sequence)"

definition draft_row ::
    "time \<Rightarrow> uuid \<Rightarrow> nat \<Rightarrow> uuid \<Rightarrow> uuid option \<Rightarrow> uuid option \<Rightarrow> source \<Rightarrow> draft_input \<Rightarrow> grievance" where
  "draft_row now i sequence contact_id conversation_id user_id src di =
     \<lparr>gr_id = i, gr_human_id = human_id_of now sequence, gr_contact_id = contact_id,
      gr_conversation_id = conversation_id, gr_user_id = user_id, gr_source = src,
      gr_location_latitude = di_lat di, gr_location_longitude = di_lon di,
      gr_location_address = di_address di, gr_issue_messages = di_messages di,
      gr_issue_text = None, gr_source_language = None,
      gr_photo_media_id = di_photo_media_id di, gr_photo_path = None, gr_pdf_path = None,
      gr_status = Gs_draft, gr_category = None, gr_department_key = None, gr_priority = None,
      gr_term = None, gr_confidence = None, gr_image_match_status = None, gr_flags = [],
      gr_report_count = 1, gr_duplicate_of_id = None, gr_window_expires_at = None,
      gr_dispatch_ref = None, gr_dispatch_attempts = 0, gr_confirmed_at = None,
      gr_taxonomy_version = None, gr_category_id = None, gr_aggregation_key = None,
      gr_jurisdiction_id = None, gr_safety_level = None, gr_asset_scope = None,
      gr_disposition = None, gr_review_status = None, gr_policy_version = None,
      gr_routing_snapshot = None, gr_structured_facts = None, gr_transcript_metadata = [],
      gr_state_version = 0, gr_created_at = now, gr_updated_at = now\<rparr>"

definition conversation_draft :: "uuid option \<Rightarrow> db \<Rightarrow> grievance option" where
  "conversation_draft conversation_id d =
     (case conversation_id of
        None \<Rightarrow> None
      | Some c \<Rightarrow> find (\<lambda>g. gr_conversation_id g = Some c) (db_grievances d))"

text \<open>The sequence advances on every call, also when the draft exists.\<close>

definition create_draft_grievance ::
    "time \<Rightarrow> uuid \<Rightarrow> uuid option \<Rightarrow> uuid option \<Rightarrow> source \<Rightarrow> draft_input \<Rightarrow> db
     \<Rightarrow> (grievance \<times> bool) \<times> db" where
  "create_draft_grievance now contact_id conversation_id user_id src di d0 =
     (let sequence = db_human_seq d0;
          d = d0\<lparr>db_human_seq := sequence + 1\<rparr>
      in case conversation_draft conversation_id d of
           Some g \<Rightarrow> ((g, False), d)
         | None \<Rightarrow>
             (let (i, d1) = new_id d;
                  g = draft_row now i sequence contact_id conversation_id user_id src di
              in ((g, True), d1\<lparr>db_grievances := db_grievances d1 @ [g]\<rparr>)))"

definition get_grievance :: "uuid \<Rightarrow> db \<Rightarrow> grievance option" where
  "get_grievance i d = tget gr_id i (db_grievances d)"

text \<open>Setting columns: the row is written, with a new \<^verbatim>\<open>updated_at\<close>, when a value changes.\<close>

definition apply_fields :: "time \<Rightarrow> (grievance \<Rightarrow> grievance) \<Rightarrow> grievance \<Rightarrow> grievance" where
  "apply_fields now f g = (if f g = g then g else (f g)\<lparr>gr_updated_at := now\<rparr>)"

definition set_grievance_fields ::
    "time \<Rightarrow> uuid \<Rightarrow> (grievance \<Rightarrow> grievance) \<Rightarrow> db \<Rightarrow> exn + (grievance \<times> db)" where
  "set_grievance_fields now i f d =
     (case get_grievance i d of
        None \<Rightarrow> Inl ValueError
      | Some g \<Rightarrow>
          let g' = apply_fields now f g in
          Inr (g', d\<lparr>db_grievances := tupd (\<lambda>r. gr_id r = i) (\<lambda>_. g') (db_grievances d)\<rparr>))"

definition add_grievance_event :: "time \<Rightarrow> uuid \<Rightarrow> gr_status \<Rightarrow> string option \<Rightarrow> db \<Rightarrow> db" where
  "add_grievance_event now i st note d =
     (let (eid, d1) = new_id d in
      d1\<lparr>db_grievance_events := db_grievance_events d1 @
        [\<lparr>ge_id = eid, ge_grievance_id = i, ge_status = st, ge_note = note, ge_created_at = now\<rparr>]\<rparr>)"

definition list_grievance_events :: "uuid \<Rightarrow> db \<Rightarrow> grievance_event list" where
  "list_grievance_events i d =
     order_by ge_created_at (filter (\<lambda>e. ge_grievance_id e = i) (db_grievance_events d))"

definition radians :: "real \<Rightarrow> real" where "radians x = x * pi / 180"

definition between :: "real option \<Rightarrow> real \<Rightarrow> real \<Rightarrow> bool" where
  "between x lo hi = (case x of None \<Rightarrow> False | Some v \<Rightarrow> lo \<le> v \<and> v \<le> hi)"

definition dedup_candidate ::
    "time \<Rightarrow> string \<Rightarrow> real \<Rightarrow> real \<Rightarrow> real \<Rightarrow> uuid option \<Rightarrow> grievance \<Rightarrow> bool" where
  "dedup_candidate now cat lat lon radius_m exclude g =
     (let delta_lat = radius_m / 111320;
          delta_lon = radius_m / (111320 * max (1 / 10) \<bar>cos (radians lat)\<bar>)
      in gr_category g = Some cat \<and> gr_status g = Gs_pending_window \<and>
         (case gr_window_expires_at g of None \<Rightarrow> False | Some t \<Rightarrow> t > now) \<and>
         between (gr_location_latitude g) (lat - delta_lat) (lat + delta_lat) \<and>
         between (gr_location_longitude g) (lon - delta_lon) (lon + delta_lon) \<and>
         (case exclude of None \<Rightarrow> True | Some i \<Rightarrow> gr_id g \<noteq> i))"

definition find_dedup_candidates ::
    "time \<Rightarrow> string \<Rightarrow> real \<Rightarrow> real \<Rightarrow> real \<Rightarrow> uuid option \<Rightarrow> db \<Rightarrow> grievance list" where
  "find_dedup_candidates now cat lat lon radius_m exclude d =
     filter (dedup_candidate now cat lat lon radius_m exclude) (db_grievances d)"

definition list_grievances_for_contact :: "uuid \<Rightarrow> nat \<Rightarrow> db \<Rightarrow> grievance list" where
  "list_grievances_for_contact contact_id limit d =
     take limit (order_by_desc gr_created_at (filter (\<lambda>g. gr_contact_id g = contact_id) (db_grievances d)))"

definition list_grievances_for_user :: "uuid \<Rightarrow> nat \<Rightarrow> nat \<Rightarrow> db \<Rightarrow> grievance list" where
  "list_grievances_for_user user_id limit offset d =
     take limit (drop offset
       (order_by_desc gr_created_at (filter (\<lambda>g. gr_user_id g = Some user_id) (db_grievances d))))"

definition window_expired :: "time \<Rightarrow> grievance \<Rightarrow> bool" where
  "window_expired now g =
     (gr_status g = Gs_pending_window \<and>
      (case gr_window_expires_at g of None \<Rightarrow> False | Some t \<Rightarrow> t \<le> now))"

definition fetch_expired_windows :: "time \<Rightarrow> nat \<Rightarrow> db \<Rightarrow> uuid list" where
  "fetch_expired_windows now limit d =
     take limit (map gr_id (filter (window_expired now) (db_grievances d)))"

definition dispatch_retriable :: "grievance \<Rightarrow> bool" where
  "dispatch_retriable g = (gr_status g = Gs_dispatching \<and> gr_dispatch_attempts g < 5)"

definition fetch_stuck_dispatching :: "nat \<Rightarrow> db \<Rightarrow> uuid list" where
  "fetch_stuck_dispatching limit d = take limit (map gr_id (filter dispatch_retriable (db_grievances d)))"

definition fetch_stuck_processing :: "time \<Rightarrow> nat \<Rightarrow> db \<Rightarrow> uuid list" where
  "fetch_stuck_processing older_than limit d =
     take limit (map gr_id
       (filter (\<lambda>g. gr_status g \<in> {Gs_draft, Gs_processing} \<and> gr_updated_at g < older_than)
          (db_grievances d)))"

section \<open>Pipeline jobs\<close>

definition stage_name :: "job_stage \<Rightarrow> string" where
  "stage_name st = (case st of Stage_intelligence \<Rightarrow> ''intelligence'' | Stage_reextract \<Rightarrow> ''reextract'')"

definition job_key :: "uuid \<Rightarrow> job_stage \<Rightarrow> string \<Rightarrow> string" where
  "job_key i st suffix =
     ''grievance:'' @ i @ '':'' @ stage_name st @ (if suffix = [] then [] else '':'' @ suffix)"

definition job_key_stored :: "string \<Rightarrow> db \<Rightarrow> bool" where
  "job_key_stored key d = (\<exists>j \<in> set (db_jobs d). pj_idempotency_key j = key)"

definition enqueue_pipeline_job :: "time \<Rightarrow> uuid \<Rightarrow> job_stage \<Rightarrow> string \<Rightarrow> db \<Rightarrow> db" where
  "enqueue_pipeline_job now i st suffix d =
     (let key = job_key i st suffix in
      if job_key_stored key d then d
      else
        let (jid, d1) = new_id d in
        d1\<lparr>db_jobs := db_jobs d1 @
          [\<lparr>pj_id = jid, pj_grievance_id = i, pj_stage = st, pj_status = Js_pending,
            pj_idempotency_key = key, pj_attempt_count = 0, pj_max_attempts = 5,
            pj_next_attempt_at = now, pj_locked_until = None, pj_last_error = None\<rparr>]\<rparr>)"

definition claimable :: "time \<Rightarrow> pipeline_job \<Rightarrow> bool" where
  "claimable now j =
     (pj_status j \<in> {Js_pending, Js_retry, Js_processing} \<and> pj_next_attempt_at j \<le> now \<and>
      (case pj_locked_until j of None \<Rightarrow> True | Some t \<Rightarrow> t < now) \<and>
      pj_attempt_count j < pj_max_attempts j)"

definition claim_job :: "time \<Rightarrow> nat \<Rightarrow> pipeline_job \<Rightarrow> pipeline_job" where
  "claim_job now lease_seconds j =
     j\<lparr>pj_status := Js_processing, pj_locked_until := Some (now + seconds (int lease_seconds)),
       pj_attempt_count := pj_attempt_count j + 1\<rparr>"

definition claim_pipeline_jobs :: "time \<Rightarrow> nat \<Rightarrow> nat \<Rightarrow> db \<Rightarrow> pipeline_job list \<times> db" where
  "claim_pipeline_jobs now limit lease_seconds d =
     (let ids = map pj_id (take limit (order_by pj_next_attempt_at (filter (claimable now) (db_jobs d))));
          hit = (\<lambda>j. pj_id j \<in> set ids)
      in (map (claim_job now lease_seconds)
            (take limit (order_by pj_next_attempt_at (filter (claimable now) (db_jobs d)))),
          d\<lparr>db_jobs := tupd hit (claim_job now lease_seconds) (db_jobs d)\<rparr>))"

definition complete_pipeline_job :: "uuid \<Rightarrow> db \<Rightarrow> db" where
  "complete_pipeline_job jid d =
     d\<lparr>db_jobs := tupd (\<lambda>j. pj_id j = jid)
        (\<lambda>j. j\<lparr>pj_status := Js_completed, pj_locked_until := None, pj_last_error := None\<rparr>) (db_jobs d)\<rparr>"

definition retry_delay :: "nat \<Rightarrow> time" where
  "retry_delay attempts = seconds (min 300 (2 ^ attempts))"

definition failed_job :: "time \<Rightarrow> exn \<Rightarrow> pipeline_job \<Rightarrow> pipeline_job" where
  "failed_job now e j0 =
     (let j = j0\<lparr>pj_locked_until := None, pj_last_error := Some e\<rparr> in
      if pj_attempt_count j \<ge> pj_max_attempts j then j\<lparr>pj_status := Js_dead_letter\<rparr>
      else j\<lparr>pj_status := Js_retry,
              pj_next_attempt_at := now + retry_delay (pj_attempt_count j)\<rparr>)"

definition fail_pipeline_job :: "time \<Rightarrow> uuid \<Rightarrow> exn \<Rightarrow> db \<Rightarrow> db" where
  "fail_pipeline_job now jid e d =
     d\<lparr>db_jobs := tupd (\<lambda>j. pj_id j = jid) (failed_job now e) (db_jobs d)\<rparr>"

section \<open>Routes\<close>

definition route_effective :: "string \<Rightarrow> string \<Rightarrow> time \<Rightarrow> route_row \<Rightarrow> bool" where
  "route_effective jurisdiction_id version moment r =
     (rr_jurisdiction_id r = jurisdiction_id \<and> rr_taxonomy_version r = version \<and>
      (case rr_effective_from r of None \<Rightarrow> True | Some t \<Rightarrow> t \<le> moment) \<and>
      (case rr_effective_to r of None \<Rightarrow> True | Some t \<Rightarrow> t > moment))"

definition load_jurisdiction_routes :: "time \<Rightarrow> string \<Rightarrow> string \<Rightarrow> db \<Rightarrow> (string \<times> route_row) list" where
  "load_jurisdiction_routes moment jurisdiction_id version d =
     map (\<lambda>r. (rr_category_id r, r)) (filter (route_effective jurisdiction_id version moment) (db_routes d))"

definition as_route :: "route_row \<Rightarrow> jurisdiction_route" where
  "as_route r =
     \<lparr>jr_category_key = rr_category_id r, jr_department_key = rr_department_key r,
      jr_owning_agency = rr_owning_agency r, jr_sla_hours = rr_sla_hours r,
      jr_dispatch_enabled = rr_dispatch_enabled r, jr_official_service_url = None,
      jr_source_url = rr_source_url r\<rparr>"

definition resolve_route ::
    "time \<Rightarrow> string option \<Rightarrow> string \<Rightarrow> string \<Rightarrow> db \<Rightarrow> jurisdiction_route option" where
  "resolve_route now key jurisdiction_id version d =
     (case canonical_category_key key of
        None \<Rightarrow> None
      | Some canonical \<Rightarrow>
          if canonical = [] then None
          else
            (case dict_get (load_jurisdiction_routes now jurisdiction_id version d) canonical of
               Some row \<Rightarrow> Some (as_route row)
             | None \<Rightarrow> dict_get (jp_routes DEMO_PROFILE) canonical))"

section \<open>Contracts\<close>

definition job_enqueued :: "time \<times> uuid \<times> job_stage \<times> string \<Rightarrow> unit \<Rightarrow> db \<Rightarrow> bool \<times> db" where
  "job_enqueued a u d =
     (case a of (now, i, st, suffix) \<Rightarrow>
        (\<not> job_key_stored (job_key i st suffix) d, enqueue_pipeline_job now i st suffix d))"

definition job_inserted :: "time \<Rightarrow> uuid \<times> job_stage \<times> string \<Rightarrow> db \<Rightarrow> bool \<times> db" where
  "job_inserted now k d = job_enqueued (now, k) () d"

interpretation jq: unique_insert job_inserted
    "\<lambda>k. job_key_stored (job_key (fst k) (fst (snd k)) (snd (snd k)))" "\<lambda>_. True"
  by unfold_locales
    (auto simp: job_inserted_def job_enqueued_def enqueue_pipeline_job_def job_key_stored_def
        new_id_def Let_def)

definition has_draft :: "uuid \<Rightarrow> db \<Rightarrow> bool" where
  "has_draft c d = (\<exists>g \<in> set (db_grievances d). gr_conversation_id g = Some c)"

lemma conversation_draft_None: "conversation_draft (Some c) d = None \<longleftrightarrow> \<not> has_draft c d"
  by (auto simp: conversation_draft_def has_draft_def find_None_iff)

lemma create_draft_created:
  "snd (fst (create_draft_grievance now ct (Some c) u src di d)) \<longleftrightarrow> \<not> has_draft c d"
  using conversation_draft_None [of c "d\<lparr>db_human_seq := Suc (db_human_seq d)\<rparr>"]
  by (auto simp: create_draft_grievance_def new_id_def has_draft_def Let_def split: option.splits)

lemma create_draft_stores:
  "has_draft c (snd (create_draft_grievance now ct (Some c) u src di d))"
  using conversation_draft_None [of c "d\<lparr>db_human_seq := Suc (db_human_seq d)\<rparr>"]
  by (auto simp: create_draft_grievance_def new_id_def has_draft_def draft_row_def Let_def
      split: option.splits)

lemma create_draft_rows:
  "db_grievances (snd (create_draft_grievance now ct cv u src di d)) =
     db_grievances d @ (if snd (fst (create_draft_grievance now ct cv u src di d))
                        then [fst (fst (create_draft_grievance now ct cv u src di d))] else [])"
  by (auto simp: create_draft_grievance_def new_id_def Let_def split: option.splits)

lemma find_app: "find P (xs @ ys) = (case find P xs of None \<Rightarrow> find P ys | Some x \<Rightarrow> Some x)"
  by (induction xs) auto

text \<open>Starting the pipeline twice for one conversation registers one complaint: the second call
  returns the row of the first with its ticket number and adds no row.\<close>

theorem one_draft_per_conversation:
  assumes "create_draft_grievance now ct (Some c) u src di d = ((g, True), d1)"
  shows "fst (create_draft_grievance now' ct' (Some c) u' src' di' d1) = (g, False) \<and>
         db_grievances (snd (create_draft_grievance now' ct' (Some c) u' src' di' d1)) = db_grievances d1"
proof -
  have nodraft: "\<not> has_draft c d" using create_draft_created [of now ct c u src di d] assms by simp
  have rows: "db_grievances d1 = db_grievances d @ [g]"
    using create_draft_rows [of now ct "Some c" u src di d] assms by simp
  have g: "gr_conversation_id g = Some c"
    using assms by (auto simp: create_draft_grievance_def new_id_def draft_row_def Let_def split: option.splits)
  have found: "find (\<lambda>x. gr_conversation_id x = Some c) (db_grievances d1) = Some g"
  proof -
    have "find (\<lambda>x. gr_conversation_id x = Some c) (db_grievances d) = None"
      using nodraft by (simp add: has_draft_def find_None_iff)
    with g show ?thesis by (simp add: rows find_app)
  qed
  have old: "snd (fst (create_draft_grievance now' ct' (Some c) u' src' di' d1)) = False"
    using create_draft_created create_draft_stores [of c now ct u src di d] assms by simp
  show ?thesis
    using found old create_draft_rows [of now' ct' "Some c" u' src' di' d1]
    by (auto simp: create_draft_grievance_def conversation_draft_def Let_def)
qed

section \<open>Ticket numbers\<close>

lemma nat_of_digits_snoc: "nat_of_digits (s @ [c]) = 10 * nat_of_digits s + ((of_char c :: nat) - 48)"
  by (simp add: nat_of_digits_def)

lemma digit_char_value: "k < 10 \<Longrightarrow> (of_char (digit_char k) :: nat) - 48 = k"
  by (simp add: digit_char_def)

lemma nat_of_digits_show_nat [simp]: "nat_of_digits (show_nat n) = n"
proof (induction n rule: show_nat.induct)
  case (1 n)
  show ?case
  proof (cases "n < 10")
    case True
    then show ?thesis
      using nat_of_digits_snoc [of "[]" "digit_char n"] digit_char_value [of n]
      by (subst show_nat.simps) (simp add: nat_of_digits_def)
  next
    case False
    with 1 show ?thesis
      by (subst show_nat.simps) (simp add: nat_of_digits_snoc digit_char_value)
  qed
qed

lemma nat_of_digits_zeros: "nat_of_digits (replicate k (CHR ''0'') @ s) = nat_of_digits s"
proof (induction s rule: rev_induct)
  case Nil
  show ?case
    by (induction k rule: nat.induct)
      (simp_all add: nat_of_digits_def replicate_append_same [symmetric] del: replicate.simps(2), simp add: replicate_app_Cons_same)
next
  case (snoc c s)
  then show ?case
    using nat_of_digits_snoc [of "replicate k (CHR ''0'') @ s" c] nat_of_digits_snoc [of s c] by simp
qed

lemma nat_of_digits_zpad [simp]: "nat_of_digits (zpad k s) = nat_of_digits s"
  by (simp add: zpad_def nat_of_digits_zeros)

lemma zpad_digits: "list_all is_digit s \<Longrightarrow> list_all is_digit (zpad k s)"
  by (auto simp: zpad_def is_digit_def list_all_iff Let_def)

lemma dash_not_digit: "list_all is_digit s \<Longrightarrow> CHR ''-'' \<notin> set s"
  by (auto simp: list_all_iff is_digit_def)

lemma show_date_no_dash: "CHR ''-'' \<notin> set (show_date t)"
  by (rule dash_not_digit)
    (auto simp: show_date_def zpad_digits show_nat_digits split: prod.splits)

lemma human_id_split:
  "py_split (CHR ''-'') (human_id_of now n) = [''JS'', show_date now, zpad 5 (show_nat n)]"
proof -
  have "CHR ''-'' \<notin> set (zpad 5 (show_nat n))"
    by (intro dash_not_digit zpad_digits show_nat_digits)
  then have "py_split (CHR ''-'') (''JS'' @ CHR ''-'' # show_date now @ CHR ''-'' # zpad 5 (show_nat n)) =
      [''JS'', show_date now, zpad 5 (show_nat n)]"
    by (subst py_split_append_sep, simp, subst py_split_append_sep)
      (simp_all add: show_date_no_dash py_split_no_sep)
  then show ?thesis by (simp add: human_id_of_def)
qed

lemma human_id_inj: "human_id_of t m = human_id_of t' n \<Longrightarrow> m = n"
proof -
  assume "human_id_of t m = human_id_of t' n"
  then have "zpad 5 (show_nat m) = zpad 5 (show_nat n)"
    using human_id_split [of t m] human_id_split [of t' n] by simp
  then have "nat_of_digits (zpad 5 (show_nat m)) = nat_of_digits (zpad 5 (show_nat n))" by simp
  then show "m = n" by simp
qed

text \<open>Ticket numbers already issued come from below the sequence.\<close>

definition tickets_issued :: "db \<Rightarrow> bool" where
  "tickets_issued d =
     (\<forall>g \<in> set (db_grievances d). \<exists>t n. gr_human_id g = human_id_of t n \<and> n < db_human_seq d)"

text \<open>C32. A new complaint never gets a ticket number that another complaint already has, on the same
  day or on another, and issuing it keeps the numbers below the sequence.\<close>

theorem ticket_numbers_unique:
  assumes "tickets_issued d"
    and "create_draft_grievance now ct cv u src di d = ((g, True), d1)"
  shows "tickets_issued d1 \<and> gr_human_id g \<notin> gr_human_id ` set (db_grievances d)"
proof -
  have g: "gr_human_id g = human_id_of now (db_human_seq d)" and s: "db_human_seq d1 = Suc (db_human_seq d)"
    and rows: "db_grievances d1 = db_grievances d @ [g]"
    using assms(2)
    by (auto simp: create_draft_grievance_def new_id_def draft_row_def Let_def split: option.splits)
  have "gr_human_id g \<notin> gr_human_id ` set (db_grievances d)"
    using assms(1) unfolding g tickets_issued_def by (force dest: human_id_inj)
  moreover have "tickets_issued d1"
    using assms(1) unfolding tickets_issued_def rows s
    by (auto simp: g) (metis less_SucI)
  ultimately show ?thesis by blast
qed

section \<open>Facts about setting columns\<close>

lemma set_fields_Inr:
  "set_grievance_fields now i f d = Inr (g', d1) \<longleftrightarrow>
     (\<exists>g. get_grievance i d = Some g \<and> g' = apply_fields now f g \<and>
          d1 = d\<lparr>db_grievances := tupd (\<lambda>r. gr_id r = i) (\<lambda>_. g') (db_grievances d)\<rparr>)"
  by (auto simp: set_grievance_fields_def Let_def split: option.splits)

lemma apply_fields_id: "(\<And>g. gr_id (f g) = gr_id g) \<Longrightarrow> gr_id (apply_fields now f g) = gr_id g"
  by (simp add: apply_fields_def)

lemma tget_replace:
  "key v = i \<Longrightarrow> tget key j (tupd (\<lambda>r. key r = i) (\<lambda>_. v) t) =
     (if j = i then map_option (\<lambda>_. v) (tget key i t) else tget key j t)"
  by (induction t) (auto simp: tupd_def tget_Cons)

lemma set_fields_get:
  assumes "set_grievance_fields now i f d = Inr (g', d1)" and "\<And>g. gr_id (f g) = gr_id g"
  shows "get_grievance i d1 = Some g' \<and> (j \<noteq> i \<longrightarrow> get_grievance j d1 = get_grievance j d)"
proof -
  from assms(1) obtain g where g: "get_grievance i d = Some g" "g' = apply_fields now f g"
    "d1 = d\<lparr>db_grievances := tupd (\<lambda>r. gr_id r = i) (\<lambda>_. g') (db_grievances d)\<rparr>"
    by (auto simp: set_fields_Inr)
  have "gr_id g = i" using g(1) by (auto simp: get_grievance_def dest: tget_SomeD)
  then have "gr_id g' = i" using g(2) assms(2) by (simp add: apply_fields_id)
  from tget_replace [of gr_id g' i, OF this] show ?thesis
    using g by (simp add: get_grievance_def)
qed

section \<open>Facts about routes\<close>

lemma route_from_row_or_profile:
  assumes "resolve_route now key jur ver d = Some r"
  shows "(\<exists>row \<in> set (db_routes d). route_effective jur ver now row \<and> r = as_route row \<and>
            canonical_category_key key = Some (rr_category_id row)) \<or>
         route_for_category key DEMO_PROFILE = Some r"
proof -
  from assms obtain c where c: "canonical_category_key key = Some c" "c \<noteq> []"
    by (auto simp: resolve_route_def split: option.splits if_splits)
  show ?thesis
  proof (cases "dict_get (load_jurisdiction_routes now jur ver d) c")
    case None
    with assms c show ?thesis by (simp add: resolve_route_def route_for_category_def str_or_def)
  next
    case (Some row)
    with assms c have "r = as_route row" by (simp add: resolve_route_def)
    moreover have "(c, row) \<in> set (load_jurisdiction_routes now jur ver d)"
      using Some by (rule dict_get_Some_set)
    ultimately show ?thesis
      using c by (auto simp: load_jurisdiction_routes_def)
  qed
qed

lemma enabled_route_has_row:
  assumes "resolve_route now key jur ver d = Some r" and "jr_dispatch_enabled r"
  shows "\<exists>row \<in> set (db_routes d). route_effective jur ver now row \<and> rr_dispatch_enabled row \<and>
     canonical_category_key key = Some (rr_category_id row)"
  using route_from_row_or_profile [OF assms(1)] demo_dispatch_disabled assms(2)
  by (auto simp: as_route_def)

text \<open>Live dispatch is only ever enabled by a reviewed row: if the route in force for a category
  enables dispatch, there is a row for exactly this category, jurisdiction and taxonomy version,
  inside its effective window, that says so; and every recognised category has a route.\<close>

theorem dispatch_needs_effective_row:
  "(resolve_route now key jur ver d = Some r \<longrightarrow> jr_dispatch_enabled r \<longrightarrow>
      (\<exists>row \<in> set (db_routes d). route_effective jur ver now row \<and> rr_dispatch_enabled row \<and>
         canonical_category_key key = Some (rr_category_id row))) \<and>
   (resolve_route now key jur ver d = None \<longleftrightarrow> canonical_category_key key = None)"
proof -
  have "resolve_route now key jur ver d = None \<longleftrightarrow> canonical_category_key key = None"
  proof (cases "canonical_category_key key")
    case None
    then show ?thesis by (simp add: resolve_route_def)
  next
    case (Some c)
    have "c \<noteq> []" using canonical_range [OF Some] empty_key_unknown by auto
    moreover have "route_for_category key DEMO_PROFILE \<noteq> None" using Some by (simp add: demo_route_exists)
    ultimately show ?thesis
      using Some by (simp add: resolve_route_def route_for_category_def str_or_def split: option.splits)
  qed
  then show ?thesis using enabled_route_has_row [of now key jur ver d r] by blast
qed

section \<open>The life of a job\<close>

text \<open>One job under the workers: claimed, then completed or failed, or left claimed by a crash.\<close>

inductive job_run :: "pipeline_job \<Rightarrow> bool" where
  queued: "pj_status j = Js_pending \<Longrightarrow> pj_attempt_count j = 0 \<Longrightarrow> pj_max_attempts j = 5 \<Longrightarrow> job_run j"
| claimed: "job_run j \<Longrightarrow> claimable now j \<Longrightarrow> job_run (claim_job now n j)"
| failed: "job_run j \<Longrightarrow> pj_status j = Js_processing \<Longrightarrow> job_run (failed_job now e j)"
| completed: "job_run j \<Longrightarrow> pj_status j = Js_processing \<Longrightarrow>
    job_run (j\<lparr>pj_status := Js_completed, pj_locked_until := None, pj_last_error := None\<rparr>)"

lemma claim_job_sel [simp]:
  "pj_status (claim_job now n j) = Js_processing"
  "pj_attempt_count (claim_job now n j) = Suc (pj_attempt_count j)"
  "pj_max_attempts (claim_job now n j) = pj_max_attempts j"
  "pj_locked_until (claim_job now n j) = Some (now + seconds (int n))"
  by (simp_all add: claim_job_def)

lemma failed_job_sel [simp]:
  "pj_attempt_count (failed_job now e j) = pj_attempt_count j"
  "pj_max_attempts (failed_job now e j) = pj_max_attempts j"
  "pj_status (failed_job now e j) =
     (if pj_max_attempts j \<le> pj_attempt_count j then Js_dead_letter else Js_retry)"
  "pj_locked_until (failed_job now e j) = None"
  by (simp_all add: failed_job_def Let_def)

lemma job_run_inv:
  "job_run j \<Longrightarrow> pj_max_attempts j = 5 \<and> pj_attempt_count j \<le> 5 \<and>
     (pj_status j = Js_dead_letter \<longrightarrow> pj_attempt_count j = 5) \<and>
     (pj_status j = Js_retry \<longrightarrow> 1 \<le> pj_attempt_count j \<and> pj_attempt_count j < 5) \<and>
     (pj_status j = Js_processing \<longrightarrow> 1 \<le> pj_attempt_count j)"
  by (induction rule: job_run.induct) (auto simp: claimable_def)

text \<open>A job runs at most five times; when a run fails, the job is retried after 2, 4, 8
  and 16 seconds, until the fifth failure moves it to the dead letters; and
  a claimed job is not claimable again while its lease lasts.\<close>

theorem job_attempts_bounded:
  assumes "job_run j" and "pj_status j = Js_processing"
  shows "1 \<le> pj_attempt_count j \<and> pj_attempt_count j \<le> 5 \<and>
    (pj_status (failed_job now e j) = Js_dead_letter \<longleftrightarrow> pj_attempt_count j = 5) \<and>
    (pj_attempt_count j < 5 \<longrightarrow> pj_status (failed_job now e j) = Js_retry \<and>
       pj_next_attempt_at (failed_job now e j) = now + seconds (2 ^ pj_attempt_count j)) \<and>
    (t \<le> now + seconds (int n) \<longrightarrow> \<not> claimable t (claim_job now n j))"
proof -
  have inv: "pj_max_attempts j = 5" "1 \<le> pj_attempt_count j" "pj_attempt_count j \<le> 5"
    using job_run_inv [OF assms(1)] assms(2) by auto
  have "(2 :: int) ^ pj_attempt_count j \<le> 2 ^ 5" using inv(3) by (intro power_increasing) auto
  then have "min 300 ((2 :: int) ^ pj_attempt_count j) = 2 ^ pj_attempt_count j" by simp
  with inv show ?thesis
    by (auto simp: failed_job_def retry_delay_def claimable_def Let_def)
qed

text \<open>A worker that dies during the fifth run leaves the job in the status processing for ever:
  no claim takes it again and nothing moves it to the dead letters.\<close>

theorem crashed_last_attempt_sticks:
  assumes "job_run j" and "claimable now j" and "pj_attempt_count j = 4"
  shows "pj_status (claim_job now n j) = Js_processing \<and> (\<forall>t. \<not> claimable t (claim_job now n j))"
  using job_run_inv [OF assms(1)] assms(3) by (simp add: claimable_def)

section \<open>Witnesses\<close>

definition sample_draft_input :: draft_input where
  "sample_draft_input =
     \<lparr>di_lat = Some 20, di_lon = Some 78, di_address = Some ''MG Road'', di_messages = [],
      di_photo_media_id = None\<rparr>"

lemma sample_draft_created:
  "create_draft_grievance 7 ''c1'' (Some ''v1'') None Src_whatsapp sample_draft_input empty_db =
   ((draft_row 7 (uuid_str 0) 1 ''c1'' (Some ''v1'') None Src_whatsapp sample_draft_input, True),
    empty_db\<lparr>db_human_seq := 2, db_ids := 1,
      db_grievances := [draft_row 7 (uuid_str 0) 1 ''c1'' (Some ''v1'') None Src_whatsapp sample_draft_input]\<rparr>)"
  by (simp add: create_draft_grievance_def conversation_draft_def empty_db_def new_id_def Let_def)

theorem one_draft_per_conversation_witness:
  "\<exists>g d1. fst (create_draft_grievance 9 ''c1'' (Some ''v1'') None Src_whatsapp sample_draft_input d1) = (g, False)
     \<and> length (db_grievances d1) = 1"
proof -
  let ?d1 = "empty_db\<lparr>db_human_seq := 2, db_ids := 1,
      db_grievances := [draft_row 7 (uuid_str 0) 1 ''c1'' (Some ''v1'') None Src_whatsapp sample_draft_input]\<rparr>"
  have "length (db_grievances ?d1) = 1" by simp
  with one_draft_per_conversation [OF sample_draft_created, of 9 "''c1''" None Src_whatsapp sample_draft_input]
  show ?thesis by blast
qed

theorem ticket_numbers_unique_witness:
  "tickets_issued (snd (create_draft_grievance 7 ''c1'' (Some ''v1'') None Src_whatsapp sample_draft_input empty_db))"
proof -
  have "tickets_issued empty_db" by (simp add: tickets_issued_def empty_db_def)
  from ticket_numbers_unique [OF this sample_draft_created] show ?thesis
    unfolding sample_draft_created by simp
qed

definition sample_route_row :: route_row where
  "sample_route_row =
     \<lparr>rr_jurisdiction_id = DEMO_JURISDICTION_ID, rr_taxonomy_version = TAXONOMY_VERSION,
      rr_category_id = ''unmapped_service'', rr_department_key = ''general'',
      rr_owning_agency = ''City'', rr_dispatch_enabled = True, rr_sla_hours = None,
      rr_source_url = None, rr_reviewed_by = None, rr_effective_from = Some 0, rr_effective_to = None\<rparr>"

theorem dispatch_needs_effective_row_witness:
  "\<exists>row \<in> set (db_routes (empty_db\<lparr>db_routes := [sample_route_row]\<rparr>)).
     route_effective DEMO_JURISDICTION_ID TAXONOMY_VERSION 5 row \<and> rr_dispatch_enabled row"
proof -
  let ?d = "empty_db\<lparr>db_routes := [sample_route_row]\<rparr>"
  have c: "canonical_category_key (Some ''unmapped_service'') = Some ''unmapped_service''"
    using canonical_fix canonical_unmapped by simp
  have e: "route_effective DEMO_JURISDICTION_ID TAXONOMY_VERSION 5 sample_route_row"
    by (simp add: route_effective_def sample_route_row_def)
  have "resolve_route 5 (Some ''unmapped_service'') DEMO_JURISDICTION_ID TAXONOMY_VERSION ?d =
      Some (as_route sample_route_row)"
    by (simp add: resolve_route_def c load_jurisdiction_routes_def e dict_get_def)
      (simp add: sample_route_row_def)
  moreover have "jr_dispatch_enabled (as_route sample_route_row)"
    by (simp add: as_route_def sample_route_row_def)
  ultimately show ?thesis
    using dispatch_needs_effective_row
      [of 5 "Some ''unmapped_service''" DEMO_JURISDICTION_ID TAXONOMY_VERSION ?d "as_route sample_route_row"]
    by blast
qed

definition sample_job :: pipeline_job where
  "sample_job =
     \<lparr>pj_id = ''j1'', pj_grievance_id = ''g1'', pj_stage = Stage_intelligence,
      pj_status = Js_pending, pj_idempotency_key = ''k'', pj_attempt_count = 0,
      pj_max_attempts = 5, pj_next_attempt_at = 0, pj_locked_until = None, pj_last_error = None\<rparr>"

fun sample_claims :: "nat \<Rightarrow> pipeline_job" where
  "sample_claims 0 = sample_job"
| "sample_claims (Suc k) = claim_job (int k * 1000) 0 (sample_claims k)"

lemma sample_claims_sel:
  "pj_attempt_count (sample_claims k) = k \<and> pj_max_attempts (sample_claims k) = 5 \<and>
   pj_next_attempt_at (sample_claims k) = 0 \<and>
   pj_status (sample_claims k) = (if k = 0 then Js_pending else Js_processing) \<and>
   pj_locked_until (sample_claims k) = (if k = 0 then None else Some (int (k - 1) * 1000))"
  by (induction k) (simp_all add: sample_job_def claim_job_def time_defs)

lemma sample_claimable: "k \<le> 4 \<Longrightarrow> claimable (int k * 1000) (sample_claims k)"
  using sample_claims_sel [of k] by (simp add: claimable_def)

lemma sample_claims_run: "k \<le> 5 \<Longrightarrow> job_run (sample_claims k)"
proof (induction k)
  case 0
  show ?case using sample_claims_sel [of 0] by (intro job_run.queued) simp_all
next
  case (Suc k)
  then show ?case using job_run.claimed [OF _ sample_claimable] by simp
qed

theorem job_attempts_bounded_witness:
  "pj_status (failed_job 9 HTTPError (sample_claims 1)) = Js_retry \<and>
   pj_next_attempt_at (failed_job 9 HTTPError (sample_claims 1)) = 9 + seconds 2"
proof -
  have "pj_status (sample_claims 1) = Js_processing" using sample_claims_sel [of 1] by simp
  from job_attempts_bounded [OF sample_claims_run this, of 9 HTTPError] show ?thesis
    using sample_claims_sel [of 1] by simp
qed

theorem crashed_last_attempt_sticks_witness:
  "\<forall>t. \<not> claimable t (claim_job 4000 120 (sample_claims 4))"
  using crashed_last_attempt_sticks [OF sample_claims_run [of 4], of "4000" 120]
    sample_claimable [of 4] sample_claims_sel [of 4] by simp

end
