(* ===== verification/Throttle.thy ===== *)
theory Throttle
  imports Models
begin

text \<open>
  \<^verbatim>\<open>pipeline/throttle.py\<close>: the slots of an external provider. \<open>t0\<close> is the clock when the
  row is inserted, \<open>t1\<close> the clock under the row lock; the result is the time to sleep before
  the call.
\<close>

definition set_slot :: "string \<Rightarrow> time \<Rightarrow> db \<Rightarrow> db" where
  "set_slot provider t d =
     d\<lparr>db_rate_limits := tupd (\<lambda>r. rl_provider r = provider) (\<lambda>r. r\<lparr>rl_next_allowed_at := t\<rparr>)
        (db_rate_limits d)\<rparr>"

definition ensure_slot_row :: "time \<Rightarrow> string \<Rightarrow> db \<Rightarrow> db" where
  "ensure_slot_row t0 provider d =
     (case tget rl_provider provider (db_rate_limits d) of
        Some _ \<Rightarrow> d
      | None \<Rightarrow> d\<lparr>db_rate_limits := db_rate_limits d @
                   [\<lparr>rl_provider = provider, rl_next_allowed_at = t0\<rparr>]\<rparr>)"

definition next_allowed :: "string \<Rightarrow> db \<Rightarrow> time option" where
  "next_allowed provider d =
     map_option rl_next_allowed_at (tget rl_provider provider (db_rate_limits d))"

definition reserve_slot :: "time \<Rightarrow> time \<Rightarrow> string \<Rightarrow> time \<Rightarrow> db \<Rightarrow> exn + (time \<times> db)" where
  "reserve_slot t0 t1 provider min_interval d0 =
     (let d = ensure_slot_row t0 provider d0 in
      case next_allowed provider d of
        None \<Rightarrow> Inl NoResultFound
      | Some allowed \<Rightarrow>
          let slot = max t1 allowed in
          Inr (max 0 (slot - t1), set_slot provider (slot + min_interval) d))"

section \<open>Facts\<close>

lemma ensure_slot_row_allowed:
  "next_allowed provider (ensure_slot_row t0 provider d) =
     Some (case next_allowed provider d of Some t \<Rightarrow> t | None \<Rightarrow> t0)"
  by (auto simp: ensure_slot_row_def next_allowed_def tget_append tget_Cons split: option.splits)

lemma ensure_slot_row_other:
  "q \<noteq> p \<Longrightarrow> next_allowed q (ensure_slot_row t0 p d) = next_allowed q d"
  by (auto simp: ensure_slot_row_def next_allowed_def tget_append tget_Cons split: option.splits)

lemma set_slot_allowed:
  "next_allowed q (set_slot p t d) =
     (if q = p then map_option (\<lambda>_. t) (next_allowed q d) else next_allowed q d)"
proof -
  have "tget rl_provider q (db_rate_limits (set_slot p t d)) =
      map_option (\<lambda>r. if rl_provider r = p then r\<lparr>rl_next_allowed_at := t\<rparr> else r)
        (tget rl_provider q (db_rate_limits d))"
    by (simp add: set_slot_def tget_tupd)
  then show ?thesis
    using tget_SomeD [of rl_provider q "db_rate_limits d"]
    by (cases "tget rl_provider q (db_rate_limits d)") (auto simp: next_allowed_def)
qed

lemma reserve_slot_Inr:
  obtains slot d1 where "reserve_slot t0 t1 p i d = Inr (slot - t1, d1)"
    and "t1 \<le> slot" and "next_allowed p d1 = Some (slot + i)"
    and "\<And>a. next_allowed p d = Some a \<Longrightarrow> a \<le> slot"
    and "\<And>q. q \<noteq> p \<Longrightarrow> next_allowed q d1 = next_allowed q d"
proof -
  obtain allowed where a: "next_allowed p (ensure_slot_row t0 p d) = Some allowed"
    by (simp add: ensure_slot_row_allowed)
  show thesis
  proof (rule that)
    show "reserve_slot t0 t1 p i d =
        Inr (max t1 allowed - t1, set_slot p (max t1 allowed + i) (ensure_slot_row t0 p d))"
      using a by (simp add: reserve_slot_def Let_def)
    show "x \<le> max t1 allowed" if "next_allowed p d = Some x" for x
      using a that ensure_slot_row_allowed [of p t0 d] by simp
  qed (use a in \<open>simp_all add: set_slot_allowed ensure_slot_row_other\<close>)
qed

text \<open>The times at which the callers of one provider may call, one caller after the other; each
  caller has its own two clock readings.\<close>

fun slot_times :: "string \<Rightarrow> time \<Rightarrow> (time \<times> time) list \<Rightarrow> db \<Rightarrow> time list" where
  "slot_times p i [] d = []"
| "slot_times p i ((t0, t1) # cs) d =
     (case reserve_slot t0 t1 p i d of
        Inl e \<Rightarrow> []
      | Inr (wait, d1) \<Rightarrow> (t1 + wait) # slot_times p i cs d1)"

lemma slot_times_after:
  "0 \<le> i \<Longrightarrow> next_allowed p d = Some a \<Longrightarrow> length (slot_times p i cs d) = length cs \<and>
     (\<forall>x \<in> set (slot_times p i cs d). a \<le> x) \<and>
     sorted_wrt (\<lambda>x y. x + i \<le> y) (slot_times p i cs d)"
proof (induction cs arbitrary: d a)
  case Nil
  then show ?case by simp
next
  case (Cons c cs)
  obtain t0 t1 where c: "c = (t0, t1)" by fastforce
  obtain slot d1 where r: "reserve_slot t0 t1 p i d = Inr (slot - t1, d1)" "t1 \<le> slot"
    and n: "next_allowed p d1 = Some (slot + i)" and ge: "\<And>b. next_allowed p d = Some b \<Longrightarrow> b \<le> slot"
    by (rule reserve_slot_Inr [of t0 t1 p i d]) metis
  from Cons.IH [OF Cons.prems(1) n] ge [OF Cons.prems(2)] Cons.prems(1) show ?case
    by (auto simp: c r)
qed

text \<open>C33. Whatever the clocks of the processes read, the calls to one provider that obey their
  reservations are at least the minimum interval apart, every caller gets a slot, no caller waits a
  negative time, and reservations of one provider do not move those of another.\<close>

theorem provider_calls_spaced:
  assumes "0 \<le> i"
  shows "length (slot_times p i cs d) = length cs \<and>
         sorted_wrt (\<lambda>x y. x + i \<le> y) (slot_times p i cs d) \<and>
         (\<exists>wait d1. reserve_slot t0 t1 p i d = Inr (wait, d1) \<and> 0 \<le> wait \<and>
            (\<forall>q. q \<noteq> p \<longrightarrow> next_allowed q d1 = next_allowed q d))"
proof (intro conjI)
  have spaced: "length (slot_times p i cs d) = length cs \<and>
      sorted_wrt (\<lambda>x y. x + i \<le> y) (slot_times p i cs d)"
  proof (cases cs)
    case Nil
    then show ?thesis by simp
  next
    case (Cons c cs')
    obtain u0 u1 where c: "c = (u0, u1)" by fastforce
    obtain slot d1 where r: "reserve_slot u0 u1 p i d = Inr (slot - u1, d1)"
      and n: "next_allowed p d1 = Some (slot + i)"
      by (rule reserve_slot_Inr [of u0 u1 p i d]) metis
    from slot_times_after [OF assms n, of cs'] show ?thesis by (simp add: Cons c r)
  qed
  then show "length (slot_times p i cs d) = length cs"
    and "sorted_wrt (\<lambda>x y. x + i \<le> y) (slot_times p i cs d)" by simp_all
  obtain slot d1 where "reserve_slot t0 t1 p i d = Inr (slot - t1, d1)" "t1 \<le> slot"
    "\<And>q. q \<noteq> p \<Longrightarrow> next_allowed q d1 = next_allowed q d"
    by (rule reserve_slot_Inr [of t0 t1 p i d]) metis
  then show "\<exists>wait d1. reserve_slot t0 t1 p i d = Inr (wait, d1) \<and> 0 \<le> wait \<and>
      (\<forall>q. q \<noteq> p \<longrightarrow> next_allowed q d1 = next_allowed q d)"
    by (intro exI [of _ "slot - t1"] exI [of _ d1]) auto
qed

theorem provider_calls_spaced_witness:
  "sorted_wrt (\<lambda>x y. x + 3000000 \<le> y)
     (slot_times ''openrouter'' 3000000 [(0, 0), (10, 10), (5, 5)] empty_db)"
  using provider_calls_spaced [of 3000000 "''openrouter''" "[(0, 0), (10, 10), (5, 5)]" empty_db 0 0] by simp

end
