(* ===== verification/Dedup.thy ===== *)
theory Dedup
  imports ReposWork
begin

text \<open>
  \<^verbatim>\<open>pipeline/dedup.py\<close>: the distance on the sphere and the search for the nearest open
  complaint of the same category. Coordinates and distances are real numbers.
\<close>

definition EARTH_RADIUS_M :: real where "EARTH_RADIUS_M = 6371000"

definition haversine_m :: "real \<Rightarrow> real \<Rightarrow> real \<Rightarrow> real \<Rightarrow> real" where
  "haversine_m lat1 lon1 lat2 lon2 =
     (let phi1 = radians lat1; phi2 = radians lat2;
          d_phi = radians (lat2 - lat1); d_lambda = radians (lon2 - lon1);
          a = (sin (d_phi / 2))\<^sup>2 + cos phi1 * cos phi2 * (sin (d_lambda / 2))\<^sup>2
      in 2 * EARTH_RADIUS_M * arcsin (min 1 (sqrt a)))"

text \<open>The loop over the candidates, with the best match so far.\<close>

fun nearest ::
    "real \<Rightarrow> real \<Rightarrow> real \<Rightarrow> (grievance \<times> real) option \<Rightarrow> grievance list \<Rightarrow> (grievance \<times> real) option" where
  "nearest lat lon radius_m best [] = best"
| "nearest lat lon radius_m best (c # cs) =
     (case (gr_location_latitude c, gr_location_longitude c) of
        (Some la, Some lo) \<Rightarrow>
          let distance = haversine_m lat lon la lo in
          if distance \<le> radius_m \<and> (case best of None \<Rightarrow> True | Some (_, b) \<Rightarrow> distance < b)
          then nearest lat lon radius_m (Some (c, distance)) cs
          else nearest lat lon radius_m best cs
      | _ \<Rightarrow> nearest lat lon radius_m best cs)"

definition find_duplicate ::
    "time \<Rightarrow> string \<Rightarrow> real option \<Rightarrow> real option \<Rightarrow> real \<Rightarrow> uuid option \<Rightarrow> db \<Rightarrow> (grievance \<times> real) option" where
  "find_duplicate now cat lat lon radius_m exclude d =
     (case (lat, lon) of
        (Some la, Some lo) \<Rightarrow>
          nearest la lo radius_m None (find_dedup_candidates now cat la lo radius_m exclude d)
      | _ \<Rightarrow> None)"

section \<open>Facts about the distance\<close>

lemma haversine_sym: "haversine_m lat1 lon1 lat2 lon2 = haversine_m lat2 lon2 lat1 lon1"
proof -
  have "radians (x - y) / 2 = - (radians (y - x) / 2)" for x y
    by (simp add: radians_def field_simps)
  then have "(sin (radians (x - y) / 2))\<^sup>2 = (sin (radians (y - x) / 2))\<^sup>2" for x y
    by (metis sin_minus power2_minus)
  then show ?thesis
    by (simp add: haversine_m_def Let_def mult.commute)
qed

lemma haversine_self: "haversine_m lat lon lat lon = 0"
  by (simp add: haversine_m_def radians_def)

lemma min_sqrt_range: "0 \<le> a \<Longrightarrow> 0 \<le> min 1 (sqrt a) \<and> min 1 (sqrt a) \<le> (1 :: real)"
  by auto

lemma cos_lat_nonneg: "\<bar>lat\<bar> \<le> 90 \<Longrightarrow> 0 \<le> cos (radians lat)"
proof (rule cos_ge_zero)
  assume "\<bar>lat\<bar> \<le> 90"
  then have "- 90 \<le> lat" "lat \<le> 90" by auto
  then have "lat * pi \<le> 90 * pi" "- 90 * pi \<le> lat * pi"
    using mult_right_mono [of "- 90" lat pi] mult_right_mono [of lat 90 pi] by auto
  then show "- (pi / 2) \<le> radians lat" and "radians lat \<le> pi / 2"
    by (simp_all add: radians_def)
qed

lemma haversine_bounds:
  assumes "\<bar>lat1\<bar> \<le> 90" and "\<bar>lat2\<bar> \<le> 90"
  shows "0 \<le> haversine_m lat1 lon1 lat2 lon2 \<and> haversine_m lat1 lon1 lat2 lon2 \<le> pi * EARTH_RADIUS_M"
proof -
  define a where "a = (sin (radians (lat2 - lat1) / 2))\<^sup>2 +
      cos (radians lat1) * cos (radians lat2) * (sin (radians (lon2 - lon1) / 2))\<^sup>2"
  have "0 \<le> a"
    using cos_lat_nonneg [OF assms(1)] cos_lat_nonneg [OF assms(2)] by (simp add: a_def)
  then have r: "0 \<le> min 1 (sqrt a)" "min 1 (sqrt a) \<le> 1" by auto
  have "0 \<le> arcsin (min 1 (sqrt a))"
    using r arcsin_le_arcsin [of 0 "min 1 (sqrt a)"] by simp
  moreover have "arcsin (min 1 (sqrt a)) \<le> pi / 2"
    using r by (intro arcsin_ubound) linarith+
  ultimately show ?thesis
    by (simp add: haversine_m_def Let_def a_def [symmetric] EARTH_RADIUS_M_def)
qed

section \<open>Facts about the search\<close>

definition in_radius :: "real \<Rightarrow> real \<Rightarrow> real \<Rightarrow> grievance \<Rightarrow> real \<Rightarrow> bool" where
  "in_radius lat lon radius_m g x =
     (\<exists>la lo. gr_location_latitude g = Some la \<and> gr_location_longitude g = Some lo \<and>
        x = haversine_m lat lon la lo \<and> x \<le> radius_m)"

lemma nearest_from:
  "nearest lat lon r best cs = Some (g, x) \<Longrightarrow> best = Some (g, x) \<or> g \<in> set cs \<and> in_radius lat lon r g x"
proof (induction lat lon r best cs rule: nearest.induct)
  case (2 lat lon r best c cs)
  then show ?case
    by (fastforce simp: in_radius_def Let_def split: option.splits if_splits)
qed simp

lemma nearest_improves:
  "nearest lat lon r (Some (b, y)) cs \<noteq> None \<and>
   (nearest lat lon r (Some (b, y)) cs = Some (g, x) \<longrightarrow> x \<le> y)"
proof (induction cs arbitrary: b y)
  case Nil
  show ?case by simp
next
  case (Cons c cs)
  show ?case
  proof (cases "gr_location_latitude c = None \<or> gr_location_longitude c = None")
    case True
    then show ?thesis using Cons by (auto split: option.splits)
  next
    case False
    then obtain la lo where l: "gr_location_latitude c = Some la" "gr_location_longitude c = Some lo"
      by auto
    show ?thesis
      using Cons.IH [of c "haversine_m lat lon la lo"] Cons.IH [of b y]
      by (auto simp: l Let_def)
  qed
qed

lemma nearest_least:
  "g' \<in> set cs \<Longrightarrow> in_radius lat lon r g' y \<Longrightarrow>
   \<exists>g x. nearest lat lon r best cs = Some (g, x) \<and> x \<le> y"
proof (induction cs arbitrary: best)
  case Nil
  then show ?case by simp
next
  case (Cons c cs)
  show ?case
  proof (cases "c = g'")
    case False
    then have "\<exists>g x. nearest lat lon r b cs = Some (g, x) \<and> x \<le> y" for b
      using Cons by auto
    then show ?thesis by (auto simp: Let_def split: option.splits)
  next
    case True
    from Cons.prems(2) obtain la lo where l: "gr_location_latitude c = Some la"
      "gr_location_longitude c = Some lo" "y = haversine_m lat lon la lo" "y \<le> r"
      by (auto simp: in_radius_def True)
    have imp: "\<exists>g x. nearest lat lon r (Some (b, z)) cs = Some (g, x) \<and> x \<le> z" for b z
      using nearest_improves [of lat lon r b z cs] by (metis not_None_eq prod.collapse)
    show ?thesis
    proof (cases "case best of None \<Rightarrow> True | Some (_, b) \<Rightarrow> y < b")
      case True
      then show ?thesis using imp [of c y] l by (auto simp: Let_def)
    next
      case False
      then obtain b z where b: "best = Some (b, z)" "z \<le> y" by (auto split: option.splits)
      then show ?thesis using imp [of b z] l by (fastforce simp: Let_def)
    qed
  qed
qed

lemma nearest_spec:
  "case nearest lat lon r None cs of
      None \<Rightarrow> \<forall>g \<in> set cs. \<forall>x. \<not> in_radius lat lon r g x
    | Some (g, x) \<Rightarrow> g \<in> set cs \<and> in_radius lat lon r g x \<and>
        (\<forall>g' \<in> set cs. \<forall>y. in_radius lat lon r g' y \<longrightarrow> x \<le> y)"
proof (cases "nearest lat lon r None cs")
  case None
  then show ?thesis using nearest_least [where best = None and cs = cs] by fastforce
next
  case (Some p)
  then show ?thesis
    using nearest_from [of lat lon r None cs "fst p" "snd p"]
      nearest_least [where best = None and cs = cs and lat = lat and lon = lon and r = r]
    by fastforce
qed

lemma find_duplicate_Some:
  assumes "find_duplicate now cat lat lon r (Some me) d = Some (m, x)"
  shows "m \<in> set (db_grievances d) \<and> gr_id m \<noteq> me \<and> gr_category m = Some cat \<and>
    gr_status m = Gs_pending_window"
proof -
  obtain la lo where l: "lat = Some la" "lon = Some lo"
    "nearest la lo r None (find_dedup_candidates now cat la lo r (Some me) d) = Some (m, x)"
    using assms by (auto simp: find_duplicate_def split: option.splits)
  from nearest_from [OF l(3)] show ?thesis
    by (auto simp: find_dedup_candidates_def dedup_candidate_def Let_def)
qed

text \<open>C30. The duplicate found is an open complaint of the same category, inside its window, other
  than the one being filed, within the radius, and no closer one exists among the candidates;
  nothing is found exactly when no candidate is within the radius, or a coordinate is missing.\<close>

theorem duplicate_is_nearest:
  "(case find_duplicate now cat (Some lat) (Some lon) r (Some me) d of
      None \<Rightarrow> \<forall>g \<in> set (find_dedup_candidates now cat lat lon r (Some me) d).
                \<forall>x. \<not> in_radius lat lon r g x
    | Some (g, x) \<Rightarrow>
        g \<in> set (db_grievances d) \<and> gr_id g \<noteq> me \<and> gr_category g = Some cat \<and>
        gr_status g = Gs_pending_window \<and> in_radius lat lon r g x \<and>
        (\<exists>t. gr_window_expires_at g = Some t \<and> now < t) \<and>
        (\<forall>g' \<in> set (find_dedup_candidates now cat lat lon r (Some me) d).
           \<forall>y. in_radius lat lon r g' y \<longrightarrow> x \<le> y)) \<and>
   find_duplicate now cat None lon' r (Some me) d = None \<and>
   find_duplicate now cat lat' None r (Some me) d = None"
proof (intro conjI)
  show "find_duplicate now cat None lon' r (Some me) d = None"
    and "find_duplicate now cat lat' None r (Some me) d = None"
    by (simp_all add: find_duplicate_def split: option.splits)
  show "case find_duplicate now cat (Some lat) (Some lon) r (Some me) d of
      None \<Rightarrow> \<forall>g \<in> set (find_dedup_candidates now cat lat lon r (Some me) d).
                \<forall>x. \<not> in_radius lat lon r g x
    | Some (g, x) \<Rightarrow>
        g \<in> set (db_grievances d) \<and> gr_id g \<noteq> me \<and> gr_category g = Some cat \<and>
        gr_status g = Gs_pending_window \<and> in_radius lat lon r g x \<and>
        (\<exists>t. gr_window_expires_at g = Some t \<and> now < t) \<and>
        (\<forall>g' \<in> set (find_dedup_candidates now cat lat lon r (Some me) d).
           \<forall>y. in_radius lat lon r g' y \<longrightarrow> x \<le> y)"
    using nearest_spec [where lat = lat and lon = lon and r = r and
        cs = "find_dedup_candidates now cat lat lon r (Some me) d"]
    by (auto simp: find_duplicate_def find_dedup_candidates_def dedup_candidate_def Let_def
        split: option.splits)
qed

section \<open>The bounding box\<close>

lemma sin_lower: "(1572 / 3000 :: real) \<le> x \<Longrightarrow> x \<le> pi / 2 \<Longrightarrow> 1 / 2 < sin x"
proof -
  assume x: "1572 / 3000 \<le> x" "x \<le> pi / 2"
  let ?y = "1572 / 3000 :: real"
  have "\<bar>sin ?y - (\<Sum>m<7. sin_coeff m * ?y ^ m)\<bar> \<le> inverse (fact 7) * \<bar>?y\<bar> ^ 7"
    by (rule Maclaurin_sin_bound)
  moreover have "(\<Sum>m<7. sin_coeff m * ?y ^ m) = ?y - ?y ^ 3 / 6 + ?y ^ 5 / 120"
    by (simp add: sin_coeff_def lessThan_nat_numeral fact_numeral)
  moreover have "1 / 2 < ?y - ?y ^ 3 / 6 + ?y ^ 5 / 120 - inverse (fact 7) * \<bar>?y\<bar> ^ 7"
    by (simp add: fact_numeral power_divide)
  ultimately have "1 / 2 < sin ?y" by linarith
  also have "sin ?y \<le> sin x"
    using x pi_ge_two by (intro sin_monotone_2pi_le) auto
  finally show ?thesis .
qed

lemma pi_upper: "pi < 3144 / 1000"
proof (rule ccontr)
  assume "\<not> pi < 3144 / 1000"
  then have "1 / 2 < sin (pi / 6)" using pi_gt_zero by (intro sin_lower) auto
  then show False by (simp add: sin_30)
qed

lemma haversine_meridian:
  assumes "0 \<le> x" and "x \<le> 90"
  shows "haversine_m 0 0 x 0 = EARTH_RADIUS_M * radians x"
proof -
  have r: "0 \<le> radians x / 2" "radians x / 2 \<le> pi / 2"
    using assms pi_gt_zero mult_right_mono [of x 90 pi] by (auto simp: radians_def)
  then have "0 \<le> sin (radians x / 2)" by (intro sin_ge_zero) auto
  moreover have "arcsin (sin (radians x / 2)) = radians x / 2"
    using r pi_gt_zero by (intro arcsin_sin) linarith+
  ultimately show ?thesis
    by (simp add: haversine_m_def Let_def) (simp add: radians_def)
qed

text \<open>The bounding box is slightly smaller than the circle: it counts 111320 metres to a degree
  of latitude where the distance formula has about 111195, so a complaint due north at exactly the
  configured 300 metres is within the radius but never becomes a candidate.\<close>

theorem bounding_box_misses_neighbour:
  "\<exists>x. haversine_m 0 0 x 0 \<le> 300 \<and>
     (\<forall>g :: grievance. gr_location_latitude g = Some x \<longrightarrow> \<not> dedup_candidate now cat 0 0 300 exclude g)"
proof -
  define x where "x = 300 * 180 / (pi * EARTH_RADIUS_M)"
  have pos: "0 < pi * EARTH_RADIUS_M" by (simp add: EARTH_RADIUS_M_def)
  have big: "300 / 111320 < x"
  proof -
    have "pi * 6371000 < 20037600" using pi_upper by simp
    then show ?thesis by (simp add: x_def EARTH_RADIUS_M_def field_simps)
  qed
  have "x \<le> 1"
    using pos pi_ge_two by (simp add: x_def EARTH_RADIUS_M_def field_simps)
  with big have "haversine_m 0 0 x 0 = EARTH_RADIUS_M * radians x"
    by (intro haversine_meridian) auto
  also have "\<dots> = 300"
    using pos pi_gt_zero by (simp add: x_def radians_def EARTH_RADIUS_M_def)
  finally have "haversine_m 0 0 x 0 \<le> 300" by simp
  moreover have "\<not> dedup_candidate now cat 0 0 300 exclude g" if "gr_location_latitude g = Some x" for g
    using that big by (simp add: dedup_candidate_def between_def Let_def)
  ultimately show ?thesis by blast
qed

definition sample_open :: grievance where
  "sample_open = (draft_row 0 ''g0'' 1 ''c1'' None None Src_web sample_draft_input)
     \<lparr>gr_status := Gs_pending_window, gr_category := Some ''streetlight_out'',
      gr_window_expires_at := Some 100\<rparr>"

lemma sample_open_sel:
  "gr_location_latitude sample_open = Some 20" "gr_location_longitude sample_open = Some 78"
  "gr_id sample_open = ''g0''" "gr_status sample_open = Gs_pending_window"
  "gr_category sample_open = Some ''streetlight_out''" "gr_window_expires_at sample_open = Some 100"
  by (simp_all add: sample_open_def draft_row_def sample_draft_input_def)

lemma sample_candidate: "dedup_candidate 5 ''streetlight_out'' 20 78 300 (Some ''g1'') sample_open"
  by (simp add: dedup_candidate_def sample_open_sel between_def Let_def)

theorem duplicate_is_nearest_witness:
  "\<exists>x. find_duplicate 5 ''streetlight_out'' (Some 20) (Some 78) 300 (Some ''g1'')
         (empty_db\<lparr>db_grievances := [sample_open]\<rparr>) = Some (sample_open, x) \<and>
       in_radius 20 78 300 sample_open x"
proof -
  let ?d = "empty_db\<lparr>db_grievances := [sample_open]\<rparr>"
  have "find_dedup_candidates 5 ''streetlight_out'' 20 78 300 (Some ''g1'') ?d = [sample_open]"
    by (simp add: find_dedup_candidates_def sample_candidate)
  then have f: "find_duplicate 5 ''streetlight_out'' (Some 20) (Some 78) 300 (Some ''g1'') ?d =
      Some (sample_open, 0)"
    by (simp add: find_duplicate_def sample_open_sel haversine_self Let_def)
  then show ?thesis
    using duplicate_is_nearest [of 5 "''streetlight_out''" 20 78 300 "''g1''" ?d None None] by auto
qed

theorem bounding_box_misses_neighbour_witness:
  "\<exists>g x. gr_location_latitude g = Some x \<and> haversine_m 0 0 x 0 \<le> 300 \<and>
     \<not> dedup_candidate 0 ''streetlight_out'' 0 0 300 None (g :: grievance)"
proof -
  obtain x where x: "haversine_m 0 0 x 0 \<le> 300" and
    miss: "\<And>g :: grievance. gr_location_latitude g = Some x \<Longrightarrow>
             \<not> dedup_candidate 0 ''streetlight_out'' 0 0 300 None g"
    using bounding_box_misses_neighbour [of 0 "''streetlight_out''" None] by blast
  have "gr_location_latitude (sample_open\<lparr>gr_location_latitude := Some x\<rparr>) = Some x" by simp
  with x miss show ?thesis by blast
qed

end
