(* ===== verification/External.thy ===== *)
theory External
  imports Throttle Outbound ReposWork
begin

text \<open>
  The adapters of external services: \<^verbatim>\<open>pipeline/media.py\<close>, \<^verbatim>\<open>stt.py\<close>,
  \<^verbatim>\<open>geocoding.py\<close> and \<^verbatim>\<open>dispatchers.py\<close>. What a service answers to one operation is
  the record \<open>world\<close>: the decoded response or the exception of the client library; it also
  holds the library functions the model leaves open (\<^verbatim>\<open>json.loads\<close>, \<^verbatim>\<open>str\<close> of a
  JSON value that is not a string, Base64, media-type guessing, PDF rendering). The
  adapters decide which exceptions are absorbed and which reach the caller.
\<close>

record world =
  w_post_graph :: "json \<Rightarrow> exn + json"
  w_media_lookup :: "string \<Rightarrow> exn + json"
  w_media_fetch :: "json \<Rightarrow> exn + string"
  w_media_upload :: "string \<Rightarrow> string \<Rightarrow> string \<Rightarrow> exn + json"
  w_sarvam :: "string \<Rightarrow> string \<Rightarrow> exn + json"
  w_nominatim :: "real \<Rightarrow> real \<Rightarrow> exn + json"
  w_llm :: "string \<Rightarrow> string \<Rightarrow> json \<Rightarrow> exn + json"
  w_json_loads :: "string \<Rightarrow> json option"
  w_str :: "json \<Rightarrow> string"
  w_b64 :: "string \<Rightarrow> string"
  w_read_file :: "string \<Rightarrow> exn + string"
  w_guess_type :: "string \<Rightarrow> string option"
  w_render_pdf :: "string list \<Rightarrow> string option \<Rightarrow> string"
  w_municipal :: "string \<Rightarrow> string \<Rightarrow> string \<Rightarrow> exn + json"
  w_smtp :: "string \<Rightarrow> string \<Rightarrow> string \<Rightarrow> exn + unit"

section \<open>Uploads\<close>

definition AUDIO_MIME_TYPES :: "string list" where
  "AUDIO_MIME_TYPES = [''audio/ogg'', ''audio/opus'', ''audio/mpeg'', ''audio/mp3'', ''audio/wav'',
     ''audio/webm'', ''audio/mp4'']"

definition IMAGE_MIME_TYPES :: "string list" where
  "IMAGE_MIME_TYPES = [''image/jpeg'', ''image/png'', ''image/webp'']"

definition normalize_mime_type :: "string option \<Rightarrow> string option" where
  "normalize_mime_type mime_type =
     (if \<not> truthy mime_type then None
      else
        let m = py_lower (py_strip (fst (py_partition (CHR '';'') (the mime_type)))) in
        if m = [] then None else Some m)"

datatype upload_kind = Kind_audio | Kind_image

definition validate_upload :: "string option \<Rightarrow> nat \<Rightarrow> upload_kind \<Rightarrow> settings \<Rightarrow> exn + unit" where
  "validate_upload mime_type size_bytes kind s =
     (let allowed = (if kind = Kind_audio then AUDIO_MIME_TYPES else IMAGE_MIME_TYPES);
          max_bytes = (if kind = Kind_audio then s_max_audio_bytes s else s_max_image_bytes s)
      in if \<not> (\<exists>m \<in> set allowed. normalize_mime_type mime_type = Some m) then Inl UploadTypeNotAllowed
         else if size_bytes > max_bytes then Inl UploadTooLarge
         else Inr ())"

text \<open>A \<^verbatim>\<open>Path\<close>: whether it is absolute, and its parts.\<close>

type_synonym path = "bool \<times> string list"

definition path_of :: "string \<Rightarrow> path" where
  "path_of s = (startswith s ''/'', filter (\<lambda>p. p \<noteq> [] \<and> p \<noteq> ''.'') (py_split (CHR ''/'') s))"

definition path_str :: "path \<Rightarrow> string" where
  "path_str p =
     (case p of (absolute, parts) \<Rightarrow>
        if absolute then ''/'' @ py_join ''/'' parts
        else if parts = [] then ''.'' else py_join ''/'' parts)"

definition path_join :: "path \<Rightarrow> path \<Rightarrow> path" where
  "path_join a b = (if fst b then b else (fst a, snd a @ snd b))"

definition relative_to :: "path \<Rightarrow> path \<Rightarrow> path option" where
  "relative_to p base =
     (if fst p = fst base \<and> take (length (snd base)) (snd p) = snd base
      then Some (False, drop (length (snd base)) (snd p)) else None)"

definition artifact_path :: "settings \<Rightarrow> string \<Rightarrow> path" where
  "artifact_path s stored_path =
     (let p = path_of stored_path; base = path_of (s_upload_dir s);
          rel = (case relative_to p base of
                   Some r \<Rightarrow> r
                 | None \<Rightarrow>
                     if ''uploads'' \<in> set (snd p)
                     then (False, drop 1 (dropWhile (\<lambda>x. x \<noteq> ''uploads'') (snd p)))
                     else p)
      in path_join base rel)"

definition save_upload :: "settings \<Rightarrow> string \<Rightarrow> string \<Rightarrow> string" where
  "save_upload s grievance_id name =
     path_str (path_join (path_of (s_upload_dir s)) (False, [grievance_id, name]))"

section \<open>WhatsApp media\<close>

definition download_whatsapp_media :: "world \<Rightarrow> settings \<Rightarrow> string \<Rightarrow> exn + (string \<times> string)" where
  "download_whatsapp_media w s media_id =
     (if \<not> truthy (s_whatsapp_access_token s) then Inl RuntimeError
      else
        bindE (w_media_lookup w media_id) (\<lambda>info.
          case info of
            JObj d \<Rightarrow>
              (case map_of d ''url'' of
                 None \<Rightarrow> Inl HTTPError
               | Some url \<Rightarrow>
                   bindE (case map_of d ''mime_type'' of
                            None \<Rightarrow> Inr (Some ''application/octet-stream'') | Some m \<Rightarrow> jtext m)
                     (\<lambda>mime. bindE (w_media_fetch w url) (\<lambda>content.
                        case mime of None \<Rightarrow> Inl TypeError | Some m \<Rightarrow> Inr (content, m))))
          | _ \<Rightarrow> Inl HTTPError))"

definition upload_whatsapp_media ::
    "world \<Rightarrow> settings \<Rightarrow> string \<Rightarrow> string \<Rightarrow> string \<Rightarrow> exn + string" where
  "upload_whatsapp_media w s data filename mime_type =
     (if \<not> truthy (s_whatsapp_access_token s) \<or> \<not> truthy (s_whatsapp_phone_number_id s)
      then Inl RuntimeError
      else
        bindE (w_media_upload w data filename mime_type) (\<lambda>r.
          case r of
            JObj d \<Rightarrow> (case map_of d ''id'' of
                         None \<Rightarrow> Inl KeyError
                       | Some v \<Rightarrow> bindE (jtext v) (\<lambda>t. case t of None \<Rightarrow> Inl TypeError | Some i \<Rightarrow> Inr i))
          | _ \<Rightarrow> Inl TypeError))"

section \<open>Speech to text\<close>

record transcription =
  st_ok :: bool
  st_text :: "string option"
  st_detected_language :: "string option"

definition stt_failed :: transcription where
  "stt_failed = \<lparr>st_ok = False, st_text = None, st_detected_language = None\<rparr>"

definition http_or_value_error :: "exn \<Rightarrow> bool" where
  "http_or_value_error e = (e = HTTPError \<or> (\<exists>n. e = HTTPStatusError n) \<or> e = ValueError)"

definition stt_result :: "exn + json \<Rightarrow> exn + transcription" where
  "stt_result response =
     (case response of
        Inl e \<Rightarrow> if http_or_value_error e then Inr stt_failed else Inl e
      | Inr (JObj body) \<Rightarrow>
          if \<not> jtruthy (jget body ''transcript'') then Inr stt_failed
          else
            bindE (jfield body ''transcript'') (\<lambda>t.
            bindE (jfield body ''language_code'') (\<lambda>l.
              Inr \<lparr>st_ok = True, st_text = t, st_detected_language = l\<rparr>))
      | Inr _ \<Rightarrow> Inr stt_failed)"

definition transcribe_clip ::
    "world \<Rightarrow> settings \<Rightarrow> time \<Rightarrow> string \<Rightarrow> string \<Rightarrow> db \<Rightarrow> (exn + transcription) \<times> db" where
  "transcribe_clip w s now audio_bytes mime_type d =
     (if \<not> truthy (s_sarvam_api_key s) then (Inr stt_failed, d)
      else
        case reserve_slot now now ''sarvam'' (s_sarvam_min_interval s) d of
          Inl e \<Rightarrow> (Inl e, d)
        | Inr (wait, d1) \<Rightarrow>
            let mime = str_or (normalize_mime_type (Some mime_type)) ''audio/ogg'' in
            (stt_result (w_sarvam w audio_bytes mime), d1))"

section \<open>Reverse geocoding\<close>

definition round5 :: "real \<Rightarrow> real" where
  "round5 x = of_int (round_half_even (x * 100000)) / 100000"

definition geocode_failed :: geocode where
  "geocode_failed = \<lparr>ge_geo_status = ''failed'', ge_display_address = None, ge_raw = None\<rparr>"

definition nominatim_reverse :: "exn + json \<Rightarrow> exn + geocode" where
  "nominatim_reverse response =
     (case response of
        Inl e \<Rightarrow> if http_or_value_error e then Inr geocode_failed else Inl e
      | Inr (JObj data) \<Rightarrow>
          if \<not> jtruthy (jget data ''display_name'') then
            Inr \<lparr>ge_geo_status = ''empty'', ge_display_address = None, ge_raw = Some (JObj data)\<rparr>
          else
            bindE (jfield data ''display_name'') (\<lambda>name.
              Inr \<lparr>ge_geo_status = ''ok'', ge_display_address = name, ge_raw = Some (JObj data)\<rparr>)
      | Inr _ \<Rightarrow> Inr \<lparr>ge_geo_status = ''empty'', ge_display_address = None, ge_raw = None\<rparr>)"

definition geocode_hits :: "settings \<Rightarrow> real \<Rightarrow> real \<Rightarrow> db \<Rightarrow> geocode_row list" where
  "geocode_hits s lat_round lon_round d =
     filter (\<lambda>r. gc_provider r = s_geocoder_provider s \<and> gc_lat_round r = lat_round \<and>
                 gc_lon_round r = lon_round \<and> gc_accept_language r = s_geocoder_language s)
       (db_geocodes d)"

definition cached_geocode :: "geocode_row \<Rightarrow> geocode" where
  "cached_geocode r =
     \<lparr>ge_geo_status = gc_status r, ge_display_address = gc_display_address r, ge_raw = gc_raw r\<rparr>"

definition store_geocode :: "settings \<Rightarrow> real \<Rightarrow> real \<Rightarrow> geocode \<Rightarrow> db \<Rightarrow> db" where
  "store_geocode s lat_round lon_round g d =
     (if geocode_hits s lat_round lon_round d \<noteq> [] then d
      else d\<lparr>db_geocodes := db_geocodes d @
        [\<lparr>gc_provider = s_geocoder_provider s, gc_lat_round = lat_round, gc_lon_round = lon_round,
          gc_accept_language = s_geocoder_language s, gc_status = ge_geo_status g,
          gc_display_address = ge_display_address g, gc_raw = ge_raw g\<rparr>]\<rparr>)"

text \<open>Rounding a missing longitude raises \<^verbatim>\<open>TypeError\<close>. The result and the database after
  the function's own commits.\<close>

definition reverse_geocode_cached ::
    "world \<Rightarrow> settings \<Rightarrow> time \<Rightarrow> real \<Rightarrow> real option \<Rightarrow> db \<Rightarrow> (exn + geocode) \<times> db" where
  "reverse_geocode_cached w s now lat lon0 d =
     (case lon0 of
        None \<Rightarrow> (Inl TypeError, d)
      | Some lon \<Rightarrow>
          let la = round5 lat; lo = round5 lon in
          (case scalar_one_or_none (geocode_hits s la lo d) of
             Inl e \<Rightarrow> (Inl e, d)
           | Inr (Some r) \<Rightarrow> (Inr (cached_geocode r), d)
           | Inr None \<Rightarrow>
               (case reserve_slot now now (s_geocoder_provider s) (s_geocoder_min_interval s) d of
                  Inl e \<Rightarrow> (Inl e, d)
                | Inr (wait, d1) \<Rightarrow>
                    (case nominatim_reverse (w_nominatim w lat lon) of
                       Inl e \<Rightarrow> (Inl e, d1)
                     | Inr g \<Rightarrow>
                         (Inr g, if ge_geo_status g \<in> {''ok'', ''empty''}
                                 then store_geocode s la lo g d1 else d1)))))"

section \<open>Department dispatchers\<close>

definition mock_dispatch :: "exn + json \<Rightarrow> exn + string" where
  "mock_dispatch response =
     (case response of
        Inl e \<Rightarrow> if http_or_value_error e \<or> e = KeyError then Inl DispatchError else Inl e
      | Inr (JObj d) \<Rightarrow>
          (case map_of d ''ref'' of
             None \<Rightarrow> Inl DispatchError
           | Some v \<Rightarrow> bindE (jtext v) (\<lambda>t. case t of None \<Rightarrow> Inl TypeError | Some r \<Rightarrow> Inr r))
      | Inr _ \<Rightarrow> Inl TypeError)"

definition smtp_dispatch :: "string \<Rightarrow> exn + unit \<Rightarrow> exn + string" where
  "smtp_dispatch hex8 sent =
     (case sent of
        Inl e \<Rightarrow> if e = OSError then Inl DispatchError else Inl e
      | Inr _ \<Rightarrow> Inr (''MAIL-'' @ hex8))"

definition dispatch_to_department ::
    "world \<Rightarrow> settings \<Rightarrow> string \<Rightarrow> string \<Rightarrow> department \<Rightarrow> string \<Rightarrow> string \<Rightarrow> exn + string" where
  "dispatch_to_department w s hex8 human_id dept summary pdf_bytes =
     (case s_dispatcher s of
        Smtp \<Rightarrow> smtp_dispatch hex8 (w_smtp w (dep_email dept) summary pdf_bytes)
      | Mock_api \<Rightarrow> mock_dispatch (w_municipal w (dep_key dept) human_id summary))"

section \<open>Facts\<close>

lemma http_or_value_error_simps [simp]:
  "http_or_value_error HTTPError" "http_or_value_error (HTTPStatusError n)"
  "http_or_value_error ValueError"
  by (simp_all add: http_or_value_error_def)

text \<open>An upload is accepted exactly when its normalised media type is on the list of its kind
  and its size is within the limit; a wrong type is reported before a wrong size.\<close>

theorem upload_accepted_iff:
  "(validate_upload m n k s = Inr () \<longleftrightarrow>
      normalize_mime_type m \<in> Some ` set (if k = Kind_audio then AUDIO_MIME_TYPES else IMAGE_MIME_TYPES) \<and>
      n \<le> (if k = Kind_audio then s_max_audio_bytes s else s_max_image_bytes s)) \<and>
   (validate_upload m n k s = Inl UploadTypeNotAllowed \<longleftrightarrow>
      normalize_mime_type m \<notin> Some ` set (if k = Kind_audio then AUDIO_MIME_TYPES else IMAGE_MIME_TYPES))"
  by (auto simp: validate_upload_def Let_def)

definition part_ok :: "string \<Rightarrow> bool" where
  "part_ok p = (p \<noteq> [] \<and> p \<noteq> ''.'' \<and> CHR ''/'' \<notin> set p)"

lemma path_of_parts_ok: "list_all part_ok (snd (path_of s))"
  by (auto simp: path_of_def part_ok_def list_all_iff dest: py_split_parts)

lemma py_split_join:
  "ps \<noteq> [] \<Longrightarrow> list_all part_ok ps \<Longrightarrow> py_split (CHR ''/'') (py_join ''/'' ps) = ps"
  by (induction "''/''" ps rule: py_join.induct)
    (auto simp: part_ok_def py_split_no_sep py_split_append_sep)

lemma join_not_absolute: "list_all part_ok ps \<Longrightarrow> ps \<noteq> [] \<Longrightarrow> \<not> startswith (py_join ''/'' ps) ''/''"
proof -
  assume ok: "list_all part_ok ps" and ne: "ps \<noteq> []"
  obtain c cs qs where ps: "ps = (c # cs) # qs" "c \<noteq> CHR ''/''"
    using ok ne by (cases ps; cases "hd ps") (auto simp: part_ok_def)
  then show ?thesis by (cases qs) (simp_all add: startswith_def)
qed

lemma filter_ok: "list_all part_ok ps \<Longrightarrow> filter (\<lambda>p. p \<noteq> [] \<and> p \<noteq> ''.'') ps = ps"
  by (induction ps) (auto simp: part_ok_def)

lemma path_of_path_str: "list_all part_ok ps \<Longrightarrow> path_of (path_str (a, ps)) = (a, ps)"
proof (cases "ps = []")
  case True
  then show ?thesis by (cases a) (simp_all add: path_of_def path_str_def startswith_def)
next
  case False
  assume ok: "list_all part_ok ps"
  show ?thesis
  proof (cases a)
    case True
    then show ?thesis
      using py_split_join [OF False ok] filter_ok [OF ok]
      by (simp add: path_of_def path_str_def startswith_def)
  next
    case nabs: False
    then show ?thesis
      using py_split_join [OF False ok] filter_ok [OF ok] join_not_absolute [OF ok False] False
      by (simp add: path_of_def path_str_def)
  qed
qed

lemma path_join_ok: "list_all part_ok (snd a) \<Longrightarrow> list_all part_ok (snd b) \<Longrightarrow> list_all part_ok (snd (path_join a b))"
  by (auto simp: path_join_def)

lemma first_uploads:
  assumes "take (length (q @ [u])) (p @ u # r) = q @ [u]" and "u \<notin> set p" and "u \<notin> set q"
  shows "p = q"
proof -
  have "takeWhile (\<lambda>x. x \<noteq> u) (p @ u # r) = p"
    using assms(2) by (induction p) auto
  moreover have "takeWhile (\<lambda>x. x \<noteq> u) (p @ u # r) = q"
  proof -
    have "p @ u # r = (q @ [u]) @ drop (length (q @ [u])) (p @ u # r)"
      using assms(1) by (metis append_take_drop_id)
    moreover have "takeWhile (\<lambda>x. x \<noteq> u) ((q @ [u]) @ z) = q" for z
      using assms(3) by (induction q) auto
    ultimately show ?thesis by metis
  qed
  ultimately show ?thesis by simp
qed

text \<open>A file saved by one process is found by another whose upload directory is mounted
  elsewhere: when both roots end in their only part \<open>uploads\<close>, the stored path resolves to the
  same grievance directory and file name below the reader's own root.\<close>

theorem stored_path_rerooted:
  assumes "path_of (s_upload_dir writer) = (a, p @ [''uploads''])" and "''uploads'' \<notin> set p"
    and "path_of (s_upload_dir reader) = (b, q @ [''uploads''])" and "''uploads'' \<notin> set q"
    and "part_ok gid" and "part_ok name"
  shows "artifact_path reader (save_upload writer gid name) = (b, q @ [''uploads'', gid, name])"
proof -
  have "list_all part_ok (p @ [''uploads''])"
    using path_of_parts_ok [of "s_upload_dir writer"] assms(1) by simp
  then have stored: "path_of (save_upload writer gid name) = (a, p @ [''uploads'', gid, name])"
    using assms(1,5,6) by (simp add: save_upload_def path_join_def path_of_path_str)
  have drop: "drop 1 (dropWhile (\<lambda>x. x \<noteq> ''uploads'') (p @ [''uploads'', gid, name])) = [gid, name]"
    using assms(2) by (induction p) auto
  show ?thesis
  proof (cases "relative_to (a, p @ [''uploads'', gid, name]) (b, q @ [''uploads''])")
    case None
    with drop show ?thesis
      by (simp add: artifact_path_def stored assms(3) path_join_def Let_def)
  next
    case (Some r)
    then have t: "take (length (q @ [''uploads''])) (p @ [''uploads'', gid, name]) = q @ [''uploads'']"
      by (auto simp: relative_to_def split: if_splits)
    have "p = q" by (rule first_uploads [OF t assms(2,4)])
    with Some have "r = (False, [gid, name])" by (auto simp: relative_to_def split: if_splits)
    with Some show ?thesis
      by (simp add: artifact_path_def stored assms(3) path_join_def Let_def)
  qed
qed

theorem stored_path_rerooted_witness:
  "artifact_path (sample_settings\<lparr>s_upload_dir := ''/data/uploads''\<rparr>) (save_upload sample_settings ''g1'' ''summary.pdf'')
   = (True, [''data'', ''uploads'', ''g1'', ''summary.pdf''])"
proof -
  have w: "path_of (s_upload_dir sample_settings) = (False, [''data''] @ [''uploads''])"
    by (simp add: sample_settings_def path_of_def startswith_def)
  have r: "path_of (s_upload_dir (sample_settings\<lparr>s_upload_dir := ''/data/uploads''\<rparr>)) =
      (True, [''data''] @ [''uploads''])"
    by (simp add: path_of_def startswith_def)
  from stored_path_rerooted [OF w _ r, of "''g1''" "''summary.pdf''"] show ?thesis
    by (simp add: part_ok_def)
qed

section \<open>What the adapters absorb\<close>

lemma stt_result_ok: "stt_result (Inl e) = Inr t \<Longrightarrow> http_or_value_error e \<and> t = stt_failed"
  by (auto simp: stt_result_def split: if_splits)

lemma reserve_slot_geocodes:
  "reserve_slot t0 t1 p i d = Inr (wt, d1) \<Longrightarrow> db_geocodes d1 = db_geocodes d"
  by (auto simp: reserve_slot_def ensure_slot_row_def set_slot_def Let_def split: option.splits)

text \<open>The geocode cache: an answer of the provider is stored under the rounded coordinates, a
  transient failure is not, and once stored every later lookup of the same cell in the same
  language returns the stored answer without calling the provider.\<close>

theorem geocode_answer_cached:
  assumes "reverse_geocode_cached w s now lat (Some lon) d = (Inr g, d1)"
    and "geocode_hits s (round5 lat) (round5 lon) d = []"
  shows "(ge_geo_status g \<in> {''ok'', ''empty''} \<longrightarrow>
            (\<forall>w' now' lat' lon'. round5 lat' = round5 lat \<longrightarrow> round5 lon' = round5 lon \<longrightarrow>
               reverse_geocode_cached w' s now' lat' (Some lon') d1 = (Inr g, d1))) \<and>
         (ge_geo_status g \<notin> {''ok'', ''empty''} \<longrightarrow> db_geocodes d1 = db_geocodes d)"
proof -
  from assms obtain wt dr where r: "reserve_slot now now (s_geocoder_provider s) (s_geocoder_min_interval s) d = Inr (wt, dr)"
    and d1: "d1 = (if ge_geo_status g \<in> {''ok'', ''empty''}
                   then store_geocode s (round5 lat) (round5 lon) g dr else dr)"
    by (auto simp: reverse_geocode_cached_def Let_def split: sum.splits prod.splits)
  have dr: "db_geocodes dr = db_geocodes d" using r by (rule reserve_slot_geocodes)
  then have none: "geocode_hits s (round5 lat) (round5 lon) dr = []"
    using assms(2) by (simp add: geocode_hits_def)
  have "reverse_geocode_cached w' s now' lat' (Some lon') d1 = (Inr g, d1)"
    if "ge_geo_status g \<in> {''ok'', ''empty''}" "round5 lat' = round5 lat" "round5 lon' = round5 lon"
    for w' now' lat' lon'
  proof -
    have "db_geocodes d1 = db_geocodes d @
        [\<lparr>gc_provider = s_geocoder_provider s, gc_lat_round = round5 lat, gc_lon_round = round5 lon,
          gc_accept_language = s_geocoder_language s, gc_status = ge_geo_status g,
          gc_display_address = ge_display_address g, gc_raw = ge_raw g\<rparr>]"
      using d1 that(1) none dr by (simp add: store_geocode_def)
    with none dr have "geocode_hits s (round5 lat) (round5 lon) d1 =
        [\<lparr>gc_provider = s_geocoder_provider s, gc_lat_round = round5 lat, gc_lon_round = round5 lon,
          gc_accept_language = s_geocoder_language s, gc_status = ge_geo_status g,
          gc_display_address = ge_display_address g, gc_raw = ge_raw g\<rparr>]"
      using assms(2) by (simp add: geocode_hits_def)
    then show ?thesis
      by (simp add: reverse_geocode_cached_def that cached_geocode_def Let_def)
  qed
  then show ?thesis using d1 dr by auto
qed

definition sample_world :: world where
  "sample_world =
     \<lparr>w_post_graph = (\<lambda>_. Inr (JObj [])), w_media_lookup = (\<lambda>_. Inl HTTPError),
      w_media_fetch = (\<lambda>_. Inl HTTPError), w_media_upload = (\<lambda>_ _ _. Inl HTTPError),
      w_sarvam = (\<lambda>_ _. Inl HTTPError),
      w_nominatim = (\<lambda>_ _. Inr (JObj [(''display_name'', JStr ''MG Road'')])),
      w_llm = (\<lambda>_ _ _. Inl HTTPError), w_json_loads = (\<lambda>_. None),
      w_str = (\<lambda>_. []), w_b64 = (\<lambda>b. b),
      w_read_file = (\<lambda>_. Inl OSError), w_guess_type = (\<lambda>_. None),
      w_render_pdf = (\<lambda>_ _. ''pdf''), w_municipal = (\<lambda>_ _ _. Inl HTTPError),
      w_smtp = (\<lambda>_ _ _. Inl OSError)\<rparr>"

lemma sample_geocode_call:
  "\<exists>d1. reverse_geocode_cached sample_world sample_settings 0 20 (Some 78) empty_db = (Inr
     \<lparr>ge_geo_status = ''ok'', ge_display_address = Some ''MG Road'',
      ge_raw = Some (JObj [(''display_name'', JStr ''MG Road'')])\<rparr>, d1)"
proof -
  obtain slot d1 where "reserve_slot 0 0 (s_geocoder_provider sample_settings)
      (s_geocoder_min_interval sample_settings) empty_db = Inr (slot - 0, d1)"
    by (rule reserve_slot_Inr [of 0 0 "s_geocoder_provider sample_settings"
        "s_geocoder_min_interval sample_settings" empty_db]) metis
  then show ?thesis
    by (simp add: reverse_geocode_cached_def geocode_hits_def empty_db_def nominatim_reverse_def
        sample_world_def jget_def jfield_def jtext_def Let_def)
qed

theorem geocode_answer_cached_witness:
  "\<exists>g d1. ge_geo_status g = ''ok'' \<and>
     reverse_geocode_cached (sample_world\<lparr>w_nominatim := \<lambda>_ _. Inl HTTPError\<rparr>) sample_settings 9 20 (Some 78) d1
       = (Inr g, d1)"
proof -
  obtain d1 where c: "reverse_geocode_cached sample_world sample_settings 0 20 (Some 78) empty_db = (Inr
     \<lparr>ge_geo_status = ''ok'', ge_display_address = Some ''MG Road'',
      ge_raw = Some (JObj [(''display_name'', JStr ''MG Road'')])\<rparr>, d1)"
    using sample_geocode_call by blast
  have "geocode_hits sample_settings (round5 20) (round5 78) empty_db = []"
    by (simp add: geocode_hits_def empty_db_def)
  note hit = geocode_answer_cached [OF c this, THEN conjunct1, rule_format]
  show ?thesis
    by (intro exI conjI, rule geocode.select_convs, rule hit) simp_all
qed

end
