(* ===== verification/Pipeline.thy ===== *)
theory Pipeline
  imports Classify Dedup
begin

text \<open>
  \<^verbatim>\<open>pipeline/core.py\<close> and the text that \<^verbatim>\<open>pipeline/pdfgen.py\<close> lays out: what happens to a
  filed complaint, from the first pass (transcribe, geocode, fetch the photo, extract, route) over
  the photo check, the escalated second extraction and the citizen's confirmation to dispatch, the
  duplicate window and the recovery sweeps.

  An operation returns its result or the exception that leaves it, and the database as committed:
  writes of a session that ends in an exception are lost, except what an inner commit (rate
  limiter, geocode cache, the \<^verbatim>\<open>dispatching\<close> mark) has already made durable. One operation
  reads one time. The bytes of files are read from the world and not written back to it; measured
  durations are left out.
\<close>

section \<open>Names stored in columns\<close>

definition flag_text :: "flag \<Rightarrow> string" where
  "flag_text f =
     (case f of
        Fl_transcription_failed \<Rightarrow> ''transcription_failed''
      | Fl_classification_failed \<Rightarrow> ''classification_failed''
      | Fl_image_check_degraded \<Rightarrow> ''image_check_degraded''
      | Fl_official_review_required \<Rightarrow> ''official_review_required''
      | Fl_multiple_issues \<Rightarrow> ''multiple_issues''
      | Fl_photo_mismatch_accepted \<Rightarrow> ''photo_mismatch_accepted''
      | Fl_category_dispute \<Rightarrow> ''category_dispute'')"

definition priority_text :: "priority \<Rightarrow> string" where
  "priority_text p = (case p of Pr_priority \<Rightarrow> ''priority'' | Pr_normal \<Rightarrow> ''normal'')"

definition term_text :: "term_hint \<Rightarrow> string" where
  "term_text t = (case t of Short_term \<Rightarrow> ''short_term'' | Long_term \<Rightarrow> ''long_term'')"

definition disposition_text :: "disposition \<Rightarrow> string" where
  "disposition_text x =
     (case x of
        Municipal_ticket \<Rightarrow> ''municipal_ticket''
      | Municipal_ticket_and_escalate \<Rightarrow> ''municipal_ticket_and_escalate''
      | Redirect \<Rightarrow> ''redirect''
      | Emergency_redirect \<Rightarrow> ''emergency_redirect''
      | Needs_human_review \<Rightarrow> ''needs_human_review'')"

text \<open>\<^verbatim>\<open>list(dict.fromkeys(xs))\<close>: the first occurrences, in order.\<close>

fun first_occurrences :: "'a list \<Rightarrow> 'a list" where
  "first_occurrences [] = []"
| "first_occurrences (x # xs) = x # filter (\<lambda>y. y \<noteq> x) (first_occurrences xs)"

definition with_flag :: "flag \<Rightarrow> flag list \<Rightarrow> flag list" where
  "with_flag f fs = (if f \<in> set fs then fs else fs @ [f])"

section \<open>Results\<close>

record pipeline_result =
  pr_status :: gr_status
  pr_category :: string
  pr_department_name :: string
  pr_priority :: priority
  pr_flags :: "flag list"
  pr_image_match :: image_match

record outcome =
  fo_status :: gr_status
  fo_human_id :: string
  fo_duplicate_of :: "string option"
  fo_report_count :: "nat option"

definition outcome_of :: "gr_status \<Rightarrow> grievance \<Rightarrow> outcome" where
  "outcome_of st g =
     \<lparr>fo_status = st, fo_human_id = gr_human_id g, fo_duplicate_of = None, fo_report_count = None\<rparr>"

definition MAX_DISPATCH_ATTEMPTS :: nat where "MAX_DISPATCH_ATTEMPTS = 5"

section \<open>The text of a complaint\<close>

text \<open>What has been collected of the messages: the parts, the first detected language, the flags
  and the transcripts.\<close>

type_synonym collected = "string list \<times> string option \<times> flag list \<times> transcript list"

definition audio_of_message ::
    "world \<Rightarrow> settings \<Rightarrow> issue_message \<Rightarrow> (exn + (string \<times> string)) option" where
  "audio_of_message w s m =
     (if truthy (im_local_path m) then
        Some (bindE (w_read_file w (path_str (artifact_path s (the (im_local_path m)))))
                (\<lambda>bytes. Inr (bytes, str_or (im_mime_type m) ''audio/ogg'')))
      else if truthy (im_media_id m) then Some (download_whatsapp_media w s (the (im_media_id m)))
      else None)"

definition download_error_caught :: "exn \<Rightarrow> bool" where
  "download_error_caught e = (e = HTTPError \<or> (\<exists>n. e = HTTPStatusError n) \<or> e = OSError)"

definition transcript_of ::
    "settings \<Rightarrow> issue_message \<Rightarrow> nat \<Rightarrow> string \<Rightarrow> transcription \<Rightarrow> transcript" where
  "transcript_of s m n mime t =
     \<lparr>tr_recording_id = str_or (im_recording_id m) (''legacy-'' @ show_nat n),
      tr_segment_index = (case im_segment_index m of None \<Rightarrow> 0 | Some i \<Rightarrow> i),
      tr_text = the (st_text t), tr_language = str_or (st_detected_language t) ''und'',
      tr_mime_type = mime, tr_model = s_sarvam_model s\<rparr>"

definition add_transcription ::
    "settings \<Rightarrow> issue_message \<Rightarrow> nat \<Rightarrow> string \<Rightarrow> transcription \<Rightarrow> collected \<Rightarrow> collected" where
  "add_transcription s m n mime t c =
     (case c of (parts, lang, flags, trs) \<Rightarrow>
        if st_ok t \<and> truthy (st_text t)
        then (parts @ [the (st_text t)], opt_or lang (st_detected_language t), flags,
              trs @ [transcript_of s m n mime t])
        else (parts, lang, flags @ [Fl_transcription_failed], trs))"

fun combine_messages ::
    "world \<Rightarrow> settings \<Rightarrow> time \<Rightarrow> issue_message list \<Rightarrow> nat \<Rightarrow> collected \<Rightarrow> db
     \<Rightarrow> (exn + collected) \<times> db" where
  "combine_messages w s now [] n c d = (Inr c, d)"
| "combine_messages w s now (m # ms) n c d =
     (if im_type m = ''text'' \<and> truthy (im_text m) then
        combine_messages w s now ms n
          (case c of (parts, rest) \<Rightarrow> (parts @ [the (im_text m)], rest)) d
      else if im_type m \<noteq> ''audio'' \<and> im_type m \<noteq> ''voice'' then combine_messages w s now ms n c d
      else
        case audio_of_message w s m of
          None \<Rightarrow> combine_messages w s now ms (n + 1) c d
        | Some (Inl e) \<Rightarrow>
            if download_error_caught e then
              combine_messages w s now ms (n + 1)
                (case c of (parts, lang, flags, trs) \<Rightarrow>
                   (parts, lang, flags @ [Fl_transcription_failed], trs)) d
            else (Inl e, d)
        | Some (Inr (bytes, mime)) \<Rightarrow>
            (case transcribe_clip w s now bytes mime d of
               (Inl e, d1) \<Rightarrow> (Inl e, d1)
             | (Inr t, d1) \<Rightarrow>
                 combine_messages w s now ms (n + 1) (add_transcription s m (n + 1) mime t c) d1))"

definition combine_issue_text ::
    "world \<Rightarrow> settings \<Rightarrow> time \<Rightarrow> issue_message list \<Rightarrow> db
     \<Rightarrow> (exn + (string \<times> string option \<times> flag list \<times> transcript list)) \<times> db" where
  "combine_issue_text w s now ms d =
     (case combine_messages w s now ms 0 ([], None, [], []) d of
        (Inl e, d1) \<Rightarrow> (Inl e, d1)
      | (Inr (parts, rest), d1) \<Rightarrow> (Inr (py_strip (py_join NL parts), rest), d1))"

text \<open>The typed messages as the record keeps them.\<close>

fun original_texts :: "issue_message list \<Rightarrow> exn + string list" where
  "original_texts [] = Inr []"
| "original_texts (m # ms) =
     (if im_type m \<noteq> ''text'' then original_texts ms
      else case im_text m of
             None \<Rightarrow> Inl AttributeError
           | Some t \<Rightarrow>
               bindE (original_texts ms) (\<lambda>ts.
                 Inr (if py_strip t = [] then ts else py_strip t # ts)))"

section \<open>The photo\<close>

definition path_name :: "path \<Rightarrow> string" where
  "path_name p = (if snd p = [] then [] else last (snd p))"

definition fetch_photo ::
    "world \<Rightarrow> settings \<Rightarrow> string option \<Rightarrow> string option
     \<Rightarrow> exn + (string option \<times> string option)" where
  "fetch_photo w s media_id photo_path =
     (if truthy photo_path then
        let resolved = artifact_path s (the photo_path) in
        (case w_read_file w (path_str resolved) of
           Inl e \<Rightarrow> if e = OSError then Inr (None, None) else Inl e
         | Inr data \<Rightarrow>
             Inr (Some data, Some (str_or (w_guess_type w (path_name resolved)) ''image/jpeg'')))
      else if \<not> truthy media_id then Inr (None, None)
      else
        (case download_whatsapp_media w s (the media_id) of
           Inl e \<Rightarrow> if e = HTTPError \<or> (\<exists>n. e = HTTPStatusError n) then Inr (None, None) else Inl e
         | Inr (data, mime) \<Rightarrow> Inr (Some data, Some mime)))"

section \<open>The receipt and the confirmation text\<close>

definition show_minute :: "time \<Rightarrow> string" where
  "show_minute t =
     (case civil_date t of (y, m, dd) \<Rightarrow>
        zpad 4 (show_nat (nat y)) @ ''-'' @ zpad 2 (show_nat (nat m)) @ ''-'' @
        zpad 2 (show_nat (nat dd)) @ '' '' @
        zpad 2 (show_nat (nat (t mod days 1 div hours 1))) @ '':'' @
        zpad 2 (show_nat (nat (t mod hours 1 div minutes 1))) @ '' UTC'')"

record pdf_summary =
  ps_human_id :: string
  ps_created_at :: string
  ps_category_label :: string
  ps_department_name :: string
  ps_priority :: string
  ps_term :: string
  ps_address :: "string option"
  ps_description :: string
  ps_contact_phone :: string
  ps_flags :: "string list"

definition contact_phone :: "uuid \<Rightarrow> db \<Rightarrow> string" where
  "contact_phone i d = (case tget ct_id i (db_contacts d) of None \<Rightarrow> [] | Some c \<Rightarrow> ct_wa_id c)"

definition pdf_rows :: "pdf_summary \<Rightarrow> (string \<times> string) list" where
  "pdf_rows p =
     [(''Ticket ID'', ps_human_id p), (''Filed at'', ps_created_at p),
      (''Contact'', ps_contact_phone p), (''Category'', ps_category_label p),
      (''Department'', ps_department_name p), (''Priority'', ps_priority p),
      (''Type of fix'', replace_char (CHR ''_'') (CHR '' '') (ps_term p)),
      (''Location'', str_or (ps_address p) ''Not resolved'')]"

text \<open>The cells of the document in the order they are written.\<close>

definition pdf_cells :: "pdf_summary \<Rightarrow> string list" where
  "pdf_cells p =
     [''Jan Setu - Complaint Summary''] @
     concat (map (\<lambda>(label, v). [label @ '':'', v]) (pdf_rows p)) @
     [''Description'',
      if ps_description p = [] then ''(no description provided)'' else ps_description p] @
     (if ps_flags p = [] then [] else [''Notes: '' @ py_join ''; '' (ps_flags p)])"

definition build_grievance_pdf :: "world \<Rightarrow> pdf_summary \<Rightarrow> string option \<Rightarrow> string" where
  "build_grievance_pdf w p photo = w_render_pdf w (pdf_cells p) (if truthy photo then photo else None)"

definition category_of :: "grievance \<Rightarrow> string" where
  "category_of g = str_or (gr_category g) ''other''"

definition priority_of :: "grievance \<Rightarrow> priority" where
  "priority_of g = (case gr_priority g of None \<Rightarrow> Pr_normal | Some p \<Rightarrow> p)"

definition summary_of :: "grievance \<Rightarrow> department \<Rightarrow> db \<Rightarrow> pdf_summary" where
  "summary_of g dept d =
     \<lparr>ps_human_id = gr_human_id g, ps_created_at = show_minute (gr_created_at g),
      ps_category_label = cat_label (category_or_default (gr_category g)),
      ps_department_name = dep_name dept, ps_priority = priority_text (priority_of g),
      ps_term = (case gr_term g of None \<Rightarrow> ''short_term'' | Some t \<Rightarrow> term_text t),
      ps_address = gr_location_address g, ps_description = str_or (gr_issue_text g) [],
      ps_contact_phone = contact_phone (gr_contact_id g) d,
      ps_flags = map flag_text (gr_flags g)\<rparr>"

text \<open>The PDF, and the row with its path.\<close>

definition build_and_store_pdf ::
    "world \<Rightarrow> settings \<Rightarrow> time \<Rightarrow> grievance \<Rightarrow> string option \<Rightarrow> db
     \<Rightarrow> exn + (string \<times> grievance \<times> db)" where
  "build_and_store_pdf w s now g photo d =
     bindE (department_for_category (Some (category_of g))) (\<lambda>dept.
       let pdf = build_grievance_pdf w (summary_of g dept d) photo;
           path = save_upload s (gr_id g) ''summary.pdf''
       in bindE (set_grievance_fields now (gr_id g) (\<lambda>r. r\<lparr>gr_pdf_path := Some path\<rparr>) d)
            (\<lambda>(g', d'). Inr (pdf, g', d')))"

definition render_confirmation_summary :: "grievance \<Rightarrow> exn + string" where
  "render_confirmation_summary g =
     bindE (department_for_category (Some (category_of g))) (\<lambda>dept.
       Inr (cat_label (category_or_default (gr_category g)) @ '' -> '' @ dep_name dept @ NL @
            ''Priority: '' @ priority_text (priority_of g) @ NL @
            ''Location: '' @ str_or (gr_location_address g) ''unresolved'' @ NL @ NL @
            str_or (gr_issue_text g) ''(no description)''))"

section \<open>The first pass\<close>

text \<open>A step after a step that commits on its own, and a session that writes and commits at its end.\<close>

definition seqE ::
    "(exn + 'a) \<times> db \<Rightarrow> ('a \<Rightarrow> db \<Rightarrow> (exn + 'b) \<times> db) \<Rightarrow> (exn + 'b) \<times> db" where
  "seqE m k = (case m of (Inl e, d) \<Rightarrow> (Inl e, d) | (Inr a, d) \<Rightarrow> k a d)"

definition commitE :: "db \<Rightarrow> exn + ('a \<times> db) \<Rightarrow> (exn + 'a) \<times> db" where
  "commitE d r = (case r of Inl e \<Rightarrow> (Inl e, d) | Inr (a, d1) \<Rightarrow> (Inr a, d1))"

definition resolve_address ::
    "world \<Rightarrow> settings \<Rightarrow> time \<Rightarrow> grievance \<Rightarrow> db \<Rightarrow> (exn + string option) \<times> db" where
  "resolve_address w s now g d =
     (case gr_location_latitude g of
        Some lat \<Rightarrow>
          if truthy (gr_location_address g) then (Inr (gr_location_address g), d)
          else seqE (reverse_geocode_cached w s now lat (gr_location_longitude g) d)
                 (\<lambda>geo d1. (Inr (ge_display_address geo), d1))
      | None \<Rightarrow> (Inr (gr_location_address g), d))"

definition jurisdiction_of :: "grievance \<Rightarrow> string" where
  "jurisdiction_of g = str_or (gr_jurisdiction_id g) DEMO_JURISDICTION_ID"

definition first_image_match :: "string option \<Rightarrow> extraction \<Rightarrow> image_match" where
  "first_image_match photo x =
     (if photo = None then Im_none
      else if xt_degraded x then Im_unverified
      else if xt_contradictions x \<noteq> [] then Im_mismatched else Im_matched)"

definition status_after_image :: "image_match \<Rightarrow> gr_status" where
  "status_after_image m = (if m = Im_mismatched then Gs_photo_mismatch else Gs_awaiting_confirmation)"

definition first_pass_flags ::
    "flag list \<Rightarrow> string option \<Rightarrow> extraction \<Rightarrow> routing_decision \<Rightarrow> flag list" where
  "first_pass_flags stt_flags photo x policy =
     stt_flags @
     (if xt_degraded x
      then [Fl_classification_failed] @ (if photo \<noteq> None then [Fl_image_check_degraded] else [])
      else []) @
     (if rd_needs_official_review policy then [Fl_official_review_required] else []) @
     (if xt_multiple_issues x then [Fl_multiple_issues] else [])"

definition structured_facts :: "extraction \<Rightarrow> string list \<Rightarrow> jobject" where
  "structured_facts x original =
     [(''summary'', JStr (xt_summary x)),
      (''original_text'', JStr (py_join NL original)),
      (''alternatives'', jstrs (xt_alternatives x)),
      (''owner_hint'', JStr (xt_owner_hint x)),
      (''requested_action'', xt_requested_action x),
      (''landmark'', xt_landmark x),
      (''incident_time'', xt_incident_time x),
      (''missing_facts'', jstrs (xt_missing_facts x)),
      (''clarification_question'', xt_clarification_question x),
      (''evidence'', jstrs (xt_evidence x)),
      (''image_observations'', jstrs (xt_image_observations x)),
      (''contradictions'', jstrs (xt_contradictions x)),
      (''model'', jopt (xt_actual_model x))]"

definition routing_snapshot ::
    "string \<Rightarrow> category \<Rightarrow> jurisdiction_route option \<Rightarrow> routing_decision \<Rightarrow> route_snapshot" where
  "routing_snapshot key c route policy =
     \<lparr>rs_taxonomy_version = TAXONOMY_VERSION, rs_category_id = key,
      rs_department_key = (case route of None \<Rightarrow> cat_department_key c | Some r \<Rightarrow> jr_department_key r),
      rs_owning_agency = (case route of None \<Rightarrow> None | Some r \<Rightarrow> Some (jr_owning_agency r)),
      rs_dispatch_enabled = (case route of None \<Rightarrow> False | Some r \<Rightarrow> jr_dispatch_enabled r),
      rs_sla_hours = (case route of None \<Rightarrow> None | Some r \<Rightarrow> jr_sla_hours r),
      rs_disposition = rd_disposition policy\<rparr>"

definition add_extraction ::
    "uuid \<Rightarrow> string \<Rightarrow> extraction \<Rightarrow> jobject \<Rightarrow> bool \<Rightarrow> db \<Rightarrow> db" where
  "add_extraction i version x facts needs_review d =
     (let (eid, d1) = new_id d in
      d1\<lparr>db_extractions := db_extractions d1 @
        [\<lparr>ex_id = eid, ex_grievance_id = i, ex_extraction_version = version,
          ex_taxonomy_version = TAXONOMY_VERSION, ex_prompt_version = ''civic-extract-2026-07-v2'',
          ex_provider = str_or (xt_actual_provider x) ''none'',
          ex_requested_models = xt_requested_models x, ex_actual_model = xt_actual_model x,
          ex_degraded = xt_degraded x, ex_raw_response = xt_raw x, ex_normalized_result = facts,
          ex_confidence = xt_confidence x, ex_needs_review = needs_review,
          ex_degradation_reason = xt_degradation_reason x\<rparr>]\<rparr>)"

definition review_after :: "routing_decision \<Rightarrow> review_status" where
  "review_after policy =
     (if rd_needs_official_review policy then Rv_pending_official else Rv_citizen_review)"

definition first_pass_policy :: "string option \<Rightarrow> extraction \<Rightarrow> routing_decision" where
  "first_pass_policy address x =
     evaluate_routing_policy (Some (xt_category_id x)) (xt_safety x) (xt_asset_scope x)
       (truthy address) (xt_confidence x) DEMO_PROFILE"

text \<open>The columns that the first pass sets.\<close>

definition first_pass_fields ::
    "string \<times> string option \<times> flag list \<times> transcript list \<Rightarrow> string option \<Rightarrow> extraction \<Rightarrow> image_match
     \<Rightarrow> flag list \<Rightarrow> routing_decision \<Rightarrow> route_snapshot \<Rightarrow> jobject \<Rightarrow> grievance \<Rightarrow> grievance" where
  "first_pass_fields collected_text address x im flags policy snapshot facts r =
     (let c = category_or_default (Some (xt_category_id x)) in
      r\<lparr>gr_issue_text := Some (fst collected_text), gr_location_address := address,
        gr_source_language := fst (snd collected_text),
        gr_transcript_metadata := snd (snd (snd collected_text)),
        gr_category := Some (xt_category_id x),
        gr_department_key := Some (cat_department_key c),
        gr_priority := Some (rd_priority policy), gr_term := Some (cat_term_hint c),
        gr_confidence := Some (xt_confidence x), gr_image_match_status := Some im,
        gr_flags := first_occurrences flags, gr_status := status_after_image im,
        gr_taxonomy_version := Some TAXONOMY_VERSION,
        gr_category_id := Some (xt_category_id x),
        gr_aggregation_key := cat_aggregation_key c,
        gr_jurisdiction_id := Some DEMO_JURISDICTION_ID,
        gr_safety_level := Some (xt_safety x), gr_asset_scope := Some (xt_asset_scope x),
        gr_disposition := Some (rd_disposition policy),
        gr_review_status := Some (review_after policy),
        gr_policy_version := Some TAXONOMY_VERSION,
        gr_routing_snapshot := Some snapshot,
        gr_structured_facts := Some facts\<rparr>)"

definition first_pass_snapshot ::
    "time \<Rightarrow> grievance \<Rightarrow> string option \<Rightarrow> extraction \<Rightarrow> db \<Rightarrow> route_snapshot" where
  "first_pass_snapshot now g address x d =
     routing_snapshot (xt_category_id x) (category_or_default (Some (xt_category_id x)))
       (resolve_route now (Some (xt_category_id x)) (jurisdiction_of g) TAXONOMY_VERSION d)
       (first_pass_policy address x)"

definition store_first_pass ::
    "world \<Rightarrow> settings \<Rightarrow> time \<Rightarrow> grievance \<Rightarrow> string \<times> string option \<times> flag list \<times> transcript list
     \<Rightarrow> string option \<Rightarrow> string option \<Rightarrow> extraction \<Rightarrow> db \<Rightarrow> exn + (pipeline_result \<times> db)" where
  "store_first_pass w s now g collected_text address photo x d =
     (let policy = first_pass_policy address x;
          snapshot = first_pass_snapshot now g address x d;
          im = first_image_match photo x;
          flags = first_pass_flags (fst (snd (snd collected_text))) photo x policy;
          st = status_after_image im
      in bindE (original_texts (gr_issue_messages g)) (\<lambda>original.
           let facts = structured_facts x original;
               d1 = add_extraction (gr_id g) ''2'' x facts (rd_needs_official_review policy) d
           in bindE (set_grievance_fields now (gr_id g)
                       (first_pass_fields collected_text address x im flags policy snapshot facts) d1)
                (\<lambda>(g1, d2).
              bindE (if st = Gs_awaiting_confirmation
                     then bindE (build_and_store_pdf w s now g1 photo d2) (\<lambda>(_, _, d3). Inr d3)
                     else Inr d2) (\<lambda>d4.
                Inr (\<lparr>pr_status = st, pr_category = xt_category_id x,
                      pr_department_name = [], pr_priority = rd_priority policy,
                      pr_flags = flags, pr_image_match = im\<rparr>,
                     add_grievance_event now (gr_id g) st None d4)))))"

text \<open>The department name is looked up after the commit.\<close>

definition name_department :: "pipeline_result \<Rightarrow> db \<Rightarrow> (exn + pipeline_result) \<times> db" where
  "name_department r d =
     (case department_for_category (Some (pr_category r)) of
        Inl e \<Rightarrow> (Inl e, d)
      | Inr dept \<Rightarrow> (Inr (r\<lparr>pr_department_name := dep_name dept\<rparr>), d))"

definition run_pipeline ::
    "world \<Rightarrow> settings \<Rightarrow> time \<Rightarrow> uuid \<Rightarrow> db \<Rightarrow> (exn + pipeline_result) \<times> db" where
  "run_pipeline w s now i d =
     (case get_grievance i d of
        None \<Rightarrow> (Inl ValueError, d)
      | Some g \<Rightarrow>
          seqE (combine_issue_text w s now (gr_issue_messages g) d) (\<lambda>collected_text d1.
          seqE (resolve_address w s now g d1) (\<lambda>address d2.
            case fetch_photo w s (gr_photo_media_id g) (gr_photo_path g) of
              Inl e \<Rightarrow> (Inl e, d2)
            | Inr (photo, mime) \<Rightarrow>
                seqE (extract_issue w s now (Some (fst collected_text)) photo
                        (str_or mime ''image/jpeg'') False None d2) (\<lambda>x d3.
                  seqE (commitE d3 (store_first_pass w s now g collected_text address photo x d3))
                    name_department))))"

section \<open>The photo again\<close>

definition accept_photo_mismatch ::
    "world \<Rightarrow> settings \<Rightarrow> time \<Rightarrow> uuid \<Rightarrow> db \<Rightarrow> (exn + unit) \<times> db" where
  "accept_photo_mismatch w s now i d =
     (case get_grievance i d of
        None \<Rightarrow> (Inl ValueError, d)
      | Some g \<Rightarrow>
          if gr_status g \<noteq> Gs_photo_mismatch then (Inr (), d)
          else
            commitE d
              (bindE (fetch_photo w s (gr_photo_media_id g) (gr_photo_path g)) (\<lambda>(photo, mime).
               bindE (set_grievance_fields now i (\<lambda>r. r
                  \<lparr>gr_status := Gs_awaiting_confirmation,
                   gr_flags := with_flag Fl_photo_mismatch_accepted (first_occurrences (gr_flags g))\<rparr>) d)
                 (\<lambda>(g1, d1).
               bindE (build_and_store_pdf w s now g1 photo d1) (\<lambda>(pdf, g2, d2).
                 Inr ((), add_grievance_event now i Gs_awaiting_confirmation
                   (Some ''Citizen filed despite the photo/description mismatch'') d2))))))"

definition recheck_fields :: "image_match \<Rightarrow> grievance \<Rightarrow> grievance" where
  "recheck_fields im g =
     g\<lparr>gr_image_match_status := Some im, gr_status := status_after_image im,
       gr_flags := (if im = Im_unverified
                    then with_flag Fl_image_check_degraded (first_occurrences (gr_flags g))
                    else gr_flags g)\<rparr>"

definition recheck_photo ::
    "world \<Rightarrow> settings \<Rightarrow> time \<Rightarrow> grievance \<Rightarrow> bool \<Rightarrow> db
     \<Rightarrow> (exn + (image_match \<times> string option)) \<times> db" where
  "recheck_photo w s now g proceed_without_photo d =
     (if proceed_without_photo then (Inr (Im_skipped, None), d)
      else
        case fetch_photo w s (gr_photo_media_id g) (gr_photo_path g) of
          Inl e \<Rightarrow> (Inl e, d)
        | Inr (None, mime) \<Rightarrow> (Inr (Im_skipped, None), d)
        | Inr (Some photo, mime) \<Rightarrow>
            seqE (check_image_match w s now (gr_issue_text g) photo (str_or mime ''image/jpeg'') d)
              (\<lambda>m d1. (Inr (if ik_degraded m then Im_unverified
                            else if ik_matches m then Im_matched else Im_mismatched,
                            Some photo), d1)))"

definition recheck_image ::
    "world \<Rightarrow> settings \<Rightarrow> time \<Rightarrow> uuid \<Rightarrow> bool \<Rightarrow> db \<Rightarrow> (exn + pipeline_result) \<times> db" where
  "recheck_image w s now i proceed_without_photo d =
     (case get_grievance i d of
        None \<Rightarrow> (Inl ValueError, d)
      | Some g \<Rightarrow>
          seqE (recheck_photo w s now g proceed_without_photo d) (\<lambda>(im, photo) d0.
            seqE (commitE d0
              (bindE (set_grievance_fields now i (recheck_fields im) d0) (\<lambda>(g1, d1).
               bindE (if status_after_image im = Gs_awaiting_confirmation
                      then bindE (build_and_store_pdf w s now g1 photo d1) (\<lambda>(_, g2, d2). Inr (g2, d2))
                      else Inr (g1, d1)) (\<lambda>(g2, d2).
                 Inr (\<lparr>pr_status = status_after_image im, pr_category = category_of g2,
                       pr_department_name = [], pr_priority = priority_of g2,
                       pr_flags = gr_flags g2, pr_image_match = im\<rparr>,
                      add_grievance_event now i (status_after_image im) None d2)))))
              name_department))"

section \<open>The escalated second extraction\<close>

definition REVIEW_FALLBACK_CATEGORIES :: "string list" where
  "REVIEW_FALLBACK_CATEGORIES =
     [''insufficient_information'', ''multi_issue'', ''unmapped_service'', ''possible_non_municipal'']"

definition keep_citizen_category :: "grievance \<Rightarrow> bool" where
  "keep_citizen_category g =
     (truthy (gr_category_id g) \<and> the (gr_category_id g) \<notin> set REVIEW_FALLBACK_CATEGORIES)"

definition facts_of :: "grievance \<Rightarrow> jobject" where
  "facts_of g = (case gr_structured_facts g of None \<Rightarrow> [] | Some f \<Rightarrow> f)"

definition correction_context :: "world \<Rightarrow> grievance \<Rightarrow> string option" where
  "correction_context w g =
     (let facts = facts_of g;
          parts =
            (if truthy (gr_category_id g)
             then [''The citizen states the issue type is: '' @
                   cat_label (category_or_default (gr_category_id g)) @ '' ('' @ the (gr_category_id g) @ '').'']
             else []) @
            (if jtruthy (jget facts ''clarification_question'') \<and> jtruthy (jget facts ''clarification_answer'')
             then [''Clarification asked: '' @ str_json w (jget facts ''clarification_question'') @ NL @
                   ''Citizen's answer: '' @ str_json w (jget facts ''clarification_answer'')]
             else []) @
            (if jtruthy (jget facts ''summary'')
             then [''Citizen-reviewed summary: '' @ str_json w (jget facts ''summary'')] else [])
      in if py_join NL parts = [] then None else Some (py_join NL parts))"

text \<open>\<^verbatim>\<open>{**facts, key: value, ...}\<close>: a key that exists keeps its place.\<close>

definition dict_put :: "jobject \<Rightarrow> string \<times> json \<Rightarrow> jobject" where
  "dict_put d kv =
     (if fst kv \<in> set (map fst d) then map (\<lambda>(k, v). if k = fst kv then kv else (k, v)) d
      else d @ [kv])"

definition merged_facts :: "jobject \<Rightarrow> extraction \<Rightarrow> jobject" where
  "merged_facts facts x =
     foldl dict_put facts
       ([(''alternatives'', jstrs (xt_alternatives x)),
         (''owner_hint'', JStr (xt_owner_hint x)),
         (''requested_action'', xt_requested_action x),
         (''landmark'', xt_landmark x),
         (''incident_time'', xt_incident_time x),
         (''missing_facts'', jstrs (xt_missing_facts x)),
         (''evidence'', jstrs (xt_evidence x)),
         (''contradictions'', jstrs (xt_contradictions x)),
         (''model'', jopt (xt_actual_model x)),
         (''escalated'', JBool True)] @
        (if jtruthy (jget facts ''summary'') then [] else [(''summary'', JStr (xt_summary x))]))"

definition reextract_category :: "grievance \<Rightarrow> extraction \<Rightarrow> category" where
  "reextract_category g x =
     category_or_default (if keep_citizen_category g then gr_category_id g else Some (xt_category_id x))"

definition reextract_scope :: "grievance \<Rightarrow> extraction \<Rightarrow> asset_scope" where
  "reextract_scope g x =
     (if gr_asset_scope g = Some Scope_public then Scope_public
      else if gr_asset_scope g = Some Scope_private then Scope_private else xt_asset_scope x)"

definition reextract_confidence :: "grievance \<Rightarrow> extraction \<Rightarrow> real" where
  "reextract_confidence g x = (if keep_citizen_category g then 1 else xt_confidence x)"

definition reextract_policy :: "grievance \<Rightarrow> extraction \<Rightarrow> routing_decision" where
  "reextract_policy g x =
     evaluate_routing_policy (Some (cat_key (reextract_category g x))) (xt_safety x)
       (reextract_scope g x) (truthy (gr_location_address g)) (reextract_confidence g x) DEMO_PROFILE"

definition reextract_flags :: "grievance \<Rightarrow> extraction \<Rightarrow> flag list" where
  "reextract_flags g x =
     (let flags = first_occurrences (gr_flags g) in
      if keep_citizen_category g \<and> Some (xt_category_id x) \<noteq> gr_category_id g
      then with_flag Fl_category_dispute flags else flags)"

definition reextract_fields :: "time \<Rightarrow> grievance \<Rightarrow> extraction \<Rightarrow> db \<Rightarrow> grievance \<Rightarrow> grievance" where
  "reextract_fields now g x d r =
     (let c = reextract_category g x;
          policy = reextract_policy g x;
          route = resolve_route now (Some (cat_key c)) (jurisdiction_of g) TAXONOMY_VERSION d
      in r\<lparr>gr_category := Some (cat_key c), gr_category_id := Some (cat_key c),
           gr_aggregation_key := cat_aggregation_key c,
           gr_department_key := Some (case route of None \<Rightarrow> cat_department_key c
                                      | Some rt \<Rightarrow> jr_department_key rt),
           gr_priority := Some (rd_priority policy), gr_term := Some (cat_term_hint c),
           gr_confidence := Some (reextract_confidence g x), gr_safety_level := Some (xt_safety x),
           gr_asset_scope := Some (reextract_scope g x),
           gr_disposition := Some (rd_disposition policy),
           gr_review_status := Some (review_after policy),
           gr_structured_facts := Some (merged_facts (facts_of g) x),
           gr_routing_snapshot := Some (routing_snapshot (cat_key c) c route policy),
           gr_flags := reextract_flags g x,
           gr_state_version := gr_state_version g + 1\<rparr>)"

definition store_reextraction ::
    "time \<Rightarrow> grievance \<Rightarrow> extraction \<Rightarrow> db \<Rightarrow> exn + (unit \<times> db)" where
  "store_reextraction now g x d =
     (let d1 = add_extraction (gr_id g) ''2-escalated'' x (merged_facts (facts_of g) x)
                 (rd_needs_official_review (reextract_policy g x)) d
      in bindE (set_grievance_fields now (gr_id g) (reextract_fields now g x d) d1) (\<lambda>(g1, d2).
           Inr ((), add_grievance_event now (gr_id g) (gr_status g)
             (Some ''Re-checked with the citizen's correction using a stronger model'') d2)))"

definition reextract_grievance ::
    "world \<Rightarrow> settings \<Rightarrow> time \<Rightarrow> uuid \<Rightarrow> db \<Rightarrow> (exn + unit) \<times> db" where
  "reextract_grievance w s now i d =
     (case get_grievance i d of
        None \<Rightarrow> (Inr (), d)
      | Some g \<Rightarrow>
          if \<not> truthy (gr_issue_text g) then (Inr (), d)
          else
            seqE (extract_issue w s now (gr_issue_text g) None ''image/jpeg'' True
                    (correction_context w g) d) (\<lambda>x d1.
              if xt_degraded x then (Inr (), d1) else commitE d1 (store_reextraction now g x d1)))"

section \<open>Dispatch\<close>

definition dispatch_enabled :: "grievance \<Rightarrow> bool" where
  "dispatch_enabled g =
     (case gr_routing_snapshot g of None \<Rightarrow> True | Some r \<Rightarrow> rs_dispatch_enabled r)"

definition pdf_of :: "world \<Rightarrow> settings \<Rightarrow> grievance \<Rightarrow> exn + string" where
  "pdf_of w s g =
     (if truthy (gr_pdf_path g) then w_read_file w (path_str (artifact_path s (the (gr_pdf_path g))))
      else Inr [])"

definition hold_for_official :: "time \<Rightarrow> grievance \<Rightarrow> db \<Rightarrow> exn + (outcome \<times> db)" where
  "hold_for_official now g d =
     bindE (set_grievance_fields now (gr_id g)
              (\<lambda>r. r\<lparr>gr_status := Gs_registered, gr_review_status := Some Rv_pending_official\<rparr>) d)
       (\<lambda>(g1, d1). Inr (outcome_of Gs_registered g1,
          add_grievance_event now (gr_id g) Gs_registered
            (Some ''Live dispatch disabled for demo or unreviewed jurisdiction route'') d1))"

text \<open>What the department answered, after the mark is committed: the row read at the start gives the
  attempts so far.\<close>

definition record_dispatch ::
    "time \<Rightarrow> grievance \<Rightarrow> exn + string \<Rightarrow> db \<Rightarrow> (exn + outcome) \<times> db" where
  "record_dispatch now g answer d =
     (case answer of
        Inr ref \<Rightarrow>
          commitE d
            (bindE (set_grievance_fields now (gr_id g)
                      (\<lambda>r. r\<lparr>gr_status := Gs_submitted, gr_dispatch_ref := Some ref\<rparr>) d)
               (\<lambda>(g1, d1). Inr (outcome_of Gs_submitted g1,
                  add_grievance_event now (gr_id g) Gs_submitted (Some ref) d1)))
      | Inl e \<Rightarrow>
          if e \<noteq> DispatchError then (Inl e, d)
          else
            let attempts = gr_dispatch_attempts g + 1;
                st = (if attempts \<ge> MAX_DISPATCH_ATTEMPTS then Gs_dispatch_failed else Gs_dispatching)
            in commitE d
                 (bindE (set_grievance_fields now (gr_id g)
                           (\<lambda>r. r\<lparr>gr_dispatch_attempts := attempts, gr_status := st\<rparr>) d)
                    (\<lambda>(g1, d1). Inr (outcome_of st g1,
                       if st = Gs_dispatch_failed
                       then add_grievance_event now (gr_id g) Gs_dispatch_failed None d1 else d1))))"

definition call_department ::
    "world \<Rightarrow> settings \<Rightarrow> string \<Rightarrow> grievance \<Rightarrow> exn + string" where
  "call_department w s hex8 g =
     bindE (department_for_category (Some (category_of g))) (\<lambda>dept.
     bindE (render_confirmation_summary g) (\<lambda>summary.
     bindE (pdf_of w s g) (\<lambda>pdf.
       dispatch_to_department w s hex8 (gr_human_id g) dept summary pdf)))"

definition dispatch_grievance ::
    "world \<Rightarrow> settings \<Rightarrow> time \<Rightarrow> string \<Rightarrow> uuid \<Rightarrow> db \<Rightarrow> (exn + outcome) \<times> db" where
  "dispatch_grievance w s now hex8 i d =
     (case get_grievance i d of
        None \<Rightarrow> (Inl ValueError, d)
      | Some g \<Rightarrow>
          if \<not> dispatch_enabled g then commitE d (hold_for_official now g d)
          else
            case set_grievance_fields now i (\<lambda>r. r\<lparr>gr_status := Gs_dispatching\<rparr>) d of
              Inl e \<Rightarrow> (Inl e, d)
            | Inr (g1, d1) \<Rightarrow> record_dispatch now g1 (call_department w s hex8 g1) d1)"

section \<open>Confirmation, cancellation and the sweeps\<close>

definition awaits_disposition :: "grievance \<Rightarrow> bool" where
  "awaits_disposition g =
     (gr_disposition g \<in> {Some Redirect, Some Emergency_redirect, Some Needs_human_review})"

definition register_fields :: "time \<Rightarrow> grievance \<Rightarrow> grievance" where
  "register_fields now g = g\<lparr>gr_status := Gs_registered, gr_confirmed_at := Some now\<rparr>"

definition mark_duplicate ::
    "time \<Rightarrow> grievance \<Rightarrow> grievance \<Rightarrow> db \<Rightarrow> exn + (outcome \<times> db)" where
  "mark_duplicate now g master d =
     bindE (set_grievance_fields now (gr_id g)
              (\<lambda>r. r\<lparr>gr_status := Gs_duplicate, gr_duplicate_of_id := Some (gr_id master)\<rparr>) d)
       (\<lambda>(g1, d1).
     bindE (set_grievance_fields now (gr_id master)
              (\<lambda>r. r\<lparr>gr_report_count := gr_report_count master + 1\<rparr>) d1)
       (\<lambda>(m1, d2).
          Inr ((outcome_of Gs_duplicate g)
                 \<lparr>fo_duplicate_of := Some (gr_human_id master),
                  fo_report_count := Some (gr_report_count master + 1)\<rparr>,
               add_grievance_event now (gr_id g) Gs_duplicate
                 (Some (''duplicate of '' @ gr_human_id master)) d2)))"

definition open_window ::
    "settings \<Rightarrow> time \<Rightarrow> grievance \<Rightarrow> db \<Rightarrow> exn + (outcome \<times> db)" where
  "open_window s now g d =
     bindE (set_grievance_fields now (gr_id g) (\<lambda>r. r
              \<lparr>gr_status := Gs_pending_window,
               gr_window_expires_at := Some (now + hours (int (s_dedup_window_hours s)))\<rparr>) d)
       (\<lambda>(g1, d1). Inr (outcome_of Gs_pending_window g,
          add_grievance_event now (gr_id g) Gs_pending_window None d1))"

definition finalize_grievance ::
    "world \<Rightarrow> settings \<Rightarrow> time \<Rightarrow> string \<Rightarrow> uuid \<Rightarrow> db \<Rightarrow> (exn + outcome) \<times> db" where
  "finalize_grievance w s now hex8 i d =
     (case get_grievance i d of
        None \<Rightarrow> (Inl ValueError, d)
      | Some g \<Rightarrow>
          if gr_review_status g = Some Rv_pending_official then
            commitE d (bindE (set_grievance_fields now i (register_fields now) d) (\<lambda>(g1, d1).
              Inr (outcome_of Gs_registered g, add_grievance_event now i Gs_registered
                (Some ''Citizen confirmed; awaiting scoped official review'') d1)))
          else if awaits_disposition g then
            commitE d (bindE (set_grievance_fields now i
                (\<lambda>r. (register_fields now r)\<lparr>gr_review_status := Some Rv_pending_official\<rparr>) d) (\<lambda>(g1, d1).
              Inr (outcome_of Gs_registered g, add_grievance_event now i Gs_registered
                (Some (''Awaiting official disposition: '' @ disposition_text (the (gr_disposition g)))) d1)))
          else
            case set_grievance_fields now i (register_fields now) d of
              Inl e \<Rightarrow> (Inl e, d)
            | Inr (g1, d1) \<Rightarrow>
                let d2 = add_grievance_event now i Gs_registered None d1 in
                if priority_of g1 = Pr_priority then dispatch_grievance w s now hex8 i d2
                else
                  commitE d
                    (case find_duplicate now (category_of g1) (gr_location_latitude g1)
                            (gr_location_longitude g1) (s_dedup_radius_m s) (Some i) d2 of
                       Some (master, distance) \<Rightarrow> mark_duplicate now g1 master d2
                     | None \<Rightarrow> open_window s now g1 d2))"

definition cancel_grievance :: "time \<Rightarrow> uuid \<Rightarrow> db \<Rightarrow> (exn + unit) \<times> db" where
  "cancel_grievance now i d =
     commitE d (bindE (set_grievance_fields now i (\<lambda>r. r\<lparr>gr_status := Gs_cancelled\<rparr>) d)
       (\<lambda>(g1, d1). Inr ((), add_grievance_event now i Gs_cancelled None d1)))"

text \<open>A sweep dispatches each complaint on its own and goes on after an exception.\<close>

fun dispatch_each ::
    "world \<Rightarrow> settings \<Rightarrow> time \<Rightarrow> string \<Rightarrow> uuid list \<Rightarrow> db \<Rightarrow> db" where
  "dispatch_each w s now hex8 [] d = d"
| "dispatch_each w s now hex8 (i # is) d =
     dispatch_each w s now hex8 is (snd (dispatch_grievance w s now hex8 i d))"

definition sweep_expired_windows ::
    "world \<Rightarrow> settings \<Rightarrow> time \<Rightarrow> string \<Rightarrow> nat \<Rightarrow> db \<Rightarrow> nat \<times> db" where
  "sweep_expired_windows w s now hex8 limit d =
     (let ids = fetch_expired_windows now limit d
      in (length ids, dispatch_each w s now hex8 ids d))"

definition sweep_stuck_dispatching ::
    "world \<Rightarrow> settings \<Rightarrow> time \<Rightarrow> string \<Rightarrow> nat \<Rightarrow> db \<Rightarrow> nat \<times> db" where
  "sweep_stuck_dispatching w s now hex8 limit d =
     (let ids = fetch_stuck_dispatching limit d
      in (length ids, dispatch_each w s now hex8 ids d))"

section \<open>What the first pass commits before its end\<close>

text \<open>The inner commits touch only the rate limiter and the geocode cache.\<close>

definition side_commit :: "db \<Rightarrow> db \<Rightarrow> bool" where
  "side_commit d d1 \<longleftrightarrow>
     d1 = d\<lparr>db_rate_limits := db_rate_limits d1, db_geocodes := db_geocodes d1\<rparr>"

lemma side_commit_refl [simp, intro]: "side_commit d d"
  by (simp add: side_commit_def)

lemma side_commit_trans [trans]:
  assumes "side_commit d d1" and "side_commit d1 d2"
  shows "side_commit d d2"
proof -
  have "d2 = d1\<lparr>db_rate_limits := db_rate_limits d2, db_geocodes := db_geocodes d2\<rparr>"
    using assms(2) by (simp add: side_commit_def)
  also have "\<dots> = (d\<lparr>db_rate_limits := db_rate_limits d1, db_geocodes := db_geocodes d1\<rparr>)
      \<lparr>db_rate_limits := db_rate_limits d2, db_geocodes := db_geocodes d2\<rparr>"
    using assms(1) by (simp add: side_commit_def)
  finally show ?thesis by (simp add: side_commit_def)
qed

lemma reserve_slot_side: "reserve_slot t0 t1 p i d = Inr (wt, d1) \<Longrightarrow> side_commit d d1"
  by (auto simp: reserve_slot_def ensure_slot_row_def set_slot_def side_commit_def Let_def
      split: option.splits)

lemma transcribe_clip_side: "transcribe_clip w s now b m d = (r, d1) \<Longrightarrow> side_commit d d1"
  by (auto simp: transcribe_clip_def Let_def split: if_splits sum.splits dest: reserve_slot_side)

lemma combine_messages_side: "combine_messages w s now ms n c d = (r, d1) \<Longrightarrow> side_commit d d1"
proof (induction ms arbitrary: n c d)
  case Nil
  then show ?case by simp
next
  case (Cons m ms)
  show ?case
    using Cons.prems
    by (auto split: if_splits option.splits sum.splits prod.splits
        dest!: transcribe_clip_side Cons.IH intro: side_commit_trans)
qed

lemma combine_issue_text_side: "combine_issue_text w s now ms d = (r, d1) \<Longrightarrow> side_commit d d1"
  by (auto simp: combine_issue_text_def split: prod.splits sum.splits dest: combine_messages_side)

lemma reverse_geocode_side: "reverse_geocode_cached w s now la lo d = (r, d1) \<Longrightarrow> side_commit d d1"
proof -
  have "side_commit d (store_geocode s a b g d0)" if "side_commit d d0" for a b g d0
    using that side_commit_trans [OF that, of "store_geocode s a b g d0"]
    by (auto simp: store_geocode_def side_commit_def)
  then show "reverse_geocode_cached w s now la lo d = (r, d1) \<Longrightarrow> side_commit d d1"
    by (auto simp: reverse_geocode_cached_def Let_def split: option.splits sum.splits if_splits
        dest!: reserve_slot_side)
qed

lemma resolve_address_side: "resolve_address w s now g d = (r, d1) \<Longrightarrow> side_commit d d1"
  by (auto simp: resolve_address_def seqE_def split: option.splits if_splits sum.splits prod.splits
      dest: reverse_geocode_side)

lemma run_attempt_side: "run_attempt w now a p c d = (r, d1) \<Longrightarrow> side_commit d d1"
  by (auto simp: run_attempt_def split: sum.splits dest: reserve_slot_side)

lemma try_attempts_side: "try_attempts w now p c req as q d = (r, d1) \<Longrightarrow> side_commit d d1"
proof (induction as arbitrary: q d)
  case Nil
  then show ?case by simp
next
  case (Cons a as)
  obtain r0 d0 where r0: "run_attempt w now a p c d = (r0, d0)" by fastforce
  then have "side_commit d d0" by (rule run_attempt_side)
  then show ?case
    using Cons.prems
    by (auto simp: r0 split: if_splits sum.splits option.splits prod.splits
        dest!: Cons.IH intro: side_commit_trans)
qed

lemma extract_issue_side: "extract_issue w s now txt ph m e c d = (r, d1) \<Longrightarrow> side_commit d d1"
  unfolding extract_issue_def Let_def
  by (auto split: if_split_asm prod.splits sum.splits option.splits dest: try_attempts_side)

lemma try_image_attempts_side: "try_image_attempts w now p c as d = (r, d1) \<Longrightarrow> side_commit d d1"
proof (induction as arbitrary: d)
  case Nil
  then show ?case by simp
next
  case (Cons a as)
  obtain r0 d0 where r0: "run_attempt w now a p c d = (r0, d0)" by fastforce
  then have "side_commit d d0" by (rule run_attempt_side)
  then show ?case
    using Cons.prems
    by (auto simp: r0 split: if_splits sum.splits option.splits prod.splits
        dest!: Cons.IH intro: side_commit_trans)
qed

lemma recheck_photo_side: "recheck_photo w s now g b d = (r, d1) \<Longrightarrow> side_commit d d1"
  by (auto simp: recheck_photo_def check_image_match_def seqE_def Let_def
      split: if_splits option.splits sum.splits prod.splits dest!: try_image_attempts_side)

lemma side_commitE:
  assumes "side_commit d d1"
  obtains rl gc where "d1 = d\<lparr>db_rate_limits := rl, db_geocodes := gc\<rparr>"
  using assms by (simp add: side_commit_def)

lemma side_commit_sel:
  "side_commit d d1 \<Longrightarrow> db_grievances d1 = db_grievances d"
  "side_commit d d1 \<Longrightarrow> db_grievance_events d1 = db_grievance_events d"
  "side_commit d d1 \<Longrightarrow> db_extractions d1 = db_extractions d"
  "side_commit d d1 \<Longrightarrow> db_routes d1 = db_routes d"
  by (auto elim!: side_commitE)

section \<open>Facts about rows\<close>

lemma set_fieldsE:
  assumes "get_grievance i d = Some g" and "\<And>r. gr_id (f r) = gr_id r"
  obtains t d1 where
    "set_grievance_fields now i f d = Inr ((f g)\<lparr>gr_updated_at := t\<rparr>, d1)"
    "get_grievance i d1 = Some ((f g)\<lparr>gr_updated_at := t\<rparr>)"
    "\<forall>j. j \<noteq> i \<longrightarrow> get_grievance j d1 = get_grievance j d"
proof -
  obtain t where t: "apply_fields now f g = (f g)\<lparr>gr_updated_at := t\<rparr>"
  proof (cases "f g = g")
    case True
    then have "apply_fields now f g = (f g)\<lparr>gr_updated_at := gr_updated_at g\<rparr>"
      by (simp add: apply_fields_def)
    then show ?thesis by (rule that)
  next
    case False
    then have "apply_fields now f g = (f g)\<lparr>gr_updated_at := now\<rparr>" by (simp add: apply_fields_def)
    then show ?thesis by (rule that)
  qed
  obtain d1 where d1: "set_grievance_fields now i f d = Inr ((f g)\<lparr>gr_updated_at := t\<rparr>, d1)"
    using assms(1) by (simp add: set_grievance_fields_def t Let_def)
  from set_fields_get [OF d1 assms(2)] have
    get: "get_grievance i d1 = Some ((f g)\<lparr>gr_updated_at := t\<rparr>)"
      "\<And>j. j \<noteq> i \<Longrightarrow> get_grievance j d1 = get_grievance j d" by auto
  with d1 show thesis by (intro that) auto
qed

lemma set_fields_step:
  assumes "get_grievance i d = Some g" and "\<And>r. gr_id (f r) = gr_id r"
  shows "\<exists>t d1. set_grievance_fields now i f d = Inr ((f g)\<lparr>gr_updated_at := t\<rparr>, d1) \<and>
    get_grievance i d1 = Some ((f g)\<lparr>gr_updated_at := t\<rparr>) \<and>
    (\<forall>j. j \<noteq> i \<longrightarrow> get_grievance j d1 = get_grievance j d)"
  by (rule set_fieldsE [OF assms, where now = now]) blast

lemma get_grievance_event [simp]: "get_grievance j (add_grievance_event now i st note d) = get_grievance j d"
  by (simp add: get_grievance_def add_grievance_event_def new_id_def Let_def)

lemma get_grievance_extraction [simp]: "get_grievance j (add_extraction i v x f b d) = get_grievance j d"
  by (simp add: get_grievance_def add_extraction_def new_id_def Let_def)

lemma get_grievance_side: "side_commit d d1 \<Longrightarrow> get_grievance j d1 = get_grievance j d"
  by (simp add: get_grievance_def side_commit_sel)

lemma get_grievance_id: "get_grievance i d = Some g \<Longrightarrow> gr_id g = i"
  by (auto simp: get_grievance_def dest: tget_SomeD)

lemma build_pdfE:
  assumes "get_grievance (gr_id g) d = Some r"
  obtains t pdf path d1 where
    "build_and_store_pdf w s now g photo d =
       Inr (pdf, r\<lparr>gr_pdf_path := Some path, gr_updated_at := t\<rparr>, d1)"
    "get_grievance (gr_id g) d1 = Some (r\<lparr>gr_pdf_path := Some path, gr_updated_at := t\<rparr>)"
    "\<forall>j. j \<noteq> gr_id g \<longrightarrow> get_grievance j d1 = get_grievance j d"
proof -
  obtain dept where dept: "department_for_category (Some (category_of g)) = Inr dept"
    using department_total by blast
  let ?path = "save_upload s (gr_id g) ''summary.pdf''"
  show thesis
  proof (rule set_fieldsE [OF assms, where f = "\<lambda>r. r\<lparr>gr_pdf_path := Some ?path\<rparr>" and now = now])
    fix t d1
    assume "set_grievance_fields now (gr_id g) (\<lambda>r. r\<lparr>gr_pdf_path := Some ?path\<rparr>) d =
        Inr (r\<lparr>gr_pdf_path := Some ?path, gr_updated_at := t\<rparr>, d1)"
      and "get_grievance (gr_id g) d1 = Some (r\<lparr>gr_pdf_path := Some ?path, gr_updated_at := t\<rparr>)"
      and "\<forall>j. j \<noteq> gr_id g \<longrightarrow> get_grievance j d1 = get_grievance j d"
    then show thesis
      by (intro that [of "build_grievance_pdf w (summary_of g dept d) photo" t ?path d1])
        (simp_all add: build_and_store_pdf_def dept Let_def)
  qed simp
qed

text \<open>The row after the first pass, column by column.\<close>

definition first_pass_row :: "db \<Rightarrow> time \<Rightarrow> extraction \<Rightarrow> string option \<Rightarrow> grievance \<Rightarrow> grievance \<Rightarrow> bool" where
  "first_pass_row d now x address g g' \<longleftrightarrow>
     gr_id g' = gr_id g \<and> gr_status g' \<in> {Gs_awaiting_confirmation, Gs_photo_mismatch} \<and>
     gr_category g' = Some (xt_category_id x) \<and> gr_category_id g' = Some (xt_category_id x) \<and>
     gr_review_status g' = Some (review_after (first_pass_policy address x)) \<and>
     gr_disposition g' = Some (rd_disposition (first_pass_policy address x)) \<and>
     gr_priority g' = Some (rd_priority (first_pass_policy address x)) \<and>
     gr_routing_snapshot g' = Some (first_pass_snapshot now g address x d) \<and>
     (gr_status g' = Gs_awaiting_confirmation \<longrightarrow> gr_pdf_path g' \<noteq> None)"

lemma first_pass_fields_sel [simp]:
  "gr_id (first_pass_fields c a x im fl p sn fa r) = gr_id r"
  "gr_status (first_pass_fields c a x im fl p sn fa r) = status_after_image im"
  "gr_category (first_pass_fields c a x im fl p sn fa r) = Some (xt_category_id x)"
  "gr_category_id (first_pass_fields c a x im fl p sn fa r) = Some (xt_category_id x)"
  "gr_review_status (first_pass_fields c a x im fl p sn fa r) = Some (review_after p)"
  "gr_disposition (first_pass_fields c a x im fl p sn fa r) = Some (rd_disposition p)"
  "gr_priority (first_pass_fields c a x im fl p sn fa r) = Some (rd_priority p)"
  "gr_routing_snapshot (first_pass_fields c a x im fl p sn fa r) = Some sn"
  by (simp_all add: first_pass_fields_def Let_def)

lemma store_first_pass_row:
  assumes "get_grievance (gr_id g) d = Some g"
    and "store_first_pass w s now g col address photo x d = Inr (r, d1)"
  shows "\<exists>g'. get_grievance (gr_id g) d1 = Some g' \<and> first_pass_row d now x address g g' \<and>
     pr_status r = gr_status g' \<and> pr_category r = xt_category_id x \<and>
     (\<forall>j. j \<noteq> gr_id g \<longrightarrow> get_grievance j d1 = get_grievance j d)"
proof -
  define im where "im = first_image_match photo x"
  define flags where "flags = first_pass_flags (fst (snd (snd col))) photo x (first_pass_policy address x)"
  obtain original where original: "original_texts (gr_issue_messages g) = Inr original"
    using assms(2) by (auto simp: store_first_pass_def Let_def bindE_Inr_iff)
  define e where "e = add_extraction (gr_id g) ''2'' x (structured_facts x original)
    (rd_needs_official_review (first_pass_policy address x)) d"
  define f where "f = first_pass_fields col address x im flags (first_pass_policy address x)
    (first_pass_snapshot now g address x d) (structured_facts x original)"
  have e_row: "get_grievance (gr_id g) e = Some g" using assms(1) by (simp add: e_def)
  have f_id: "gr_id (f r) = gr_id r" for r by (simp add: f_def)
  obtain t d2 where set: "set_grievance_fields now (gr_id g) f e = Inr ((f g)\<lparr>gr_updated_at := t\<rparr>, d2)"
    and g1: "get_grievance (gr_id g) d2 = Some ((f g)\<lparr>gr_updated_at := t\<rparr>)"
    and others: "\<forall>j. j \<noteq> gr_id g \<longrightarrow> get_grievance j d2 = get_grievance j e"
    by (rule set_fieldsE [OF e_row f_id, where now = now])
  have other: "j \<noteq> gr_id g \<Longrightarrow> get_grievance j d2 = get_grievance j d" for j
    using others by (simp add: e_def)
  let ?g1 = "(f g)\<lparr>gr_updated_at := t\<rparr>"
  have id1: "gr_id ?g1 = gr_id g" by (simp add: f_id)
  have g1': "get_grievance (gr_id ?g1) d2 = Some ?g1" unfolding id1 by (rule g1)
  have st: "status_after_image im \<in> {Gs_awaiting_confirmation, Gs_photo_mismatch}"
    by (simp add: status_after_image_def)
  have body: "store_first_pass w s now g col address photo x d =
      bindE (if status_after_image im = Gs_awaiting_confirmation
             then bindE (build_and_store_pdf w s now ?g1 photo d2) (\<lambda>(_, _, d3). Inr d3) else Inr d2)
        (\<lambda>d4. Inr (\<lparr>pr_status = status_after_image im, pr_category = xt_category_id x,
            pr_department_name = [], pr_priority = rd_priority (first_pass_policy address x),
            pr_flags = flags, pr_image_match = im\<rparr>,
            add_grievance_event now (gr_id g) (status_after_image im) None d4))"
    using set unfolding store_first_pass_def original im_def flags_def e_def f_def Let_def by simp
  show ?thesis
  proof (cases "status_after_image im = Gs_awaiting_confirmation")
    case True
    obtain t' pdf path d3 where pdf: "build_and_store_pdf w s now ?g1 photo d2 =
        Inr (pdf, ?g1\<lparr>gr_pdf_path := Some path, gr_updated_at := t'\<rparr>, d3)"
      and g2: "get_grievance (gr_id ?g1) d3 = Some (?g1\<lparr>gr_pdf_path := Some path, gr_updated_at := t'\<rparr>)"
      and o2: "\<forall>j. j \<noteq> gr_id ?g1 \<longrightarrow> get_grievance j d3 = get_grievance j d2"
      by (rule build_pdfE [OF g1'])
    have "d1 = add_grievance_event now (gr_id g) (status_after_image im) None d3"
      and "pr_status r = status_after_image im" and "pr_category r = xt_category_id x"
      using assms(2) unfolding body by (auto simp: True pdf)
    then show ?thesis
      using g2 o2 other id1 True by (auto simp: first_pass_row_def f_def)
  next
    case False
    then have "d1 = add_grievance_event now (gr_id g) (status_after_image im) None d2"
      and "pr_status r = status_after_image im" and "pr_category r = xt_category_id x"
      using assms(2) unfolding body by auto
    then show ?thesis
      using g1 other id1 False st by (auto simp: first_pass_row_def f_def)
  qed
qed

section \<open>Facts about dispatch\<close>

lemma call_department_cong:
  "gr_category g' = gr_category g \<Longrightarrow> gr_human_id g' = gr_human_id g \<Longrightarrow>
   gr_priority g' = gr_priority g \<Longrightarrow> gr_location_address g' = gr_location_address g \<Longrightarrow>
   gr_issue_text g' = gr_issue_text g \<Longrightarrow> gr_pdf_path g' = gr_pdf_path g \<Longrightarrow>
   call_department w s hex8 g' = call_department w s hex8 g"
  by (simp add: call_department_def render_confirmation_summary_def category_of_def priority_of_def
      pdf_of_def)

text \<open>The result of a dispatch and the row it leaves.\<close>

definition dispatched ::
    "world \<Rightarrow> settings \<Rightarrow> string \<Rightarrow> grievance \<Rightarrow> (exn + outcome) \<times> (grievance \<Rightarrow> grievance)" where
  "dispatched w s hex8 g =
     (if \<not> dispatch_enabled g then
        (Inr (outcome_of Gs_registered g),
         \<lambda>r. r\<lparr>gr_status := Gs_registered, gr_review_status := Some Rv_pending_official\<rparr>)
      else
        case call_department w s hex8 g of
          Inr ref \<Rightarrow>
            (Inr (outcome_of Gs_submitted g),
             \<lambda>r. r\<lparr>gr_status := Gs_submitted, gr_dispatch_ref := Some ref\<rparr>)
        | Inl e \<Rightarrow>
            if e \<noteq> DispatchError then (Inl e, \<lambda>r. r\<lparr>gr_status := Gs_dispatching\<rparr>)
            else
              let st = (if gr_dispatch_attempts g + 1 \<ge> 5 then Gs_dispatch_failed else Gs_dispatching)
              in (Inr (outcome_of st g),
                  \<lambda>r. r\<lparr>gr_status := st, gr_dispatch_attempts := gr_dispatch_attempts g + 1\<rparr>))"

lemma outcome_of_id: "gr_human_id g' = gr_human_id g \<Longrightarrow> outcome_of st g' = outcome_of st g"
  by (simp add: outcome_of_def)

lemma dispatch_row:
  assumes "get_grievance i d = Some g"
  shows "\<exists>t. get_grievance i (snd (dispatch_grievance w s now hex8 i d)) =
           Some ((snd (dispatched w s hex8 g) g)\<lparr>gr_updated_at := t\<rparr>) \<and>
         fst (dispatch_grievance w s now hex8 i d) = fst (dispatched w s hex8 g) \<and>
         (\<forall>j. j \<noteq> i \<longrightarrow> get_grievance j (snd (dispatch_grievance w s now hex8 i d)) = get_grievance j d)"
proof -
  have i: "gr_id g = i" using assms by (rule get_grievance_id)
  show ?thesis
  proof (cases "dispatch_enabled g")
    case False
    let ?f = "\<lambda>r :: grievance. r\<lparr>gr_status := Gs_registered, gr_review_status := Some Rv_pending_official\<rparr>"
    obtain t d1 where "set_grievance_fields now i ?f d = Inr ((?f g)\<lparr>gr_updated_at := t\<rparr>, d1)"
      and "get_grievance i d1 = Some ((?f g)\<lparr>gr_updated_at := t\<rparr>)"
      and "\<forall>j. j \<noteq> i \<longrightarrow> get_grievance j d1 = get_grievance j d"
      using set_fields_step [OF assms, of ?f now] by auto
    then show ?thesis
      by (auto simp: dispatch_grievance_def assms False hold_for_official_def i commitE_def
          dispatched_def outcome_of_def)
  next
    case True
    let ?m = "\<lambda>r :: grievance. r\<lparr>gr_status := Gs_dispatching\<rparr>"
    obtain t1 d1 where mark: "set_grievance_fields now i ?m d = Inr ((?m g)\<lparr>gr_updated_at := t1\<rparr>, d1)"
      and get1: "get_grievance i d1 = Some ((?m g)\<lparr>gr_updated_at := t1\<rparr>)"
      and other1: "\<forall>j. j \<noteq> i \<longrightarrow> get_grievance j d1 = get_grievance j d"
      using set_fields_step [OF assms, of ?m now] by auto
    let ?g1 = "g\<lparr>gr_status := Gs_dispatching, gr_updated_at := t1\<rparr>"
    have call: "call_department w s hex8 ?g1 = call_department w s hex8 g"
      by (rule call_department_cong) simp_all
    have run: "dispatch_grievance w s now hex8 i d = record_dispatch now ?g1 (call_department w s hex8 g) d1"
      by (simp add: dispatch_grievance_def assms True mark call)
    have step: "\<exists>t d2. set_grievance_fields now i f d1 = Inr ((f ?g1)\<lparr>gr_updated_at := t\<rparr>, d2) \<and>
        get_grievance i d2 = Some ((f ?g1)\<lparr>gr_updated_at := t\<rparr>) \<and>
        (\<forall>j. j \<noteq> i \<longrightarrow> get_grievance j d2 = get_grievance j d)"
      if f: "\<And>r. gr_id (f r) = gr_id r" for f
      using set_fields_step [OF get1 f, of now] other1 by auto
    show ?thesis
    proof (cases "call_department w s hex8 g")
      case (Inr ref)
      from step [of "\<lambda>r. r\<lparr>gr_status := Gs_submitted, gr_dispatch_ref := Some ref\<rparr>"] show ?thesis
        by (auto simp: run Inr record_dispatch_def i commitE_def dispatched_def True outcome_of_def)
    next
      case (Inl e)
      show ?thesis
      proof (cases "e = DispatchError")
        case False
        then show ?thesis
          using get1 other1 by (auto simp: run Inl record_dispatch_def dispatched_def True)
      next
        case err: True
        let ?st = "if 5 \<le> Suc (gr_dispatch_attempts g) then Gs_dispatch_failed else Gs_dispatching"
        let ?f = "\<lambda>r :: grievance. r\<lparr>gr_dispatch_attempts := Suc (gr_dispatch_attempts g), gr_status := ?st\<rparr>"
        obtain t d2 where set: "set_grievance_fields now i ?f d1 = Inr ((?f ?g1)\<lparr>gr_updated_at := t\<rparr>, d2)"
          and get: "get_grievance i d2 = Some ((?f ?g1)\<lparr>gr_updated_at := t\<rparr>)"
          and other: "\<forall>j. j \<noteq> i \<longrightarrow> get_grievance j d2 = get_grievance j d"
          using step [of ?f] by auto
        have "dispatch_grievance w s now hex8 i d =
            (Inr (outcome_of ?st g), if ?st = Gs_dispatch_failed
               then add_grievance_event now i Gs_dispatch_failed None d2 else d2)"
          using set by (simp add: run Inl err record_dispatch_def i commitE_def outcome_of_def
              MAX_DISPATCH_ATTEMPTS_def Let_def del: Suc_le_mono)
        moreover have "dispatched w s hex8 g = (Inr (outcome_of ?st g), ?f)"
          by (auto simp: dispatched_def True Inl err Let_def fun_eq_iff)
        ultimately show ?thesis
          using get other by (intro exI [of _ t]) simp
      qed
    qed
  qed
qed

lemma dispatched_id: "gr_id (snd (dispatched w s hex8 g) g) = gr_id g"
  by (auto simp: dispatched_def Let_def split: sum.splits)

section \<open>Properties of the first pass\<close>

lemma seqE_Inl: "seqE (Inl e, d) k = (Inl e, d)"
  and seqE_Inr: "seqE (Inr a, d) k = k a d"
  by (simp_all add: seqE_def)

text \<open>How the first pass ends: with an exception before anything but the inner commits is written, or
  with the stored result.\<close>

lemma run_pipeline_cases:
  assumes "get_grievance i d = Some g" and "run_pipeline w s now i d = (r, d1)"
  obtains (failed) e where "r = Inl e" "side_commit d d1"
  | (stored) x col address photo dc res where
      "side_commit d dc" "extraction_ok x"
      "store_first_pass w s now g col address photo x dc = Inr (res, d1)"
      "(r, d1) = name_department res d1"
proof -
  obtain r1 da where ra: "combine_issue_text w s now (gr_issue_messages g) d = (r1, da)" by fastforce
  have sa: "side_commit d da" using ra by (rule combine_issue_text_side)
  show thesis
  proof (cases r1)
    case (Inl e)
    with assms ra sa failed show thesis by (auto simp: run_pipeline_def seqE_Inl)
  next
    case (Inr col)
    obtain r2 db2 where rb: "resolve_address w s now g da = (r2, db2)" by fastforce
    have sb: "side_commit d db2" using sa resolve_address_side [OF rb] by (rule side_commit_trans)
    show thesis
    proof (cases "\<exists>address photo mime. r2 = Inr address \<and>
        fetch_photo w s (gr_photo_media_id g) (gr_photo_path g) = Inr (photo, mime)")
      case False
      with assms ra Inr rb have "\<exists>e. r = Inl e \<and> d1 = db2"
        by (cases r2; cases "fetch_photo w s (gr_photo_media_id g) (gr_photo_path g)")
          (auto simp: run_pipeline_def seqE_def)
      with sb failed show thesis by blast
    next
      case True
      then obtain address photo mime where ph: "r2 = Inr address"
        "fetch_photo w s (gr_photo_media_id g) (gr_photo_path g) = Inr (photo, mime)" by blast
      obtain r3 dc where rc: "extract_issue w s now (Some (fst col)) photo (str_or mime ''image/jpeg'')
          False None db2 = (r3, dc)" by fastforce
      have sc: "side_commit d dc" using sb extract_issue_side [OF rc] by (rule side_commit_trans)
      show thesis
      proof (cases "\<exists>x res dd. r3 = Inr x \<and> store_first_pass w s now g col address photo x dc = Inr (res, dd)")
        case False
        with assms ra Inr rb ph rc have "\<exists>e. r = Inl e \<and> d1 = dc"
          by (cases r3; cases "store_first_pass w s now g col address photo (projr r3) dc")
            (auto simp: run_pipeline_def seqE_def commitE_def)
        with sc failed show thesis by blast
      next
        case True
        then obtain x res dd where x: "r3 = Inr x"
          "store_first_pass w s now g col address photo x dc = Inr (res, dd)" by blast
        with assms ra Inr rb ph rc have "(r, d1) = name_department res dd"
          by (simp add: run_pipeline_def seqE_def commitE_def)
        moreover from this have "d1 = dd"
          by (auto simp: name_department_def split: sum.splits)
        ultimately show thesis
          using x sc rc extract_issue_ok by (intro stored [of dc x col address photo res]) simp_all
      qed
    qed
  qed
qed

lemma first_pass_review:
  "first_pass_row d now x address g g' \<Longrightarrow>
   gr_review_status g' = Some Rv_pending_official \<longleftrightarrow>
     \<not> auto_fileable (Some (xt_category_id x)) (xt_safety x) (xt_asset_scope x) (truthy address)"
  using policy_review_iff [of "Some (xt_category_id x)" "xt_safety x" "xt_asset_scope x"
      "truthy address" "xt_confidence x"]
  by (auto simp: first_pass_row_def review_after_def first_pass_policy_def)

lemma first_pass_enabled:
  "rs_dispatch_enabled (first_pass_snapshot now g address x d) \<Longrightarrow>
   \<exists>row \<in> set (db_routes d). rr_dispatch_enabled row \<and>
     route_effective (jurisdiction_of g) TAXONOMY_VERSION now row \<and>
     canonical_category_key (Some (xt_category_id x)) = Some (rr_category_id row)"
  using enabled_route_has_row [of now "Some (xt_category_id x)" "jurisdiction_of g" TAXONOMY_VERSION d]
  by (auto simp: first_pass_snapshot_def routing_snapshot_def split: option.splits)


section \<open>Properties of the second extraction\<close>

lemma reextract_fields_sel [simp]:
  "gr_id (reextract_fields now g x d r) = gr_id r"
  "gr_category_id (reextract_fields now g x d r) = Some (cat_key (reextract_category g x))"
  "gr_status (reextract_fields now g x d r) = gr_status r"
  "gr_flags (reextract_fields now g x d r) = reextract_flags g x"
  "gr_review_status (reextract_fields now g x d r) = Some (review_after (reextract_policy g x))"
  by (simp_all add: reextract_fields_def Let_def)

lemma store_reextraction_row:
  assumes "get_grievance (gr_id g) d = Some g"
  shows "\<exists>t d1. store_reextraction now g x d = Inr ((), d1) \<and>
    get_grievance (gr_id g) d1 = Some ((reextract_fields now g x d g)\<lparr>gr_updated_at := t\<rparr>)"
proof -
  let ?e = "add_extraction (gr_id g) ''2-escalated'' x (merged_facts (facts_of g) x)
    (rd_needs_official_review (reextract_policy g x)) d"
  have "get_grievance (gr_id g) ?e = Some g" using assms by simp
  from set_fields_step [OF this, of "reextract_fields now g x d" now] show ?thesis
    by (auto simp: store_reextraction_def Let_def)
qed

lemma reextract_category_key:
  "dict_get CANONICAL_CATEGORIES c \<noteq> None \<Longrightarrow> cat_key (category_or_default (Some c)) = c"
  by (rule category_key_or_default) (rule canonical_fix)


section \<open>Properties of dispatch\<close>

text \<open>A complaint under the recovery sweep: dispatched at each of the given times while it is still
  retriable.\<close>

fun retry_rounds ::
    "world \<Rightarrow> settings \<Rightarrow> string \<Rightarrow> uuid \<Rightarrow> time list \<Rightarrow> db \<Rightarrow> db" where
  "retry_rounds w s hex8 i [] d = d"
| "retry_rounds w s hex8 i (t # ts) d =
     retry_rounds w s hex8 i ts
       (case get_grievance i d of
          None \<Rightarrow> d
        | Some g \<Rightarrow> if dispatch_retriable g then snd (dispatch_grievance w s t hex8 i d) else d)"

text \<open>C19. A department that keeps refusing is not asked for ever: a complaint that has used \<open>n\<close> of its
  attempts is tried again until the fifth refusal, then it is marked as failed and no further
  sweep touches it.\<close>

theorem dispatch_gives_up_after_five:
  assumes "get_grievance i d = Some g" and "dispatch_enabled g"
    and "gr_status g = Gs_dispatching" and "gr_dispatch_attempts g < 5"
    and "call_department w s hex8 g = Inl DispatchError"
  shows "\<exists>g'. get_grievance i (retry_rounds w s hex8 i ts d) = Some g' \<and>
    gr_dispatch_attempts g' = min 5 (gr_dispatch_attempts g + length ts) \<and>
    gr_status g' = (if 5 \<le> gr_dispatch_attempts g + length ts then Gs_dispatch_failed else Gs_dispatching)"
  using assms
proof (induction ts arbitrary: d g)
  case Nil
  then show ?case by simp
next
  case (Cons t ts)
  let ?d1 = "snd (dispatch_grievance w s t hex8 i d)"
  obtain u where row: "get_grievance i ?d1 = Some ((snd (dispatched w s hex8 g) g)\<lparr>gr_updated_at := u\<rparr>)"
    using dispatch_row [OF Cons.prems(1), of w s t hex8] by blast
  let ?g1 = "(snd (dispatched w s hex8 g) g)\<lparr>gr_updated_at := u\<rparr>"
  have step: "retry_rounds w s hex8 i (t # ts) d = retry_rounds w s hex8 i ts ?d1"
    using Cons.prems by (simp add: dispatch_retriable_def)
  have g1: "gr_dispatch_attempts ?g1 = Suc (gr_dispatch_attempts g)"
    "gr_status ?g1 = (if 4 \<le> gr_dispatch_attempts g then Gs_dispatch_failed else Gs_dispatching)"
    using Cons.prems by (auto simp: dispatched_def Let_def)
  show ?case
  proof (cases "gr_dispatch_attempts g = 4")
    case True
    have "retry_rounds w s hex8 i ts ?d1 = ?d1"
      using row g1 True
      by (induction ts) (simp_all add: dispatch_retriable_def)
    then show ?thesis using row g1 True unfolding step by auto
  next
    case False
    have "dispatch_enabled ?g1"
      using Cons.prems by (auto simp: dispatched_def dispatch_enabled_def Let_def)
    moreover have "call_department w s hex8 ?g1 = call_department w s hex8 g"
      by (rule call_department_cong) (auto simp: dispatched_def Let_def split: sum.splits)
    ultimately show ?thesis
      using Cons.IH [OF row] Cons.prems False g1 unfolding step by auto
  qed
qed

text \<open>C40. Only refusals count as attempts: if the stored receipt cannot be read, the dispatch raises after
  the mark is committed, so every sweep tries again, the attempts stay as they were and the
  complaint never leaves the dispatching state.\<close>

theorem unreadable_receipt_retried_for_ever:
  assumes "get_grievance i d = Some g" and "dispatch_enabled g"
    and "gr_status g = Gs_dispatching" and "gr_dispatch_attempts g < 5"
    and "gr_pdf_path g = Some p" and "p \<noteq> []"
    and "w_read_file w (path_str (artifact_path s p)) = Inl OSError"
  shows "\<exists>g'. get_grievance i (retry_rounds w s hex8 i ts d) = Some g' \<and> dispatch_retriable g' \<and>
    gr_dispatch_attempts g' = gr_dispatch_attempts g"
  using assms
proof (induction ts arbitrary: d g)
  case Nil
  then show ?case by (auto simp: dispatch_retriable_def)
next
  case (Cons t ts)
  obtain dept where "department_for_category (Some (category_of g)) = Inr dept"
    using department_total by blast
  then have call: "call_department w s hex8 g = Inl OSError"
    using Cons.prems by (simp add: call_department_def render_confirmation_summary_def pdf_of_def truthy_def)
  obtain u where row: "get_grievance i (snd (dispatch_grievance w s t hex8 i d)) =
      Some (g\<lparr>gr_status := Gs_dispatching, gr_updated_at := u\<rparr>)"
    using dispatch_row [OF Cons.prems(1), of w s t hex8] Cons.prems(2) call
    by (auto simp: dispatched_def)
  from Cons.IH [OF row] Cons.prems show ?case by (auto simp: dispatch_retriable_def dispatch_enabled_def)
qed

text \<open>The department that receives a complaint is the one of the bundled taxonomy: neither the
  department nor the agency that a reviewed jurisdiction route put on the complaint changes what is
  sent or to whom.\<close>

theorem dispatch_ignores_route_department:
  "call_department w s hex8 (g\<lparr>gr_department_key := k, gr_routing_snapshot := snap\<rparr>) =
   call_department w s hex8 g \<and>
   (\<exists>dept. department_for_category (Some (category_of g)) = Inr dept \<and>
      dict_get DEPARTMENTS (cat_department_key (category_or_default (Some (category_of g)))) = Some dept)"
  using department_total [of "Some (category_of g)"]
  by (auto simp: department_for_category_def intro: call_department_cong split: option.splits)

section \<open>Properties of the confirmation\<close>

lemma get_grievance_member:
  "distinct (map gr_id (db_grievances d)) \<Longrightarrow> m \<in> set (db_grievances d) \<Longrightarrow>
   get_grievance (gr_id m) d = Some m"
  by (simp add: get_grievance_def tget_unique)

lemma grievance_ids_kept:
  assumes "set_grievance_fields now i f d = Inr (g', d1)" and "\<And>r. gr_id (f r) = gr_id r"
  shows "map gr_id (db_grievances d1) = map gr_id (db_grievances d)"
proof -
  obtain g where g: "get_grievance i d = Some g" "g' = apply_fields now f g"
    "db_grievances d1 = tupd (\<lambda>r. gr_id r = i) (\<lambda>_. g') (db_grievances d)"
    using assms(1) by (auto simp: set_fields_Inr)
  have "gr_id g' = i"
    using get_grievance_id [OF g(1)] g(2) assms(2) by (simp add: apply_fields_id)
  then show ?thesis unfolding g(3) by (auto simp: tupd_def)
qed

text \<open>Marking a duplicate: the new complaint points to the master, whose count goes up by one.\<close>

lemma mark_duplicate_rows:
  assumes "get_grievance (gr_id g) d = Some g" and "get_grievance (gr_id m) d = Some m"
    and "gr_id m \<noteq> gr_id g"
  shows "\<exists>t u d1. mark_duplicate now g m d =
      Inr ((outcome_of Gs_duplicate g)\<lparr>fo_duplicate_of := Some (gr_human_id m),
             fo_report_count := Some (gr_report_count m + 1)\<rparr>, d1) \<and>
    get_grievance (gr_id g) d1 =
      Some (g\<lparr>gr_status := Gs_duplicate, gr_duplicate_of_id := Some (gr_id m), gr_updated_at := t\<rparr>) \<and>
    get_grievance (gr_id m) d1 = Some (m\<lparr>gr_report_count := gr_report_count m + 1, gr_updated_at := u\<rparr>)"
proof -
  let ?f = "\<lambda>r :: grievance. r\<lparr>gr_status := Gs_duplicate, gr_duplicate_of_id := Some (gr_id m)\<rparr>"
  obtain t d2 where a: "set_grievance_fields now (gr_id g) ?f d = Inr ((?f g)\<lparr>gr_updated_at := t\<rparr>, d2)"
    "get_grievance (gr_id g) d2 = Some ((?f g)\<lparr>gr_updated_at := t\<rparr>)"
    "\<forall>j. j \<noteq> gr_id g \<longrightarrow> get_grievance j d2 = get_grievance j d"
    using set_fields_step [OF assms(1), of ?f now] by auto
  have m2: "get_grievance (gr_id m) d2 = Some m" using a(3) assms(2,3) by simp
  let ?h = "\<lambda>r :: grievance. r\<lparr>gr_report_count := gr_report_count m + 1\<rparr>"
  obtain u d3 where b: "set_grievance_fields now (gr_id m) ?h d2 = Inr ((?h m)\<lparr>gr_updated_at := u\<rparr>, d3)"
    "get_grievance (gr_id m) d3 = Some ((?h m)\<lparr>gr_updated_at := u\<rparr>)"
    "\<forall>j. j \<noteq> gr_id m \<longrightarrow> get_grievance j d3 = get_grievance j d2"
    using set_fields_step [OF m2, of ?h now] by auto
  have "get_grievance (gr_id g) d3 = Some ((?f g)\<lparr>gr_updated_at := t\<rparr>)"
    using b(3) a(2) assms(3) by simp
  then show ?thesis using a(1) b(1,2)
    by (intro exI [of _ t] exI [of _ u]) (simp add: mark_duplicate_def)
qed

definition held_back :: "grievance \<Rightarrow> bool" where
  "held_back g \<longleftrightarrow> gr_review_status g = Some Rv_pending_official \<or> awaits_disposition g"

lemma finalize_held_back:
  assumes "get_grievance i d = Some g" and "held_back g"
  shows "\<exists>g'. fst (finalize_grievance w s now hex8 i d) = Inr (outcome_of Gs_registered g) \<and>
    get_grievance i (snd (finalize_grievance w s now hex8 i d)) = Some g' \<and>
    gr_status g' = Gs_registered \<and> gr_review_status g' = Some Rv_pending_official \<and>
    gr_dispatch_ref g' = gr_dispatch_ref g"
proof (cases "gr_review_status g = Some Rv_pending_official")
  case True
  obtain t d1 where "set_grievance_fields now i (register_fields now) d =
      Inr ((register_fields now g)\<lparr>gr_updated_at := t\<rparr>, d1)"
    "get_grievance i d1 = Some ((register_fields now g)\<lparr>gr_updated_at := t\<rparr>)"
    using set_fields_step [OF assms(1), of "register_fields now" now] by (auto simp: register_fields_def)
  with True assms(1) show ?thesis
    by (simp add: finalize_grievance_def commitE_def) (simp add: register_fields_def)
next
  case False
  let ?f = "\<lambda>r. (register_fields now r)\<lparr>gr_review_status := Some Rv_pending_official\<rparr>"
  obtain t d1 where "set_grievance_fields now i ?f d = Inr ((?f g)\<lparr>gr_updated_at := t\<rparr>, d1)"
    "get_grievance i d1 = Some ((?f g)\<lparr>gr_updated_at := t\<rparr>)"
    using set_fields_step [OF assms(1), of ?f now] by (auto simp: register_fields_def)
  with False assms show ?thesis
    by (simp add: finalize_grievance_def commitE_def held_back_def) (simp add: register_fields_def)
qed

lemma finalize_free:
  assumes "get_grievance i d = Some g" and "\<not> held_back g"
  obtains g1 d1 t where "g1 = (register_fields now g)\<lparr>gr_updated_at := t\<rparr>"
    "get_grievance i d1 = Some g1" "\<forall>j. j \<noteq> i \<longrightarrow> get_grievance j d1 = get_grievance j d"
    "map gr_id (db_grievances d1) = map gr_id (db_grievances d)"
    "finalize_grievance w s now hex8 i d =
       (if priority_of g = Pr_priority then dispatch_grievance w s now hex8 i d1
        else commitE d
          (case find_duplicate now (category_of g) (gr_location_latitude g) (gr_location_longitude g)
                  (s_dedup_radius_m s) (Some i) d1 of
             Some (master, distance) \<Rightarrow> mark_duplicate now g1 master d1
           | None \<Rightarrow> open_window s now g1 d1))"
proof -
  obtain t d1 where set: "set_grievance_fields now i (register_fields now) d =
      Inr ((register_fields now g)\<lparr>gr_updated_at := t\<rparr>, d1)"
    "get_grievance i d1 = Some ((register_fields now g)\<lparr>gr_updated_at := t\<rparr>)"
    "\<forall>j. j \<noteq> i \<longrightarrow> get_grievance j d1 = get_grievance j d"
    using set_fields_step [OF assms(1), of "register_fields now" now] by (auto simp: register_fields_def)
  let ?g1 = "(register_fields now g)\<lparr>gr_updated_at := t\<rparr>"
  let ?d2 = "add_grievance_event now i Gs_registered None d1"
  have keep: "priority_of ?g1 = priority_of g" "category_of ?g1 = category_of g"
    "gr_location_latitude ?g1 = gr_location_latitude g" "gr_location_longitude ?g1 = gr_location_longitude g"
    by (simp_all add: priority_of_def category_of_def register_fields_def)
  have "finalize_grievance w s now hex8 i d =
       (if priority_of g = Pr_priority then dispatch_grievance w s now hex8 i ?d2
        else commitE d
          (case find_duplicate now (category_of g) (gr_location_latitude g) (gr_location_longitude g)
                  (s_dedup_radius_m s) (Some i) ?d2 of
             Some (master, distance) \<Rightarrow> mark_duplicate now ?g1 master ?d2
           | None \<Rightarrow> open_window s now ?g1 ?d2))"
    using assms set(1) unfolding held_back_def
    by (simp add: finalize_grievance_def keep Let_def)
  moreover have "map gr_id (db_grievances ?d2) = map gr_id (db_grievances d)"
    using grievance_ids_kept [OF set(1)]
    by (simp add: register_fields_def add_grievance_event_def new_id_def Let_def)
  ultimately show thesis
    using set(2,3) by (intro that [of ?g1 t ?d2]) simp_all
qed

lemma finalize_outcome:
  assumes "get_grievance i d = Some g" and "distinct (map gr_id (db_grievances d))"
    and "finalize_grievance w s now hex8 i d = (Inr out, d1)"
  shows "\<exists>g'. get_grievance i d1 = Some g' \<and> gr_status g' = fo_status out \<and>
    fo_human_id out = gr_human_id g \<and>
    fo_status out \<in> {Gs_registered, Gs_submitted, Gs_dispatching, Gs_dispatch_failed, Gs_duplicate,
      Gs_pending_window} \<and>
    (held_back g \<longrightarrow> fo_status out = Gs_registered \<and> gr_review_status g' = Some Rv_pending_official) \<and>
    (fo_status out \<in> {Gs_submitted, Gs_dispatching, Gs_dispatch_failed} \<longrightarrow>
       \<not> held_back g \<and> priority_of g = Pr_priority \<and> dispatch_enabled g) \<and>
    (fo_status out = Gs_pending_window \<longrightarrow>
       gr_window_expires_at g' = Some (now + hours (int (s_dedup_window_hours s)))) \<and>
    (fo_status out = Gs_duplicate \<longrightarrow>
       (\<exists>m m'. get_grievance (gr_id m) d = Some m \<and> gr_id m \<noteq> i \<and> gr_status m = Gs_pending_window \<and>
          gr_duplicate_of_id g' = Some (gr_id m) \<and> get_grievance (gr_id m) d1 = Some m' \<and>
          gr_status m' = Gs_pending_window \<and> gr_report_count m' = gr_report_count m + 1 \<and>
          fo_report_count out = Some (gr_report_count m + 1)))"
proof (cases "held_back g")
  case True
  then show ?thesis
    using finalize_held_back [OF assms(1) True, of w s now hex8] assms(3)
    by (auto simp: outcome_of_def)
next
  case False
  obtain g1 da t where g1: "g1 = (register_fields now g)\<lparr>gr_updated_at := t\<rparr>"
    and get: "get_grievance i da = Some g1" and other: "\<forall>j. j \<noteq> i \<longrightarrow> get_grievance j da = get_grievance j d"
    and ids: "map gr_id (db_grievances da) = map gr_id (db_grievances d)"
    and run: "finalize_grievance w s now hex8 i d =
       (if priority_of g = Pr_priority then dispatch_grievance w s now hex8 i da
        else commitE d
          (case find_duplicate now (category_of g) (gr_location_latitude g) (gr_location_longitude g)
                  (s_dedup_radius_m s) (Some i) da of
             Some (master, distance) \<Rightarrow> mark_duplicate now g1 master da
           | None \<Rightarrow> open_window s now g1 da))"
    by (rule finalize_free [OF assms(1) False, of now w s hex8])
  have i: "gr_id g1 = i" "gr_human_id g1 = gr_human_id g" "dispatch_enabled g1 = dispatch_enabled g"
    using get_grievance_id [OF assms(1)]
    by (simp_all add: g1 register_fields_def dispatch_enabled_def)
  show ?thesis
  proof (cases "priority_of g = Pr_priority")
    case True
    then have sent: "dispatch_grievance w s now hex8 i da = (Inr out, d1)"
      using run assms(3) by simp
    from dispatch_row [OF get, of w s now hex8] True i False show ?thesis
      by (auto simp: sent dispatched_def outcome_of_def Let_def split: if_splits sum.splits)
  next
    case normal: False
    show ?thesis
    proof (cases "find_duplicate now (category_of g) (gr_location_latitude g) (gr_location_longitude g)
        (s_dedup_radius_m s) (Some i) da")
      case None
      let ?f = "\<lambda>r :: grievance. r\<lparr>gr_status := Gs_pending_window,
        gr_window_expires_at := Some (now + hours (int (s_dedup_window_hours s)))\<rparr>"
      have get': "get_grievance (gr_id g1) da = Some g1" using get i by simp
      from set_fields_step [OF get', of ?f now] show ?thesis
        using assms(3) i False unfolding run
        by (auto simp: normal None open_window_def commitE_def outcome_of_def held_back_def)
    next
      case (Some p)
      obtain m x where p: "p = (m, x)" by fastforce
      from find_duplicate_Some [OF Some [unfolded p]] have
        m: "m \<in> set (db_grievances da)" "gr_id m \<noteq> i" "gr_status m = Gs_pending_window" by auto
      have gm: "get_grievance (gr_id m) da = Some m"
        using get_grievance_member [OF _ m(1)] assms(2) ids by simp
      then have gd: "get_grievance (gr_id m) d = Some m" using other m(2) by simp
      have get': "get_grievance (gr_id g1) da = Some g1" using get i by simp
      have ne: "gr_id m \<noteq> gr_id g1" using m(2) i by simp
      from mark_duplicate_rows [OF get' gm ne, of now] obtain t' u db2 where
        mk: "mark_duplicate now g1 m da = Inr ((outcome_of Gs_duplicate g1)
            \<lparr>fo_duplicate_of := Some (gr_human_id m), fo_report_count := Some (gr_report_count m + 1)\<rparr>, db2)"
        and rows: "get_grievance (gr_id g1) db2 =
            Some (g1\<lparr>gr_status := Gs_duplicate, gr_duplicate_of_id := Some (gr_id m), gr_updated_at := t'\<rparr>)"
          "get_grievance (gr_id m) db2 = Some (m\<lparr>gr_report_count := gr_report_count m + 1, gr_updated_at := u\<rparr>)"
        by blast
      have res: "d1 = db2" "out = (outcome_of Gs_duplicate g1)
            \<lparr>fo_duplicate_of := Some (gr_human_id m), fo_report_count := Some (gr_report_count m + 1)\<rparr>"
        using assms(3) unfolding run by (simp_all add: normal Some p commitE_def mk)
      have "\<exists>m m'. get_grievance (gr_id m) d = Some m \<and> gr_id m \<noteq> i \<and> gr_status m = Gs_pending_window \<and>
          Some (gr_id m') = Some (gr_id m) \<and> get_grievance (gr_id m) d1 = Some m' \<and>
          gr_status m' = Gs_pending_window \<and> gr_report_count m' = gr_report_count m + 1"
        using gd m(2,3) rows(2) unfolding res(1)
        by (intro exI [of _ m] exI [of _ "m\<lparr>gr_report_count := gr_report_count m + 1, gr_updated_at := u\<rparr>"]) simp
      show ?thesis
        using gd m(2,3) rows i False
        by (intro exI [of _ "g1\<lparr>gr_status := Gs_duplicate, gr_duplicate_of_id := Some (gr_id m), gr_updated_at := t'\<rparr>"])
          (simp add: res outcome_of_def exI [of _ m])
    qed
  qed
qed


section \<open>Concrete complaints\<close>

definition sample_filed :: grievance where
  "sample_filed = draft_row 0 ''g1'' 2 ''c1'' None None Src_web
     \<lparr>di_lat = None, di_lon = None, di_address = None,
      di_messages = [\<lparr>im_message_id = None, im_received_at = None, im_type = ''text'',
         im_text = Some ''dark street'', im_media_id = None, im_mime_type = None,
         im_local_path = None, im_recording_id = None, im_segment_index = None\<rparr>],
      di_photo_media_id = None\<rparr>"

lemma sample_filed_sel [simp]:
  "gr_id sample_filed = ''g1''" "gr_location_latitude sample_filed = None"
  "gr_location_address sample_filed = None" "gr_photo_media_id sample_filed = None"
  "gr_photo_path sample_filed = None" "gr_category_id sample_filed = None"
  "gr_review_status sample_filed = None" "gr_disposition sample_filed = None"
  "gr_priority sample_filed = None" "gr_category sample_filed = None"
  "gr_routing_snapshot sample_filed = None" "gr_dispatch_attempts sample_filed = 0"
  "gr_pdf_path sample_filed = None" "gr_status sample_filed = Gs_draft"
  by (simp_all add: sample_filed_def draft_row_def)

definition filed_db :: "(grievance \<Rightarrow> grievance) \<Rightarrow> db" where
  "filed_db f = empty_db\<lparr>db_grievances := [f sample_filed]\<rparr>"

lemma filed_db_get: "gr_id (f sample_filed) = ''g1'' \<Longrightarrow> get_grievance ''g1'' (filed_db f) = Some (f sample_filed)"
  by (simp add: filed_db_def get_grievance_def tget_Cons)



definition stuck :: "grievance \<Rightarrow> grievance" where
  "stuck g = g\<lparr>gr_status := Gs_dispatching\<rparr>"

lemma stuck_sel [simp]:
  "gr_id (stuck g) = gr_id g" "gr_status (stuck g) = Gs_dispatching"
  "gr_dispatch_attempts (stuck g) = gr_dispatch_attempts g"
  "gr_routing_snapshot (stuck g) = gr_routing_snapshot g" "gr_pdf_path (stuck g) = gr_pdf_path g"
  by (simp_all add: stuck_def)

theorem dispatch_gives_up_after_five_witness:
  "\<exists>g'. get_grievance ''g1'' (retry_rounds sample_world sample_settings ''00'' ''g1'' [1, 2, 3, 4, 5, 6] (filed_db stuck)) =
     Some g' \<and> gr_status g' = Gs_dispatch_failed \<and> gr_dispatch_attempts g' = 5"
proof -
  obtain dept where dept: "department_for_category (Some (category_of (stuck sample_filed))) = Inr dept"
    using department_total by blast
  have "call_department sample_world sample_settings ''00'' (stuck sample_filed) = Inl DispatchError"
    using dept
    by (simp add: call_department_def render_confirmation_summary_def pdf_of_def truthy_def
        dispatch_to_department_def smtp_dispatch_def mock_dispatch_def sample_world_def
        split: dispatcher_kind.split)
  from dispatch_gives_up_after_five [OF filed_db_get [of stuck] _ _ _ this, of "[1, 2, 3, 4, 5, 6]"] show ?thesis
    by (auto simp: dispatch_enabled_def)
qed

theorem unreadable_receipt_retried_for_ever_witness:
  "\<exists>g'. get_grievance ''g1'' (retry_rounds sample_world sample_settings ''00'' ''g1'' [1, 2, 3, 4, 5, 6]
       (filed_db (\<lambda>g. (stuck g)\<lparr>gr_pdf_path := Some ''p''\<rparr>))) = Some g' \<and>
     dispatch_retriable g' \<and> gr_dispatch_attempts g' = 0"
proof -
  let ?f = "\<lambda>g. (stuck g)\<lparr>gr_pdf_path := Some ''p''\<rparr>"
  have "w_read_file sample_world (path_str (artifact_path sample_settings ''p'')) = Inl OSError"
    by (simp add: sample_world_def)
  from unreadable_receipt_retried_for_ever [OF filed_db_get [of ?f] _ _ _ _ _ this, of "''00''" "[1, 2, 3, 4, 5, 6]"]
  show ?thesis by (auto simp: dispatch_enabled_def)
qed


end
