(* ===== verification/Auth.thy ===== *)
theory Auth
  imports Outbound Contracts
begin

text \<open>
  \<^verbatim>\<open>auth.py\<close> with \<^verbatim>\<open>repositories/users.py\<close> and
  \<^verbatim>\<open>repositories/login_approvals.py\<close>: sign-in by a code sent to the bot, sign-in by a button
  in WhatsApp, and the rotating refresh tokens. The digest, the JWT library and the local time
  formats are the record \<open>auth_lib\<close>; random values are arguments. An HTTP handler returns
  its response or exception with the database it leaves; \<open>now\<close> is its clock reading. Identifiers
  are texts of UUIDs, as the request models demand.
\<close>

record auth_lib =
  al_sha256 :: "string \<Rightarrow> string"
  al_jwt_encode :: "string \<Rightarrow> (string \<times> json) list \<Rightarrow> string"
  al_jwt_decode :: "time \<Rightarrow> string \<Rightarrow> string option \<Rightarrow> string \<Rightarrow> exn + jobject"
  al_requested :: "time \<Rightarrow> string"
  al_expires :: "time \<Rightarrow> string"

section \<open>Users and reverse codes\<close>

definition upsert_user_for_verified_phone ::
    "string \<Rightarrow> uuid option \<Rightarrow> db \<Rightarrow> exn + (user \<times> db)" where
  "upsert_user_for_verified_phone phone contact_id d =
     (if contact_id \<noteq> None \<and>
         list_ex (\<lambda>u. us_contact_id u = contact_id \<and> us_phone u \<noteq> phone) (db_users d)
      then Inl IntegrityError
      else
        case tget us_phone phone (db_users d) of
          Some u \<Rightarrow>
            let u' = u\<lparr>us_contact_id := contact_id\<rparr>
            in Inr (u', d\<lparr>db_users := tupd (\<lambda>r. us_phone r = phone) (\<lambda>_. u') (db_users d)\<rparr>)
        | None \<Rightarrow>
            let (i, d1) = new_id d;
                u = \<lparr>us_id = i, us_phone = phone, us_contact_id = contact_id, us_name = None\<rparr>
            in Inr (u, d1\<lparr>db_users := db_users d1 @ [u]\<rparr>))"

definition get_user :: "uuid \<Rightarrow> db \<Rightarrow> user option" where
  "get_user user_id d = tget us_id user_id (db_users d)"

definition get_user_by_phone :: "string \<Rightarrow> db \<Rightarrow> exn + user option" where
  "get_user_by_phone phone d = scalar_one_or_none (filter (\<lambda>u. us_phone u = phone) (db_users d))"

definition get_user_by_contact_id :: "uuid \<Rightarrow> db \<Rightarrow> exn + user option" where
  "get_user_by_contact_id contact_id d =
     scalar_one_or_none (filter (\<lambda>u. us_contact_id u = Some contact_id) (db_users d))"

definition count_recent_verifications :: "string \<Rightarrow> time \<Rightarrow> db \<Rightarrow> nat" where
  "count_recent_verifications phone since d =
     length (filter (\<lambda>v. pv_phone v = phone \<and> pv_created_at v \<ge> since) (db_verifications d))"

definition create_phone_verification ::
    "time \<Rightarrow> string \<Rightarrow> string \<Rightarrow> time \<Rightarrow> db \<Rightarrow> phone_verification \<times> db" where
  "create_phone_verification now phone code_hash expires_at d =
     (let (i, d1) = new_id d;
          v = \<lparr>pv_id = i, pv_phone = phone, pv_code_hash = code_hash, pv_status = Pv_pending,
               pv_expires_at = expires_at, pv_verified_at = None, pv_user_id = None,
               pv_created_at = now\<rparr>
      in (v, d1\<lparr>db_verifications := db_verifications d1 @ [v]\<rparr>))"

definition get_phone_verification :: "uuid \<Rightarrow> db \<Rightarrow> phone_verification option" where
  "get_phone_verification verification_id d = tget pv_id verification_id (db_verifications d)"

definition find_pending_verification_by_code_hash ::
    "time \<Rightarrow> string \<Rightarrow> db \<Rightarrow> exn + phone_verification option" where
  "find_pending_verification_by_code_hash now code_hash d =
     scalar_one_or_none
       (filter (\<lambda>v. pv_code_hash v = code_hash \<and> pv_status v = Pv_pending \<and> pv_expires_at v > now)
         (db_verifications d))"

definition mark_verification_verified :: "time \<Rightarrow> uuid \<Rightarrow> uuid \<Rightarrow> db \<Rightarrow> db" where
  "mark_verification_verified now verification_id user_id d =
     d\<lparr>db_verifications := tupd (\<lambda>v. pv_id v = verification_id)
        (\<lambda>v. v\<lparr>pv_status := Pv_verified, pv_verified_at := Some now, pv_user_id := Some user_id\<rparr>)
        (db_verifications d)\<rparr>"

definition consume_verification :: "uuid \<Rightarrow> db \<Rightarrow> bool \<times> db" where
  "consume_verification verification_id d =
     (let hit = (\<lambda>v. pv_id v = verification_id \<and> pv_status v = Pv_verified) in
      (list_ex hit (db_verifications d),
       d\<lparr>db_verifications := tupd hit (\<lambda>v. v\<lparr>pv_status := Pv_consumed\<rparr>) (db_verifications d)\<rparr>))"

section \<open>Refresh tokens\<close>

definition create_refresh_token :: "uuid \<Rightarrow> string \<Rightarrow> time \<Rightarrow> db \<Rightarrow> exn + db" where
  "create_refresh_token user_id token_hash expires_at d =
     (if list_ex (\<lambda>t. rt_token_hash t = token_hash) (db_refresh_tokens d) then Inl IntegrityError
      else
        let (i, d1) = new_id d in
        Inr (d1\<lparr>db_refresh_tokens := db_refresh_tokens d1 @
          [\<lparr>rt_id = i, rt_user_id = user_id, rt_token_hash = token_hash,
            rt_expires_at = expires_at, rt_revoked_at = None\<rparr>]\<rparr>))"

definition token_active :: "time \<Rightarrow> string \<Rightarrow> refresh_token \<Rightarrow> bool" where
  "token_active now token_hash t =
     (rt_token_hash t = token_hash \<and> rt_revoked_at t = None \<and> rt_expires_at t > now)"

definition find_active_refresh_token :: "time \<Rightarrow> string \<Rightarrow> db \<Rightarrow> exn + refresh_token option" where
  "find_active_refresh_token now token_hash d =
     scalar_one_or_none (filter (token_active now token_hash) (db_refresh_tokens d))"

definition revoke_refresh_token :: "time \<Rightarrow> string \<Rightarrow> db \<Rightarrow> db" where
  "revoke_refresh_token now token_hash d =
     d\<lparr>db_refresh_tokens :=
        tupd (\<lambda>t. rt_token_hash t = token_hash \<and> rt_revoked_at t = None)
          (\<lambda>t. t\<lparr>rt_revoked_at := Some now\<rparr>) (db_refresh_tokens d)\<rparr>"

section \<open>Login approvals\<close>

definition get_linked_user_by_phone :: "string \<Rightarrow> db \<Rightarrow> exn + user option" where
  "get_linked_user_by_phone phone d =
     scalar_one_or_none (filter (\<lambda>u. us_phone u = phone \<and> us_contact_id u \<noteq> None) (db_users d))"

definition count_recent_login_approvals :: "string \<Rightarrow> time \<Rightarrow> db \<Rightarrow> nat" where
  "count_recent_login_approvals phone since d =
     length (filter (\<lambda>c. la_phone c = phone \<and> la_requested_at c \<ge> since) (db_login_approvals d))"

definition create_login_approval ::
    "time \<Rightarrow> user \<Rightarrow> string \<Rightarrow> string \<Rightarrow> string \<Rightarrow> string \<Rightarrow> nat \<Rightarrow> string option \<Rightarrow> db
     \<Rightarrow> exn + (login_approval \<times> db)" where
  "create_login_approval now user phone verifier_hash browser_nonce_hash browser_label
       expires_minutes request_ip_hash d =
     (if list_ex (\<lambda>c. la_verifier_hash c = verifier_hash) (db_login_approvals d) \<or>
         us_contact_id user = None
      then Inl IntegrityError
      else
        let superseded = tupd (\<lambda>c. la_user_id c = us_id user \<and> la_status c = La_pending)
              (\<lambda>c. c\<lparr>la_status := La_superseded, la_decided_at := Some now\<rparr>) (db_login_approvals d);
            (i, d1) = new_id d;
            row = \<lparr>la_id = i, la_user_id = us_id user, la_contact_id = the (us_contact_id user),
                   la_phone = phone, la_verifier_hash = verifier_hash,
                   la_browser_nonce_hash = browser_nonce_hash,
                   la_browser_label = Some browser_label, la_status = La_pending,
                   la_requested_at = now,
                   la_expires_at = now + minutes (int expires_minutes),
                   la_decided_at = None, la_consumed_at = None, la_decision_message_id = None,
                   la_outbound_message_id = None, la_request_ip_hash = request_ip_hash\<rparr>
        in Inr (row, d1\<lparr>db_login_approvals := superseded @ [row]\<rparr>))"

definition attach_approval_outbound :: "uuid \<Rightarrow> uuid \<Rightarrow> db \<Rightarrow> db" where
  "attach_approval_outbound challenge_id message_id d =
     d\<lparr>db_login_approvals := tupd (\<lambda>c. la_id c = challenge_id \<and> la_status c = La_pending)
        (\<lambda>c. c\<lparr>la_outbound_message_id := Some message_id\<rparr>) (db_login_approvals d)\<rparr>"

text \<open>\<^verbatim>\<open>outbound_wamid\<close>: the Meta identifier of the prompt the challenge was sent with.\<close>

definition outbound_wamid :: "login_approval \<Rightarrow> db \<Rightarrow> string option" where
  "outbound_wamid c d =
     Option.bind (la_outbound_message_id c)
       (\<lambda>i. Option.bind (tget ms_id i (db_messages d)) ms_meta_message_id)"

definition decidable_by ::
    "time \<Rightarrow> uuid \<Rightarrow> string \<Rightarrow> uuid \<Rightarrow> string \<Rightarrow> string \<Rightarrow> db \<Rightarrow> login_approval \<Rightarrow> bool" where
  "decidable_by now challenge_id verifier_hash contact_id phone context_message_id d c =
     (la_id c = challenge_id \<and> la_status c = La_pending \<and> la_expires_at c > now \<and>
      la_verifier_hash c = verifier_hash \<and> la_contact_id c = contact_id \<and> la_phone c = phone \<and>
      la_outbound_message_id c \<noteq> None \<and> outbound_wamid c d = Some context_message_id)"

definition decided :: "time \<Rightarrow> string \<Rightarrow> string \<Rightarrow> login_approval \<Rightarrow> login_approval" where
  "decided now decision decision_message_id c =
     c\<lparr>la_status := (if decision = ''approved'' then La_approved else La_denied),
       la_decided_at := Some now, la_decision_message_id := Some decision_message_id\<rparr>"

definition decide_login_approval ::
    "time \<Rightarrow> uuid \<Rightarrow> string \<Rightarrow> uuid \<Rightarrow> string \<Rightarrow> string \<Rightarrow> string \<Rightarrow> string \<Rightarrow> db
     \<Rightarrow> exn + (login_approval option \<times> db)" where
  "decide_login_approval now challenge_id verifier_hash contact_id phone context_message_id
       decision_message_id decision d =
     (if decision \<notin> {''approved'', ''denied''} then Inr (None, d)
      else
        let hit = decidable_by now challenge_id verifier_hash contact_id phone context_message_id d;
            rows = filter hit (db_login_approvals d)
        in if rows \<noteq> [] \<and>
              list_ex (\<lambda>c. la_decision_message_id c = Some decision_message_id \<and> \<not> hit c)
                (db_login_approvals d)
           then Inl IntegrityError
           else
             bindE (scalar_one_or_none (map (decided now decision decision_message_id) rows))
               (\<lambda>r. Inr (r, d\<lparr>db_login_approvals :=
                  tupd hit (decided now decision decision_message_id) (db_login_approvals d)\<rparr>)))"

definition claimable_approval :: "time \<Rightarrow> uuid \<Rightarrow> string \<Rightarrow> login_approval \<Rightarrow> bool" where
  "claimable_approval now challenge_id browser_nonce_hash c =
     (la_id c = challenge_id \<and> la_status c = La_approved \<and> la_expires_at c > now \<and>
      la_browser_nonce_hash c = browser_nonce_hash)"

definition consume_login_approval ::
    "time \<Rightarrow> uuid \<Rightarrow> string \<Rightarrow> db \<Rightarrow> exn + (uuid option \<times> db)" where
  "consume_login_approval now challenge_id browser_nonce_hash d =
     (let hit = claimable_approval now challenge_id browser_nonce_hash in
      bindE (scalar_one_or_none (map la_user_id (filter hit (db_login_approvals d))))
        (\<lambda>u. Inr (u, d\<lparr>db_login_approvals :=
           tupd hit (\<lambda>c. c\<lparr>la_status := La_consumed, la_consumed_at := Some now\<rparr>)
             (db_login_approvals d)\<rparr>)))"

definition get_login_approval :: "uuid \<Rightarrow> string \<Rightarrow> db \<Rightarrow> exn + login_approval option" where
  "get_login_approval challenge_id browser_nonce_hash d =
     scalar_one_or_none
       (filter (\<lambda>c. la_id c = challenge_id \<and> la_browser_nonce_hash c = browser_nonce_hash)
         (db_login_approvals d))"

definition mark_login_approval_fallback :: "time \<Rightarrow> uuid \<Rightarrow> db \<Rightarrow> db" where
  "mark_login_approval_fallback now challenge_id d =
     d\<lparr>db_login_approvals := tupd (\<lambda>c. la_id c = challenge_id \<and> la_status c = La_pending)
        (\<lambda>c. c\<lparr>la_status := La_fallback, la_decided_at := Some now\<rparr>) (db_login_approvals d)\<rparr>"

section \<open>Codes, tokens and identifiers\<close>

definition CODE_ALPHABET :: string where
  "CODE_ALPHABET = ''ABCDEFGHJKMNPQRSTUVWXYZ23456789''"
definition CODE_LENGTH :: nat where "CODE_LENGTH = 6"
definition REFRESH_COOKIE_NAME :: string where "REFRESH_COOKIE_NAME = ''refresh_token''"
definition LOGIN_APPROVAL_YES :: string where "LOGIN_APPROVAL_YES = ''login_yes''"
definition LOGIN_APPROVAL_NO :: string where "LOGIN_APPROVAL_NO = ''login_no''"

definition sanitize_browser_label :: "string option \<Rightarrow> string" where
  "sanitize_browser_label v =
     str_or (Some (py_take 128 (py_join '' '' (split_ws [] (filter is_printable (str_or v ''This browser''))))))
       ''This browser''"

definition build_login_approval_id :: "string \<Rightarrow> uuid \<Rightarrow> string \<Rightarrow> string" where
  "build_login_approval_id decision challenge_id verifier =
     decision @ '':'' @ challenge_id @ '':'' @ verifier"

definition parse_login_approval_id :: "string option \<Rightarrow> (string \<times> string \<times> string) option" where
  "parse_login_approval_id reply_id =
     (if \<not> truthy reply_id \<or> py_len (the reply_id) > 256 then None
      else
        case py_split (CHR '':'') (the reply_id) of
          [decision, challenge_id, verifier] \<Rightarrow>
            if decision \<notin> {LOGIN_APPROVAL_YES, LOGIN_APPROVAL_NO} then None
            else if py_len verifier < 16 \<or> py_len challenge_id \<noteq> 36 then None
            else Some (decision, challenge_id, verifier)
        | _ \<Rightarrow> None)"

text \<open>The six choices of \<^verbatim>\<open>secrets.choice\<close> are the numbers \<open>pick k\<close>.\<close>

definition generate_code :: "(nat \<Rightarrow> nat) \<Rightarrow> string" where
  "generate_code pick =
     ''JS-'' @ map (\<lambda>k. CODE_ALPHABET ! (pick k mod length CODE_ALPHABET)) [0..<CODE_LENGTH]"

definition hash_code :: "auth_lib \<Rightarrow> string \<Rightarrow> string" where
  "hash_code lib code = al_sha256 lib (py_upper (py_strip code))"

definition request_ip_hash :: "auth_lib \<Rightarrow> string option \<Rightarrow> string option" where
  "request_ip_hash lib host = map_option (al_sha256 lib) host"

definition normalize_phone :: "string \<Rightarrow> string" where
  "normalize_phone phone =
     (let digits = filter is_digit phone in
      if length digits = 10 then ''91'' @ digits
      else if length digits = 12 \<and> startswith digits ''91'' then digits
      else digits)"

text \<open>\<^verbatim>\<open>urllib.parse.quote\<close> with its default safe characters.\<close>

definition quote_safe :: "char \<Rightarrow> bool" where
  "quote_safe c = (is_upper_ascii c \<or> is_lower_ascii c \<or> is_digit c \<or> c \<in> set ''_.-~/'')"

definition upper_hex :: "nat \<Rightarrow> char" where
  "upper_hex k = (if k < 10 then char_of (48 + k) else char_of (55 + k))"

definition url_quote :: "string \<Rightarrow> string" where
  "url_quote t =
     concat (map (\<lambda>c. if quote_safe c then [c]
        else ''%'' @ [upper_hex (of_char c div 16), upper_hex (of_char c mod 16)]) t)"

definition wa_deep_link :: "settings \<Rightarrow> string \<Rightarrow> string" where
  "wa_deep_link s code =
     ''https://wa.me/'' @ str_or (s_public_wa_number s) [] @ ''?text='' @ url_quote code"

section \<open>The operations on codes and tokens\<close>

definition create_verification ::
    "settings \<Rightarrow> auth_lib \<Rightarrow> time \<Rightarrow> (nat \<Rightarrow> nat) \<Rightarrow> string \<Rightarrow> db \<Rightarrow> exn + (uuid \<times> string \<times> db)" where
  "create_verification s lib now pick phone d =
     (let p = normalize_phone phone in
      if count_recent_verifications p (now - hours 1) d \<ge> s_verification_max_per_hour s
      then Inl RateLimitExceeded
      else
        let code = generate_code pick;
            (v, d1) = create_phone_verification now p (hash_code lib code)
              (now + minutes (int (s_verification_code_ttl_minutes s))) d
        in Inr (pv_id v, code, d1))"

definition verify_code_from_whatsapp ::
    "auth_lib \<Rightarrow> time \<Rightarrow> string \<Rightarrow> uuid \<Rightarrow> string \<Rightarrow> db \<Rightarrow> exn + (string \<times> db)" where
  "verify_code_from_whatsapp lib now wa_id contact_id code_text d =
     bindE (find_pending_verification_by_code_hash now (hash_code lib code_text) d) (\<lambda>found.
       case found of
         None \<Rightarrow> Inr (VERIFY_INVALID, d)
       | Some v \<Rightarrow>
           if pv_phone v \<noteq> normalize_phone wa_id then Inr (VERIFY_INVALID, d)
           else
             bindE (upsert_user_for_verified_phone (normalize_phone wa_id) (Some contact_id) d)
               (\<lambda>(u, d1). Inr (VERIFY_SUCCESS, mark_verification_verified now (pv_id v) (us_id u) d1)))"

text \<open>\<^verbatim>\<open>int(t.timestamp())\<close>.\<close>

definition epoch :: "time \<Rightarrow> int" where "epoch t = t div 1000000"

definition create_access_token :: "settings \<Rightarrow> auth_lib \<Rightarrow> time \<Rightarrow> uuid \<Rightarrow> string" where
  "create_access_token s lib now user_id =
     al_jwt_encode lib (s_jwt_secret s)
       [(''sub'', JStr user_id), (''iat'', JInt (epoch now)),
        (''exp'', JInt (epoch (now + minutes (int (s_access_token_minutes s)))))]"

definition decode_access_token :: "settings \<Rightarrow> auth_lib \<Rightarrow> time \<Rightarrow> string \<Rightarrow> exn + json" where
  "decode_access_token s lib now token =
     bindE (al_jwt_decode lib now (s_jwt_secret s) None token) (\<lambda>payload.
       case map_of payload ''sub'' of None \<Rightarrow> Inl KeyError | Some v \<Rightarrow> Inr v)"

definition issue_tokens ::
    "settings \<Rightarrow> auth_lib \<Rightarrow> time \<Rightarrow> string \<Rightarrow> uuid \<Rightarrow> db \<Rightarrow> exn + (string \<times> string \<times> db)" where
  "issue_tokens s lib now raw_refresh user_id d =
     bindE (create_refresh_token user_id (hash_code lib raw_refresh)
              (now + days (int (s_refresh_token_days s))) d)
       (\<lambda>d1. Inr (create_access_token s lib now user_id, raw_refresh, d1))"

text \<open>\<open>rotate_refresh\<close> reads the row and then revokes it. The two statements are separate
  definitions because nothing serialises them: another request can run in between.\<close>

definition rotate_begin :: "auth_lib \<Rightarrow> time \<Rightarrow> string \<Rightarrow> db \<Rightarrow> exn + uuid" where
  "rotate_begin lib now raw d =
     bindE (find_active_refresh_token now (hash_code lib raw) d) (\<lambda>row.
       case row of None \<Rightarrow> Inl InvalidRefreshToken | Some t \<Rightarrow> Inr (rt_user_id t))"

definition rotate_finish ::
    "settings \<Rightarrow> auth_lib \<Rightarrow> time \<Rightarrow> string \<Rightarrow> string \<Rightarrow> uuid \<Rightarrow> db \<Rightarrow> exn + (string \<times> string \<times> db)" where
  "rotate_finish s lib now new_raw raw user_id d =
     issue_tokens s lib now new_raw user_id (revoke_refresh_token now (hash_code lib raw) d)"

definition rotate_refresh ::
    "settings \<Rightarrow> auth_lib \<Rightarrow> time \<Rightarrow> string \<Rightarrow> string \<Rightarrow> db \<Rightarrow> exn + (string \<times> string \<times> db)" where
  "rotate_refresh s lib now new_raw raw d =
     bindE (rotate_begin lib now raw d) (\<lambda>u. rotate_finish s lib now new_raw raw u d)"

section \<open>The HTTP handlers\<close>

record cookie =
  ck_name :: string
  ck_value :: string
  ck_httponly :: bool
  ck_secure :: bool
  ck_samesite :: string
  ck_path :: string
  ck_max_age :: nat

definition session_cookie :: "settings \<Rightarrow> string \<Rightarrow> cookie" where
  "session_cookie s raw =
     \<lparr>ck_name = REFRESH_COOKIE_NAME, ck_value = raw, ck_httponly = True,
      ck_secure = (s_environment s = Production), ck_samesite = ''lax'', ck_path = ''/auth'',
      ck_max_age = s_refresh_token_days s * 24 * 3600\<rparr>"

record code_request =
  cq_phone :: string
  cq_browser_nonce :: "string option"
  cq_browser_label :: "string option"

text \<open>The bounds the request models put on the fields; a violation is answered with 422.\<close>

definition len_between :: "nat \<Rightarrow> nat \<Rightarrow> string \<Rightarrow> bool" where
  "len_between lo hi t = (lo \<le> py_len t \<and> py_len t \<le> hi)"

definition code_request_ok :: "code_request \<Rightarrow> bool" where
  "code_request_ok q =
     (len_between 5 32 (cq_phone q) \<and>
      (case cq_browser_nonce q of None \<Rightarrow> True | Some n \<Rightarrow> len_between 32 256 n) \<and>
      (case cq_browser_label q of None \<Rightarrow> True | Some l \<Rightarrow> len_between 0 128 l))"

record code_response =
  cr_verification_id :: uuid
  cr_method :: string
  cr_code :: "string option"
  cr_wa_link :: "string option"
  cr_browser_label :: "string option"
  cr_requested_at :: "time option"
  cr_expires_at :: "time option"

definition reverse_code_response ::
    "settings \<Rightarrow> auth_lib \<Rightarrow> time \<Rightarrow> (nat \<Rightarrow> nat) \<Rightarrow> string \<Rightarrow> db \<Rightarrow> exn + (code_response \<times> db)" where
  "reverse_code_response s lib now pick phone d =
     bindE (create_verification s lib now pick phone d) (\<lambda>(vid, code, d1).
       Inr (\<lparr>cr_verification_id = vid, cr_method = ''reverse_code'', cr_code = Some code,
             cr_wa_link = Some (wa_deep_link s code), cr_browser_label = None,
             cr_requested_at = None, cr_expires_at = None\<rparr>, d1))"

definition in_service_window :: "settings \<Rightarrow> time \<Rightarrow> uuid \<Rightarrow> db \<Rightarrow> bool" where
  "in_service_window s now contact_id d =
     (case latest_inbound_at contact_id d of
        None \<Rightarrow> False | Some t \<Rightarrow> now \<le> t + hours (int (s_service_window_hours s)))"

definition approval_message :: "auth_lib \<Rightarrow> login_approval \<Rightarrow> string \<Rightarrow> string" where
  "approval_message lib c browser_label =
     ''Approve Jan Setu sign-in?'' @ NL @ NL @ ''Browser: '' @ browser_label @ NL @
     ''Requested: '' @ al_requested lib (la_requested_at c) @ NL @
     ''Expires: '' @ al_expires lib (la_expires_at c) @ NL @ NL @
     ''If this was not you, tap No.''"

definition approval_prompt :: "auth_lib \<Rightarrow> string \<Rightarrow> string \<Rightarrow> user \<Rightarrow> string \<Rightarrow> login_approval \<Rightarrow> outgoing" where
  "approval_prompt lib phone verifier u browser_label c =
     (let message = approval_message lib c browser_label in
      \<lparr>og_contact_id = la_contact_id c, og_conversation_id = None,
       og_reply_kind = ''login_approval'', og_message_type = ''interactive'',
       og_text_body = Some message,
       og_payload = build_reply_buttons_payload phone message
         [(build_login_approval_id LOGIN_APPROVAL_YES (la_id c) verifier,
           ''Yes, it'' @ [CHR 0x27] @ ''s me''),
          (build_login_approval_id LOGIN_APPROVAL_NO (la_id c) verifier, ''No, deny'')],
       og_in_response_to = None\<rparr>)"

text \<open>The first transaction of the approval path: the challenge, its prompt, and their link.\<close>

definition open_approval ::
    "settings \<Rightarrow> auth_lib \<Rightarrow> time \<Rightarrow> string \<Rightarrow> string \<Rightarrow> string option \<Rightarrow> user \<Rightarrow> string \<Rightarrow> string \<Rightarrow> db
     \<Rightarrow> exn + (login_approval \<times> uuid option \<times> db)" where
  "open_approval s lib now phone verifier ip u nonce browser_label d =
     bindE (create_login_approval now u phone (hash_code lib verifier) (hash_code lib nonce)
              browser_label (s_verification_code_ttl_minutes s) (request_ip_hash lib ip) d)
       (\<lambda>(c, d1).
          case store_outgoing_pending now (''login-approval:'' @ la_id c)
                 (approval_prompt lib phone verifier u browser_label c) d1 of
            (None, d2) \<Rightarrow> Inr (c, None, d2)
          | (Some m, d2) \<Rightarrow> Inr (c, Some m, attach_approval_outbound (la_id c) m d2))"

text \<open>The reverse code at the end of the handler: \<open>d0\<close> is what the session has committed.\<close>

definition answer_with_code ::
    "settings \<Rightarrow> auth_lib \<Rightarrow> time \<Rightarrow> (nat \<Rightarrow> nat) \<Rightarrow> string \<Rightarrow> db \<Rightarrow> db \<Rightarrow> (exn + code_response) \<times> db" where
  "answer_with_code s lib now pick phone d0 d =
     (case reverse_code_response s lib now pick phone d of
        Inl RateLimitExceeded \<Rightarrow> (Inl (HTTPException 429), d0)
      | Inl e \<Rightarrow> (Inl e, d0)
      | Inr (r, d1) \<Rightarrow> (Inr r, d1))"

definition recent_attempts :: "string \<Rightarrow> time \<Rightarrow> db \<Rightarrow> nat" where
  "recent_attempts phone now d =
     count_recent_verifications phone (now - hours 1) d +
     count_recent_login_approvals phone (now - hours 1) d"

definition request_code ::
    "settings \<Rightarrow> auth_lib \<Rightarrow> (json \<Rightarrow> exn + json) \<Rightarrow> time \<Rightarrow> (nat \<Rightarrow> nat) \<Rightarrow> string \<Rightarrow> string option \<Rightarrow>
     code_request \<Rightarrow> db \<Rightarrow> (exn + code_response) \<times> db" where
  "request_code s lib post now pick verifier ip q d =
     (let phone = normalize_phone (cq_phone q) in
      if \<not> code_request_ok q then (Inl (HTTPException 422), d)
      else if recent_attempts phone now d \<ge> s_verification_max_per_hour s
      then (Inl (HTTPException 429), d)
      else
        case get_linked_user_by_phone phone d of
          Inl e \<Rightarrow> (Inl e, d)
        | Inr None \<Rightarrow> answer_with_code s lib now pick phone d d
        | Inr (Some u) \<Rightarrow>
            if \<not> in_service_window s now (the (us_contact_id u)) d \<or> \<not> truthy (cq_browser_nonce q)
            then answer_with_code s lib now pick phone d d
            else
              case open_approval s lib now phone verifier ip u (the (cq_browser_nonce q))
                     (sanitize_browser_label (cq_browser_label q)) d of
                Inl e \<Rightarrow> (Inl e, d)
              | Inr (c, None, d1) \<Rightarrow>
                  answer_with_code s lib now pick phone d1 (mark_login_approval_fallback now (la_id c) d1)
              | Inr (c, Some m, d1) \<Rightarrow>
                  (case send_pending s post now m d1 of
                     (Inl e, d2) \<Rightarrow> (Inl e, d2)
                   | (Inr st, d2) \<Rightarrow>
                       if st = Sd_sent then
                         (Inr \<lparr>cr_verification_id = la_id c, cr_method = ''whatsapp_approval'',
                               cr_code = None, cr_wa_link = None,
                               cr_browser_label = Some (sanitize_browser_label (cq_browser_label q)),
                               cr_requested_at = Some (la_requested_at c),
                               cr_expires_at = Some (la_expires_at c)\<rparr>, d2)
                       else
                         answer_with_code s lib now pick phone d2
                           (mark_login_approval_fallback now (la_id c) d2)))"

datatype auth_state = As_pending | As_verified | As_denied | As_expired

text \<open>The status, the access token, and the cookie set on the response.\<close>

type_synonym auth_answer = "auth_state \<times> string option \<times> cookie option"

definition sign_in ::
    "settings \<Rightarrow> auth_lib \<Rightarrow> time \<Rightarrow> string \<Rightarrow> uuid \<Rightarrow> db \<Rightarrow> db \<Rightarrow> (exn + auth_answer) \<times> db" where
  "sign_in s lib now raw user_id d0 d =
     (case issue_tokens s lib now raw user_id d of
        Inl e \<Rightarrow> (Inl e, d0)
      | Inr (access, refresh, d1) \<Rightarrow>
          (Inr (As_verified, Some access, Some (session_cookie s refresh)), d1))"

definition auth_status ::
    "settings \<Rightarrow> auth_lib \<Rightarrow> time \<Rightarrow> string \<Rightarrow> uuid \<Rightarrow> db \<Rightarrow> (exn + auth_answer) \<times> db" where
  "auth_status s lib now raw verification_id d =
     (case get_phone_verification verification_id d of
        None \<Rightarrow> (Inl (HTTPException 404), d)
      | Some v \<Rightarrow>
          if pv_status v = Pv_pending then
            (Inr (if pv_expires_at v \<le> now then As_expired else As_pending, None, None), d)
          else if pv_status v \<noteq> Pv_verified \<or> pv_user_id v = None then
            (Inr (As_expired, None, None), d)
          else
            case consume_verification (pv_id v) d of
              (won, d1) \<Rightarrow>
                if \<not> won then (Inr (As_expired, None, None), d)
                else sign_in s lib now raw (the (pv_user_id v)) d d1)"

definition approval_status ::
    "settings \<Rightarrow> auth_lib \<Rightarrow> time \<Rightarrow> string \<Rightarrow> uuid \<Rightarrow> string \<Rightarrow> db \<Rightarrow> (exn + auth_answer) \<times> db" where
  "approval_status s lib now raw verification_id browser_nonce d =
     (if \<not> len_between 32 256 browser_nonce then (Inl (HTTPException 422), d)
      else
        case get_login_approval verification_id (hash_code lib browser_nonce) d of
          Inl e \<Rightarrow> (Inl e, d)
        | Inr None \<Rightarrow> (Inr (As_expired, None, None), d)
        | Inr (Some c) \<Rightarrow>
            if la_expires_at c \<le> now \<and> la_status c = La_pending then (Inr (As_expired, None, None), d)
            else if la_status c = La_denied then (Inr (As_denied, None, None), d)
            else if la_status c \<noteq> La_approved then
              (Inr (if la_status c = La_pending then As_pending else As_expired, None, None), d)
            else
              case consume_login_approval now (la_id c) (hash_code lib browser_nonce) d of
                Inl e \<Rightarrow> (Inl e, d)
              | Inr (None, d1) \<Rightarrow> (Inr (As_expired, None, None), d)
              | Inr (Some u, d1) \<Rightarrow> sign_in s lib now raw u d d1)"

fun find_cookie :: "string list \<Rightarrow> string option" where
  "find_cookie [] = None"
| "find_cookie (part # parts) =
     (case py_partition (CHR ''='') (py_strip part) of
        (name, _, v) \<Rightarrow> if name = REFRESH_COOKIE_NAME then Some v else find_cookie parts)"

definition extract_cookie :: "string option \<Rightarrow> string option" where
  "extract_cookie cookie_header =
     (if \<not> truthy cookie_header then None
      else find_cookie (py_split (CHR '';'') (the cookie_header)))"

definition refresh ::
    "settings \<Rightarrow> auth_lib \<Rightarrow> time \<Rightarrow> string \<Rightarrow> string option \<Rightarrow> db \<Rightarrow> (exn + string \<times> cookie) \<times> db" where
  "refresh s lib now new_raw cookie_header d =
     (case extract_cookie cookie_header of
        None \<Rightarrow> (Inl (HTTPException 401), d)
      | Some raw \<Rightarrow>
          (case rotate_refresh s lib now new_raw raw d of
             Inl InvalidRefreshToken \<Rightarrow> (Inl (HTTPException 401), d)
           | Inl e \<Rightarrow> (Inl e, d)
           | Inr (access, new_refresh, d1) \<Rightarrow>
               (Inr (access, session_cookie s new_refresh), d1)))"

text \<open>The response also deletes the cookie.\<close>

definition logout :: "auth_lib \<Rightarrow> time \<Rightarrow> string option \<Rightarrow> db \<Rightarrow> db" where
  "logout lib now cookie_header d =
     (case extract_cookie cookie_header of
        None \<Rightarrow> d | Some raw \<Rightarrow> revoke_refresh_token now (hash_code lib raw) d)"

definition get_current_user ::
    "settings \<Rightarrow> auth_lib \<Rightarrow> time \<Rightarrow> string option \<Rightarrow> db \<Rightarrow> exn + user" where
  "get_current_user s lib now authorization d =
     (if \<not> truthy authorization \<or> \<not> startswith (the authorization) ''Bearer '' then
        Inl (HTTPException 401)
      else
        case decode_access_token s lib now (py_strip (removeprefix (the authorization) ''Bearer '')) of
          Inl PyJWTError \<Rightarrow> Inl (HTTPException 401)
        | Inl e \<Rightarrow> Inl e
        | Inr (JStr user_id) \<Rightarrow>
            (case get_user user_id d of None \<Rightarrow> Inl (HTTPException 401) | Some u \<Rightarrow> Inr u)
        | Inr _ \<Rightarrow> Inl TypeError)"

section \<open>One approval, one session\<close>

text \<open>The life of the challenges: every operation on them, the sender of the prompts, and
  anything else that leaves the table alone. The log records who opened a challenge, which
  contact decided it, and which account was signed in with it.\<close>

datatype approval_event =
    Ev_opened uuid uuid uuid | Ev_decided uuid string uuid | Ev_claimed uuid uuid

inductive approval_trace :: "db \<Rightarrow> approval_event list \<Rightarrow> bool" where
  start: "db_login_approvals d = [] \<Longrightarrow> approval_trace d []"
| opened: "approval_trace d h \<Longrightarrow> create_login_approval now u p vh nh lbl m ip d = Inr (c, d1) \<Longrightarrow>
     la_id c \<notin> la_id ` set (db_login_approvals d) \<Longrightarrow>
     approval_trace d1 (h @ [Ev_opened (la_id c) (us_id u) (the (us_contact_id u))])"
| attached: "approval_trace d h \<Longrightarrow> approval_trace (attach_approval_outbound cid mid d) h"
| answered: "approval_trace d h \<Longrightarrow>
     decide_login_approval now cid vh contact p ctx dm decision d = Inr (Some c, d1) \<Longrightarrow>
     approval_trace d1 (h @ [Ev_decided cid decision contact])"
| refused: "approval_trace d h \<Longrightarrow>
     decide_login_approval now cid vh contact p ctx dm decision d = Inr (None, d1) \<Longrightarrow>
     approval_trace d1 h"
| claimed: "approval_trace d h \<Longrightarrow> consume_login_approval now cid nh d = Inr (Some u, d1) \<Longrightarrow>
     approval_trace d1 (h @ [Ev_claimed cid u])"
| not_claimed: "approval_trace d h \<Longrightarrow> consume_login_approval now cid nh d = Inr (None, d1) \<Longrightarrow>
     approval_trace d1 h"
| fell_back: "approval_trace d h \<Longrightarrow> approval_trace (mark_login_approval_fallback now cid d) h"
| prompted: "approval_trace d h \<Longrightarrow> prepare_send s now i d = Inr (g, d1) \<Longrightarrow> approval_trace d1 h"
| elsewhere: "approval_trace d h \<Longrightarrow> db_login_approvals d1 = db_login_approvals d \<Longrightarrow>
     approval_trace d1 h"

fun decides :: "uuid \<Rightarrow> approval_event \<Rightarrow> bool" where
  "decides cid (Ev_decided i _ _) = (i = cid)"
| "decides cid _ = False"

fun claims :: "uuid \<Rightarrow> approval_event \<Rightarrow> bool" where
  "claims cid (Ev_claimed i _) = (i = cid)"
| "claims cid _ = False"

definition decisions :: "uuid \<Rightarrow> approval_event list \<Rightarrow> nat" where
  "decisions cid h = length (filter (decides cid) h)"

definition sign_ins :: "uuid \<Rightarrow> approval_event list \<Rightarrow> nat" where
  "sign_ins cid h = length (filter (claims cid) h)"

lemma log_counts [simp]:
  "decisions cid [] = 0" "sign_ins cid [] = 0"
  "decisions cid (h @ [e]) = decisions cid h + (if decides cid e then 1 else 0)"
  "sign_ins cid (h @ [e]) = sign_ins cid h + (if claims cid e then 1 else 0)"
  by (simp_all add: decisions_def sign_ins_def)

text \<open>What the log holds about a stored challenge.\<close>

definition row_logged :: "approval_event list \<Rightarrow> login_approval \<Rightarrow> bool" where
  "row_logged h c \<longleftrightarrow>
     Ev_opened (la_id c) (la_user_id c) (la_contact_id c) \<in> set h \<and>
     (la_status c \<in> {La_approved, La_consumed} \<longrightarrow>
        Ev_decided (la_id c) ''approved'' (la_contact_id c) \<in> set h) \<and>
     decisions (la_id c) h = (if la_status c \<in> {La_approved, La_denied, La_consumed} then 1 else 0) \<and>
     sign_ins (la_id c) h = (if la_status c = La_consumed then 1 else 0)"

definition approvals_logged :: "approval_event list \<Rightarrow> login_approval list \<Rightarrow> bool" where
  "approvals_logged h cs \<longleftrightarrow>
     distinct (map la_id cs) \<and> (\<forall>c \<in> set cs. row_logged h c) \<and>
     (\<forall>cid. cid \<notin> la_id ` set cs \<longrightarrow> decisions cid h = 0 \<and> sign_ins cid h = 0)"

lemma approvals_logged_tupd:
  assumes "approvals_logged h cs"
    and "\<And>c. la_id (f c) = la_id c"
    and "\<And>c. c \<in> set cs \<Longrightarrow> row_logged h c \<Longrightarrow> P c \<Longrightarrow> row_logged h (f c)"
  shows "approvals_logged h (tupd P f cs)"
  using assms by (auto simp: approvals_logged_def) (auto simp: set_tupd)

text \<open>A logged step of one challenge: its row is the only one that is rewritten.\<close>

lemma approvals_logged_event:
  assumes inv: "approvals_logged h cs" and c: "c \<in> set cs" "la_id c = cid"
    and P: "\<And>r. r \<in> set cs \<Longrightarrow> P r \<Longrightarrow> r = c" "P c"
    and f: "\<And>r. la_id (f r) = la_id r"
    and e: "\<And>i. i \<noteq> cid \<Longrightarrow> \<not> decides i e \<and> \<not> claims i e"
    and step: "row_logged h c \<Longrightarrow> row_logged (h @ [e]) (f c)"
  shows "approvals_logged (h @ [e]) (tupd P f cs)"
proof -
  have "row_logged (h @ [e]) r" if r: "r \<in> set (tupd P f cs)" for r
  proof -
    from r obtain q where q: "q \<in> set cs" "r = (if P q then f q else q)" by (auto simp: set_tupd)
    show ?thesis
    proof (cases "P q")
      case True
      with q P step inv c show ?thesis by (auto simp: approvals_logged_def)
    next
      case False
      then have "la_id q \<noteq> cid"
        using q c P(2) inv distinct_key_eq [of la_id cs q c] by (auto simp: approvals_logged_def)
      with False q inv e [of "la_id q"] show ?thesis
        by (auto simp: approvals_logged_def row_logged_def)
    qed
  qed
  moreover have "decisions i (h @ [e]) = 0 \<and> sign_ins i (h @ [e]) = 0"
    if "i \<notin> la_id ` set (tupd P f cs)" for i
  proof -
    have ids: "i \<notin> la_id ` set cs"
      using that f by simp
    then have "i \<noteq> cid" using c by auto
    with ids inv e show ?thesis by (simp add: approvals_logged_def)
  qed
  moreover have "distinct (map la_id (tupd P f cs))"
    using inv f by (simp add: approvals_logged_def)
  ultimately show ?thesis by (simp add: approvals_logged_def)
qed

lemma approvals_of_mark [simp]:
  "db_login_approvals (mark_outbound i st m d) = db_login_approvals d"
  "db_login_approvals (approval_to_fallback now k (mark_outbound i st m d)) =
   db_login_approvals (approval_to_fallback now k d)"
  by (simp_all add: mark_outbound_def approval_to_fallback_def)

lemma prepare_send_approvals:
  assumes "prepare_send s now i d = Inr (g, d1)"
  shows "db_login_approvals d1 = db_login_approvals d \<or>
    (\<exists>c \<in> set (db_login_approvals d). la_status c = La_pending \<and>
       db_login_approvals d1 = tupd (\<lambda>r. la_id r = la_id c)
         (\<lambda>r. r\<lparr>la_status := La_fallback, la_decided_at := Some now\<rparr>) (db_login_approvals d))"
proof -
  obtain w dc where c: "claim_outbound now i LEASE_SECONDS d = (w, dc)" by fastforce
  then have dc: "db_login_approvals dc = db_login_approvals d"
    by (auto simp: claim_outbound_def Let_def)
  have "db_login_approvals d1 = db_login_approvals dc \<or>
    (\<exists>c. live_challenges now i dc = [c] \<and>
       db_login_approvals d1 = db_login_approvals (approval_to_fallback now (la_id c) dc))"
    using assms unfolding prepare_send_def c
    by (auto simp: bindE_Inr_iff scalar_Some_iff scalar_None_iff split: option.splits if_splits)
  then show ?thesis
  proof
    assume "\<exists>c. live_challenges now i dc = [c] \<and>
       db_login_approvals d1 = db_login_approvals (approval_to_fallback now (la_id c) dc)"
    then obtain c where live: "c \<in> set (live_challenges now i dc)"
      and d1: "db_login_approvals d1 = db_login_approvals (approval_to_fallback now (la_id c) dc)"
      by auto
    from live have "c \<in> set (db_login_approvals d)" "la_status c = La_pending"
      by (simp_all add: live_challenges_def dc)
    with d1 show ?thesis by (auto simp: approval_to_fallback_def dc)
  qed (simp add: dc)
qed

lemma decide_hits:
  assumes "decide_login_approval now cid vh contact p ctx dm decision d = Inr (r, d1)"
  obtains (refused) "r = None" "db_login_approvals d1 = db_login_approvals d"
  | (answered) c where "filter (decidable_by now cid vh contact p ctx d) (db_login_approvals d) = [c]"
      "decidable_by now cid vh contact p ctx d c" "c \<in> set (db_login_approvals d)"
      "decision \<in> {''approved'', ''denied''}" "r = Some (decided now decision dm c)"
      "db_login_approvals d1 =
       tupd (decidable_by now cid vh contact p ctx d) (decided now decision dm) (db_login_approvals d)"
proof (cases "decision \<in> {''approved'', ''denied''}")
  case False
  with assms refused show thesis by (simp add: decide_login_approval_def)
next
  case dec: True
  define rows where "rows = filter (decidable_by now cid vh contact p ctx d) (db_login_approvals d)"
  from assms dec have r: "scalar_one_or_none (map (decided now decision dm) rows) = Inr r"
    and d1: "db_login_approvals d1 =
       tupd (decidable_by now cid vh contact p ctx d) (decided now decision dm) (db_login_approvals d)"
    by (auto simp: decide_login_approval_def rows_def Let_def bindE_Inr_iff split: if_splits)
  show thesis
  proof (cases r)
    case None
    with r have "\<forall>c \<in> set (db_login_approvals d). \<not> decidable_by now cid vh contact p ctx d c"
      by (simp add: scalar_None_iff rows_def filter_empty_conv)
    with None d1 show thesis using refused by (simp add: tupd_none)
  next
    case (Some c')
    with r obtain c where c: "rows = [c]" "c' = decided now decision dm c"
      by (auto simp: scalar_Some_iff map_eq_Cons_conv)
    then have "c \<in> set rows" by simp
    then have "decidable_by now cid vh contact p ctx d c" "c \<in> set (db_login_approvals d)"
      by (simp_all add: rows_def)
    with c dec d1 Some show thesis
      by (intro answered [of c]) (simp_all add: rows_def [symmetric])
  qed
qed

lemma consume_hits:
  assumes "consume_login_approval now cid nh d = Inr (r, d1)"
  obtains (refused) "r = None" "db_login_approvals d1 = db_login_approvals d"
  | (claimed) c where "filter (claimable_approval now cid nh) (db_login_approvals d) = [c]"
      "claimable_approval now cid nh c" "c \<in> set (db_login_approvals d)" "r = Some (la_user_id c)"
      "db_login_approvals d1 = tupd (claimable_approval now cid nh)
         (\<lambda>c. c\<lparr>la_status := La_consumed, la_consumed_at := Some now\<rparr>) (db_login_approvals d)"
proof -
  define rows where "rows = filter (claimable_approval now cid nh) (db_login_approvals d)"
  from assms have r: "scalar_one_or_none (map la_user_id rows) = Inr r"
    and d1: "db_login_approvals d1 = tupd (claimable_approval now cid nh)
         (\<lambda>c. c\<lparr>la_status := La_consumed, la_consumed_at := Some now\<rparr>) (db_login_approvals d)"
    by (auto simp: consume_login_approval_def rows_def Let_def bindE_Inr_iff)
  show thesis
  proof (cases r)
    case None
    with r have "\<forall>c \<in> set (db_login_approvals d). \<not> claimable_approval now cid nh c"
      by (simp add: scalar_None_iff rows_def filter_empty_conv)
    with None d1 show thesis using refused by (simp add: tupd_none)
  next
    case (Some u)
    with r obtain c where c: "rows = [c]" "u = la_user_id c"
      by (auto simp: scalar_Some_iff map_eq_Cons_conv)
    then have "c \<in> set rows" by simp
    then have "claimable_approval now cid nh c" "c \<in> set (db_login_approvals d)"
      by (simp_all add: rows_def)
    with c d1 Some show thesis
      by (intro claimed [of c]) (simp_all add: rows_def [symmetric])
  qed
qed

lemma create_approval_cases:
  assumes "create_login_approval now u p vh nh lbl m ip d = Inr (c, d1)"
  shows "la_status c = La_pending \<and> la_user_id c = us_id u \<and> us_contact_id u = Some (la_contact_id c) \<and>
    la_phone c = p \<and> la_requested_at c = now \<and> la_id c = uuid_str (db_ids d) \<and>
    db_verifications d1 = db_verifications d \<and>
    db_login_approvals d1 = tupd (\<lambda>c. la_user_id c = us_id u \<and> la_status c = La_pending)
       (\<lambda>c. c\<lparr>la_status := La_superseded, la_decided_at := Some now\<rparr>) (db_login_approvals d) @ [c]"
  using assms by (auto simp: create_login_approval_def new_id_def Let_def split: if_splits)

lemma approvals_logged_trace: "approval_trace d h \<Longrightarrow> approvals_logged h (db_login_approvals d)"
proof (induction rule: approval_trace.induct)
  case (start d)
  then show ?case by (simp add: approvals_logged_def)
next
  case (opened d h now u p vh nh lbl m ip c d1)
  note c = create_approval_cases [OF opened.hyps(2)]
  define old where "old = tupd (\<lambda>c. la_user_id c = us_id u \<and> la_status c = La_pending)
       (\<lambda>c. c\<lparr>la_status := La_superseded, la_decided_at := Some now\<rparr>) (db_login_approvals d)"
  have "approvals_logged h old"
    unfolding old_def by (rule approvals_logged_tupd [OF opened.IH]) (auto simp: row_logged_def)
  moreover have "la_id c \<notin> la_id ` set old"
    using opened.hyps(3) by (simp add: old_def)
  ultimately show ?case
    using c unfolding old_def [symmetric]
    by (auto simp: approvals_logged_def row_logged_def)
next
  case (attached d h cid mid)
  show ?case
    by (simp add: attach_approval_outbound_def, rule approvals_logged_tupd [OF attached.IH])
      (auto simp: row_logged_def)
next
  case (answered d h now cid vh contact p ctx dm decision c d1)
  from answered.hyps(2) show ?case
  proof (cases rule: decide_hits)
    case (answered r)
    note r = this
    show ?thesis
      unfolding r(6)
    proof (rule approvals_logged_event [OF answered.IH r(3)])
      show "la_id r = cid" using r(2) by (simp add: decidable_by_def)
      show "x = r" if "x \<in> set (db_login_approvals d)" "decidable_by now cid vh contact p ctx d x" for x
      proof -
        from that have "x \<in> set (filter (decidable_by now cid vh contact p ctx d) (db_login_approvals d))"
          by simp
        then show ?thesis by (simp only: r(1)) simp
      qed
      show "row_logged (h @ [Ev_decided cid decision contact]) (decided now decision dm r)"
        if "row_logged h r"
        using that r(2,4) by (auto simp: row_logged_def decided_def decidable_by_def)
    qed (use r(2) in \<open>auto simp: decided_def\<close>)
  qed simp
next
  case (refused d h now cid vh contact p ctx dm decision d1)
  from refused.hyps(2) show ?case
    by (cases rule: decide_hits) (use refused.IH in simp_all)
next
  case (claimed d h now cid nh u d1)
  from claimed.hyps(2) show ?case
  proof (cases rule: consume_hits)
    case (claimed r)
    note r = this
    show ?thesis
      unfolding r(5)
    proof (rule approvals_logged_event [OF claimed.IH r(3)])
      show "la_id r = cid" using r(2) by (simp add: claimable_approval_def)
      show "x = r" if "x \<in> set (db_login_approvals d)" "claimable_approval now cid nh x" for x
      proof -
        from that have "x \<in> set (filter (claimable_approval now cid nh) (db_login_approvals d))"
          by simp
        then show ?thesis by (simp only: r(1)) simp
      qed
      show "row_logged (h @ [Ev_claimed cid u]) (r\<lparr>la_status := La_consumed, la_consumed_at := Some now\<rparr>)"
        if "row_logged h r"
        using that r(2) by (auto simp: row_logged_def claimable_approval_def)
    qed (use r(2) in auto)
  qed simp
next
  case (not_claimed d h now cid nh d1)
  from not_claimed.hyps(2) show ?case
    by (cases rule: consume_hits) (use not_claimed.IH in simp_all)
next
  case (fell_back d h now cid)
  show ?case
    by (simp add: mark_login_approval_fallback_def, rule approvals_logged_tupd [OF fell_back.IH])
      (auto simp: row_logged_def)
next
  case (prompted d h s now i g d1)
  from prepare_send_approvals [OF prompted.hyps(2)] show ?case
  proof
    assume "\<exists>c \<in> set (db_login_approvals d). la_status c = La_pending \<and>
       db_login_approvals d1 = tupd (\<lambda>r. la_id r = la_id c)
         (\<lambda>r. r\<lparr>la_status := La_fallback, la_decided_at := Some now\<rparr>) (db_login_approvals d)"
    then obtain c where c: "c \<in> set (db_login_approvals d)" "la_status c = La_pending"
      and d1: "db_login_approvals d1 = tupd (\<lambda>r. la_id r = la_id c)
         (\<lambda>r. r\<lparr>la_status := La_fallback, la_decided_at := Some now\<rparr>) (db_login_approvals d)"
      by blast
    have pend: "la_status r = La_pending" if "r \<in> set (db_login_approvals d)" "la_id r = la_id c" for r
      using prompted.IH that c distinct_key_eq [of la_id "db_login_approvals d" r c]
      by (simp add: approvals_logged_def)
    show ?thesis
      unfolding d1 by (rule approvals_logged_tupd [OF prompted.IH]) (simp_all add: row_logged_def pend)
  qed (use prompted.IH in simp)
next
  case (elsewhere d h d1)
  then show ?case by simp
qed

lemma snoc_split:
  "h @ [e] = p @ x # q \<Longrightarrow> (q = [] \<and> p = h \<and> x = e) \<or> (\<exists>q'. h = p @ x # q')"
  by (cases q rule: rev_cases) auto

lemma claim_follows_approval:
  "approval_trace d h \<Longrightarrow> h = p @ Ev_claimed cid u # q \<Longrightarrow>
   \<exists>contact. Ev_opened cid u contact \<in> set p \<and> Ev_decided cid ''approved'' contact \<in> set p"
proof (induction arbitrary: p q rule: approval_trace.induct)
  case (claimed d h now i nh v d1)
  from snoc_split [OF claimed.prems] show ?case
  proof
    assume e: "q = [] \<and> p = h \<and> Ev_claimed cid u = Ev_claimed i v"
    from claimed.hyps(2) show ?thesis
    proof (cases rule: consume_hits)
      case (claimed r)
      have "approvals_logged h (db_login_approvals d)"
        using approvals_logged_trace [OF claimed.hyps(1)] .
      with claimed(3) have "row_logged h r" by (simp add: approvals_logged_def)
      with claimed(2,4) e show ?thesis
        by (auto simp: row_logged_def claimable_approval_def intro!: exI [of _ "la_contact_id r"])
    qed simp
  next
    assume "\<exists>q'. h = p @ Ev_claimed cid u # q'"
    with claimed.IH show ?thesis by blast
  qed
next
  case (opened d h now u' p' vh nh lbl m ip c d1)
  then show ?case using snoc_split [OF opened.prems] by blast
next
  case (answered d h now cid' vh contact p' ctx dm decision c d1)
  then show ?case using snoc_split [OF answered.prems] by blast
qed auto

text \<open>C10. A session is claimed from a login approval at most once, and only after the contact for
  which the challenge was opened, which is the contact linked to the account, has approved that
  very challenge; a challenge is decided at most once. This holds for every interleaving of
  requests, taps, polls, prompts and fallbacks.\<close>

theorem sign_in_needs_one_approval:
  assumes "approval_trace d h"
  shows "decisions cid h \<le> 1 \<and> sign_ins cid h \<le> 1 \<and>
    (\<forall>p u q. h = p @ Ev_claimed cid u # q \<longrightarrow>
      (\<exists>contact. Ev_opened cid u contact \<in> set p \<and> Ev_decided cid ''approved'' contact \<in> set p))"
proof -
  have "approvals_logged h (db_login_approvals d)" by (rule approvals_logged_trace [OF assms])
  then have "decisions cid h \<le> 1 \<and> sign_ins cid h \<le> 1"
    by (cases "cid \<in> la_id ` set (db_login_approvals d)") (auto simp: approvals_logged_def row_logged_def)
  then show ?thesis using claim_follows_approval [OF assms] by blast
qed

section \<open>The hourly cap\<close>

text \<open>Who asked for a sign-in, and when: all that the counters read.\<close>

definition attempt_log :: "db \<Rightarrow> (string \<times> time) list \<times> (string \<times> time) list" where
  "attempt_log d =
     (map (\<lambda>v. (pv_phone v, pv_created_at v)) (db_verifications d),
      map (\<lambda>c. (la_phone c, la_requested_at c)) (db_login_approvals d))"

definition since_count :: "string \<Rightarrow> time \<Rightarrow> (string \<times> time) list \<Rightarrow> nat" where
  "since_count phone since l = length (filter (\<lambda>x. fst x = phone \<and> snd x \<ge> since) l)"

lemma since_count_append [simp]:
  "since_count p t (xs @ ys) = since_count p t xs + since_count p t ys"
  by (simp add: since_count_def)

lemma since_count_simps [simp]:
  "since_count p t [] = 0" "since_count p t [x] = (if fst x = p \<and> snd x \<ge> t then 1 else 0)"
  by (simp_all add: since_count_def)

lemma since_count_antimono: "t \<le> t' \<Longrightarrow> since_count p t' l \<le> since_count p t l"
  by (induction l) (auto simp: since_count_def)

lemma recent_attempts_log:
  "recent_attempts p now d =
   since_count p (now - hours 1) (fst (attempt_log d)) + since_count p (now - hours 1) (snd (attempt_log d))"
  by (simp add: recent_attempts_def count_recent_verifications_def count_recent_login_approvals_def
      attempt_log_def since_count_def filter_map comp_def)

lemma attempt_log_tupd:
  "(\<And>c. la_phone (f c) = la_phone c \<and> la_requested_at (f c) = la_requested_at c) \<Longrightarrow>
   map (\<lambda>c. (la_phone c, la_requested_at c)) (tupd P f cs) = map (\<lambda>c. (la_phone c, la_requested_at c)) cs"
  by (simp add: tupd_def)

lemma prepare_send_verifications:
  "prepare_send s now i d = Inr (g, d1) \<Longrightarrow> db_verifications d1 = db_verifications d"
  by (auto simp: prepare_send_def claim_outbound_def Let_def mark_outbound_def approval_to_fallback_def
      bindE_Inr_iff scalar_Some_iff scalar_None_iff split: option.splits if_splits)

lemma prepare_send_log: "prepare_send s now i d = Inr (g, d1) \<Longrightarrow> attempt_log d1 = attempt_log d"
  using prepare_send_approvals [of s now i d g d1] prepare_send_verifications [of s now i d g d1]
  by (auto simp: attempt_log_def attempt_log_tupd)

lemma send_pending_log: "attempt_log (snd (send_pending s post now i d)) = attempt_log d"
proof (cases "prepare_send s now i d")
  case (Inr gd)
  obtain g d1 where gd: "gd = (g, d1)" by fastforce
  have "attempt_log (snd (record_send i resp d1)) = attempt_log d1" for resp
    by (auto simp: record_send_def mark_outbound_def attempt_log_def split: sum.splits)
  then show ?thesis
    using prepare_send_log [of s now i d g d1] Inr gd
    by (cases g) (simp_all add: send_pending_def)
qed (simp add: send_pending_def)

lemma fallback_log [simp]: "attempt_log (mark_login_approval_fallback now i d) = attempt_log d"
  by (simp add: mark_login_approval_fallback_def attempt_log_def attempt_log_tupd)

lemma open_approval_log:
  assumes "open_approval s lib now phone verifier ip u nonce lbl d = Inr (c, m, d1)"
  shows "attempt_log d1 = (fst (attempt_log d), snd (attempt_log d) @ [(phone, now)])"
proof -
  define key where "key = ''login-approval:''"
  from assms obtain c2 d2
    where c2: "create_login_approval now u phone (hash_code lib verifier) (hash_code lib nonce) lbl
        (s_verification_code_ttl_minutes s) (request_ip_hash lib ip) d = Inr (c2, d2)"
    by (cases "create_login_approval now u phone (hash_code lib verifier) (hash_code lib nonce) lbl
        (s_verification_code_ttl_minutes s) (request_ip_hash lib ip) d") (auto simp: open_approval_def)
  obtain m2 d3 where st: "store_outgoing_pending now (key @ la_id c2)
        (approval_prompt lib phone verifier u lbl c2) d2 = (m2, d3)" by fastforce
  have c: "create_login_approval now u phone (hash_code lib verifier) (hash_code lib nonce) lbl
        (s_verification_code_ttl_minutes s) (request_ip_hash lib ip) d = Inr (c, d2)"
    and d1: "d1 = (case m2 of None \<Rightarrow> d3 | Some i \<Rightarrow> attach_approval_outbound (la_id c) i d3)"
    using assms st unfolding open_approval_def key_def [symmetric]
    by (auto simp: c2 split: option.splits)
  have "attempt_log d3 = attempt_log d2"
    using st by (auto simp: store_outgoing_pending_def attempt_log_def new_id_def Let_def split: if_splits)
  moreover have "attempt_log d1 = attempt_log d3"
    by (auto simp: d1 attach_approval_outbound_def attempt_log_def attempt_log_tupd split: option.splits)
  ultimately show ?thesis
    using create_approval_cases [OF c] by (simp add: attempt_log_def attempt_log_tupd)
qed

lemma digits_91: "is_digit (CHR ''9'')" "is_digit (CHR ''1'')"
  by (simp_all add: is_digit_def)

lemma normalize_phone_idem [simp]: "normalize_phone (normalize_phone p) = normalize_phone p"
proof -
  have "filter is_digit (''91'' @ filter is_digit p) = ''91'' @ filter is_digit p"
    using digits_91 by simp
  then show ?thesis by (simp add: normalize_phone_def Let_def)
qed

lemma answer_with_code_log:
  "attempt_log d = attempt_log d0 \<Longrightarrow>
   \<exists>r d1. answer_with_code s lib now pick p d0 d = (r, d1) \<and>
     (attempt_log d1 = attempt_log d0 \<or>
      attempt_log d1 = (fst (attempt_log d0) @ [(normalize_phone p, now)], snd (attempt_log d0)))"
  by (auto simp: answer_with_code_def reverse_code_response_def create_verification_def
      create_phone_verification_def new_id_def attempt_log_def Let_def split: sum.splits exn.splits)

text \<open>A request adds at most one code and one approval, and none at the cap.\<close>

lemma request_code_log:
  assumes "request_code s lib post now pick verifier ip q d = (r, d1)"
  shows "attempt_log d1 = attempt_log d \<or>
    recent_attempts (normalize_phone (cq_phone q)) now d < s_verification_max_per_hour s \<and>
    (\<exists>vs cs. attempt_log d1 = (fst (attempt_log d) @ vs, snd (attempt_log d) @ cs) \<and>
       vs \<in> {[], [(normalize_phone (cq_phone q), now)]} \<and> cs \<in> {[], [(normalize_phone (cq_phone q), now)]})"
proof -
  define phone where "phone = normalize_phone (cq_phone q)"
  have ph: "normalize_phone phone = phone" by (simp add: phone_def)
  have ans: "attempt_log d2 = attempt_log d0 \<or>
      attempt_log d2 = (fst (attempt_log d0) @ [(phone, now)], snd (attempt_log d0))"
    if "answer_with_code s lib now pick phone d0 d' = (r', d2)" "attempt_log d' = attempt_log d0" for d0 d' r' d2
    using answer_with_code_log [OF that(2), of s lib now pick phone] that(1) ph by auto
  have sent: "attempt_log d2 = attempt_log d0" if "send_pending s post now i d0 = (st, d2)" for i d0 st d2
    using send_pending_log [of s post now i d0] that by simp
  show ?thesis
    using assms unfolding request_code_def phone_def [symmetric] Let_def
    by (auto split: if_splits sum.splits option.splits prod.splits
        dest!: ans sent open_approval_log)
qed


section \<open>The reverse code\<close>

lemma code_choice: "CODE_ALPHABET ! (n mod length CODE_ALPHABET) \<in> set CODE_ALPHABET"
proof (rule nth_mem)
  have "length CODE_ALPHABET > 0" by (simp add: CODE_ALPHABET_def)
  then show "n mod length CODE_ALPHABET < length CODE_ALPHABET" by simp
qed

lemma generate_code_chars:
  "c \<in> set (generate_code pick) \<Longrightarrow> \<not> is_space c \<and> upper_char c = c"
proof -
  have all: "list_all (\<lambda>c. \<not> is_space c \<and> upper_char c = c) (''JS-'' @ CODE_ALPHABET)"
    by (simp add: CODE_ALPHABET_def is_space_def upper_char_def is_lower_ascii_def Let_def)
  assume "c \<in> set (generate_code pick)"
  then have "c \<in> set (''JS-'' @ CODE_ALPHABET)"
    using code_choice by (auto simp: generate_code_def)
  with all show ?thesis unfolding list_all_iff by blast
qed

lemma py_strip_no_space: "(\<And>c. c \<in> set t \<Longrightarrow> \<not> is_space c) \<Longrightarrow> py_strip t = t"
proof -
  assume a: "\<And>c. c \<in> set t \<Longrightarrow> \<not> is_space c"
  have "dropWhile is_space u = u" if "set u \<subseteq> set t" for u
    using that a by (cases u) auto
  then show ?thesis by (simp add: py_strip_def)
qed

lemma generate_code_canonical [simp]: "py_upper (py_strip (generate_code pick)) = generate_code pick"
  using py_strip_no_space [of "generate_code pick"] generate_code_chars [of _ pick]
  by (simp add: py_upper_def map_idI)

lemma generated_code_recognised:
  assumes "py_upper (py_strip t) = generate_code pick"
  shows "is_verification_code (Some t)"
proof -
  have cs: "list_all code_char CODE_ALPHABET"
    by (simp add: CODE_ALPHABET_def code_char_def is_upper_ascii_def is_digit_def Let_def)
  have "list_all code_char (drop 3 (generate_code pick))"
    using cs code_choice by (auto simp: generate_code_def list_all_iff)
  moreover have "t \<noteq> []"
    using assms by (auto simp: py_strip_def py_upper_def generate_code_def)
  ultimately show ?thesis
    by (simp add: is_verification_code_def assms truthy_def Let_def)
      (simp add: generate_code_def CODE_LENGTH_def)
qed

lemma filter_key:
  "distinct (map key t) \<Longrightarrow>
   filter (\<lambda>r. key r = k) t = (case tget key k t of None \<Rightarrow> [] | Some r \<Rightarrow> [r])"
proof (induction t)
  case (Cons a t)
  then have "key a = k \<Longrightarrow> tget key k t = None" by (auto simp: tget_None_iff)
  with Cons show ?case by (auto simp: tget_Cons)
qed simp

definition verification_ids :: "db \<Rightarrow> bool" where
  "verification_ids d = distinct (map pv_id (db_verifications d))"

definition verification_ready :: "uuid \<Rightarrow> db \<Rightarrow> bool" where
  "verification_ready vid d =
     (\<exists>v. get_phone_verification vid d = Some v \<and> pv_status v = Pv_verified)"

lemma consume_verification_get:
  "get_phone_verification i (snd (consume_verification vid d)) =
   map_option (\<lambda>v. if i = vid \<and> pv_status v = Pv_verified then v\<lparr>pv_status := Pv_consumed\<rparr> else v)
     (get_phone_verification i d)"
  using tget_SomeD [of pv_id i "db_verifications d"]
  by (cases "get_phone_verification i d")
    (auto simp: get_phone_verification_def consume_verification_def tget_tupd Let_def)

text \<open>Polls race for one verified code.\<close>

interpretation verified_code: single_use "\<lambda>_ :: unit. consume_verification" "\<lambda>_. verification_ready"
    verification_ids
proof unfold_locales
  fix d and vid :: uuid
  assume inv: "verification_ids d"
  show "fst (consume_verification vid d) = verification_ready vid d"
    using inv by (simp add: consume_verification_def verification_ready_def get_phone_verification_def
        verification_ids_def key_hit Let_def)
  show "snd (consume_verification vid d) = d" if "\<not> verification_ready vid d"
    using inv that by (simp add: consume_verification_def verification_ready_def get_phone_verification_def
        verification_ids_def key_hit tupd_hit_none Let_def)
  show "verification_ids (snd (consume_verification vid d))"
    using inv by (simp add: consume_verification_def verification_ids_def Let_def)
  show "\<not> verification_ready vid (snd (consume_verification vid d))" if "verification_ready vid d"
    by (auto simp: verification_ready_def consume_verification_get)
qed

definition approval_ids :: "db \<Rightarrow> bool" where
  "approval_ids d = distinct (map la_id (db_login_approvals d))"

definition approval_ready :: "time \<times> string \<Rightarrow> uuid \<Rightarrow> db \<Rightarrow> bool" where
  "approval_ready a cid d =
     (\<exists>c. tget la_id cid (db_login_approvals d) = Some c \<and> claimable_approval (fst a) cid (snd a) c)"

definition approval_claimed :: "time \<times> string \<Rightarrow> uuid \<Rightarrow> db \<Rightarrow> bool \<times> db" where
  "approval_claimed a cid d =
     (case consume_login_approval (fst a) cid (snd a) d of
        Inl e \<Rightarrow> (False, d) | Inr (u, d1) \<Rightarrow> (u \<noteq> None, d1))"

lemma consume_approval_eq:
  assumes "approval_ids d"
  shows "consume_login_approval now cid nh d =
    (if approval_ready (now, nh) cid d
     then Inr (Some (la_user_id (the (tget la_id cid (db_login_approvals d)))),
       d\<lparr>db_login_approvals := tupd (\<lambda>c. la_id c = cid)
          (\<lambda>c. c\<lparr>la_status := La_consumed, la_consumed_at := Some now\<rparr>) (db_login_approvals d)\<rparr>)
     else Inr (None, d))"
proof (cases "approval_ready (now, nh) cid d")
  case True
  then obtain c where c: "tget la_id cid (db_login_approvals d) = Some c" "claimable_approval now cid nh c"
    by (auto simp: approval_ready_def)
  have hit: "claimable_approval now cid nh r \<longleftrightarrow> la_id r = cid" if "r \<in> set (db_login_approvals d)" for r
  proof
    assume "la_id r = cid"
    with that c assms have "r = c"
      using distinct_key_eq [of la_id "db_login_approvals d" r c] tget_SomeD [OF c(1)]
      by (simp add: approval_ids_def)
    with c show "claimable_approval now cid nh r" by simp
  qed (simp add: claimable_approval_def)
  with assms c have "filter (\<lambda>r. la_id r = cid) (db_login_approvals d) = [c]"
    by (simp add: approval_ids_def filter_key)
  moreover have "filter (claimable_approval now cid nh) (db_login_approvals d) =
      filter (\<lambda>r. la_id r = cid) (db_login_approvals d)"
    by (rule filter_cong) (simp_all add: hit)
  moreover have "tupd (claimable_approval now cid nh) f (db_login_approvals d) =
      tupd (\<lambda>r. la_id r = cid) f (db_login_approvals d)" for f
    unfolding tupd_def by (rule map_cong) (simp_all add: hit)
  ultimately show ?thesis
    using True c by (simp add: consume_login_approval_def Let_def)
next
  case False
  then have no: "\<not> claimable_approval now cid nh r" if "r \<in> set (db_login_approvals d)" for r
    using that assms tget_unique [of la_id "db_login_approvals d" r]
    by (auto simp: approval_ready_def claimable_approval_def approval_ids_def)
  then have "filter (claimable_approval now cid nh) (db_login_approvals d) = []"
    by (simp add: filter_empty_conv)
  with False no show ?thesis by (simp add: consume_login_approval_def tupd_none Let_def)
qed

lemma approval_claimed_eq:
  "approval_ids d \<Longrightarrow> fst (approval_claimed a cid d) = approval_ready a cid d"
  by (cases a) (simp add: approval_claimed_def consume_approval_eq)

interpretation approved_login: single_use approval_claimed approval_ready approval_ids
proof unfold_locales
  fix d a cid b
  assume inv: "approval_ids d"
  show "fst (approval_claimed a cid d) = approval_ready a cid d"
    using inv by (rule approval_claimed_eq)
  show "snd (approval_claimed a cid d) = d" if "\<not> approval_ready a cid d"
    using inv that by (cases a) (simp add: approval_claimed_def consume_approval_eq)
  show "approval_ids (snd (approval_claimed a cid d))"
    using inv by (cases a) (simp add: approval_claimed_def consume_approval_eq approval_ids_def)
  show "\<not> approval_ready b cid (snd (approval_claimed a cid d))" if "approval_ready a cid d"
    using inv that by (cases a)
      (auto simp: approval_claimed_def consume_approval_eq approval_ready_def claimable_approval_def tget_tupd
        split: if_splits dest: tget_SomeD)
qed

lemma hash_code_canonical:
  "py_upper (py_strip t) = generate_code pick \<Longrightarrow> hash_code lib t = hash_code lib (generate_code pick)"
  by (simp add: hash_code_def)

lemma create_verification_row:
  assumes "create_verification s lib now pick phone d = Inr (vid, code, d1)"
  shows "\<exists>v. db_verifications d1 = db_verifications d @ [v] \<and> pv_id v = vid \<and> pv_status v = Pv_pending \<and>
    pv_phone v = normalize_phone phone \<and> pv_code_hash v = hash_code lib code \<and>
    pv_expires_at v = now + minutes (int (s_verification_code_ttl_minutes s)) \<and>
    code = generate_code pick \<and> db_users d1 = db_users d \<and> db_refresh_tokens d1 = db_refresh_tokens d"
  using assms by (auto simp: create_verification_def create_phone_verification_def new_id_def Let_def
      split: if_splits)

lemma upsert_user_ok:
  assumes "\<forall>u \<in> set (db_users d). us_contact_id u = Some ct \<longrightarrow> us_phone u = phone"
  shows "\<exists>u d1. upsert_user_for_verified_phone phone (Some ct) d = Inr (u, d1) \<and> u \<in> set (db_users d1) \<and>
    us_phone u = phone \<and> us_contact_id u = Some ct \<and> db_verifications d1 = db_verifications d \<and>
    db_refresh_tokens d1 = db_refresh_tokens d"
proof -
  have no: "\<not> list_ex (\<lambda>u. us_contact_id u = Some ct \<and> us_phone u \<noteq> phone) (db_users d)"
    using assms by (auto simp: list_ex_iff)
  show ?thesis
  proof (cases "tget us_phone phone (db_users d)")
    case None
    then show ?thesis
      by (simp add: upsert_user_for_verified_phone_def no new_id_def Let_def)
  next
    case (Some u)
    from tget_SomeD [OF Some] have "u\<lparr>us_contact_id := Some ct\<rparr> \<in>
        set (tupd (\<lambda>r. us_phone r = phone) (\<lambda>_. u\<lparr>us_contact_id := Some ct\<rparr>) (db_users d))"
      by (auto simp: set_tupd)
    with Some tget_SomeD [OF Some] show ?thesis
      by (simp add: upsert_user_for_verified_phone_def no Let_def)
  qed
qed

lemma verified_signs_in_once:
  assumes get: "get_phone_verification vid d = Some v"
    and v: "pv_id v = vid" "pv_status v = Pv_verified" "pv_user_id v = Some i"
    and tokens: "\<forall>k \<in> set (db_refresh_tokens d). rt_token_hash k \<noteq> hash_code lib raw"
  shows "\<exists>d1. auth_status s lib t raw vid d =
      (Inr (As_verified, Some (create_access_token s lib t i), Some (session_cookie s raw)), d1) \<and>
    (\<forall>t1 raw1. auth_status s lib t1 raw1 vid d1 = (Inr (As_expired, None, None), d1))"
proof -
  have "v \<in> set (db_verifications d)"
    using get tget_SomeD [of pv_id vid "db_verifications d" v] by (simp add: get_phone_verification_def)
  with v have won: "fst (consume_verification vid d)"
    by (auto simp: consume_verification_def list_ex_iff Let_def intro!: bexI [of _ v])
  define dc where "dc = snd (consume_verification vid d)"
  have cons: "consume_verification vid d = (True, dc)"
    using won by (simp add: dc_def prod_eq_iff)
  have getc: "get_phone_verification vid dc = Some (v\<lparr>pv_status := Pv_consumed\<rparr>)"
    by (simp add: dc_def consume_verification_get get v)
  have rc: "db_refresh_tokens dc = db_refresh_tokens d"
    by (simp add: dc_def consume_verification_def Let_def)
  obtain d1 where issued: "issue_tokens s lib t raw i dc = Inr (create_access_token s lib t i, raw, d1)"
    and d1: "db_verifications d1 = db_verifications dc"
    using tokens by (auto simp: issue_tokens_def create_refresh_token_def rc list_ex_iff new_id_def Let_def)
  have "auth_status s lib t raw vid d =
      (Inr (As_verified, Some (create_access_token s lib t i), Some (session_cookie s raw)), d1)"
    using cons issued by (simp add: auth_status_def get v sign_in_def)
  moreover have "auth_status s lib t1 raw1 vid d1 = (Inr (As_expired, None, None), d1)" for t1 raw1
  proof -
    have "get_phone_verification vid d1 = Some (v\<lparr>pv_status := Pv_consumed\<rparr>)"
      using getc by (simp add: get_phone_verification_def d1)
    then show ?thesis by (simp add: auth_status_def)
  qed
  ultimately show ?thesis by blast
qed


section \<open>Refresh tokens\<close>

lemma revoke_inactive [simp]:
  "filter (token_active t k) (db_refresh_tokens (revoke_refresh_token now k d)) = []"
  by (simp add: revoke_refresh_token_def tupd_def filter_map comp_def token_active_def filter_empty_conv)

lemma create_token_active:
  assumes "create_refresh_token u k e d = Inr d1"
  shows "(\<forall>t < e. \<exists>row. find_active_refresh_token t k d1 = Inr (Some row) \<and> rt_user_id row = u) \<and>
    (\<forall>t k'. k' \<noteq> k \<longrightarrow> filter (token_active t k') (db_refresh_tokens d1) =
        filter (token_active t k') (db_refresh_tokens d))"
proof -
  from assms have fresh: "\<forall>r \<in> set (db_refresh_tokens d). rt_token_hash r \<noteq> k"
    and rows: "\<exists>i. db_refresh_tokens d1 = db_refresh_tokens d @
       [\<lparr>rt_id = i, rt_user_id = u, rt_token_hash = k, rt_expires_at = e, rt_revoked_at = None\<rparr>]"
    by (auto simp: create_refresh_token_def list_ex_iff new_id_def Let_def split: if_splits)
  from fresh have "filter (token_active t k) (db_refresh_tokens d) = []" for t
    by (auto simp: filter_empty_conv token_active_def)
  moreover from rows obtain row where "db_refresh_tokens d1 = db_refresh_tokens d @ [row]"
      "rt_user_id row = u" "rt_token_hash row = k" "rt_expires_at row = e" "rt_revoked_at row = None"
    by auto
  ultimately show ?thesis
    by (simp add: find_active_refresh_token_def token_active_def)
qed


text \<open>The two statements of a rotation are not atomic: two requests that present the same token and
  both read it before either revokes it are both served.\<close>

lemma refresh_race_two_pairs:
  assumes both_read: "rotate_begin lib now raw d = Inr u"
    and fresh: "\<forall>k \<in> set (db_refresh_tokens d). rt_token_hash k \<notin> {hash_code lib a, hash_code lib b}"
    and ab: "hash_code lib a \<noteq> hash_code lib b"
  shows "\<exists>ta tb d1 d2. rotate_finish s lib now a raw u d = Inr (ta, a, d1) \<and>
    rotate_finish s lib now b raw u d1 = Inr (tb, b, d2)"
  using fresh ab
  by (auto simp: rotate_finish_def issue_tokens_def create_refresh_token_def revoke_refresh_token_def
      list_ex_iff set_tupd new_id_def Let_def)

section \<open>Witnesses\<close>

definition sample_lib :: auth_lib where
  "sample_lib =
     \<lparr>al_sha256 = (\<lambda>t. t), al_jwt_encode = (\<lambda>k p. ''jwt''), al_jwt_decode = (\<lambda>now k a t. Inl PyJWTError),
      al_requested = (\<lambda>t. ''01 Jan 2026, 10:00''), al_expires = (\<lambda>t. ''10:10'')\<rparr>"

definition sample_user :: user where
  "sample_user = \<lparr>us_id = ''u1'', us_phone = ''919876543210'', us_contact_id = Some ''c1'', us_name = None\<rparr>"

text \<open>A database with the linked user and one prompt that Graph has accepted.\<close>

definition sample_auth_db :: db where
  "sample_auth_db = empty_db\<lparr>db_users := [sample_user],
     db_messages := [(outgoing_row 0 ''m1'' ''k1'' sample_reply)\<lparr>ms_meta_message_id := Some ''wamid.P''\<rparr>],
     db_refresh_tokens := [\<lparr>rt_id = ''t1'', rt_user_id = ''u1'', rt_token_hash = ''OLD'',
       rt_expires_at = 100, rt_revoked_at = None\<rparr>]\<rparr>"

lemma sample_auth_tables:
  "db_users sample_auth_db = [sample_user]" "db_login_approvals sample_auth_db = []"
  "db_verifications sample_auth_db = []"
  "db_messages sample_auth_db =
     [(outgoing_row 0 ''m1'' ''k1'' sample_reply)\<lparr>ms_meta_message_id := Some ''wamid.P''\<rparr>]"
  "db_refresh_tokens sample_auth_db = [\<lparr>rt_id = ''t1'', rt_user_id = ''u1'', rt_token_hash = ''OLD'',
       rt_expires_at = 100, rt_revoked_at = None\<rparr>]"
  by (simp_all add: sample_auth_db_def empty_db_def)

theorem sign_in_needs_one_approval_witness:
  "\<exists>d cid h. approval_trace d h \<and> sign_ins cid h = 1 \<and> decisions cid h \<le> 1 \<and>
     Ev_decided cid ''approved'' ''c1'' \<in> set h"
proof -
  define cid where "cid = uuid_str (db_ids sample_auth_db)"
  obtain c d1 where c: "create_login_approval 0 sample_user ''919876543210'' ''V'' ''N'' ''Firefox'' 10 None
      sample_auth_db = Inr (c, d1)" "la_id c = cid" "la_contact_id c = ''c1''" "la_verifier_hash c = ''V''"
      "la_browser_nonce_hash c = ''N''" "la_status c = La_pending" "la_phone c = ''919876543210''"
      "la_expires_at c = 600000000" "la_user_id c = ''u1''"
      "db_login_approvals d1 = [c]" "db_messages d1 = db_messages sample_auth_db"
    by (simp add: create_login_approval_def sample_auth_tables sample_user_def new_id_def cid_def
        time_defs tupd_def Let_def)
  have t1: "approval_trace d1 [Ev_opened cid ''u1'' ''c1'']"
    using approval_trace.opened [OF approval_trace.start [OF sample_auth_tables(2)] c(1)] c(2)
    by (simp add: sample_auth_tables sample_user_def)
  define d2 where "d2 = attach_approval_outbound cid ''m1'' d1"
  have t2: "approval_trace d2 [Ev_opened cid ''u1'' ''c1'']"
    unfolding d2_def by (rule approval_trace.attached [OF t1])
  have a2: "db_login_approvals d2 = [c\<lparr>la_outbound_message_id := Some ''m1''\<rparr>]"
      "db_messages d2 = db_messages sample_auth_db"
    using c by (simp_all add: d2_def attach_approval_outbound_def tupd_def)
  obtain c3 d3 where c3: "decide_login_approval 5 cid ''V'' ''c1'' ''919876543210'' ''wamid.P'' ''wamid.R''
      ''approved'' d2 = Inr (Some c3, d3)"
      "db_login_approvals d3 = [decided 5 ''approved'' ''wamid.R'' (c\<lparr>la_outbound_message_id := Some ''m1''\<rparr>)]"
    using c a2 by (simp add: decide_login_approval_def decidable_by_def outbound_wamid_def
        sample_auth_tables outgoing_row_def tget_Cons tupd_def Let_def)
  have t3: "approval_trace d3 [Ev_opened cid ''u1'' ''c1'', Ev_decided cid ''approved'' ''c1'']"
    using approval_trace.answered [OF t2 c3(1)] by simp
  obtain u d4 where c4: "consume_login_approval 6 cid ''N'' d3 = Inr (Some u, d4)"
    using c c3(2) by (simp add: consume_login_approval_def claimable_approval_def decided_def Let_def)
  have t4: "approval_trace d4 [Ev_opened cid ''u1'' ''c1'', Ev_decided cid ''approved'' ''c1'', Ev_claimed cid u]"
    using approval_trace.claimed [OF t3 c4] by simp
  then show ?thesis
    using sign_in_needs_one_approval [OF t4, of cid]
    by (intro exI [of _ d4] exI [of _ cid]
        exI [of _ "[Ev_opened cid ''u1'' ''c1'', Ev_decided cid ''approved'' ''c1'', Ev_claimed cid u]"])
      (simp add: sign_ins_def)
qed

definition sample_code_request :: code_request where
  "sample_code_request =
     \<lparr>cq_phone = ''9876543210'', cq_browser_nonce = None, cq_browser_label = None\<rparr>"




end
