(* ===== verification/Processing.thy ===== *)
theory Processing
  imports Auth Pipeline
begin

text \<open>
  \<^verbatim>\<open>whatsapp/processing.py\<close>: the driver that claims a webhook event, stores its messages
  and runs one turn of the dialog for each new one. A turn is one transaction
  (\<open>inbound_transaction\<close>) followed by the sends and the pipeline step it asked for, each in
  sessions of their own; \<open>handle_inbound\<close> is their composition, with the database left behind
  at the first exception. The answers of the services, the clock and the random hexadecimal
  suffix of one turn are the record \<open>turn_env\<close>.
\<close>

record turn_env =
  te_world :: world
  te_now :: time
  te_hex :: string

definition EVENT_LEASE_SECONDS :: nat where "EVENT_LEASE_SECONDS = 60"
definition MAX_EVENT_ATTEMPTS :: nat where "MAX_EVENT_ATTEMPTS = 5"
definition STUCK_PROCESSING_AFTER_SECONDS :: nat where "STUCK_PROCESSING_AFTER_SECONDS = 300"

definition gr_status_text :: "gr_status \<Rightarrow> string" where
  "gr_status_text st =
     (case st of
        Gs_draft \<Rightarrow> ''draft'' | Gs_processing \<Rightarrow> ''processing''
      | Gs_photo_mismatch \<Rightarrow> ''photo_mismatch'' | Gs_awaiting_confirmation \<Rightarrow> ''awaiting_confirmation''
      | Gs_registered \<Rightarrow> ''registered'' | Gs_dispatching \<Rightarrow> ''dispatching''
      | Gs_pending_window \<Rightarrow> ''pending_window'' | Gs_submitted \<Rightarrow> ''submitted''
      | Gs_duplicate \<Rightarrow> ''duplicate'' | Gs_cancelled \<Rightarrow> ''cancelled''
      | Gs_dispatch_failed \<Rightarrow> ''dispatch_failed'')"

section \<open>Short replies\<close>

definition render_status_reply :: "uuid \<Rightarrow> db \<Rightarrow> string" where
  "render_status_reply contact_id d =
     (case list_grievances_for_contact contact_id 5 d of
        [] \<Rightarrow> STATUS_EMPTY
      | gs \<Rightarrow>
          concat (STATUS_HEADER #
            map (\<lambda>g. STATUS_LINE (gr_human_id g)
                   (replace_char (CHR ''_'') (CHR '' '') (str_or (gr_category g) ''uncategorised''))
                   (gr_status_text (gr_status g))) gs))"

definition text_reply ::
    "uuid \<Rightarrow> string \<Rightarrow> string \<Rightarrow> string \<Rightarrow> string option \<Rightarrow> outgoing" where
  "text_reply contact_id wa_id reply_kind body in_response_to =
     \<lparr>og_contact_id = contact_id, og_conversation_id = None, og_reply_kind = reply_kind,
      og_message_type = ''text'', og_text_body = Some body,
      og_payload = build_text_payload wa_id body, og_in_response_to = in_response_to\<rparr>"

fun send_all ::
    "settings \<Rightarrow> (json \<Rightarrow> exn + json) \<Rightarrow> time \<Rightarrow> uuid list \<Rightarrow> db \<Rightarrow> (exn + unit) \<times> db" where
  "send_all s post now [] d = (Inr (), d)"
| "send_all s post now (i # is) d =
     seqE (send_pending s post now i d) (\<lambda>_ d1. send_all s post now is d1)"

definition list_of :: "'a option \<Rightarrow> 'a list" where
  "list_of x = (case x of None \<Rightarrow> [] | Some a \<Rightarrow> [a])"

definition send_standalone_reply ::
    "settings \<Rightarrow> turn_env \<Rightarrow> string \<Rightarrow> string \<Rightarrow> string \<Rightarrow> string \<Rightarrow> db \<Rightarrow> (exn + unit) \<times> db" where
  "send_standalone_reply s te wa_id body reply_kind idempotency_key d =
     (let (c, d1) = upsert_contact (te_now te) wa_id None d;
          (row, d2) = store_outgoing_pending (te_now te) idempotency_key
             (text_reply (ct_id c) wa_id reply_kind body None) d1
      in send_all s (w_post_graph (te_world te)) (te_now te) (list_of row) d2)"

section \<open>The transaction of a turn\<close>

text \<open>What the committed transaction leaves for the rest of the turn.\<close>

record turn =
  tn_pending :: "uuid list"
  tn_action :: "action option"
  tn_context :: "conv_context option"
  tn_contact :: uuid

definition quiet_turn :: "uuid \<Rightarrow> uuid list \<Rightarrow> turn" where
  "quiet_turn contact_id pending =
     \<lparr>tn_pending = pending, tn_action = None, tn_context = None, tn_contact = contact_id\<rparr>"

text \<open>The replies that short-circuit the dialog: annotate, store under a key of the message.\<close>

definition intercept ::
    "time \<Rightarrow> incoming \<Rightarrow> uuid \<Rightarrow> string \<Rightarrow> string \<Rightarrow> string \<Rightarrow> db \<Rightarrow> turn \<times> db" where
  "intercept now m contact_id reply_kind key_prefix body d =
     (let d1 = annotate_consumption (in_meta_message_id m) None None None d;
          (row, d2) = store_outgoing_pending now (key_prefix @ '':'' @ in_meta_message_id m)
             (text_reply contact_id (in_wa_id m) reply_kind body (Some (in_meta_message_id m))) d1
      in (quiet_turn contact_id (list_of row), d2))"

definition login_tap :: "incoming \<Rightarrow> (string \<times> string \<times> string) option" where
  "login_tap m =
     (if truthy (in_context_message_id m) then parse_login_approval_id (in_reply_id m) else None)"

definition handle_login_tap ::
    "auth_lib \<Rightarrow> time \<Rightarrow> incoming \<Rightarrow> uuid \<Rightarrow> string \<times> string \<times> string \<Rightarrow> db \<Rightarrow> exn + (turn \<times> db)" where
  "handle_login_tap lib now m contact_id tap d =
     (case tap of (decision_id, challenge_id, verifier) \<Rightarrow>
        let decision = (if decision_id = ''login_yes'' then ''approved'' else ''denied'') in
        bindE (decide_login_approval now challenge_id (hash_code lib verifier) contact_id (in_wa_id m)
                 (the (in_context_message_id m)) (in_meta_message_id m) decision d) (\<lambda>(approval, d1).
          let body = (if approval \<noteq> None then
                        (if decision = ''approved''
                         then ''Sign-in approved. Return to the browser that requested it.''
                         else ''Sign-in denied. Your Jan Setu account remains protected.'')
                      else ''This sign-in request is invalid, expired, or already used.'')
          in Inr (intercept now m contact_id ''login_approval_decision'' ''login-decision'' body d1)))"

definition update_conversation :: "uuid \<Rightarrow> (conversation \<Rightarrow> conversation) \<Rightarrow> db \<Rightarrow> db" where
  "update_conversation i f d =
     d\<lparr>db_conversations := tupd (\<lambda>r. cv_id r = i) f (db_conversations d)\<rparr>"

text \<open>\<^verbatim>\<open>context["draft"]["grievance_id"]\<close>, which may hold \<^verbatim>\<open>None\<close>.\<close>

definition context_draft_id :: "conv_context \<Rightarrow> exn + string option" where
  "context_draft_id ctx =
     (case cx_draft ctx of None \<Rightarrow> Inl KeyError | Some dr \<Rightarrow> Inr (dc_grievance_id dr))"

definition context_with_draft :: "conv_context \<Rightarrow> uuid \<Rightarrow> conv_context" where
  "context_with_draft ctx grievance_id =
     ctx\<lparr>cx_draft := Some (case cx_draft ctx of
            None \<Rightarrow> \<lparr>dc_grievance_id = Some grievance_id, dc_recheck_count = None\<rparr>
          | Some dr \<Rightarrow> dr\<lparr>dc_grievance_id := Some grievance_id\<rparr>)\<rparr>"

text \<open>The writes an action makes inside the transaction; the result is the context after them.\<close>

definition act_in_transaction ::
    "time \<Rightarrow> uuid \<Rightarrow> uuid \<Rightarrow> fsm_result \<Rightarrow> db \<Rightarrow> exn + (conv_context \<times> db)" where
  "act_in_transaction now contact_id conv_id r d =
     (case fr_action r of
        Some Start_pipeline \<Rightarrow>
          bindE (get_user_by_contact_id contact_id d) (\<lambda>u.
            case create_draft_grievance now contact_id (Some conv_id) (map_option us_id u)
                   Src_whatsapp (draft_of_context (fr_context r)) d of
              ((g, _), d1) \<Rightarrow>
                let ctx = context_with_draft (fr_context r) (gr_id g) in
                Inr (ctx, update_conversation conv_id (\<lambda>v. v\<lparr>cv_context := ctx\<rparr>) d1))
      | Some Recheck_photo \<Rightarrow>
          bindE (context_draft_id (fr_context r)) (\<lambda>i.
            case i of
              None \<Rightarrow> Inl ValueError
            | Some gid \<Rightarrow>
                bindE (set_grievance_fields now gid
                         (\<lambda>g. g\<lparr>gr_photo_media_id := pc_media_id (cx_photo (fr_context r)),
                                 gr_photo_path := None\<rparr>) d)
                  (\<lambda>(_, d1). Inr (fr_context r, d1)))
      | _ \<Rightarrow> Inr (fr_context r, d))"

definition intent_key :: "uuid \<Rightarrow> string \<Rightarrow> intent \<Rightarrow> string" where
  "intent_key conv_id mid it = conv_id @ '':'' @ mid @ '':'' @ it_reply_kind it"

definition intent_reply :: "uuid \<Rightarrow> uuid \<Rightarrow> string option \<Rightarrow> intent \<Rightarrow> outgoing" where
  "intent_reply contact_id conv_id in_response_to it =
     \<lparr>og_contact_id = contact_id, og_conversation_id = Some conv_id,
      og_reply_kind = it_reply_kind it, og_message_type = it_message_type it,
      og_text_body = it_text_body it, og_payload = it_payload it,
      og_in_response_to = in_response_to\<rparr>"

fun store_intents ::
    "time \<Rightarrow> uuid \<Rightarrow> uuid \<Rightarrow> string \<Rightarrow> intent list \<Rightarrow> db \<Rightarrow> uuid list \<times> db" where
  "store_intents now contact_id conv_id mid [] d = ([], d)"
| "store_intents now contact_id conv_id mid (it # its) d =
     (let (row, d1) = store_outgoing_pending now (intent_key conv_id mid it)
             (intent_reply contact_id conv_id (Some mid) it) d;
          (rows, d2) = store_intents now contact_id conv_id mid its d1
      in (list_of row @ rows, d2))"

definition run_dialog ::
    "settings \<Rightarrow> time \<Rightarrow> incoming \<Rightarrow> geocode option \<Rightarrow> uuid \<Rightarrow> conversation option \<Rightarrow> db
     \<Rightarrow> exn + (turn \<times> db)" where
  "run_dialog s now m geo contact_id conv d =
     bindE (advance now (in_wa_id m) (map_option cv_state conv) (map_option cv_context conv) m geo) (\<lambda>r.
       case upsert_conversation_state now conv contact_id (fr_state r) (fr_context r)
              (in_received_at m) (s_conversation_ttl_hours s) (s_service_window_hours s) d of
         (v, d1) \<Rightarrow>
           bindE (act_in_transaction now contact_id (cv_id v) r d1) (\<lambda>(ctx, d2).
             let d3 = annotate_consumption (in_meta_message_id m) (Some (cv_id v))
                        (map_option cv_state conv) (Some (fr_state r)) d2;
                 (rows, d4) = store_intents now contact_id (cv_id v) (in_meta_message_id m) (fr_intents r) d3;
                 d5 = (if fr_close r
                       then update_conversation (cv_id v) (\<lambda>x. x\<lparr>cv_active := False\<rparr>) d4 else d4)
             in Inr (\<lparr>tn_pending = rows, tn_action = fr_action r, tn_context = Some ctx,
                      tn_contact = contact_id\<rparr>, d5)))"

definition inbound_transaction ::
    "settings \<Rightarrow> auth_lib \<Rightarrow> time \<Rightarrow> incoming \<Rightarrow> geocode option \<Rightarrow> db \<Rightarrow> exn + (turn \<times> db)" where
  "inbound_transaction s lib now m geo d =
     (case upsert_contact now (in_wa_id m) (in_profile_name m) d of
        (c, d1) \<Rightarrow>
          case claim_inbound (in_meta_message_id m) d1 of
            (fresh, d2) \<Rightarrow>
              if \<not> fresh then Inr (quiet_turn (ct_id c) [], d2)
              else
                case login_tap m of
                  Some tap \<Rightarrow> handle_login_tap lib now m (ct_id c) tap d2
                | None \<Rightarrow>
                    if is_verification_code (in_text_body m) then
                      bindE (verify_code_from_whatsapp lib now (in_wa_id m) (ct_id c)
                               (the (in_text_body m)) d2)
                        (\<lambda>(body, d3). Inr (intercept now m (ct_id c) ''verify_code'' ''verify'' body d3))
                    else
                      bindE (lock_contact_and_get_conversation now (ct_id c) d2) (\<lambda>(conv, d3).
                        if conv = None \<and> is_status_query (in_text_body m) then
                          Inr (intercept now m (ct_id c) ''status_query'' ''status''
                                 (render_status_reply (ct_id c) d3) d3)
                        else run_dialog s now m geo (ct_id c) conv d3))"

section \<open>After the transaction\<close>

text \<open>The PDF header of the confirmation card; any exception leaves the card without it.\<close>

definition confirmation_pdf :: "world \<Rightarrow> settings \<Rightarrow> grievance \<Rightarrow> string option" where
  "confirmation_pdf w s g =
     (if \<not> truthy (gr_pdf_path g) then None
      else
        case bindE (w_read_file w (path_str (artifact_path s (the (gr_pdf_path g)))))
               (\<lambda>data. upload_whatsapp_media w s data (gr_human_id g @ ''.pdf'') ''application/pdf'') of
          Inl e \<Rightarrow> None | Inr media_id \<Rightarrow> Some media_id)"

definition pipeline_intent ::
    "world \<Rightarrow> settings \<Rightarrow> string \<Rightarrow> uuid \<Rightarrow> pipeline_result \<Rightarrow> db \<Rightarrow> exn + (conv_state \<times> intent)" where
  "pipeline_intent w s wa_id i r d =
     (if pr_status r = Gs_photo_mismatch then Inr (Photo_mismatch, build_mismatch_intent wa_id None)
      else
        case get_grievance i d of
          None \<Rightarrow> Inl AttributeError
        | Some g \<Rightarrow>
            bindE (render_confirmation_summary g) (\<lambda>summary.
              Inr (Awaiting_confirmation,
                   build_confirmation_intent wa_id i (confirmation_pdf w s g) (PDF_CONFIRM summary))))"

definition pipeline_key :: "uuid \<Rightarrow> pipeline_result \<Rightarrow> uuid \<Rightarrow> string" where
  "pipeline_key conv_id r i = conv_id @ '':pipeline:'' @ gr_status_text (pr_status r) @ '':'' @ i"

definition store_pipeline_followup ::
    "settings \<Rightarrow> turn_env \<Rightarrow> uuid \<Rightarrow> string \<Rightarrow> uuid \<Rightarrow> pipeline_result \<Rightarrow> db
     \<Rightarrow> exn + (uuid option \<times> db)" where
  "store_pipeline_followup s te contact_id wa_id i r d =
     bindE (lock_contact_and_get_conversation (te_now te) contact_id d) (\<lambda>(conv, d1).
       case conv of
         None \<Rightarrow> Inr (None, d)
       | Some v \<Rightarrow>
           bindE (pipeline_intent (te_world te) s wa_id i r d1) (\<lambda>(state, it).
             Inr (store_outgoing_pending (te_now te) (pipeline_key (cv_id v) r i)
                    (intent_reply contact_id (cv_id v) None it)
                    (update_conversation (cv_id v) (\<lambda>x. x\<lparr>cv_state := state\<rparr>) d1))))"

definition send_pipeline_followup_message ::
    "settings \<Rightarrow> turn_env \<Rightarrow> uuid \<Rightarrow> string \<Rightarrow> uuid \<Rightarrow> pipeline_result \<Rightarrow> db \<Rightarrow> (exn + unit) \<times> db" where
  "send_pipeline_followup_message s te contact_id wa_id i r d =
     seqE (commitE d (store_pipeline_followup s te contact_id wa_id i r d)) (\<lambda>row d1.
       send_all s (w_post_graph (te_world te)) (te_now te) (list_of row) d1)"

text \<open>An exception of the pipeline is logged and swallowed.\<close>

definition then_followup ::
    "settings \<Rightarrow> turn_env \<Rightarrow> uuid \<Rightarrow> string \<Rightarrow> uuid \<Rightarrow> (exn + pipeline_result) \<times> db \<Rightarrow> (exn + unit) \<times> db" where
  "then_followup s te contact_id wa_id i result =
     (case result of
        (Inl e, d) \<Rightarrow> (Inr (), d)
      | (Inr r, d) \<Rightarrow> send_pipeline_followup_message s te contact_id wa_id i r d)"

definition run_pipeline_followup ::
    "settings \<Rightarrow> turn_env \<Rightarrow> uuid \<Rightarrow> string \<Rightarrow> uuid \<Rightarrow> db \<Rightarrow> (exn + unit) \<times> db" where
  "run_pipeline_followup s te contact_id wa_id i d =
     then_followup s te contact_id wa_id i (run_pipeline (te_world te) s (te_now te) i d)"

definition recheck_followup ::
    "settings \<Rightarrow> turn_env \<Rightarrow> uuid \<Rightarrow> string \<Rightarrow> uuid \<Rightarrow> bool \<Rightarrow> db \<Rightarrow> (exn + unit) \<times> db" where
  "recheck_followup s te contact_id wa_id i proceed_without_photo d =
     then_followup s te contact_id wa_id i
       (recheck_image (te_world te) s (te_now te) i proceed_without_photo d)"

definition final_body :: "outcome \<Rightarrow> string" where
  "final_body out =
     REGISTERED_FINAL (fo_human_id out) @
     (if fo_status out = Gs_duplicate \<and> fo_report_count out \<notin> {None, Some 0}
      then DUPLICATE_NOTE (show_nat (the (fo_report_count out))) else [])"

definition finalize_followup ::
    "settings \<Rightarrow> turn_env \<Rightarrow> string \<Rightarrow> uuid \<Rightarrow> db \<Rightarrow> (exn + unit) \<times> db" where
  "finalize_followup s te wa_id i d =
     (case finalize_grievance (te_world te) s (te_now te) (te_hex te) i d of
        (Inl e, d1) \<Rightarrow> (Inr (), d1)
      | (Inr out, d1) \<Rightarrow>
          send_standalone_reply s te wa_id (final_body out) ''registered_final''
            (''registered_final:'' @ i) d1)"

definition cancel_followup ::
    "settings \<Rightarrow> turn_env \<Rightarrow> string \<Rightarrow> uuid \<Rightarrow> db \<Rightarrow> (exn + unit) \<times> db" where
  "cancel_followup s te wa_id i d =
     seqE (cancel_grievance (te_now te) i d) (\<lambda>_ d1.
       send_standalone_reply s te wa_id CANCELLED ''cancelled'' (''cancelled:'' @ i) d1)"

text \<open>A missing identifier (\<^verbatim>\<open>None\<close>) names no complaint: the pipeline steps swallow the
  exception, cancelling does not.\<close>

definition turn_followup ::
    "settings \<Rightarrow> turn_env \<Rightarrow> string \<Rightarrow> turn \<Rightarrow> db \<Rightarrow> (exn + unit) \<times> db" where
  "turn_followup s te wa_id t d =
     (case (tn_action t, tn_context t) of
        (None, _) \<Rightarrow> (Inr (), d)
      | (Some a, None) \<Rightarrow> (Inl AssertionError, d)
      | (Some a, Some ctx) \<Rightarrow>
          (case context_draft_id ctx of
             Inl e \<Rightarrow> (Inl e, d)
           | Inr None \<Rightarrow> (if a = Cancel then Inl ValueError else Inr (), d)
           | Inr (Some i) \<Rightarrow>
               (case a of
                  Start_pipeline \<Rightarrow> run_pipeline_followup s te (tn_contact t) wa_id i d
                | Recheck_photo \<Rightarrow> recheck_followup s te (tn_contact t) wa_id i False d
                | Proceed_without_photo \<Rightarrow> recheck_followup s te (tn_contact t) wa_id i True d
                | Finalize \<Rightarrow> finalize_followup s te wa_id i d
                | Cancel \<Rightarrow> cancel_followup s te wa_id i d)))"

definition geocode_inbound ::
    "settings \<Rightarrow> turn_env \<Rightarrow> incoming \<Rightarrow> db \<Rightarrow> (exn + geocode option) \<times> db" where
  "geocode_inbound s te m d =
     (case in_location_latitude m of
        Some lat \<Rightarrow>
          if in_message_type m = ''location'' then
            seqE (reverse_geocode_cached (te_world te) s (te_now te) lat (in_location_longitude m) d)
              (\<lambda>g d1. (Inr (Some g), d1))
          else (Inr None, d)
      | None \<Rightarrow> (Inr None, d))"

definition handle_inbound ::
    "settings \<Rightarrow> auth_lib \<Rightarrow> turn_env \<Rightarrow> incoming \<Rightarrow> db \<Rightarrow> (exn + unit) \<times> db" where
  "handle_inbound s lib te m d =
     seqE (geocode_inbound s te m d) (\<lambda>geo d1.
     seqE (commitE d1 (inbound_transaction s lib (te_now te) m geo d1)) (\<lambda>t d2.
     seqE (send_all s (w_post_graph (te_world te)) (te_now te) (tn_pending t) d2) (\<lambda>_ d3.
       turn_followup s te (in_wa_id m) t d3)))"

section \<open>Driving an event\<close>

text \<open>The turns of the new messages, in order; an exception is logged and the next turn runs.
  The result tells whether all of them returned.\<close>

fun run_turns ::
    "settings \<Rightarrow> auth_lib \<Rightarrow> (nat \<Rightarrow> turn_env) \<Rightarrow> nat \<Rightarrow> incoming list \<Rightarrow> db \<Rightarrow> bool \<times> db" where
  "run_turns s lib env k [] d = (True, d)"
| "run_turns s lib env k (m # ms) d =
     (case handle_inbound s lib (env k) m d of
        (r, d1) \<Rightarrow>
          (case run_turns s lib env (Suc k) ms d1 of
             (ok, d2) \<Rightarrow> ((case r of Inl _ \<Rightarrow> False | Inr _ \<Rightarrow> ok), d2)))"

definition fresh_messages :: "incoming list \<Rightarrow> bool list \<Rightarrow> incoming list" where
  "fresh_messages ms created = sort_key in_received_at (map fst (filter snd (zip ms created)))"

definition drive_messages ::
    "settings \<Rightarrow> auth_lib \<Rightarrow> (nat \<Rightarrow> turn_env) \<Rightarrow> uuid \<Rightarrow> incoming list \<Rightarrow> db \<Rightarrow> db" where
  "drive_messages s lib env event_id ms d =
     (case store_incoming_messages (te_now (env 0)) ms d of
        (created, d1) \<Rightarrow>
          case (if s_auto_reply_enabled s
                then run_turns s lib env 1 (fresh_messages ms created) d1 else (True, d1)) of
            (ok, d2) \<Rightarrow> if ok then mark_event_processed (te_now (env 0)) event_id d2 else d2)"

text \<open>A payload the parser rejects raises out of the driver, after the claim.\<close>

definition drive_event ::
    "settings \<Rightarrow> auth_lib \<Rightarrow> (nat \<Rightarrow> turn_env) \<Rightarrow> uuid \<Rightarrow> db \<Rightarrow> (exn + unit) \<times> db" where
  "drive_event s lib env event_id d =
     (case claim_event (te_now (env 0)) event_id EVENT_LEASE_SECONDS d of
        (None, d1) \<Rightarrow> (Inr (), d1)
      | (Some (payload, attempts), d1) \<Rightarrow>
          if attempts > MAX_EVENT_ATTEMPTS then
            (Inr (), mark_event_processed (te_now (env 0)) event_id d1)
          else
            (case iter_incoming_messages (te_now (env 0)) payload of
               Inl e \<Rightarrow> (Inl e, d1)
             | Inr ms \<Rightarrow> (Inr (), drive_messages s lib env event_id ms d1)))"

text \<open>The \<open>k\<close>-th event of a sweep runs in the environments \<open>envs k\<close>; an exception ends the sweep.\<close>

fun drive_each ::
    "settings \<Rightarrow> auth_lib \<Rightarrow> (nat \<Rightarrow> nat \<Rightarrow> turn_env) \<Rightarrow> nat \<Rightarrow> uuid list \<Rightarrow> db \<Rightarrow> (exn + unit) \<times> db" where
  "drive_each s lib envs k [] d = (Inr (), d)"
| "drive_each s lib envs k (i # is) d =
     seqE (drive_event s lib (envs k) i d) (\<lambda>_ d1. drive_each s lib envs (Suc k) is d1)"

definition process_pending_events ::
    "settings \<Rightarrow> auth_lib \<Rightarrow> (nat \<Rightarrow> nat \<Rightarrow> turn_env) \<Rightarrow> time \<Rightarrow> nat \<Rightarrow> db \<Rightarrow> (exn + nat) \<times> db" where
  "process_pending_events s lib envs now batch_size d =
     (let ids = fetch_unprocessed_event_ids now batch_size d in
      seqE (drive_each s lib envs 0 ids d) (\<lambda>_ d1. (Inr (length ids), d1)))"

section \<open>Recovery of stuck complaints\<close>

definition stuck_contacts :: "time \<Rightarrow> nat \<Rightarrow> db \<Rightarrow> (uuid \<times> uuid \<times> string) list" where
  "stuck_contacts now limit d =
     List.map_filter
       (\<lambda>i. Option.bind (get_grievance i d) (\<lambda>g.
              map_option (\<lambda>c. (i, gr_contact_id g, ct_wa_id c)) (get_contact (gr_contact_id g) d)))
       (fetch_stuck_processing (now - seconds (int STUCK_PROCESSING_AFTER_SECONDS)) limit d)"

fun recover_each ::
    "settings \<Rightarrow> (nat \<Rightarrow> turn_env) \<Rightarrow> nat \<Rightarrow> (uuid \<times> uuid \<times> string) list \<Rightarrow> db \<Rightarrow> db" where
  "recover_each s env k [] d = d"
| "recover_each s env k ((i, contact_id, wa_id) # rest) d =
     recover_each s env (Suc k) rest (snd (run_pipeline_followup s (env k) contact_id wa_id i d))"

definition sweep_stuck_processing ::
    "settings \<Rightarrow> (nat \<Rightarrow> turn_env) \<Rightarrow> time \<Rightarrow> nat \<Rightarrow> db \<Rightarrow> nat \<times> db" where
  "sweep_stuck_processing s env now limit d =
     (let contacts = stuck_contacts now limit d
      in (length contacts, recover_each s env 0 contacts d))"

section \<open>What the steps of a turn leave alone\<close>

definition consumed_ids :: "db \<Rightarrow> string list" where
  "consumed_ids d = map fc_inbound_message_id (db_consumptions d)"

lemma consumed_iff: "consumed mid d \<longleftrightarrow> mid \<in> set (consumed_ids d)"
  by (auto simp: consumed_def consumed_ids_def)

lemma upsert_contact_frame [simp]:
  "consumed_ids (snd (upsert_contact now w p d)) = consumed_ids d"
  "db_conversations (snd (upsert_contact now w p d)) = db_conversations d"
  "db_grievances (snd (upsert_contact now w p d)) = db_grievances d"
  "db_events (snd (upsert_contact now w p d)) = db_events d"
  by (auto simp: upsert_contact_def new_id_def consumed_ids_def Let_def split: option.splits)

lemma claim_inbound_frame [simp]:
  "db_conversations (snd (claim_inbound mid d)) = db_conversations d"
  "db_grievances (snd (claim_inbound mid d)) = db_grievances d"
  by (simp_all add: claim_inbound_def new_id_def Let_def)

lemma annotate_frame [simp]:
  "consumed_ids (annotate_consumption mid c a b d) = consumed_ids d"
  "db_conversations (annotate_consumption mid c a b d) = db_conversations d"
  "db_grievances (annotate_consumption mid c a b d) = db_grievances d"
  by (simp_all add: annotate_consumption_def consumed_ids_def)

lemma store_outgoing_frame [simp]:
  "consumed_ids (snd (store_outgoing_pending now k g d)) = consumed_ids d"
  "db_conversations (snd (store_outgoing_pending now k g d)) = db_conversations d"
  "db_grievances (snd (store_outgoing_pending now k g d)) = db_grievances d"
  by (simp_all add: store_outgoing_pending_def new_id_def consumed_ids_def Let_def)

lemma intercept_frame [simp]:
  "consumed_ids (snd (intercept now m c k p b d)) = consumed_ids d"
  "db_conversations (snd (intercept now m c k p b d)) = db_conversations d"
  "db_grievances (snd (intercept now m c k p b d)) = db_grievances d"
  "tn_action (fst (intercept now m c k p b d)) = None"
  by (simp_all add: intercept_def case_prod_beta Let_def quiet_turn_def)

lemma update_conversation_frame [simp]:
  "consumed_ids (update_conversation i f d) = consumed_ids d"
  "db_grievances (update_conversation i f d) = db_grievances d"
  by (simp_all add: update_conversation_def consumed_ids_def)

lemma decide_frame:
  assumes "decide_login_approval now cid vh contact p ctx dm decision d = Inr (r, d1)"
  shows "consumed_ids d1 = consumed_ids d \<and> db_conversations d1 = db_conversations d \<and>
    db_grievances d1 = db_grievances d"
  using assms
  by (auto simp: decide_login_approval_def bindE_Inr_iff consumed_ids_def Let_def split: if_splits)

lemma verify_frame:
  assumes "verify_code_from_whatsapp lib now w ct body d = Inr (r, d1)"
  shows "consumed_ids d1 = consumed_ids d \<and> db_conversations d1 = db_conversations d \<and>
    db_grievances d1 = db_grievances d"
  using assms
  by (auto simp: verify_code_from_whatsapp_def upsert_user_for_verified_phone_def
      mark_verification_verified_def new_id_def bindE_Inr_iff consumed_ids_def Let_def
      split: if_splits option.splits)

lemma lock_result:
  assumes "lock_contact_and_get_conversation now contact d = Inr (conv, d1)"
  shows "consumed_ids d1 = consumed_ids d \<and> db_grievances d1 = db_grievances d \<and>
    db_users d1 = db_users d \<and>
    (\<forall>v. conv = Some v \<longrightarrow> d1 = d \<and> v \<in> set (db_conversations d) \<and> cv_contact_id v = contact \<and>
       cv_active v \<and> (\<forall>t. cv_expires_at v = Some t \<longrightarrow> now \<le> t))"
proof -
  obtain found where f: "scalar_one_or_none
      (filter (\<lambda>v. cv_contact_id v = contact \<and> cv_active v) (db_conversations d)) = Inr found"
    using assms by (auto simp: lock_contact_and_get_conversation_def bindE_Inr_iff)
  show ?thesis
  proof (cases found)
    case None
    with f assms show ?thesis by (simp add: lock_contact_and_get_conversation_def)
  next
    case (Some v)
    with f have one: "filter (\<lambda>v. cv_contact_id v = contact \<and> cv_active v) (db_conversations d) = [v]"
      by (simp add: scalar_Some_iff)
    have "v \<in> set (filter (\<lambda>v. cv_contact_id v = contact \<and> cv_active v) (db_conversations d))"
      by (simp only: one) simp
    then have v: "v \<in> set (db_conversations d)" "cv_contact_id v = contact" "cv_active v" by simp_all
    show ?thesis
    proof (cases "cv_expires_at v")
      case None
      with f Some assms v show ?thesis by (auto simp: lock_contact_and_get_conversation_def)
    next
      case expiry: (Some t)
      show ?thesis
      proof (cases "t < now")
        case True
        with f Some expiry assms show ?thesis
          by (auto simp: lock_contact_and_get_conversation_def consumed_ids_def)
      next
        case False
        with f Some expiry assms v show ?thesis
          by (auto simp: lock_contact_and_get_conversation_def)
      qed
    qed
  qed
qed

lemma upsert_state_frame [simp]:
  "consumed_ids (snd (upsert_conversation_state now conv c st ctx l t w d)) = consumed_ids d"
  "db_grievances (snd (upsert_conversation_state now conv c st ctx l t w d)) = db_grievances d"
  by (auto simp: upsert_conversation_state_def new_id_def consumed_ids_def Let_def split: option.splits)

lemma set_fields_consumed:
  "set_grievance_fields now i f d = Inr (g, d1) \<Longrightarrow> consumed_ids d1 = consumed_ids d"
  by (auto simp: set_grievance_fields_def consumed_ids_def Let_def split: option.splits)

lemma act_frame:
  assumes "act_in_transaction now contact conv r d = Inr (ctx, d1)"
  shows "consumed_ids d1 = consumed_ids d \<and>
    (fr_action r \<notin> {Some Start_pipeline, Some Recheck_photo} \<longrightarrow> d1 = d \<and> ctx = fr_context r)"
proof (cases "fr_action r")
  case (Some a)
  show ?thesis
  proof (cases a)
    case Start_pipeline
    with assms Some obtain u where u: "get_user_by_contact_id contact d = Inr u"
      by (auto simp: act_in_transaction_def bindE_Inr_iff)
    obtain g f d2 where c: "create_draft_grievance now contact (Some conv) (map_option us_id u) Src_whatsapp
        (draft_of_context (fr_context r)) d = ((g, f), d2)"
      by (metis prod.collapse)
    have "d1 = update_conversation conv (\<lambda>v. v\<lparr>cv_context := context_with_draft (fr_context r) (gr_id g)\<rparr>) d2"
      using assms Some Start_pipeline by (auto simp: act_in_transaction_def u c Let_def)
    moreover have "consumed_ids d2 = consumed_ids d"
      using c by (auto simp: create_draft_grievance_def consumed_ids_def new_id_def Let_def split: option.splits)
    ultimately show ?thesis using Some Start_pipeline by simp
  next
    case Recheck_photo
    with assms Some show ?thesis
      by (auto simp: act_in_transaction_def bindE_Inr_iff set_fields_consumed split: option.splits)
  qed (use assms Some in \<open>simp_all add: act_in_transaction_def\<close>)
qed (use assms in \<open>simp add: act_in_transaction_def\<close>)

lemma store_intents_frame [simp]:
  "consumed_ids (snd (store_intents now c v mid its d)) = consumed_ids d"
  "db_grievances (snd (store_intents now c v mid its d)) = db_grievances d"
  by (induction its arbitrary: d) (simp_all add: case_prod_beta Let_def)

lemma run_dialog_cases:
  assumes "run_dialog s now m geo contact conv d = Inr (t, d1)"
  obtains r where
    "advance now (in_wa_id m) (map_option cv_state conv) (map_option cv_context conv) m geo = Inr r"
    and "consumed_ids d1 = consumed_ids d" and "tn_action t = fr_action r" and "tn_contact t = contact"
    and "fr_action r \<notin> {Some Start_pipeline, Some Recheck_photo} \<longrightarrow>
      tn_context t = Some (fr_context r) \<and> db_grievances d1 = db_grievances d"
proof -
  from assms obtain r where
    adv: "advance now (in_wa_id m) (map_option cv_state conv) (map_option cv_context conv) m geo = Inr r"
    by (auto simp: run_dialog_def bindE_Inr_iff)
  obtain v d2 where u: "upsert_conversation_state now conv contact (fr_state r) (fr_context r)
      (in_received_at m) (s_conversation_ttl_hours s) (s_service_window_hours s) d = (v, d2)" by fastforce
  from assms obtain ctx d3 where a: "act_in_transaction now contact (cv_id v) r d2 = Inr (ctx, d3)"
    by (auto simp: run_dialog_def adv u bindE_Inr_iff)
  from u have d2: "consumed_ids d2 = consumed_ids d" "db_grievances d2 = db_grievances d"
    using upsert_state_frame [of now conv contact "fr_state r" "fr_context r" "in_received_at m"
        "s_conversation_ttl_hours s" "s_service_window_hours s" d] by simp_all
  show thesis
    using that [OF adv] assms act_frame [OF a] d2
    by (auto simp: run_dialog_def adv u a case_prod_beta Let_def split: if_splits)
qed

lemma login_tap_intercepts:
  assumes "handle_login_tap lib now m c tap d = Inr (t, d1)"
  shows "\<exists>d2 k p b. t = fst (intercept now m c k p b d2) \<and> d1 = snd (intercept now m c k p b d2) \<and>
    consumed_ids d2 = consumed_ids d \<and> db_conversations d2 = db_conversations d \<and>
    db_grievances d2 = db_grievances d"
proof -
  obtain dec cid vh where tap: "tap = (dec, cid, vh)" by (cases tap) auto
  define decision where "decision = (if dec = ''login_yes'' then ''approved'' else ''denied'')"
  from assms obtain r d2 where
    dd: "decide_login_approval now cid (hash_code lib vh) c (in_wa_id m)
        (the (in_context_message_id m)) (in_meta_message_id m) decision d = Inr (r, d2)"
    by (auto simp: handle_login_tap_def tap bindE_Inr_iff Let_def decision_def [symmetric])
  from assms have "\<exists>k p b. intercept now m c k p b d2 = (t, d1)"
    unfolding handle_login_tap_def tap Let_def prod.case decision_def [symmetric] dd bindE_simps sum.inject
    by blast
  then obtain k p b where "(t, d1) = intercept now m c k p b d2" by metis
  with decide_frame [OF dd] show ?thesis by (metis fst_conv snd_conv)
qed

text \<open>The ways a committed transaction can have gone.\<close>

lemma inbound_cases:
  assumes "inbound_transaction s lib now m geo d = Inr (t, d1)"
  obtains (replayed) "consumed (in_meta_message_id m) d" "tn_pending t = []" "tn_action t = None"
      "d1 = snd (upsert_contact now (in_wa_id m) (in_profile_name m) d)"
  | (intercepted) "\<not> consumed (in_meta_message_id m) d" "consumed (in_meta_message_id m) d1"
      "tn_action t = None" "db_grievances d1 = db_grievances d"
  | (dialog) conv d2 d3 r where "\<not> consumed (in_meta_message_id m) d" "consumed (in_meta_message_id m) d1"
      "login_tap m = None" "\<not> is_verification_code (in_text_body m)"
      "db_conversations d2 = db_conversations d" "db_grievances d3 = db_grievances d"
      "lock_contact_and_get_conversation now (tn_contact t) d2 = Inr (conv, d3)"
      "advance now (in_wa_id m) (map_option cv_state conv) (map_option cv_context conv) m geo = Inr r"
      "tn_action t = fr_action r"
      "fr_action r \<notin> {Some Start_pipeline, Some Recheck_photo} \<longrightarrow>
         tn_context t = Some (fr_context r) \<and> db_grievances d1 = db_grievances d"
proof -
  obtain c d0 where up: "upsert_contact now (in_wa_id m) (in_profile_name m) d = (c, d0)" by fastforce
  have d0: "consumed_ids d0 = consumed_ids d" "db_conversations d0 = db_conversations d"
      "db_grievances d0 = db_grievances d"
    using upsert_contact_frame [of now "in_wa_id m" "in_profile_name m" d] up by simp_all
  show thesis
  proof (cases "consumed (in_meta_message_id m) d")
    case True
    with d0 have "claim_inbound (in_meta_message_id m) d0 = (False, d0)"
      by (simp add: claim_inbound_def consumed_iff)
    with assms True up show thesis
      by (intro replayed) (auto simp: inbound_transaction_def quiet_turn_def)
  next
    case False
    then have nc: "\<not> consumed (in_meta_message_id m) d0" using d0 by (simp add: consumed_iff)
    define d2 where "d2 = snd (claim_inbound (in_meta_message_id m) d0)"
    have cl: "claim_inbound (in_meta_message_id m) d0 = (True, d2)"
      using nc by (simp add: d2_def claim_inbound_def Let_def case_prod_beta)
    have d2: "consumed (in_meta_message_id m) d2" "db_conversations d2 = db_conversations d"
        "db_grievances d2 = db_grievances d"
      using inbound.key_present [where d = d0 and k = "in_meta_message_id m"] d0 by (simp_all add: d2_def)
    have tr: "(case login_tap m of
        Some tap \<Rightarrow> handle_login_tap lib now m (ct_id c) tap d2
      | None \<Rightarrow>
          if is_verification_code (in_text_body m) then
            bindE (verify_code_from_whatsapp lib now (in_wa_id m) (ct_id c) (the (in_text_body m)) d2)
              (\<lambda>(body, d3). Inr (intercept now m (ct_id c) ''verify_code'' ''verify'' body d3))
          else
            bindE (lock_contact_and_get_conversation now (ct_id c) d2) (\<lambda>(conv, d3).
              if conv = None \<and> is_status_query (in_text_body m) then
                Inr (intercept now m (ct_id c) ''status_query'' ''status''
                       (render_status_reply (ct_id c) d3) d3)
              else run_dialog s now m geo (ct_id c) conv d3)) = Inr (t, d1)"
      using assms by (simp add: inbound_transaction_def up cl)
    show thesis
    proof (cases "login_tap m")
      case (Some tap)
      with tr have "handle_login_tap lib now m (ct_id c) tap d2 = Inr (t, d1)" by simp
      from login_tap_intercepts [OF this] False d2 show thesis
        by (intro intercepted) (auto simp: consumed_iff)
    next
      case None
      show thesis
      proof (cases "is_verification_code (in_text_body m)")
        case True
        with None tr obtain b d3 where
            v: "verify_code_from_whatsapp lib now (in_wa_id m) (ct_id c) (the (in_text_body m)) d2 = Inr (b, d3)"
          and i: "(t, d1) = intercept now m (ct_id c) ''verify_code'' ''verify'' b d3"
          by (auto simp: bindE_Inr_iff)
        from i have "t = fst (intercept now m (ct_id c) ''verify_code'' ''verify'' b d3)"
            "d1 = snd (intercept now m (ct_id c) ''verify_code'' ''verify'' b d3)"
          by (metis fst_conv snd_conv)+
        with verify_frame [OF v] False d2 show thesis
          by (intro intercepted) (simp_all add: consumed_iff)
      next
        case no_code: False
        with None tr obtain conv d3 where
            l: "lock_contact_and_get_conversation now (ct_id c) d2 = Inr (conv, d3)"
          and rest: "(if conv = None \<and> is_status_query (in_text_body m)
             then Inr (intercept now m (ct_id c) ''status_query'' ''status'' (render_status_reply (ct_id c) d3) d3)
             else run_dialog s now m geo (ct_id c) conv d3) = Inr (t, d1)"
          by (auto simp: bindE_Inr_iff)
        note lk = lock_result [OF l]
        show thesis
        proof (cases "conv = None \<and> is_status_query (in_text_body m)")
          case True
          with rest have i: "(t, d1) = intercept now m (ct_id c) ''status_query'' ''status''
              (render_status_reply (ct_id c) d3) d3" by simp
          then have "t = fst (intercept now m (ct_id c) ''status_query'' ''status''
              (render_status_reply (ct_id c) d3) d3)"
            "d1 = snd (intercept now m (ct_id c) ''status_query'' ''status''
              (render_status_reply (ct_id c) d3) d3)" by (metis fst_conv snd_conv)+
          with lk False d2 show thesis by (intro intercepted) (simp_all add: consumed_iff)
        next
          case not_status: False
          with rest have "run_dialog s now m geo (ct_id c) conv d3 = Inr (t, d1)" by auto
          then show thesis
          proof (cases rule: run_dialog_cases)
            case (1 r)
            with lk False d2 None no_code l show thesis
              by (intro dialog [of d2 d3 conv r]) (simp_all add: consumed_iff)
          qed
        qed
      qed
    qed
  qed
qed


text \<open>C8. A complaint is filed from WhatsApp only by its own confirmation: a transaction asks for
  finalising only when the sender's active, unexpired conversation awaits confirmation and the
  message is the tap on the Confirm button of the draft in its context; the draft handed to the
  pipeline is that one, and the transaction itself does not touch any complaint.\<close>

theorem filing_needs_bound_tap:
  assumes "inbound_transaction s lib now m geo d = Inr (t, d1)" and "tn_action t = Some Finalize"
  shows "\<exists>v \<in> set (db_conversations d). cv_contact_id v = tn_contact t \<and> cv_active v \<and>
    cv_state v = Awaiting_confirmation \<and> (\<forall>e. cv_expires_at v = Some e \<longrightarrow> now \<le> e) \<and>
    Option.bind (tn_context t) (\<lambda>c. Some (context_draft_id c)) =
      Some (Inr (Option.bind (cx_draft (cv_context v)) dc_grievance_id)) \<and>
    (\<forall>i. Option.bind (cx_draft (cv_context v)) dc_grievance_id = Some i \<longrightarrow>
       in_reply_id m = Some (button_id CONFIRM_GRV_YES_ID (Some i))) \<and>
    db_grievances d1 = db_grievances d"
  using assms(1)
proof (cases rule: inbound_cases)
  case (dialog conv d2 d3 r)
  with assms(2) have act: "fr_action r = Some Finalize" by simp
  with advance_action_state [OF dialog(8)] have st: "map_option cv_state conv = Some Awaiting_confirmation"
    by blast
  then obtain v where v: "conv = Some v" "cv_state v = Awaiting_confirmation" by auto
  have lk: "v \<in> set (db_conversations d)" "cv_contact_id v = tn_contact t" "cv_active v"
      "\<forall>e. cv_expires_at v = Some e \<longrightarrow> now \<le> e"
    using lock_result [OF dialog(7)] v(1) dialog(5) by auto
  obtain base token where p: "parse_confirm_reply (in_reply_id m) = (base, token)" by fastforce
  have r: "r = advance_awaiting_confirmation (prepare_context (Some (cv_context v))) m"
    using dialog(8) v by (simp add: advance_def)
  have tok: "token = Option.bind (cx_draft (cv_context v)) dc_grievance_id" "base = Some CONFIRM_GRV_YES_ID"
      "fr_context r = prepare_context (Some (cv_context v))"
    using act unfolding r
    by (auto simp: advance_awaiting_confirmation_def p the_draft_prepare Let_def split: if_splits)
  have draft: "context_draft_id (fr_context r) = Inr (Option.bind (cx_draft (cv_context v)) dc_grievance_id)"
    unfolding tok(3)
    by (auto simp: context_draft_id_def prepare_context_def default_draft_def Let_def split: option.splits)
  have tap: "in_reply_id m = Some (button_id CONFIRM_GRV_YES_ID (Some i))"
    if "Option.bind (cx_draft (cv_context v)) dc_grievance_id = Some i" for i
    using p tok that parse_confirm_reply_iff [of "in_reply_id m" CONFIRM_GRV_YES_ID i] by simp
  show ?thesis
    using dialog(10) act lk v(2) draft tap by (intro bexI [of _ v]) auto
qed (use assms(2) in simp_all)

section \<open>A retried event\<close>

text \<open>Two readings of the clock parse a payload to messages with the same identifiers.\<close>

definition same_ids :: "incoming \<Rightarrow> incoming \<Rightarrow> bool" where
  "same_ids m m' \<longleftrightarrow> in_meta_message_id m = in_meta_message_id m'"

lemma rel_bindE:
  "rel_sum (=) R x y \<Longrightarrow> (\<And>a b. R a b \<Longrightarrow> rel_sum (=) S (k a) (k' b)) \<Longrightarrow>
   rel_sum (=) S (bindE x k) (bindE y k')"
  by (cases x; cases y) auto

lemma rel_bindE_same:
  "(\<And>a. rel_sum (=) S (k a) (k' a)) \<Longrightarrow> rel_sum (=) S (bindE x k) (bindE x k')"
  by (cases x) auto

lemma rel_mapE:
  "(\<And>x. rel_sum (=) R (f x) (g x)) \<Longrightarrow> rel_sum (=) (list_all2 R) (mapE f xs) (mapE g xs)"
  by (induction xs) (auto intro!: rel_bindE)

lemma parse_message_same_ids:
  "rel_sum (=) (rel_option same_ids) (parse_message t names j) (parse_message t' names j)"
proof (cases j)
  case (JObj message)
  have content: "rel_sum (=) same_ids (parse_content t names message w i ty) (parse_content t' names message w i ty)"
    for w i ty
    unfolding parse_content_def
    by (intro rel_bindE_same) (auto simp: same_ids_def split: prod.splits intro!: rel_bindE_same)
  show ?thesis
    unfolding JObj parse_message_def json.case
    by (intro rel_bindE_same)
      (auto split: option.splits intro!: rel_bindE_same rel_bindE [OF content])
qed (auto simp: parse_message_def)

lemma map_filter_same_ids:
  "list_all2 (rel_option same_ids) xs ys \<Longrightarrow>
   list_all2 same_ids (List.map_filter id xs) (List.map_filter id ys)"
  by (induction rule: list_all2_induct) (auto simp: List.map_filter_def option.rel_sel)

lemma concat_same_ids:
  "list_all2 (list_all2 same_ids) xs ys \<Longrightarrow> list_all2 same_ids (concat xs) (concat ys)"
  by (induction rule: list_all2_induct) (auto intro: list_all2_appendI)

lemma iter_same_ids:
  "rel_sum (=) (list_all2 same_ids) (iter_incoming_messages t p) (iter_incoming_messages t' p)"
proof -
  have change: "rel_sum (=) (list_all2 same_ids) (parse_change t c) (parse_change t' c)" for c
    unfolding parse_change_def
    by (intro rel_bindE_same rel_bindE [OF rel_mapE [OF parse_message_same_ids]])
      (simp add: map_filter_same_ids)
  have entry: "rel_sum (=) (list_all2 same_ids) (parse_entry t e) (parse_entry t' e)" for e
    unfolding parse_entry_def
    by (intro rel_bindE_same rel_bindE [OF rel_mapE [OF change]]) (simp add: concat_same_ids)
  show ?thesis
    unfolding iter_incoming_messages_def
    by (intro rel_bindE_same rel_bindE [OF rel_mapE [OF entry]]) (simp add: concat_same_ids)
qed

lemma same_ids_member:
  "list_all2 same_ids ms0 ms \<Longrightarrow> m \<in> set ms \<Longrightarrow>
   \<exists>m0 \<in> set ms0. in_meta_message_id m0 = in_meta_message_id m"
  by (induction rule: list_all2_induct) (auto simp: same_ids_def)

lemma store_incoming_frame [simp]:
  "db_consumptions (snd (store_incoming_messages now ms d)) = db_consumptions d"
  "db_conversations (snd (store_incoming_messages now ms d)) = db_conversations d"
  "db_grievances (snd (store_incoming_messages now ms d)) = db_grievances d"
  "db_events (snd (store_incoming_messages now ms d)) = db_events d"
proof -
  have one: "db_consumptions (snd (store_incoming now m d)) = db_consumptions d \<and>
      db_conversations (snd (store_incoming now m d)) = db_conversations d \<and>
      db_grievances (snd (store_incoming now m d)) = db_grievances d \<and>
      db_events (snd (store_incoming now m d)) = db_events d" for m d
    by (auto simp: store_incoming_def upsert_contact_def new_id_def Let_def split: option.splits)
  have "db_consumptions (snd (store_incoming_messages now ms d)) = db_consumptions d \<and>
      db_conversations (snd (store_incoming_messages now ms d)) = db_conversations d \<and>
      db_grievances (snd (store_incoming_messages now ms d)) = db_grievances d \<and>
      db_events (snd (store_incoming_messages now ms d)) = db_events d"
    by (induction ms arbitrary: d) (simp_all add: case_prod_beta Let_def one)
  then show "db_consumptions (snd (store_incoming_messages now ms d)) = db_consumptions d"
    and "db_conversations (snd (store_incoming_messages now ms d)) = db_conversations d"
    and "db_grievances (snd (store_incoming_messages now ms d)) = db_grievances d"
    and "db_events (snd (store_incoming_messages now ms d)) = db_events d" by simp_all
qed

lemma claim_event_frame [simp]:
  "db_consumptions (snd (claim_event now i n d)) = db_consumptions d"
  "db_conversations (snd (claim_event now i n d)) = db_conversations d"
  "db_grievances (snd (claim_event now i n d)) = db_grievances d"
  by (simp_all add: claim_event_def Let_def)

lemma fresh_none: "fresh_messages ms (replicate (length ms) False) = []"
proof -
  have "filter snd (zip ms (replicate (length ms) False)) = []"
    by (auto simp: filter_empty_conv set_zip)
  then show ?thesis by (simp add: fresh_messages_def)
qed

lemma claim_event_iff:
  assumes "event_ids d"
  shows "fst (claim_event now i n d) = Some (p, k) \<longleftrightarrow>
    (\<exists>e. tget we_id i (db_events d) = Some e \<and> drivable now e \<and> p = we_payload e \<and>
         k = we_attempt_count e + 1)"
proof -
  have f: "find (\<lambda>e. we_id e = i \<and> drivable now e) (db_events d) = Some r \<longleftrightarrow>
      tget we_id i (db_events d) = Some r \<and> drivable now r" for r
    by (rule find_key_Some) (use assms in \<open>simp add: event_ids_def\<close>)
  show ?thesis by (auto simp: claim_event_def Let_def f)
qed

text \<open>An event whose messages are all stored runs no turn and is marked processed.\<close>

lemma drive_stored:
  assumes claim: "claim_event (te_now (env 0)) i EVENT_LEASE_SECONDS d = (Some (payload, k), d4)"
    and few: "k \<le> MAX_EVENT_ATTEMPTS" and parsed: "iter_incoming_messages (te_now (env 0)) payload = Inr ms"
    and stored: "\<And>m. m \<in> set ms \<Longrightarrow> meta_id_stored (in_meta_message_id m) d4"
  shows "drive_event s lib env i d = (Inr (), mark_event_processed (te_now (env 0)) i
    (snd (store_incoming_messages (te_now (env 0)) ms d4)))"
proof -
  have "fst (store_incoming_messages (te_now (env 0)) ms d4) = replicate (length ms) False"
    using stored by (rule store_incoming_messages_replay)
  then obtain d5 where "store_incoming_messages (te_now (env 0)) ms d4 = (replicate (length ms) False, d5)"
    by (metis prod.collapse)
  with few show ?thesis
    by (simp add: drive_event_def claim parsed drive_messages_def fresh_none)
qed

text \<open>C38. A crash, or a failed turn, after the messages of an event have been stored loses their
  turns: when a first driver has claimed the event and stored its messages, the next claim after
  the lease, although the event is still unprocessed, finds every message stored, runs no turn,
  and marks the event processed; no message of it is ever consumed by the dialog.\<close>

theorem retry_skips_the_dialog:
  assumes ids: "event_ids d"
    and claimed: "claim_event t0 i EVENT_LEASE_SECONDS d = (Some (payload, k), d1)"
    and parsed: "iter_incoming_messages t0 payload = Inr ms0"
    and later: "t0 + seconds (int EVENT_LEASE_SECONDS) < te_now (env 0)" and attempts: "k < MAX_EVENT_ATTEMPTS"
  shows "\<exists>d2 e. drive_event s lib env i (snd (store_incoming_messages t0 ms0 d1)) = (Inr (), d2) \<and>
    db_consumptions d2 = db_consumptions d \<and> db_conversations d2 = db_conversations d \<and>
    db_grievances d2 = db_grievances d \<and>
    tget we_id i (db_events d2) = Some e \<and> we_processed_at e = Some (te_now (env 0))"
proof -
  define now where "now = te_now (env 0)"
  define d3 where "d3 = snd (store_incoming_messages t0 ms0 d1)"
  from claimed claim_event_iff [OF ids, of t0 i EVENT_LEASE_SECONDS payload k] obtain e where
    e: "tget we_id i (db_events d) = Some e" "drivable t0 e" "payload = we_payload e" "k = we_attempt_count e + 1"
    by auto
  have d1: "d1 = snd (claim_event t0 i EVENT_LEASE_SECONDS d)" by (simp add: claimed)
  define e1 where "e1 = e\<lparr>we_locked_until := Some (t0 + seconds (int EVENT_LEASE_SECONDS)),
       we_attempt_count := we_attempt_count e + 1\<rparr>"
  have e1: "tget we_id i (db_events d3) = Some e1"
    using e by (simp add: d3_def d1 claim_event_tget e1_def)
  have ids3: "event_ids d3"
    using ids by (simp add: d3_def d1 event_ids_def claim_event_def Let_def)
  have dr: "drivable now e1"
    using e later by (simp add: drivable_def e1_def now_def)
  obtain d4 where c: "claim_event now i EVENT_LEASE_SECONDS d3 = (Some (payload, k + 1), d4)"
    using claim_event_iff [OF ids3, of now i EVENT_LEASE_SECONDS payload "k + 1"] e1 dr e
    by (metis (no_types, lifting) e1_def add.commute prod.collapse webhook_event.ext_inject
        webhook_event.surjective webhook_event.update_convs(6,7))
  have d4: "d4 = snd (claim_event now i EVENT_LEASE_SECONDS d3)" by (simp add: c)
  from iter_same_ids [of t0 payload now] parsed obtain ms where
    ms: "iter_incoming_messages now payload = Inr ms" "list_all2 same_ids ms0 ms"
    by (cases "iter_incoming_messages now payload") auto
  have "meta_id_stored (in_meta_message_id m) d4" if "m \<in> set ms" for m
  proof -
    from that ms(2) obtain m0 where "m0 \<in> set ms0" "in_meta_message_id m0 = in_meta_message_id m"
      using same_ids_member by blast
    then have "meta_id_stored (in_meta_message_id m) d3"
      unfolding d3_def using store_incoming_messages_stores by metis
    then show ?thesis by (simp add: d4 claim_event_def meta_id_stored_def Let_def)
  qed
  note stored = this
  define d5 where "d5 = snd (store_incoming_messages now ms d4)"
  have "drive_event s lib env i d3 = (Inr (), mark_event_processed now i d5)"
    using drive_stored [where env = env, OF c [unfolded now_def] _ ms(1) [unfolded now_def] stored] attempts
    by (simp add: now_def d5_def)
  moreover have "tget we_id i (db_events d5) \<noteq> None"
    by (simp add: d5_def d4 claim_event_tget e1)
  then obtain e5 where "tget we_id i (db_events d5) = Some e5" by auto
  then have "tget we_id i (db_events (mark_event_processed now i d5)) =
      Some (e5\<lparr>we_processed_at := Some now, we_locked_until := None\<rparr>)"
    using tget_SomeD [of we_id i "db_events d5" e5] by (simp add: mark_event_processed_def tget_tupd)
  moreover have "db_consumptions (mark_event_processed now i d5) = db_consumptions d \<and>
      db_conversations (mark_event_processed now i d5) = db_conversations d \<and>
      db_grievances (mark_event_processed now i d5) = db_grievances d"
    by (simp add: mark_event_processed_def d5_def d4 d3_def d1)
  ultimately show ?thesis by (simp add: d3_def [symmetric] now_def [symmetric])
qed

text \<open>The key of a follow-up names the conversation, the outcome and the complaint, so a second
  mismatch of the same complaint stores no prompt.\<close>

lemma repeated_mismatch_prompt_not_stored:
  assumes "lock_contact_and_get_conversation (te_now te) contact d = Inr (Some v, d)"
    and "pr_status r = Gs_photo_mismatch" and "key_stored (pipeline_key (cv_id v) r i) d"
  shows "\<exists>d1. send_pipeline_followup_message s te contact w i r d = (Inr (), d1) \<and>
    db_messages d1 = db_messages d"
proof -
  have "key_stored k (update_conversation c f d) = key_stored k d" for k c f
    by (simp add: key_stored_def update_conversation_def)
  with assms show ?thesis
    by (simp add: send_pipeline_followup_message_def store_pipeline_followup_def pipeline_intent_def
        store_outgoing_pending_def seqE_def commitE_def list_of_def) (simp add: update_conversation_def)
qed

section \<open>Witnesses\<close>

definition sample_te :: "nat \<Rightarrow> turn_env" where
  "sample_te n = \<lparr>te_world = sample_world, te_now = 70000000, te_hex = ''0a1b2c3d''\<rparr>"

definition sample_conversation :: conversation where
  "sample_conversation =
     \<lparr>cv_id = ''v1'', cv_contact_id = ''c1'', cv_state = Awaiting_confirmation,
      cv_context = default_context\<lparr>cx_draft := Some \<lparr>dc_grievance_id = Some ''g1'', dc_recheck_count = Some 0\<rparr>\<rparr>,
      cv_state_version = 3, cv_active = True, cv_last_user_message_at = Some 0,
      cv_service_window_expires_at = None, cv_expires_at = Some 9\<rparr>"

definition sample_inbound_db :: db where
  "sample_inbound_db = empty_db
     \<lparr>db_contacts := [\<lparr>ct_id = ''c1'', ct_wa_id = in_wa_id (sample_in [] [] None None),
        ct_profile_name = None, ct_created_at = 0, ct_updated_at = 0\<rparr>],
      db_conversations := [sample_conversation]\<rparr>"

definition sample_tap :: incoming where
  "sample_tap = sample_in ''w9'' ''interactive'' None (Some (button_id CONFIRM_GRV_YES_ID (Some ''g1'')))"

lemma sample_tap_turn:
  "\<exists>t d1. inbound_transaction sample_settings sample_lib 5 sample_tap None sample_inbound_db = Inr (t, d1) \<and>
     tn_action t = Some Finalize"
proof -
  have p: "parse_confirm_reply (in_reply_id sample_tap) = (Some CONFIRM_GRV_YES_ID, Some ''g1'')"
    unfolding sample_tap_def sample_in_def by (simp add: parse_button_id ids_no_colon)
  have "advance 5 (in_wa_id sample_tap) (Some Awaiting_confirmation) (Some (cv_context sample_conversation))
      sample_tap None =
      Inr (fsm_act Done (prepare_context (Some (cv_context sample_conversation))) [] Finalize True)"
    by (simp add: advance_def advance_awaiting_confirmation_def the_draft_prepare p Let_def)
      (simp add: sample_conversation_def)
  moreover have "login_tap sample_tap = None" "is_verification_code (in_text_body sample_tap) = False"
    by (simp_all add: login_tap_def sample_tap_def sample_in_def truthy_def is_verification_code_def)
  ultimately show ?thesis
    by (simp add: inbound_transaction_def sample_inbound_db_def empty_db_def upsert_contact_def tget_Cons
        claim_inbound_def consumed_def new_id_def lock_contact_and_get_conversation_def run_dialog_def
        upsert_conversation_state_def act_in_transaction_def sample_tap_def sample_in_def case_prod_beta Let_def)
      (simp add: sample_conversation_def run_dialog_def upsert_conversation_state_def act_in_transaction_def
        case_prod_beta Let_def)
qed

lemma inbound_replay:
  assumes "consumed (in_meta_message_id m) d"
  shows "\<exists>t d1. inbound_transaction s lib now m geo d = Inr (t, d1)"
proof -
  obtain c d0 where up: "upsert_contact now (in_wa_id m) (in_profile_name m) d = (c, d0)" by fastforce
  then have "consumed (in_meta_message_id m) d0"
    using assms upsert_contact_frame(1) [of now "in_wa_id m" "in_profile_name m" d]
    by (simp add: consumed_iff)
  then show ?thesis by (simp add: inbound_transaction_def up claim_inbound_def)
qed


theorem filing_needs_bound_tap_witness:
  "in_reply_id sample_tap = Some (button_id CONFIRM_GRV_YES_ID (Some ''g1'')) \<and>
   (\<exists>t d1. inbound_transaction sample_settings sample_lib 5 sample_tap None sample_inbound_db = Inr (t, d1) \<and>
      db_grievances d1 = [])"
proof -
  obtain t d1 where one: "inbound_transaction sample_settings sample_lib 5 sample_tap None sample_inbound_db = Inr (t, d1)"
      "tn_action t = Some Finalize"
    using sample_tap_turn by blast
  have "db_conversations sample_inbound_db = [sample_conversation]" "db_grievances sample_inbound_db = []"
    by (simp_all add: sample_inbound_db_def empty_db_def)
  with filing_needs_bound_tap [OF one] one show ?thesis
    by (auto simp: sample_conversation_def)
qed

definition sample_hook :: jobject where
  "sample_hook = [(''entry'', JArr [JObj [(''changes'', JArr [JObj [(''value'', JObj [
     (''messages'', JArr [JObj [(''from'', JStr ''919812345678''), (''id'', JStr ''w7''),
        (''type'', JStr ''text''), (''text'', JObj [(''body'', JStr ''hello'')])]])])]])]])]"

definition sample_event_db :: db where
  "sample_event_db = empty_db\<lparr>db_events := [\<lparr>we_id = ''e1'', we_signature_valid = True,
     we_payload = sample_hook, we_created_at = 0, we_processed_at = None, we_attempt_count = 0,
     we_locked_until = None\<rparr>]\<rparr>"

lemma sample_hook_parsed:
  "\<exists>m. iter_incoming_messages 5 sample_hook = Inr [m] \<and> in_meta_message_id m = ''w7''"
  by (simp add: sample_hook_def iter_incoming_messages_def parse_entry_def parse_change_def
      parse_message_def parse_content_def extract_message_content_def extract_location_def
      extract_reply_def jattr_def jiter_def jfield_def jdict_def jget_def jtext_def truthy_def
      List.map_filter_def MEDIA_MESSAGE_TYPES_def)

theorem retry_skips_the_dialog_witness:
  "\<exists>d2 e m d1. meta_id_stored ''w7'' d1 \<and>
     d1 = snd (store_incoming_messages 5 [m] (snd (claim_event 5 ''e1'' EVENT_LEASE_SECONDS sample_event_db))) \<and>
     drive_event sample_settings sample_lib sample_te ''e1'' d1 = (Inr (), d2) \<and>
     db_consumptions d2 = [] \<and> tget we_id ''e1'' (db_events d2) = Some e \<and>
     we_processed_at e = Some 70000000"
proof -
  obtain m where m: "iter_incoming_messages 5 sample_hook = Inr [m]" "in_meta_message_id m = ''w7''"
    using sample_hook_parsed by blast
  have ids: "event_ids sample_event_db" by (simp add: event_ids_def sample_event_db_def)
  obtain d1 where c: "claim_event 5 ''e1'' EVENT_LEASE_SECONDS sample_event_db = (Some (sample_hook, 1), d1)"
    by (simp add: claim_event_def sample_event_db_def drivable_def Let_def)
  have later: "5 + seconds (int EVENT_LEASE_SECONDS) < te_now (sample_te 0)"
    by (simp add: sample_te_def EVENT_LEASE_SECONDS_def time_defs)
  have few: "1 < MAX_EVENT_ATTEMPTS" by (simp add: MAX_EVENT_ATTEMPTS_def)
  have none: "db_consumptions sample_event_db = []" by (simp add: sample_event_db_def empty_db_def)
  have now: "te_now (sample_te 0) = 70000000" by (simp add: sample_te_def)
  have stored: "meta_id_stored ''w7'' (snd (store_incoming_messages 5 [m] d1))"
    using store_incoming_messages_stores [of m "[m]" 5 d1] m(2) by simp
  from retry_skips_the_dialog [where env = sample_te and s = sample_settings and lib = sample_lib,
      OF ids c m(1) later few] obtain d2 e where
    "drive_event sample_settings sample_lib sample_te ''e1'' (snd (store_incoming_messages 5 [m] d1)) = (Inr (), d2)"
    "db_consumptions d2 = []" "tget we_id ''e1'' (db_events d2) = Some e" "we_processed_at e = Some 70000000"
    unfolding none now by blast
  with stored show ?thesis
    by (intro exI [of _ d2] exI [of _ e] exI [of _ m]
        exI [of _ "snd (store_incoming_messages 5 [m] d1)"]) (simp add: c)
qed

end
