(* ===== verification/Officials.thy ===== *)
theory Officials
  imports Processing
begin

text \<open>
  \<^verbatim>\<open>officials.py\<close> and \<^verbatim>\<open>repositories/officials.py\<close>: sign-in of officials by an
  e-mailed code, the queue scoped to a jurisdiction and to departments, the actions on a
  complaint, and the audit trail. A handler returns its response or exception with the
  database it leaves; \<open>now\<close> is its clock reading and \<open>rid\<close> the identifier of the request.
\<close>

section \<open>Repository\<close>

definition get_official_by_email :: "string \<Rightarrow> db \<Rightarrow> exn + official option" where
  "get_official_by_email email d =
     scalar_one_or_none
       (filter (\<lambda>o1. py_lower (of_email o1) = py_lower (py_strip email) \<and> of_active o1) (db_officials d))"

definition get_official :: "uuid \<Rightarrow> db \<Rightarrow> official option" where
  "get_official official_id d = tget of_id official_id (db_officials d)"

definition create_official_challenge ::
    "time \<Rightarrow> uuid option \<Rightarrow> string \<Rightarrow> string \<Rightarrow> nat \<Rightarrow> db \<Rightarrow> official_challenge \<times> db" where
  "create_official_challenge now official_user_id email_hash code_hash expires_minutes d =
     (let (i, d1) = new_id d;
          c = \<lparr>oc_id = i, oc_official_user_id = official_user_id, oc_email_hash = email_hash,
               oc_code_hash = code_hash, oc_expires_at = now + minutes (int expires_minutes),
               oc_consumed_at = None, oc_attempt_count = 0, oc_created_at = now\<rparr>
      in (c, d1\<lparr>db_official_challenges := db_official_challenges d1 @ [c]\<rparr>))"

definition get_official_challenge :: "uuid \<Rightarrow> db \<Rightarrow> official_challenge option" where
  "get_official_challenge challenge_id d = tget oc_id challenge_id (db_official_challenges d)"

definition review_text :: "review_status \<Rightarrow> string" where
  "review_text r =
     (case r of
        Rv_pending_official \<Rightarrow> ''pending_official'' | Rv_citizen_review \<Rightarrow> ''citizen_review''
      | Rv_approved \<Rightarrow> ''approved'' | Rv_redirected \<Rightarrow> ''redirected''
      | Rv_rejected \<Rightarrow> ''rejected'' | Rv_awaiting_citizen \<Rightarrow> ''awaiting_citizen'')"

definition in_scope :: "official \<Rightarrow> string option \<Rightarrow> grievance \<Rightarrow> bool" where
  "in_scope o1 review g =
     (gr_jurisdiction_id g = Some (of_jurisdiction_id o1) \<and>
      (of_role o1 = Ro_department_officer \<longrightarrow>
         (\<exists>k \<in> set (of_department_keys o1). gr_department_key g = Some k)) \<and>
      (truthy review \<longrightarrow> map_option review_text (gr_review_status g) = review))"

definition list_scoped_grievances ::
    "official \<Rightarrow> string option \<Rightarrow> nat \<Rightarrow> nat \<Rightarrow> db \<Rightarrow> grievance list" where
  "list_scoped_grievances o1 review limit offset d =
     take limit (drop offset (order_by gr_created_at (filter (in_scope o1 review) (db_grievances d))))"

definition official_can_access :: "official \<Rightarrow> grievance \<Rightarrow> bool" where
  "official_can_access o1 g =
     (if gr_jurisdiction_id g \<noteq> Some (of_jurisdiction_id o1) then False
      else of_role o1 \<noteq> Ro_department_officer \<or>
           (\<exists>k \<in> set (of_department_keys o1). gr_department_key g = Some k))"

definition add_official_audit ::
    "time \<Rightarrow> uuid \<Rightarrow> uuid option \<Rightarrow> audit_action \<Rightarrow> string option \<Rightarrow> json option \<Rightarrow> json option \<Rightarrow>
     string option \<Rightarrow> db \<Rightarrow> db" where
  "add_official_audit now official_user_id grievance_id act reason before after rid d =
     (let (i, d1) = new_id d in
      d1\<lparr>db_audit := db_audit d1 @
        [\<lparr>oa_id = i, oa_official_user_id = official_user_id, oa_grievance_id = grievance_id,
          oa_action = act, oa_reason = reason, oa_before = before, oa_after = after,
          oa_request_id = rid, oa_created_at = now\<rparr>]\<rparr>)"

section \<open>Sign-in\<close>

definition OFFICIAL_TOKEN_AUDIENCE :: string where "OFFICIAL_TOKEN_AUDIENCE = ''jan-setu-official''"

definition role_text :: "official_role \<Rightarrow> string" where
  "role_text r =
     (case r of
        Ro_triage_officer \<Rightarrow> ''triage_officer'' | Ro_department_officer \<Rightarrow> ''department_officer''
      | Ro_supervisor \<Rightarrow> ''supervisor'' | Ro_auditor \<Rightarrow> ''auditor'' | Ro_admin \<Rightarrow> ''admin''
      | Ro_other t \<Rightarrow> t)"

definition OFFICIAL_ROLES :: "string list" where
  "OFFICIAL_ROLES = [''triage_officer'', ''department_officer'', ''supervisor'', ''auditor'', ''admin'']"

definition hash_official :: "auth_lib \<Rightarrow> string \<Rightarrow> string" where
  "hash_official lib v = al_sha256 lib (py_lower (py_strip v))"

definition recent_official_challenge_count :: "string \<Rightarrow> time \<Rightarrow> db \<Rightarrow> nat" where
  "recent_official_challenge_count email_hash now d =
     length (filter (\<lambda>c. oc_email_hash c = email_hash \<and> oc_created_at c \<ge> now - hours 1)
       (db_official_challenges d))"

definition official_token :: "settings \<Rightarrow> auth_lib \<Rightarrow> time \<Rightarrow> official \<Rightarrow> string" where
  "official_token s lib now o1 =
     al_jwt_encode lib (s_jwt_secret s)
       [(''sub'', JStr (of_id o1)), (''aud'', JStr OFFICIAL_TOKEN_AUDIENCE),
        (''role'', JStr (role_text (of_role o1))), (''jurisdiction'', JStr (of_jurisdiction_id o1)),
        (''iat'', JInt (epoch now)),
        (''exp'', JInt (epoch now + int (s_access_token_minutes s) * 60))]"

definition require_official ::
    "settings \<Rightarrow> auth_lib \<Rightarrow> time \<Rightarrow> string option \<Rightarrow> db \<Rightarrow> exn + official" where
  "require_official s lib now header d =
     (let authorization = (case header of None \<Rightarrow> [] | Some h \<Rightarrow> h) in
      if \<not> startswith authorization ''Bearer '' then Inl (HTTPException 401)
      else
        case al_jwt_decode lib now (s_jwt_secret s) (Some OFFICIAL_TOKEN_AUDIENCE)
               (py_strip (removeprefix authorization ''Bearer '')) of
          Inl PyJWTError \<Rightarrow> Inl (HTTPException 401)
        | Inl e \<Rightarrow> Inl e
        | Inr payload \<Rightarrow>
            (case map_of payload ''sub'' of
               None \<Rightarrow> Inl KeyError
             | Some (JStr i) \<Rightarrow>
                 (case get_official i d of
                    None \<Rightarrow> Inl (HTTPException 401)
                  | Some o1 \<Rightarrow>
                      if \<not> of_active o1 \<or> role_text (of_role o1) \<notin> set OFFICIAL_ROLES
                      then Inl (HTTPException 401) else Inr o1)
             | Some _ \<Rightarrow> Inl TypeError))"

text \<open>The mail goes out after the response; a failed delivery is only logged.\<close>

definition send_official_code_email :: "world \<Rightarrow> string \<Rightarrow> string \<Rightarrow> exn + unit" where
  "send_official_code_email w to_email code =
     (case w_smtp w to_email ''Your Jan Setu official sign-in code''
        (''Your one-time Jan Setu code is '' @ code @ ''. It expires in 10 minutes.'') of
        Inl e \<Rightarrow> if e = OSError then Inr () else Inl e
      | Inr u \<Rightarrow> Inr ())"

text \<open>\<open>n\<close> is the draw of \<^verbatim>\<open>secrets.randbelow\<close>. The result is the identifier of the
  challenge and the mail to send, if the account exists.\<close>

definition request_official_code ::
    "settings \<Rightarrow> auth_lib \<Rightarrow> time \<Rightarrow> nat \<Rightarrow> string \<Rightarrow> db
     \<Rightarrow> (exn + (uuid \<times> (string \<times> string) option)) \<times> db" where
  "request_official_code s lib now n body_email d =
     (let email = py_lower (py_strip body_email); email_hash = hash_official lib email in
      if recent_official_challenge_count email_hash now d \<ge> s_official_code_max_per_hour s
      then (Inl (HTTPException 429), d)
      else
        case get_official_by_email email d of
          Inl e \<Rightarrow> (Inl e, d)
        | Inr found \<Rightarrow>
            let code = zpad 6 (show_nat (n mod 1000000));
                (c, d1) = create_official_challenge now (map_option of_id found) email_hash
                            (hash_official lib code) 10 d
            in (Inr (oc_id c, map_option (\<lambda>o1. (of_email o1, code)) found), d1))"

text \<open>\<^verbatim>\<open>secrets.compare_digest\<close> of two texts raises unless both are ASCII.\<close>

definition ascii :: "string \<Rightarrow> bool" where
  "ascii t = list_all (\<lambda>c. (of_char c :: nat) < 128) t"

definition compare_digest :: "string \<Rightarrow> string \<Rightarrow> exn + bool" where
  "compare_digest a b = (if ascii a \<and> ascii b then Inr (a = b) else Inl TypeError)"

definition code_accepted :: "settings \<Rightarrow> auth_lib \<Rightarrow> official_challenge \<Rightarrow> string \<Rightarrow> exn + bool" where
  "code_accepted s lib c code =
     bindE (compare_digest (oc_code_hash c) (hash_official lib code)) (\<lambda>same.
       case s_official_dev_login_code s of
         None \<Rightarrow> Inr same
       | Some dev \<Rightarrow>
           if same then Inr True
           else if s_environment s \<in> {Development, Test} then compare_digest dev code
           else Inr False)"

definition challenge_live :: "time \<Rightarrow> official_challenge \<Rightarrow> bool" where
  "challenge_live now c =
     (oc_consumed_at c = None \<and> oc_expires_at c > now \<and> oc_attempt_count c < 5)"

definition update_challenge :: "uuid \<Rightarrow> (official_challenge \<Rightarrow> official_challenge) \<Rightarrow> db \<Rightarrow> db" where
  "update_challenge i f d =
     d\<lparr>db_official_challenges := tupd (\<lambda>c. oc_id c = i) f (db_official_challenges d)\<rparr>"

definition burn_attempt :: "official_challenge \<Rightarrow> official_challenge" where
  "burn_attempt c = c\<lparr>oc_attempt_count := oc_attempt_count c + 1\<rparr>"

definition official_signed_in :: "time \<Rightarrow> uuid \<Rightarrow> official \<Rightarrow> db \<Rightarrow> db" where
  "official_signed_in now challenge_id o1 d =
     add_official_audit now (of_id o1) None Au_login None None None None
       (update_challenge challenge_id (\<lambda>c. (burn_attempt c)\<lparr>oc_consumed_at := Some now\<rparr>)
         (d\<lparr>db_officials := tupd (\<lambda>r. of_id r = of_id o1)
              (\<lambda>r. r\<lparr>of_last_login_at := Some now\<rparr>) (db_officials d)\<rparr>))"

text \<open>The response is the token and the official it names.\<close>

definition verify_official_code ::
    "settings \<Rightarrow> auth_lib \<Rightarrow> time \<Rightarrow> uuid \<Rightarrow> string \<Rightarrow> db \<Rightarrow> (exn + (string \<times> official)) \<times> db" where
  "verify_official_code s lib now challenge_id code d =
     (if \<not> len_between 6 12 code then (Inl (HTTPException 422), d)
      else
        case get_official_challenge challenge_id d of
          None \<Rightarrow> (Inl (HTTPException 401), d)
        | Some c \<Rightarrow>
            if \<not> challenge_live now c then (Inl (HTTPException 401), d)
            else
              case code_accepted s lib c code of
                Inl e \<Rightarrow> (Inl e, d)
              | Inr ok \<Rightarrow>
                  if \<not> ok \<or> oc_official_user_id c = None then
                    (Inl (HTTPException 401), update_challenge challenge_id burn_attempt d)
                  else
                    (case get_official (the (oc_official_user_id c)) d of
                       None \<Rightarrow> (Inl (HTTPException 401), d)
                     | Some o1 \<Rightarrow>
                         if \<not> of_active o1 then (Inl (HTTPException 401), d)
                         else
                           (Inr (official_token s lib now o1, o1),
                            official_signed_in now challenge_id o1 d)))"

section \<open>What the console shows\<close>

definition two :: "int \<Rightarrow> string" where "two n = zpad 2 (show_nat (nat n))"

text \<open>\<^verbatim>\<open>t.isoformat()\<close> of a UTC timestamp.\<close>

definition isoformat :: "time \<Rightarrow> string" where
  "isoformat t =
     (case civil_date t of (y, m, dd) \<Rightarrow>
        zpad 4 (show_nat (nat y)) @ ''-'' @ two m @ ''-'' @ two dd @ ''T'' @
        two (t div hours 1 mod 24) @ '':'' @ two (t div minutes 1 mod 60) @ '':'' @
        two (t div seconds 1 mod 60) @
        (if t mod seconds 1 = 0 then [] else ''.'' @ zpad 6 (show_nat (nat (t mod seconds 1)))) @
        ''+00:00'')"

definition safety_text :: "safety_level \<Rightarrow> string" where
  "safety_text x = (case x of
     Safety_none \<Rightarrow> ''none'' | Safety_possible \<Rightarrow> ''possible'' | Safety_immediate \<Rightarrow> ''immediate'')"

definition image_match_text :: "image_match \<Rightarrow> string" where
  "image_match_text x = (case x of
     Im_none \<Rightarrow> ''none'' | Im_matched \<Rightarrow> ''matched'' | Im_mismatched \<Rightarrow> ''mismatched''
   | Im_unverified \<Rightarrow> ''unverified'' | Im_skipped \<Rightarrow> ''skipped'')"

definition snapshot_json :: "route_snapshot \<Rightarrow> json" where
  "snapshot_json r =
     JObj [(''taxonomy_version'', JStr (rs_taxonomy_version r)), (''category_id'', JStr (rs_category_id r)),
           (''department_key'', JStr (rs_department_key r)), (''owning_agency'', jopt (rs_owning_agency r)),
           (''dispatch_enabled'', JBool (rs_dispatch_enabled r)),
           (''sla_hours'', (case rs_sla_hours r of None \<Rightarrow> JNull | Some n \<Rightarrow> JInt (int n))),
           (''disposition'', JStr (disposition_text (rs_disposition r)))]"

definition queue_item :: "grievance \<Rightarrow> json" where
  "queue_item g =
     (let c = category_or_default (opt_or (gr_category_id g) (gr_category g)) in
      JObj [(''id'', JStr (gr_id g)), (''human_id'', JStr (gr_human_id g)),
            (''status'', JStr (gr_status_text (gr_status g))),
            (''review_status'', jopt (map_option review_text (gr_review_status g))),
            (''category_id'', jopt (gr_category_id g)), (''category_label'', JStr (cat_label c)),
            (''domain'', JStr (cat_parent_key c)), (''department_key'', jopt (gr_department_key g)),
            (''priority'', jopt (map_option priority_text (gr_priority g))),
            (''safety_level'', jopt (map_option safety_text (gr_safety_level g))),
            (''disposition'', jopt (map_option disposition_text (gr_disposition g))),
            (''confidence'', (case gr_confidence g of None \<Rightarrow> JNull | Some r \<Rightarrow> JFloat r)),
            (''address'', jopt (gr_location_address g)), (''issue_text'', jopt (gr_issue_text g)),
            (''photo_url'', (if truthy (gr_photo_path g)
               then JStr (''/api/official/grievances/'' @ gr_id g @ ''/photo'') else JNull)),
            (''image_match_status'', jopt (map_option image_match_text (gr_image_match_status g))),
            (''structured_facts'', (case gr_structured_facts g of None \<Rightarrow> JNull | Some f \<Rightarrow> JObj f)),
            (''routing'', (case gr_routing_snapshot g of None \<Rightarrow> JNull | Some r \<Rightarrow> snapshot_json r)),
            (''flags'', jstrs (map flag_text (gr_flags g))),
            (''created_at'', JStr (isoformat (gr_created_at g))),
            (''state_version'', JInt (int (gr_state_version g)))])"

definition official_queue ::
    "official \<Rightarrow> string option \<Rightarrow> int \<Rightarrow> int \<Rightarrow> db \<Rightarrow> exn + json list" where
  "official_queue o1 review limit offset d =
     (if limit < 1 \<or> limit > 100 \<or> offset < 0 then Inl (HTTPException 422)
      else Inr (map queue_item (list_scoped_grievances o1 review (nat limit) (nat offset) d)))"

text \<open>The lookup of the handlers on one complaint: a complaint out of reach does not exist.\<close>

definition accessible :: "official \<Rightarrow> uuid \<Rightarrow> db \<Rightarrow> exn + grievance" where
  "accessible o1 i d =
     (case get_grievance i d of
        None \<Rightarrow> Inl (HTTPException 404)
      | Some g \<Rightarrow> if official_can_access o1 g then Inr g else Inl (HTTPException 404))"

definition official_grievance ::
    "time \<Rightarrow> string \<Rightarrow> official \<Rightarrow> uuid \<Rightarrow> db \<Rightarrow> (exn + json) \<times> db" where
  "official_grievance now rid o1 i d =
     (case accessible o1 i d of
        Inl e \<Rightarrow> (Inl e, d)
      | Inr g \<Rightarrow>
          (Inr (queue_item g),
           add_official_audit now (of_id o1) (Some (gr_id g)) Au_view None None None (Some rid) d))"

definition official_grievance_photo ::
    "world \<Rightarrow> settings \<Rightarrow> time \<Rightarrow> official \<Rightarrow> uuid \<Rightarrow> db \<Rightarrow> (exn + (string \<times> string)) \<times> db" where
  "official_grievance_photo w s now o1 i d =
     (case accessible o1 i d of
        Inl e \<Rightarrow> (Inl e, d)
      | Inr g \<Rightarrow>
          if \<not> truthy (gr_photo_path g) then (Inl (HTTPException 404), d)
          else
            let p = artifact_path s (the (gr_photo_path g)) in
            (case w_read_file w (path_str p) of
               Inl e \<Rightarrow> (Inl (HTTPException 404), d)
             | Inr content \<Rightarrow>
                 (Inr (content, str_or (w_guess_type w (path_name p)) ''image/jpeg''),
                  add_official_audit now (of_id o1) (Some (gr_id g)) Au_view_evidence None None None None d)))"

section \<open>Actions\<close>

datatype official_act = Act_approve | Act_correct | Act_redirect | Act_reject | Act_request_clarification

record action_body =
  ab_action :: official_act
  ab_reason :: string
  ab_category_id :: "string option"
  ab_asset_scope :: "asset_scope option"
  ab_safety_level :: "safety_level option"
  ab_department_key :: "string option"

definition review_of_act :: "official_act \<Rightarrow> review_status" where
  "review_of_act a =
     (case a of
        Act_approve \<Rightarrow> Rv_approved | Act_correct \<Rightarrow> Rv_approved | Act_redirect \<Rightarrow> Rv_redirected
      | Act_reject \<Rightarrow> Rv_rejected | Act_request_clarification \<Rightarrow> Rv_awaiting_citizen)"

definition audit_of_act :: "official_act \<Rightarrow> audit_action" where
  "audit_of_act a =
     (case a of
        Act_approve \<Rightarrow> Au_approve | Act_correct \<Rightarrow> Au_correct | Act_redirect \<Rightarrow> Au_redirect
      | Act_reject \<Rightarrow> Au_reject | Act_request_clarification \<Rightarrow> Au_request_clarification)"

definition act_scope :: "action_body \<Rightarrow> grievance \<Rightarrow> asset_scope" where
  "act_scope b g =
     (case ab_asset_scope b of Some x \<Rightarrow> x
      | None \<Rightarrow> (case gr_asset_scope g of Some x \<Rightarrow> x | None \<Rightarrow> Scope_unknown))"

definition act_safety :: "action_body \<Rightarrow> grievance \<Rightarrow> safety_level" where
  "act_safety b g =
     (case ab_safety_level b of Some x \<Rightarrow> x
      | None \<Rightarrow> (case gr_safety_level g of Some x \<Rightarrow> x | None \<Rightarrow> Safety_none))"

definition act_category :: "action_body \<Rightarrow> grievance \<Rightarrow> string option" where
  "act_category b g =
     canonical_category_key (opt_or (ab_category_id b) (opt_or (gr_category_id g) (gr_category g)))"

definition act_policy :: "action_body \<Rightarrow> grievance \<Rightarrow> string \<Rightarrow> routing_decision" where
  "act_policy b g key =
     evaluate_routing_policy (Some key) (act_safety b g) (act_scope b g)
       (truthy (gr_location_address g)) 1 DEMO_PROFILE"

text \<open>The columns an action writes: the category table's route, not the jurisdiction's rows.\<close>

definition act_fields :: "action_body \<Rightarrow> string \<Rightarrow> grievance \<Rightarrow> grievance" where
  "act_fields b key g =
     (let c = category_or_default (Some key);
          policy = act_policy b g key;
          route = route_for_category (Some key) DEMO_PROFILE;
          dept = str_or (ab_department_key b)
                   (case route of None \<Rightarrow> cat_department_key c | Some r \<Rightarrow> jr_department_key r);
          disp = (if ab_action b = Act_redirect then Redirect else rd_disposition policy)
      in g\<lparr>gr_category := Some key, gr_category_id := Some key,
           gr_aggregation_key := cat_aggregation_key c, gr_department_key := Some dept,
           gr_priority := Some (rd_priority policy), gr_asset_scope := Some (act_scope b g),
           gr_safety_level := Some (act_safety b g), gr_disposition := Some disp,
           gr_review_status := Some (review_of_act (ab_action b)),
           gr_taxonomy_version := Some TAXONOMY_VERSION,
           gr_state_version := gr_state_version g + 1,
           gr_routing_snapshot := Some
             ((routing_snapshot key c route policy)\<lparr>rs_department_key := dept, rs_disposition := disp\<rparr>)\<rparr>)"

definition official_action ::
    "time \<Rightarrow> string \<Rightarrow> official \<Rightarrow> uuid \<Rightarrow> action_body \<Rightarrow> db \<Rightarrow> (exn + json) \<times> db" where
  "official_action now rid o1 i b d =
     (if \<not> len_between 3 1000 (ab_reason b) then (Inl (HTTPException 422), d)
      else if of_role o1 = Ro_auditor then (Inl (HTTPException 403), d)
      else
        case accessible o1 i d of
          Inl e \<Rightarrow> (Inl e, d)
        | Inr g \<Rightarrow>
            (case act_category b g of
               None \<Rightarrow> (Inl (HTTPException 422), d)
             | Some key \<Rightarrow>
                 (case set_grievance_fields now i (act_fields b key) d of
                    Inl e \<Rightarrow> (Inl e, d)
                  | Inr (g1, d1) \<Rightarrow>
                      (Inr (queue_item g1),
                       add_official_audit now (of_id o1) (Some i) (audit_of_act (ab_action b))
                         (Some (ab_reason b)) (Some (queue_item g)) (Some (queue_item g1)) (Some rid) d1))))"

record metrics =
  mt_total_visible :: nat
  mt_pending_review :: nat
  mt_immediate_safety :: nat
  mt_failed_ai :: nat
  mt_failed_dispatch :: nat

definition official_metrics :: "official \<Rightarrow> db \<Rightarrow> metrics" where
  "official_metrics o1 d =
     (let rows = list_scoped_grievances o1 None 100 0 d in
      \<lparr>mt_total_visible = length rows,
       mt_pending_review = length (filter (\<lambda>g. gr_review_status g = Some Rv_pending_official) rows),
       mt_immediate_safety = length (filter (\<lambda>g. gr_safety_level g = Some Safety_immediate) rows),
       mt_failed_ai = length (filter (\<lambda>g. Fl_classification_failed \<in> set (gr_flags g)) rows),
       mt_failed_dispatch = length (filter (\<lambda>g. gr_status g = Gs_dispatch_failed) rows)\<rparr>)"

section \<open>Scope and audit\<close>

lemma in_scope_access: "in_scope o1 review g \<Longrightarrow> official_can_access o1 g"
  by (auto simp: in_scope_def official_can_access_def)

lemma in_scope_all: "in_scope o1 None g \<longleftrightarrow> official_can_access o1 g"
  by (auto simp: in_scope_def official_can_access_def truthy_def)

text \<open>The queue and the access check agree: every page of the queue, with any filter, holds only
  complaints the official can open, and the whole unfiltered queue holds all of them, oldest
  first.\<close>

theorem queue_is_access_filter:
  "set (list_scoped_grievances o1 review limit offset d) \<subseteq> {g \<in> set (db_grievances d). official_can_access o1 g} \<and>
   set (list_scoped_grievances o1 None (length (db_grievances d)) 0 d) =
     {g \<in> set (db_grievances d). official_can_access o1 g} \<and>
   sorted (map gr_created_at (list_scoped_grievances o1 review limit offset d))"
proof (intro conjI)
  show "set (list_scoped_grievances o1 review limit offset d) \<subseteq> {g \<in> set (db_grievances d). official_can_access o1 g}"
    using in_scope_access [of o1 review]
    by (auto simp: list_scoped_grievances_def dest!: in_set_takeD in_set_dropD)
  have "length (filter (in_scope o1 None) (db_grievances d)) \<le> length (db_grievances d)" by simp
  then show "set (list_scoped_grievances o1 None (length (db_grievances d)) 0 d) =
     {g \<in> set (db_grievances d). official_can_access o1 g}"
    by (auto simp: list_scoped_grievances_def in_scope_all order_by_def)
  show "sorted (map gr_created_at (list_scoped_grievances o1 review limit offset d))"
    by (simp add: list_scoped_grievances_def order_by_def take_map [symmetric] drop_map [symmetric]
        sorted_wrt_take sorted_wrt_drop)
qed

lemma accessible_iff:
  "accessible o1 i d = Inr g \<longleftrightarrow> get_grievance i d = Some g \<and> official_can_access o1 g"
  by (auto simp: accessible_def split: option.splits)

lemma add_audit_same [simp]:
  "db_grievances (add_official_audit now u g a r b f q d) = db_grievances d"
  "get_grievance i (add_official_audit now u g a r b f q d) = get_grievance i d"
  by (simp_all add: add_official_audit_def new_id_def get_grievance_def Let_def)

lemma add_audit_appends:
  "\<exists>e. db_audit (add_official_audit now u g a r b f q d) = db_audit d @ [e] \<and>
     oa_official_user_id e = u \<and> oa_grievance_id e = g \<and> oa_action e = a \<and> oa_reason e = r \<and>
     oa_before e = b \<and> oa_after e = f"
  by (simp add: add_official_audit_def new_id_def Let_def)

lemma act_fields_sel [simp]:
  "gr_id (act_fields b key g) = gr_id g" "gr_status (act_fields b key g) = gr_status g"
  "gr_review_status (act_fields b key g) = Some (review_of_act (ab_action b))"
  "gr_state_version (act_fields b key g) = gr_state_version g + 1"
  "gr_category_id (act_fields b key g) = Some key"
  "gr_disposition (act_fields b key g) =
     Some (if ab_action b = Act_redirect then Redirect else rd_disposition (act_policy b g key))"
  by (simp_all add: act_fields_def Let_def)

lemma immediate_policy: "act_safety b g = Safety_immediate \<Longrightarrow> rd_disposition (act_policy b g key) = Emergency_redirect"
  by (simp add: act_policy_def evaluate_routing_policy_def decide_def Let_def)

lemma acted_fields:
  assumes set: "set_grievance_fields now i (act_fields b key) d = Inr (g1, d1)" and g: "get_grievance i d = Some g"
  shows "gr_status g1 = gr_status g" "gr_state_version g1 = gr_state_version g + 1"
    "gr_review_status g1 = Some (review_of_act (ab_action b))"
    "gr_disposition g1 = Some (if ab_action b = Act_redirect then Redirect else rd_disposition (act_policy b g key))"
    "db_audit d1 = db_audit d"
proof -
  have "gr_state_version (act_fields b key g) \<noteq> gr_state_version g" by simp
  then have "act_fields b key g \<noteq> g" by metis
  moreover have "g1 = apply_fields now (act_fields b key) g" "db_audit d1 = db_audit d"
    using set g by (auto simp: set_grievance_fields_def Let_def)
  ultimately show "gr_status g1 = gr_status g" "gr_state_version g1 = gr_state_version g + 1"
    "gr_review_status g1 = Some (review_of_act (ab_action b))"
    "gr_disposition g1 = Some (if ab_action b = Act_redirect then Redirect else rd_disposition (act_policy b g key))"
    "db_audit d1 = db_audit d"
    by (simp_all add: apply_fields_def)
qed


section \<open>Guessing a code\<close>

text \<open>A guess is compared when the request is well formed and the challenge is live. The first
  component of a run counts the comparisons, the second the sign-ins.\<close>

definition guess_compared :: "time \<Rightarrow> uuid \<Rightarrow> string \<Rightarrow> db \<Rightarrow> bool" where
  "guess_compared now i code d =
     (len_between 6 12 code \<and>
      (case get_official_challenge i d of None \<Rightarrow> False | Some c \<Rightarrow> challenge_live now c))"

fun guess_run :: "settings \<Rightarrow> auth_lib \<Rightarrow> uuid \<Rightarrow> (time \<times> string) list \<Rightarrow> db \<Rightarrow> nat \<times> nat" where
  "guess_run s lib i [] d = (0, 0)"
| "guess_run s lib i ((now, code) # gs) d =
     (case verify_official_code s lib now i code d of
        (r, d1) \<Rightarrow>
          case guess_run s lib i gs d1 of
            (n, k) \<Rightarrow> ((if guess_compared now i code d then 1 else 0) + n,
                        (case r of Inl _ \<Rightarrow> 0 | Inr _ \<Rightarrow> 1) + k))"

text \<open>The challenge is bound to no account, or to an active one.\<close>

definition challenge_backed :: "official_challenge \<Rightarrow> db \<Rightarrow> bool" where
  "challenge_backed c d =
     (case oc_official_user_id c of None \<Rightarrow> True
      | Some u \<Rightarrow> (case get_official u d of None \<Rightarrow> False | Some o1 \<Rightarrow> of_active o1))"

lemma update_challenge_get:
  assumes "get_official_challenge i d = Some c" and "oc_id (f c) = oc_id c"
  shows "get_official_challenge i (update_challenge i f d) = Some (f c)"
proof -
  have "tget oc_id i (tupd (\<lambda>r. oc_id r = i) f t) = Some (f c)"
    if "tget oc_id i t = Some c" for t
    using that assms(2) tget_SomeD [OF that] by (induction t) (auto simp: tupd_def tget_Cons)
  with assms(1) show ?thesis by (simp add: get_official_challenge_def update_challenge_def)
qed

lemma update_challenge_official [simp]: "get_official u (update_challenge i f d) = get_official u d"
  by (simp add: get_official_def update_challenge_def)

lemma signed_in_get:
  assumes "get_official_challenge i d = Some c"
  shows "get_official_challenge i (official_signed_in now i o1 d) =
    Some ((burn_attempt c)\<lparr>oc_consumed_at := Some now\<rparr>)"
proof -
  have same: "get_official_challenge i (add_official_audit now u g a r b f q x) = get_official_challenge i x"
    for u g a r b f q x
    by (simp add: add_official_audit_def get_official_challenge_def new_id_def Let_def)
  have "get_official_challenge i (d\<lparr>db_officials := os\<rparr>) = Some c" for os
    using assms by (simp add: get_official_challenge_def)
  from update_challenge_get [OF this] show ?thesis
    unfolding official_signed_in_def same by (simp add: burn_attempt_def)
qed

lemma signed_in_backed: "challenge_backed c d \<Longrightarrow> challenge_backed c (official_signed_in now i o1 d)"
proof -
  have "get_official u (official_signed_in now i o1 d) =
      map_option (\<lambda>r. if of_id r = of_id o1 then r\<lparr>of_last_login_at := Some now\<rparr> else r) (get_official u d)" for u
    by (simp add: official_signed_in_def add_official_audit_def update_challenge_def get_official_def
        new_id_def tget_tupd Let_def)
  then show "challenge_backed c d \<Longrightarrow> challenge_backed c (official_signed_in now i o1 d)"
    by (auto simp: challenge_backed_def split: option.splits)
qed

text \<open>One guess: it is not compared and nothing changes, or it burns an attempt, and a sign-in
  consumes the challenge.\<close>

lemma guess_step:
  assumes "\<And>t. ascii (al_sha256 lib t)" and "s_official_dev_login_code s = None"
    and "get_official_challenge i d = Some c" and "challenge_backed c d" and "ascii (oc_code_hash c)"
    and "verify_official_code s lib now i code d = (r, d1)"
  shows "(\<not> guess_compared now i code d \<and> d1 = d \<and> (\<exists>e. r = Inl e)) \<or>
    (guess_compared now i code d \<and> challenge_live now c \<and>
     (\<exists>c1. get_official_challenge i d1 = Some c1 \<and> challenge_backed c1 d1 \<and>
        oc_code_hash c1 = oc_code_hash c \<and> oc_attempt_count c1 = oc_attempt_count c + 1 \<and>
        (\<forall>x. r = Inr x \<longrightarrow> oc_consumed_at c1 \<noteq> None)))"
proof (cases "guess_compared now i code d")
  case False
  with assms(3,6) show ?thesis
    by (auto simp: guess_compared_def verify_official_code_def split: if_splits)
next
  case True
  then have live: "challenge_live now c" and len: "len_between 6 12 code"
    using assms(3) by (simp_all add: guess_compared_def)
  define ok where "ok = (oc_code_hash c = hash_official lib code)"
  have acc: "code_accepted s lib c code = Inr ok"
    using assms(1,2,5) by (simp add: code_accepted_def compare_digest_def hash_official_def ok_def)
  have burn: "get_official_challenge i (update_challenge i burn_attempt d) = Some (burn_attempt c)"
    by (rule update_challenge_get [OF assms(3)]) (simp add: burn_attempt_def)
  have bb: "challenge_backed (burn_attempt c) x = challenge_backed c x"
      "challenge_backed ((burn_attempt c)\<lparr>oc_consumed_at := t\<rparr>) x = challenge_backed c x" for x t
    by (simp_all add: challenge_backed_def burn_attempt_def)
  have ub: "challenge_backed c (update_challenge i burn_attempt d)"
    using assms(4) by (auto simp: challenge_backed_def split: option.splits)
  show ?thesis
  proof (cases "\<not> ok \<or> oc_official_user_id c = None")
    case True
    with assms(3,6) live len acc have "d1 = update_challenge i burn_attempt d" "\<exists>e. r = Inl e"
      by (auto simp: verify_official_code_def)
    with burn ub live \<open>guess_compared now i code d\<close> show ?thesis
      by (auto simp: bb intro!: exI [of _ "burn_attempt c"]) (simp_all add: burn_attempt_def)
  next
    case False
    then obtain u where u: "oc_official_user_id c = Some u" and ok by auto
    with assms(4) obtain o1 where o1: "get_official u d = Some o1" "of_active o1"
      by (auto simp: challenge_backed_def split: option.splits)
    with False u assms(3,6) live len acc have "d1 = official_signed_in now i o1 d"
      by (auto simp: verify_official_code_def)
    with signed_in_get [OF assms(3), of now o1] signed_in_backed [OF assms(4), of now i o1] live
      \<open>guess_compared now i code d\<close> show ?thesis
      by (auto simp: bb) (simp_all add: burn_attempt_def)
  qed
qed

lemma guess_run_bounds:
  assumes "\<And>t. ascii (al_sha256 lib t)" and "s_official_dev_login_code s = None"
  shows "get_official_challenge i d = Some c \<Longrightarrow> challenge_backed c d \<Longrightarrow> ascii (oc_code_hash c) \<Longrightarrow>
    oc_attempt_count c \<le> 5 \<Longrightarrow>
    fst (guess_run s lib i gs d) + oc_attempt_count c \<le> 5 \<and>
    snd (guess_run s lib i gs d) \<le> (if oc_consumed_at c = None then 1 else 0)"
proof (induction gs arbitrary: d c)
  case Nil
  then show ?case by simp
next
  case (Cons g gs)
  obtain now code where g: "g = (now, code)" by fastforce
  obtain r d1 where v: "verify_official_code s lib now i code d = (r, d1)" by fastforce
  obtain n k where nk: "guess_run s lib i gs d1 = (n, k)" by fastforce
  from guess_step [OF assms Cons.prems(1-3) v] show ?case
  proof
    assume "\<not> guess_compared now i code d \<and> d1 = d \<and> (\<exists>e. r = Inl e)"
    with Cons.IH [OF Cons.prems] nk v show ?thesis by (auto simp: g)
  next
    assume step: "guess_compared now i code d \<and> challenge_live now c \<and>
     (\<exists>c1. get_official_challenge i d1 = Some c1 \<and> challenge_backed c1 d1 \<and>
        oc_code_hash c1 = oc_code_hash c \<and> oc_attempt_count c1 = oc_attempt_count c + 1 \<and>
        (\<forall>x. r = Inr x \<longrightarrow> oc_consumed_at c1 \<noteq> None))"
    then obtain c1 where c1: "get_official_challenge i d1 = Some c1" "challenge_backed c1 d1"
        "oc_code_hash c1 = oc_code_hash c" "oc_attempt_count c1 = oc_attempt_count c + 1"
        "\<forall>x. r = Inr x \<longrightarrow> oc_consumed_at c1 \<noteq> None" by blast
    from step have live: "oc_attempt_count c < 5" "oc_consumed_at c = None"
      by (simp_all add: challenge_live_def)
    from Cons.IH [OF c1(1,2)] Cons.prems(3) c1(3,4) live nk
    have "n + oc_attempt_count c1 \<le> 5" "k \<le> (if oc_consumed_at c1 = None then 1 else 0)" by auto
    with step c1(4,5) live nk v show ?thesis
      by (cases r) (auto simp: g split: if_splits)
  qed
qed

text \<open>C22. A code of an official cannot be guessed at will: whatever the guesses and their times,
  at most five codes are ever compared with one challenge and at most one of them signs in. (No
  development code is set, and the account, if there is one, stays active: a guess at the
  challenge of a deactivated account is rolled back with its count.)\<close>

theorem official_guesses_bounded:
  assumes "\<And>t. ascii (al_sha256 lib t)" and "s_official_dev_login_code s = None"
    and "get_official_challenge i d = Some c" and "challenge_backed c d" and "ascii (oc_code_hash c)"
    and "oc_attempt_count c = 0"
  shows "fst (guess_run s lib i gs d) \<le> 5 \<and> snd (guess_run s lib i gs d) \<le> 1"
  using guess_run_bounds [OF assms(1-5), of gs] assms(6) by (auto split: if_splits)

text \<open>The comparison with the account of a deactivated official raises before the commit, so the
  attempt is not counted.\<close>

lemma inactive_official_attempt_lost:
  assumes "len_between 6 12 code" and "get_official_challenge i d = Some c" and "challenge_live now c"
    and "code_accepted s lib c code = Inr True" and "oc_official_user_id c = Some u"
    and "get_official u d = Some o1" and "\<not> of_active o1"
  shows "verify_official_code s lib now i code d = (Inl (HTTPException 401), d)"
  using assms by (simp add: verify_official_code_def)

section \<open>Witnesses\<close>

definition sample_official :: official where
  "sample_official =
     \<lparr>of_id = ''o1'', of_email = ''a@b.in'', of_name = ''A'', of_role = Ro_triage_officer,
      of_jurisdiction_id = ''demo-ulb'', of_department_keys = [], of_active = True,
      of_last_login_at = None\<rparr>"

definition sample_challenge :: official_challenge where
  "sample_challenge =
     \<lparr>oc_id = ''k1'', oc_official_user_id = Some ''o1'', oc_email_hash = ''a@b.in'',
      oc_code_hash = ''123456'', oc_expires_at = 600000000, oc_consumed_at = None,
      oc_attempt_count = 0, oc_created_at = 0\<rparr>"

definition sample_case :: grievance where
  "sample_case =
     (draft_row 0 ''g1'' 1 ''c1'' None None Src_whatsapp
        \<lparr>di_lat = Some 20, di_lon = Some 78, di_address = Some ''MG Road'', di_messages = [],
         di_photo_media_id = None\<rparr>)
       \<lparr>gr_jurisdiction_id := Some ''demo-ulb'', gr_category_id := Some ''unmapped_service'',
        gr_category := Some ''unmapped_service''\<rparr>"

definition sample_console_db :: db where
  "sample_console_db = empty_db\<lparr>db_officials := [sample_official],
     db_official_challenges := [sample_challenge], db_grievances := [sample_case]\<rparr>"

definition constant_lib :: auth_lib where
  "constant_lib =
     \<lparr>al_sha256 = (\<lambda>t. ''00ff''), al_jwt_encode = (\<lambda>k p. ''jwt''),
      al_jwt_decode = (\<lambda>now k a t. Inl PyJWTError), al_requested = (\<lambda>t. []), al_expires = (\<lambda>t. [])\<rparr>"

theorem official_guesses_bounded_witness:
  "fst (guess_run (sample_settings\<lparr>s_official_dev_login_code := None\<rparr>) constant_lib ''k1'' (replicate 9 (5, ''111111'')) sample_console_db) \<le> 5 \<and>
   guess_compared 5 ''k1'' ''111111'' sample_console_db"
proof -
  have a: "ascii (al_sha256 constant_lib t)" for t by (simp add: constant_lib_def ascii_def)
  have s: "s_official_dev_login_code (sample_settings\<lparr>s_official_dev_login_code := None\<rparr>) = None" by simp
  have c: "get_official_challenge ''k1'' sample_console_db = Some sample_challenge"
    by (simp add: get_official_challenge_def sample_console_db_def tget_Cons sample_challenge_def)
  have b: "challenge_backed sample_challenge sample_console_db"
    by (simp add: challenge_backed_def get_official_def sample_console_db_def tget_Cons
        sample_challenge_def sample_official_def)
  have h: "ascii (oc_code_hash sample_challenge)" "oc_attempt_count sample_challenge = 0"
    by (simp_all add: sample_challenge_def ascii_def)
  have "len_between 6 12 ''111111''" by code_simp
  then have "guess_compared 5 ''k1'' ''111111'' sample_console_db"
    by (simp add: guess_compared_def c) (simp add: challenge_live_def sample_challenge_def)
  with official_guesses_bounded [OF a s c b h] show ?thesis by blast
qed

definition sample_action :: action_body where
  "sample_action =
     \<lparr>ab_action = Act_approve, ab_reason = ''clear case'', ab_category_id = None,
      ab_asset_scope = Some Scope_public, ab_safety_level = None, ab_department_key = None\<rparr>"

lemma sample_action_accepted:
  "\<exists>j d1. official_action 5 rid sample_official ''g1'' sample_action sample_console_db = (Inr j, d1)"
proof -
  have "len_between 3 1000 (ab_reason sample_action)" by code_simp
  moreover have g: "get_grievance ''g1'' sample_console_db = Some sample_case"
    by (simp add: get_grievance_def sample_console_db_def tget_Cons sample_case_def draft_row_def)
  moreover have "accessible sample_official ''g1'' sample_console_db = Inr sample_case"
    unfolding accessible_iff using g
    by (simp add: official_can_access_def sample_official_def sample_case_def draft_row_def)
  moreover have "canonical_category_key (Some ''unmapped_service'') = Some ''unmapped_service''"
    by (rule canonical_fix) (simp add: canonical_unmapped)
  then have "act_category sample_action sample_case = Some ''unmapped_service''"
    by (simp add: act_category_def opt_or_def truthy_def sample_action_def sample_case_def)
  moreover obtain g1 d2 where "set_grievance_fields 5 ''g1'' (act_fields sample_action ''unmapped_service'') sample_console_db = Inr (g1, d2)"
    using g by (simp add: set_grievance_fields_def Let_def)
  ultimately show ?thesis
    by (simp add: official_action_def) (simp add: sample_official_def)
qed


end
