(* ===== verification/WebApi.thy ===== *)
theory WebApi
  imports Officials
begin

text \<open>
  \<^verbatim>\<open>web/api.py\<close> and the request and response models of \<^verbatim>\<open>schemas.py\<close>: filing a
  complaint through the form, its review, photo, confirmation and downloads. A handler gets the
  signed-in user and returns its response or exception with the database it leaves. The
  environment of one request is the record \<open>web_env\<close>: the services, the clock, the random file
  names, and the extension table of \<^verbatim>\<open>mimetypes\<close>, which depends on the system.
\<close>

record web_env =
  wb_world :: world
  wb_now :: time
  wb_hex :: string
  wb_names :: "nat \<Rightarrow> string"
  wb_guess_extension :: "string \<Rightarrow> string option"

record upload =
  up_filename :: "string option"
  up_content_type :: "string option"
  up_data :: string

section \<open>Files\<close>

definition EXTENSIONS_BY_MIME_TYPE :: "(string \<times> string) list" where
  "EXTENSIONS_BY_MIME_TYPE =
     [(''audio/mp4'', ''.m4a''), (''audio/ogg'', ''.ogg''), (''audio/webm'', ''.webm'')]"

definition guess_extension :: "web_env \<Rightarrow> string option \<Rightarrow> string" where
  "guess_extension v mime_type =
     (let normalized = str_or (normalize_mime_type mime_type) [] in
      str_or (dict_get EXTENSIONS_BY_MIME_TYPE normalized)
        (str_or (wb_guess_extension v normalized) []))"

definition new_filename :: "web_env \<Rightarrow> nat \<Rightarrow> string option \<Rightarrow> string" where
  "new_filename v n mime_type = wb_names v n @ guess_extension v mime_type"

text \<open>\<^verbatim>\<open>await upload.read(limit + 1)\<close>.\<close>

definition read_upload :: "nat \<Rightarrow> upload \<Rightarrow> string" where
  "read_upload limit u = take (limit + 1) (up_data u)"

definition checked_upload :: "string option \<Rightarrow> string \<Rightarrow> upload_kind \<Rightarrow> settings \<Rightarrow> exn + unit" where
  "checked_upload mime data kind s =
     (case validate_upload mime (length data) kind s of
        Inl e \<Rightarrow> Inl (if e = UploadTooLarge \<or> e = UploadTypeNotAllowed then HTTPException 400 else e)
      | Inr u \<Rightarrow> Inr u)"

section \<open>Responses\<close>

definition require_owner :: "grievance option \<Rightarrow> user \<Rightarrow> exn + grievance" where
  "require_owner g u =
     (case g of
        None \<Rightarrow> Inl (HTTPException 404)
      | Some g \<Rightarrow> if gr_user_id g \<noteq> Some (us_id u) then Inl (HTTPException 404) else Inr g)"

definition owned :: "uuid \<Rightarrow> user \<Rightarrow> db \<Rightarrow> exn + grievance" where
  "owned i u d = require_owner (get_grievance i d) u"

definition is_voice_note :: "issue_message \<Rightarrow> bool" where
  "is_voice_note m = (im_type m \<in> {''audio'', ''voice''} \<and> truthy (im_local_path m))"

definition numbered :: "'a list \<Rightarrow> (nat \<times> 'a) list" where
  "numbered xs = zip [0..<length xs] xs"

definition voice_note_urls :: "grievance \<Rightarrow> string list" where
  "voice_note_urls g =
     map (\<lambda>(n, m). ''/api/grievances/'' @ gr_id g @ ''/audio/'' @ show_nat n)
       (filter (\<lambda>(n, m). is_voice_note m) (numbered (gr_issue_messages g)))"

definition voice_note_metadata :: "grievance \<Rightarrow> (string \<times> int \<times> string) list" where
  "voice_note_metadata g =
     map (\<lambda>(n, m). (str_or (im_recording_id m) (''legacy-'' @ show_nat (n + 1)),
                     (case im_segment_index m of None \<Rightarrow> 0 | Some k \<Rightarrow> k),
                     str_or (im_mime_type m) ''audio/webm''))
       (filter (\<lambda>(n, m). is_voice_note m) (numbered (gr_issue_messages g)))"

record draft_response =
  dr_row :: grievance
  dr_department_name :: string
  dr_pdf_url :: "string option"
  dr_photo_url :: "string option"
  dr_category_label :: "string option"
  dr_domain_label :: "string option"
  dr_voice_note_urls :: "string list"
  dr_voice_note_metadata :: "(string \<times> int \<times> string) list"

definition complaint_url :: "grievance \<Rightarrow> string option \<Rightarrow> string \<Rightarrow> string option" where
  "complaint_url g stored what =
     (if truthy stored then Some (''/api/grievances/'' @ gr_id g @ ''/'' @ what) else None)"

text \<open>The columns copied from the row are kept as the row itself.\<close>

definition draft_response :: "grievance \<Rightarrow> exn + draft_response" where
  "draft_response g =
     (let c = category_or_default (opt_or (gr_category_id g) (gr_category g)) in
      bindE (department_for_category (Some (cat_key c))) (\<lambda>dept.
        Inr \<lparr>dr_row = g, dr_department_name = dep_name dept,
             dr_pdf_url = complaint_url g (gr_pdf_path g) ''pdf'',
             dr_photo_url = complaint_url g (gr_photo_path g) ''photo'',
             dr_category_label = (if truthy (gr_category_id g) then Some (cat_label c) else None),
             dr_domain_label = (if truthy (gr_category_id g)
                                then dict_get DOMAIN_LABELS (cat_parent_key c) else None),
             dr_voice_note_urls = voice_note_urls g,
             dr_voice_note_metadata = voice_note_metadata g\<rparr>))"

definition draft_response_of :: "uuid \<Rightarrow> db \<Rightarrow> exn + draft_response" where
  "draft_response_of i d =
     (case get_grievance i d of None \<Rightarrow> Inl AttributeError | Some g \<Rightarrow> draft_response g)"

section \<open>Filing\<close>

definition preview_transcription ::
    "settings \<Rightarrow> web_env \<Rightarrow> upload \<Rightarrow> db \<Rightarrow> (exn + (string option \<times> string option \<times> string)) \<times> db" where
  "preview_transcription s v audio d =
     (let data = read_upload (s_max_audio_bytes s) audio;
          mime = str_or (normalize_mime_type (up_content_type audio)) ''audio/ogg'' in
      case checked_upload (Some mime) data Kind_audio s of
        Inl e \<Rightarrow> (Inl e, d)
      | Inr _ \<Rightarrow>
          seqE (transcribe_clip (wb_world v) s (wb_now v) data mime d) (\<lambda>t d1.
            (Inr (if \<not> st_ok t \<or> \<not> truthy (st_text t) then (None, None, ''unavailable'')
                  else (st_text t, st_detected_language t, ''final'')), d1)))"

text \<open>\<^verbatim>\<open>int(v)\<close> of a JSON value.\<close>

definition json_int :: "json \<Rightarrow> exn + int" where
  "json_int v =
     (case v of
        JInt i \<Rightarrow> Inr i
      | JBool b \<Rightarrow> Inr (if b then 1 else 0)
      | JFloat r \<Rightarrow> Inr (if r < 0 then \<lceil>r\<rceil> else \<lfloor>r\<rfloor>)
      | JStr t \<Rightarrow> (case py_int t of None \<Rightarrow> Inl ValueError | Some i \<Rightarrow> Inr i)
      | _ \<Rightarrow> Inl TypeError)"

text \<open>One entry of the voice-note metadata: every failure to read it is answered with 422.\<close>

definition parse_audio_metadata :: "world \<Rightarrow> string \<Rightarrow> exn + (string \<times> int)" where
  "parse_audio_metadata w raw =
     (case w_json_loads w raw of
        Some (JObj m) \<Rightarrow>
          (case (map_of m ''recording_id'', map_of m ''segment_index'') of
             (Some r, Some n) \<Rightarrow>
               (case json_int n of
                  Inl e \<Rightarrow> Inl (HTTPException 422)
                | Inr k \<Rightarrow>
                    if py_len (str_json w r) > 128 \<or> str_json w r = [] \<or> k < 0
                    then Inl (HTTPException 422) else Inr (str_json w r, k))
           | _ \<Rightarrow> Inl (HTTPException 422))
      | _ \<Rightarrow> Inl (HTTPException 422))"

definition text_message :: "string \<Rightarrow> issue_message" where
  "text_message t =
     \<lparr>im_message_id = None, im_received_at = None, im_type = ''text'', im_text = Some t,
      im_media_id = None, im_mime_type = None, im_local_path = None, im_recording_id = None,
      im_segment_index = None\<rparr>"

text \<open>The clips with a file name, each validated, with its type and metadata.\<close>

fun accept_clips ::
    "settings \<Rightarrow> (upload \<times> string \<times> int) list \<Rightarrow> exn + (string \<times> string \<times> string \<times> int) list" where
  "accept_clips s [] = Inr []"
| "accept_clips s ((clip, rid, k) # rest) =
     (if \<not> truthy (up_filename clip) then accept_clips s rest
      else
        let data = read_upload (s_max_audio_bytes s) clip;
            mime = str_or (normalize_mime_type (up_content_type clip)) ''audio/ogg''
        in bindE (checked_upload (Some mime) data Kind_audio s) (\<lambda>_.
           bindE (accept_clips s rest) (\<lambda>cs. Inr ((data, mime, rid, k) # cs))))"

record form =
  fm_lat :: real
  fm_lon :: real
  fm_text :: "string option"
  fm_landmark :: "string option"
  fm_photo :: "upload option"
  fm_audio :: "upload list"
  fm_audio_metadata :: "string list"

definition form_ok :: "form \<Rightarrow> bool" where
  "form_ok f =
     (-90 \<le> fm_lat f \<and> fm_lat f \<le> 90 \<and> -180 \<le> fm_lon f \<and> fm_lon f \<le> 180 \<and>
      (case fm_text f of None \<Rightarrow> True | Some t \<Rightarrow> py_len t \<le> 5000) \<and>
      (case fm_landmark f of None \<Rightarrow> True | Some t \<Rightarrow> py_len t \<le> 300))"

definition stripped :: "string option \<Rightarrow> string option" where
  "stripped t = (if truthy t \<and> py_strip (the t) \<noteq> [] then Some (py_strip (the t)) else None)"

definition accept_photo :: "settings \<Rightarrow> upload option \<Rightarrow> exn + (string \<times> string) option" where
  "accept_photo s photo =
     (case photo of
        None \<Rightarrow> Inr None
      | Some p \<Rightarrow>
          if \<not> truthy (up_filename p) then Inr None
          else
            let data = read_upload (s_max_image_bytes s) p;
                mime = str_or (up_content_type p) ''image/jpeg''
            in bindE (checked_upload (Some mime) data Kind_image s) (\<lambda>_. Inr (Some (data, mime))))"

text \<open>The checks before anything is stored: the text messages, the photo and the clips.\<close>

definition accept_form ::
    "world \<Rightarrow> settings \<Rightarrow> user \<Rightarrow> form
     \<Rightarrow> exn + (issue_message list \<times> (string \<times> string) option \<times> (string \<times> string \<times> string \<times> int) list)" where
  "accept_form w s u f =
     (if \<not> form_ok f then Inl (HTTPException 422)
      else if us_contact_id u = None then Inl (HTTPException 400)
      else
        let texts = (case stripped (fm_text f) of None \<Rightarrow> [] | Some t \<Rightarrow> [text_message t]) in
        bindE (accept_photo s (fm_photo f)) (\<lambda>photo.
          if length (fm_audio_metadata f) \<noteq> length (fm_audio f) then Inl (HTTPException 422)
          else
            bindE (mapE (parse_audio_metadata w) (fm_audio_metadata f)) (\<lambda>metas.
            bindE (accept_clips s (zip (fm_audio f) metas)) (\<lambda>clips.
              if texts = [] \<and> clips = [] then Inl (HTTPException 400)
              else
                Inr (texts @ (case stripped (fm_landmark f) of
                                None \<Rightarrow> [] | Some l \<Rightarrow> [text_message (''Nearby landmark: '' @ l)]),
                     photo, clips)))))"

definition clip_message ::
    "settings \<Rightarrow> web_env \<Rightarrow> uuid \<Rightarrow> nat \<times> string \<times> string \<times> string \<times> int \<Rightarrow> issue_message" where
  "clip_message s v i c =
     (case c of (n, data, mime, rid, k) \<Rightarrow>
        (text_message [])\<lparr>im_type := ''audio'', im_text := None, im_mime_type := Some mime,
           im_local_path := Some (save_upload s i (new_filename v n (Some mime))),
           im_recording_id := Some rid, im_segment_index := Some k\<rparr>)"

definition web_input :: "form \<Rightarrow> issue_message list \<Rightarrow> draft_input" where
  "web_input f texts =
     \<lparr>di_lat = Some (fm_lat f), di_lon = Some (fm_lon f), di_address = None, di_messages = texts,
      di_photo_media_id = None\<rparr>"

text \<open>Two commits: the draft row, then its files, its status and its job.\<close>

definition create_draft ::
    "settings \<Rightarrow> web_env \<Rightarrow> user \<Rightarrow> form \<Rightarrow> db \<Rightarrow> (exn + draft_response) \<times> db" where
  "create_draft s v u f d =
     (case accept_form (wb_world v) s u f of
        Inl e \<Rightarrow> (Inl e, d)
      | Inr (texts, photo, clips) \<Rightarrow>
          (case create_draft_grievance (wb_now v) (the (us_contact_id u)) None (Some (us_id u)) Src_web
                  (web_input f texts) d of
             ((g, _), d1) \<Rightarrow>
               let audio = map (clip_message s v (gr_id g)) (numbered clips);
                   path = map_option (\<lambda>(data, mime).
                            save_upload s (gr_id g) (new_filename v (length clips) (Some mime))) photo
               in case set_grievance_fields (wb_now v) (gr_id g)
                         (\<lambda>r. r\<lparr>gr_issue_messages := texts @ audio, gr_photo_path := path,
                                 gr_status := Gs_processing\<rparr>) d1 of
                    Inl e \<Rightarrow> (Inl e, d1)
                  | Inr (g2, d2) \<Rightarrow>
                      (draft_response g2, enqueue_pipeline_job (wb_now v) (gr_id g) Stage_intelligence [] d2)))"

definition get_draft :: "user \<Rightarrow> uuid \<Rightarrow> db \<Rightarrow> exn + draft_response" where
  "get_draft u i d = bindE (owned i u d) draft_response"

section \<open>The citizen's review\<close>

record review_body =
  rb_category_id :: "string option"
  rb_asset_scope :: "string option"
  rb_summary :: "string option"
  rb_clarification_answer :: "string option"

definition at_most :: "nat \<Rightarrow> string option \<Rightarrow> bool" where
  "at_most n t = (case t of None \<Rightarrow> True | Some x \<Rightarrow> py_len x \<le> n)"

definition review_body_ok :: "review_body \<Rightarrow> bool" where
  "review_body_ok b =
     (at_most 128 (rb_category_id b) \<and> at_most 32 (rb_asset_scope b) \<and>
      at_most 600 (rb_summary b) \<and> at_most 2000 (rb_clarification_answer b))"

definition review_category :: "review_body \<Rightarrow> grievance \<Rightarrow> string option" where
  "review_category b g =
     canonical_category_key (opt_or (rb_category_id b) (opt_or (gr_category_id g) (gr_category g)))"

definition review_scope :: "review_body \<Rightarrow> grievance \<Rightarrow> asset_scope option" where
  "review_scope b g =
     (if truthy (rb_asset_scope b)
      then map_of [(''public'', Scope_public), (''private'', Scope_private), (''unknown'', Scope_unknown)]
             (the (rb_asset_scope b))
      else Some (case gr_asset_scope g of None \<Rightarrow> Scope_unknown | Some x \<Rightarrow> x))"

definition review_policy :: "string \<Rightarrow> asset_scope \<Rightarrow> grievance \<Rightarrow> routing_decision" where
  "review_policy key scope g =
     evaluate_routing_policy (Some key)
       (case gr_safety_level g of None \<Rightarrow> Safety_none | Some x \<Rightarrow> x) scope
       (truthy (gr_location_address g)) 1 DEMO_PROFILE"

definition put_stripped :: "string \<Rightarrow> string option \<Rightarrow> jobject \<Rightarrow> jobject" where
  "put_stripped key t facts =
     (case t of None \<Rightarrow> facts | Some x \<Rightarrow> dict_put facts (key, JStr (py_strip x)))"

definition review_facts :: "review_body \<Rightarrow> grievance \<Rightarrow> jobject" where
  "review_facts b g =
     put_stripped ''clarification_answer'' (rb_clarification_answer b)
       (put_stripped ''summary'' (rb_summary b) (facts_of g))"

definition review_fields :: "review_body \<Rightarrow> string \<Rightarrow> asset_scope \<Rightarrow> grievance \<Rightarrow> grievance" where
  "review_fields b key scope g =
     (let c = category_or_default (Some key);
          policy = review_policy key scope g
      in g\<lparr>gr_taxonomy_version := Some TAXONOMY_VERSION, gr_category := Some key,
           gr_category_id := Some key, gr_aggregation_key := cat_aggregation_key c,
           gr_department_key := Some (cat_department_key c),
           gr_priority := Some (rd_priority policy), gr_term := Some (cat_term_hint c),
           gr_confidence := Some 1, gr_asset_scope := Some scope,
           gr_disposition := Some (rd_disposition policy),
           gr_review_status := Some (review_after policy),
           gr_structured_facts := Some (review_facts b g),
           gr_routing_snapshot := Some
             (routing_snapshot key c (route_for_category (Some key) DEMO_PROFILE) policy),
           gr_state_version := gr_state_version g + 1\<rparr>)"

text \<open>The object in hand is the row that was just updated, so the suffix of the job's key is one more
  than the new version. A job that exists under the key is not stored again.\<close>

definition update_review ::
    "web_env \<Rightarrow> user \<Rightarrow> uuid \<Rightarrow> review_body \<Rightarrow> db \<Rightarrow> (exn + draft_response) \<times> db" where
  "update_review v u i b d =
     (if \<not> review_body_ok b then (Inl (HTTPException 422), d)
      else
        case owned i u d of
          Inl e \<Rightarrow> (Inl e, d)
        | Inr g \<Rightarrow>
            (case (review_category b g, review_scope b g) of
               (Some key, Some scope) \<Rightarrow>
                 (case set_grievance_fields (wb_now v) i (review_fields b key scope) d of
                    Inl e \<Rightarrow> (Inl e, d)
                  | Inr (g1, d1) \<Rightarrow>
                      (draft_response g1,
                       if truthy (rb_category_id b) \<or> truthy (rb_clarification_answer b)
                       then enqueue_pipeline_job (wb_now v) i Stage_reextract
                              (show_nat (gr_state_version g1 + 1)) d1
                       else d1))
             | _ \<Rightarrow> (Inl (HTTPException 422), d)))"

section \<open>A new photo and the confirmation\<close>

text \<open>The check runs in a session of its own. The session of the request keeps its objects after a
  commit, so the response is built from the row as it was before the check.\<close>

definition replace_photo ::
    "settings \<Rightarrow> web_env \<Rightarrow> user \<Rightarrow> uuid \<Rightarrow> upload \<Rightarrow> db \<Rightarrow> (exn + draft_response) \<times> db" where
  "replace_photo s v u i photo d =
     (case owned i u d of
        Inl e \<Rightarrow> (Inl e, d)
      | Inr g \<Rightarrow>
          let data = read_upload (s_max_image_bytes s) photo;
              mime = str_or (up_content_type photo) ''image/jpeg'' in
          (case checked_upload (Some mime) data Kind_image s of
             Inl e \<Rightarrow> (Inl e, d)
           | Inr _ \<Rightarrow>
               let path = save_upload s i (new_filename v 0 (Some mime)) in
               (case set_grievance_fields (wb_now v) i
                       (\<lambda>r. r\<lparr>gr_photo_path := Some path, gr_photo_media_id := None\<rparr>) d of
                  Inl e \<Rightarrow> (Inl e, d)
                | Inr (g1, d1) \<Rightarrow>
                    (case recheck_image (wb_world v) s (wb_now v) i False d1 of
                       (Inl e, d2) \<Rightarrow> (Inl (HTTPException 502), d2)
                     | (Inr res, d2) \<Rightarrow> (draft_response g1, d2)))))"

definition confirm_draft ::
    "settings \<Rightarrow> web_env \<Rightarrow> user \<Rightarrow> uuid \<Rightarrow> db \<Rightarrow> (exn + outcome) \<times> db" where
  "confirm_draft s v u i d =
     (case owned i u d of
        Inl e \<Rightarrow> (Inl e, d)
      | Inr g \<Rightarrow>
          if gr_status g \<notin> {Gs_awaiting_confirmation, Gs_photo_mismatch}
          then (Inl (HTTPException 400), d)
          else
            seqE (if gr_status g = Gs_photo_mismatch
                  then accept_photo_mismatch (wb_world v) s (wb_now v) i d else (Inr (), d))
              (\<lambda>_ d1. finalize_grievance (wb_world v) s (wb_now v) (wb_hex v) i d1))"

section \<open>Reading\<close>

definition list_my_grievances :: "user \<Rightarrow> int \<Rightarrow> int \<Rightarrow> db \<Rightarrow> exn + grievance list" where
  "list_my_grievances u limit offset d =
     (if limit < 1 \<or> limit > 100 \<or> offset < 0 then Inl (HTTPException 422)
      else Inr (list_grievances_for_user (us_id u) (nat limit) (nat offset) d))"

record detail_response =
  dt_draft :: draft_response
  dt_events :: "grievance_event list"

definition get_grievance_detail :: "user \<Rightarrow> uuid \<Rightarrow> db \<Rightarrow> exn + detail_response" where
  "get_grievance_detail u i d =
     bindE (owned i u d) (\<lambda>g.
     bindE (draft_response g) (\<lambda>r.
       Inr \<lparr>dt_draft = r\<lparr>dr_voice_note_urls := [], dr_voice_note_metadata := []\<rparr>,
            dt_events = list_grievance_events i d\<rparr>))"

text \<open>A stored file that cannot be read is answered with 404.\<close>

definition send_file :: "web_env \<Rightarrow> settings \<Rightarrow> string \<Rightarrow> string \<Rightarrow> exn + (string \<times> string)" where
  "send_file v s stored media_type =
     (case w_read_file (wb_world v) (path_str (artifact_path s stored)) of
        Inl e \<Rightarrow> Inl (HTTPException 404)
      | Inr content \<Rightarrow> Inr (content, media_type))"

definition stream_voice_note ::
    "settings \<Rightarrow> web_env \<Rightarrow> user \<Rightarrow> uuid \<Rightarrow> int \<Rightarrow> db \<Rightarrow> exn + (string \<times> string)" where
  "stream_voice_note s v u i n d =
     bindE (owned i u d) (\<lambda>g.
       if n < 0 \<or> n \<ge> int (length (gr_issue_messages g)) then Inl (HTTPException 404)
       else
         let m = gr_issue_messages g ! nat n in
         if \<not> is_voice_note m then Inl (HTTPException 404)
         else send_file v s (the (im_local_path m)) (str_or (im_mime_type m) ''audio/webm''))"

definition download_photo ::
    "settings \<Rightarrow> web_env \<Rightarrow> user \<Rightarrow> uuid \<Rightarrow> db \<Rightarrow> exn + (string \<times> string)" where
  "download_photo s v u i d =
     bindE (owned i u d) (\<lambda>g.
       if \<not> truthy (gr_photo_path g) then Inl (HTTPException 404)
       else
         let stored = the (gr_photo_path g) in
         send_file v s stored
           (str_or (w_guess_type (wb_world v) (path_name (artifact_path s stored))) ''image/jpeg''))"

definition download_pdf ::
    "settings \<Rightarrow> web_env \<Rightarrow> user \<Rightarrow> uuid \<Rightarrow> db \<Rightarrow> exn + (string \<times> string \<times> string)" where
  "download_pdf s v u i d =
     bindE (owned i u d) (\<lambda>g.
       if \<not> truthy (gr_pdf_path g) then Inl (HTTPException 404)
       else
         bindE (send_file v s (the (gr_pdf_path g)) ''application/pdf'') (\<lambda>(content, media_type).
           Inr (content, media_type, gr_human_id g @ ''.pdf'')))"

section \<open>What a request can touch\<close>

text \<open>A request about complaint \<open>i\<close> keeps every row and its owner, and of any other row at most the
  report count, with the time of the update, changes.\<close>

definition row_frame :: "uuid \<Rightarrow> db \<Rightarrow> db \<Rightarrow> bool" where
  "row_frame i d d1 \<longleftrightarrow>
     (\<forall>j h. get_grievance j d = Some h \<longrightarrow>
        (\<exists>h'. get_grievance j d1 = Some h' \<and> gr_user_id h' = gr_user_id h \<and>
          (j \<noteq> i \<longrightarrow> h' = h\<lparr>gr_report_count := gr_report_count h', gr_updated_at := gr_updated_at h'\<rparr>)))"

lemma row_frame_same: "(\<And>j. get_grievance j d1 = get_grievance j d) \<Longrightarrow> row_frame i d d1"
  by (simp add: row_frame_def)

lemma row_frame_refl [simp, intro]: "row_frame i d d"
  by (simp add: row_frame_def)

lemma row_frame_trans [trans]:
  assumes "row_frame i d d1" and "row_frame i d1 d2"
  shows "row_frame i d d2"
  unfolding row_frame_def
proof (intro allI impI)
  fix j h assume "get_grievance j d = Some h"
  then obtain h1 where h1: "get_grievance j d1 = Some h1" "gr_user_id h1 = gr_user_id h"
    "j \<noteq> i \<longrightarrow> h1 = h\<lparr>gr_report_count := gr_report_count h1, gr_updated_at := gr_updated_at h1\<rparr>"
    using assms(1) unfolding row_frame_def by blast
  then obtain h2 where h2: "get_grievance j d2 = Some h2" "gr_user_id h2 = gr_user_id h1"
    "j \<noteq> i \<longrightarrow> h2 = h1\<lparr>gr_report_count := gr_report_count h2, gr_updated_at := gr_updated_at h2\<rparr>"
    using assms(2) unfolding row_frame_def by blast
  have "j \<noteq> i \<longrightarrow> h2 = h\<lparr>gr_report_count := gr_report_count h2, gr_updated_at := gr_updated_at h2\<rparr>"
    using h1(3) h2(3) by (cases h; cases h1; cases h2) simp
  with h1 h2 show "\<exists>h'. get_grievance j d2 = Some h' \<and> gr_user_id h' = gr_user_id h \<and>
      (j \<noteq> i \<longrightarrow> h' = h\<lparr>gr_report_count := gr_report_count h', gr_updated_at := gr_updated_at h'\<rparr>)"
    by simp
qed

lemma row_frame_event [simp]: "row_frame i d (add_grievance_event now j st note d1) = row_frame i d d1"
  by (simp add: row_frame_def)

lemma row_frame_pre: "row_frame i (add_grievance_event now j st note d) d1 \<Longrightarrow> row_frame i d d1"
  by (simp add: row_frame_def)

lemma row_frame_side: "side_commit d d1 \<Longrightarrow> row_frame i d d1"
  by (rule row_frame_same) (rule get_grievance_side)

lemma row_frame_job: "row_frame i d (enqueue_pipeline_job now j st k d)"
  by (rule row_frame_same)
    (simp add: enqueue_pipeline_job_def get_grievance_def new_id_def Let_def)

lemma set_fields_id:
  "set_grievance_fields now i f d = Inr (g, d1) \<Longrightarrow> (\<And>r. gr_id (f r) = gr_id r) \<Longrightarrow> gr_id g = i"
  by (auto simp: set_fields_Inr apply_fields_id dest: get_grievance_id)

lemma row_frameI:
  assumes "get_grievance k d = Some g0" and "get_grievance k d1 = Some g"
    and "\<And>j. j \<noteq> k \<Longrightarrow> get_grievance j d1 = get_grievance j d" and "gr_user_id g = gr_user_id g0"
    and "k \<noteq> i \<Longrightarrow> g = g0\<lparr>gr_report_count := gr_report_count g, gr_updated_at := gr_updated_at g\<rparr>"
  shows "row_frame i d d1"
  unfolding row_frame_def
proof (intro allI impI)
  fix j h assume h: "get_grievance j d = Some h"
  show "\<exists>h'. get_grievance j d1 = Some h' \<and> gr_user_id h' = gr_user_id h \<and>
      (j \<noteq> i \<longrightarrow> h' = h\<lparr>gr_report_count := gr_report_count h', gr_updated_at := gr_updated_at h'\<rparr>)"
  proof (cases "j = k")
    case True
    with h assms(1) have "h = g0" by simp
    with True assms(2,4,5) show ?thesis by (intro exI [of _ g]) simp
  next
    case False
    with h assms(3) show ?thesis by simp
  qed
qed

lemma row_frame_set:
  assumes "set_grievance_fields now i f d = Inr (g, d1)"
    and "\<And>r. gr_id (f r) = gr_id r" and "\<And>r. gr_user_id (f r) = gr_user_id r"
  shows "row_frame i d d1"
proof -
  obtain g0 where g0: "get_grievance i d = Some g0" "g = apply_fields now f g0"
    using assms(1) by (auto simp: set_fields_Inr)
  have "gr_user_id g = gr_user_id g0" using g0(2) assms(3) by (simp add: apply_fields_def)
  with set_fields_get [OF assms(1,2)] g0(1) show ?thesis
    by (intro row_frameI [of i d g0 d1 g]) simp_all
qed

lemma row_frame_count:
  assumes "set_grievance_fields now k (\<lambda>r. r\<lparr>gr_report_count := n\<rparr>) d = Inr (g, d1)"
  shows "row_frame i d d1"
proof -
  obtain g0 where g0: "get_grievance k d = Some g0" "g = apply_fields now (\<lambda>r. r\<lparr>gr_report_count := n\<rparr>) g0"
    using assms by (auto simp: set_fields_Inr)
  have "g = g0\<lparr>gr_report_count := gr_report_count g, gr_updated_at := gr_updated_at g\<rparr>"
    "gr_user_id g = gr_user_id g0"
    unfolding g0(2) apply_fields_def by (cases g0; simp)+
  with set_fields_get [OF assms] g0(1) show ?thesis
    by (intro row_frameI [of k d g0 d1 g]) simp_all
qed

lemma commitE_frame:
  "commitE d r = (x, d1) \<Longrightarrow> (\<And>a d2. r = Inr (a, d2) \<Longrightarrow> row_frame i d d2) \<Longrightarrow> row_frame i d d1"
  by (cases r) (auto simp: commitE_def)

lemma build_pdf_frame:
  "build_and_store_pdf w s now g photo d = Inr (pdf, g1, d1) \<Longrightarrow> row_frame (gr_id g) d d1"
  by (auto simp: build_and_store_pdf_def bindE_Inr_iff Let_def elim!: row_frame_set)

lemma set_pdf_frame:
  assumes "set_grievance_fields now i f d = Inr (g1, da)"
    and "build_and_store_pdf w s now g1 ph da = Inr (p, g2, d2)"
    and "\<And>r. gr_id (f r) = gr_id r" and "\<And>r. gr_user_id (f r) = gr_user_id r"
  shows "row_frame i d d2"
  using row_frame_set [OF assms(1,3,4)] build_pdf_frame [OF assms(2)] set_fields_id [OF assms(1,3)]
    row_frame_trans by metis

lemma accept_mismatch_frame:
  assumes "accept_photo_mismatch w s now i d = (r, d1)"
  shows "row_frame i d d1"
  using assms
  by (auto simp: accept_photo_mismatch_def bindE_Inr_iff split: option.splits if_splits
      elim!: commitE_frame) (rule set_pdf_frame, assumption+, simp_all)

lemma recheck_fields_sel [simp]:
  "gr_id (recheck_fields im g) = gr_id g" "gr_user_id (recheck_fields im g) = gr_user_id g"
  "gr_status (recheck_fields im g) = status_after_image im"
  "gr_dispatch_ref (recheck_fields im g) = gr_dispatch_ref g"
  by (simp_all add: recheck_fields_def)

lemma accept_mismatch_ids:
  assumes "accept_photo_mismatch w s now i d = (r, d1)"
  shows "map gr_id (db_grievances d1) = map gr_id (db_grievances d)"
proof -
  have event: "db_grievances (add_grievance_event now i st nt d) = db_grievances d" for st nt d
    by (simp add: add_grievance_event_def new_id_def Let_def)
  have pdf: "map gr_id (db_grievances d2) = map gr_id (db_grievances da)"
    if "build_and_store_pdf w s now g1 ph da = Inr (p, g2, d2)" for g1 da ph p g2 d2
    using that by (auto simp: build_and_store_pdf_def bindE_Inr_iff Let_def elim!: grievance_ids_kept)
  have set: "map gr_id (db_grievances da) = map gr_id (db_grievances d)"
    if "set_grievance_fields now i (\<lambda>r. r\<lparr>gr_status := st, gr_flags := fl\<rparr>) d = Inr (g1, da)"
    for st fl g1 da
    using that by (rule grievance_ids_kept) simp
  show ?thesis
    using assms by (auto simp: accept_photo_mismatch_def commitE_def bindE_Inr_iff event
        dest!: pdf set split: option.splits if_splits sum.splits)
qed

lemma seqE_name: "snd (seqE m name_department) = snd m"
  by (cases m) (auto simp: seqE_def name_department_def split: sum.splits)

lemma recheck_image_frame:
  assumes "recheck_image w s now i p d = (r, d1)"
  shows "row_frame i d d1"
proof (cases "get_grievance i d")
  case None
  then show ?thesis using assms by (simp add: recheck_image_def)
next
  case (Some g)
  obtain x d0 where photo: "recheck_photo w s now g p d = (x, d0)" by fastforce
  have side: "row_frame i d d0" by (rule row_frame_side [OF recheck_photo_side [OF photo]])
  show ?thesis
  proof (cases x)
    case (Inl e)
    then show ?thesis using assms side by (simp add: recheck_image_def Some photo seqE_def)
  next
    case (Inr ip)
    obtain im photo where ip: "ip = (im, photo)" by fastforce
    let ?m = "bindE (set_grievance_fields now i (recheck_fields im) d0) (\<lambda>(g1, d1).
       bindE (if status_after_image im = Gs_awaiting_confirmation
              then bindE (build_and_store_pdf w s now g1 photo d1) (\<lambda>(_, g2, d2). Inr (g2, d2))
              else Inr (g1, d1)) (\<lambda>(g2, d2).
         Inr (\<lparr>pr_status = status_after_image im, pr_category = category_of g2,
               pr_department_name = [], pr_priority = priority_of g2,
               pr_flags = gr_flags g2, pr_image_match = im\<rparr>,
              add_grievance_event now i (status_after_image im) None d2)))"
    have pdf: "row_frame i d0 d2"
      if "set_grievance_fields now i (recheck_fields im) d0 = Inr (g1, da)"
        "build_and_store_pdf w s now g1 photo da = Inr (p, g2, d2)" for g1 da p g2 d2
      using that by (rule set_pdf_frame) simp_all
    have no_pdf: "row_frame i d0 da"
      if "set_grievance_fields now i (recheck_fields im) d0 = Inr (g1, da)" for g1 da
      using that by (rule row_frame_set) simp_all
    have "row_frame i d0 d2" if m: "?m = Inr (a, d2)" for a d2
    proof (cases "status_after_image im = Gs_awaiting_confirmation")
      case True
      with m show ?thesis by (simp add: bindE_Inr_iff) (metis pdf row_frame_event)
    next
      case False
      with m show ?thesis by (simp add: bindE_Inr_iff) (metis no_pdf row_frame_event)
    qed
    note m_frame = this
    obtain y db where c: "commitE d0 ?m = (y, db)" by fastforce
    have "row_frame i d0 (snd (commitE d0 ?m))"
      using commitE_frame [OF c, of i] m_frame by (simp add: c)
    moreover have "d1 = snd (commitE d0 ?m)"
      using assms seqE_name [of "commitE d0 ?m"]
      by (simp add: recheck_image_def Some photo Inr ip seqE_Inr)
    ultimately have "row_frame i d0 d1" by simp
    with side show ?thesis by (rule row_frame_trans)
  qed
qed

lemma dispatch_frame:
  assumes "dispatch_grievance w s now hex8 i d = (r, d1)"
  shows "row_frame i d d1"
proof (cases "get_grievance i d")
  case None
  then show ?thesis using assms by (simp add: dispatch_grievance_def)
next
  case (Some g)
  have keep: "gr_user_id (snd (dispatched w s hex8 g) g) = gr_user_id g"
    by (auto simp: dispatched_def Let_def split: sum.splits)
  from dispatch_row [OF Some, of w s now hex8] obtain t where
    "get_grievance i d1 = Some ((snd (dispatched w s hex8 g) g)\<lparr>gr_updated_at := t\<rparr>)"
    "\<And>j. j \<noteq> i \<Longrightarrow> get_grievance j d1 = get_grievance j d"
    using assms by auto
  with Some show ?thesis by (rule row_frameI) (simp_all add: keep)
qed

lemma finalize_frame:
  assumes "finalize_grievance w s now hex8 i d = (r, d1)"
  shows "row_frame i d d1"
proof -
  have dup: "row_frame i da d2"
    if "mark_duplicate now g m da = Inr (a, d2)" "gr_id g = i" for g m da a d2
    using that
    by (auto simp: mark_duplicate_def bindE_Inr_iff)
      (rule row_frame_trans, erule row_frame_set, simp, simp, erule row_frame_count)
  have win: "row_frame i da d2" if "open_window s now g da = Inr (a, d2)" "gr_id g = i" for g da a d2
    using that by (auto simp: open_window_def bindE_Inr_iff) (erule row_frame_set, simp, simp)
  have reg: "row_frame i d d2" "gr_id g2 = i"
    if "set_grievance_fields now i (register_fields now) d = Inr (g2, d2)" for g2 d2
    using that by (auto intro: row_frame_set set_fields_id simp: register_fields_def)
  have hold: "row_frame i d d2"
    if "set_grievance_fields now i
      (\<lambda>r. (register_fields now r)\<lparr>gr_review_status := Some Rv_pending_official\<rparr>) d = Inr (g2, d2)" for g2 d2
    using that by (rule row_frame_set) (simp_all add: register_fields_def)
  have after_reg: "row_frame i d d2"
    if "set_grievance_fields now i (register_fields now) d = Inr (g2, da)"
      "row_frame i (add_grievance_event now i st nt da) d2" for g2 da d2 st nt
    using row_frame_trans [OF reg(1) [OF that(1)] row_frame_pre [OF that(2)]] .
  show ?thesis
  proof (cases "get_grievance i d")
    case None
    then show ?thesis using assms by (simp add: finalize_grievance_def)
  next
    case (Some g)
    note run = assms [unfolded finalize_grievance_def Let_def, simplified Some option.simps]
    show ?thesis
    proof (cases "held_back g")
      case True
      then show ?thesis
        using run
        by (auto simp: held_back_def bindE_Inr_iff split: if_splits elim!: commitE_frame)
          (erule reg(1) hold)+
    next
      case False
      show ?thesis
        using run False
        by (auto simp: held_back_def split: sum.splits if_splits option.splits elim!: commitE_frame)
          (rule after_reg, assumption,
           (erule dispatch_frame | erule win, erule reg(2) | erule dup, erule reg(2)))+
    qed
  qed
qed

section \<open>Ownership and confirmation\<close>

lemma owned_iff:
  "owned i u d = Inr g \<longleftrightarrow> get_grievance i d = Some g \<and> gr_user_id g = Some (us_id u)"
  "owned i u d = Inl e \<longleftrightarrow> e = HTTPException 404 \<and>
     (\<forall>g. get_grievance i d = Some g \<longrightarrow> gr_user_id g \<noteq> Some (us_id u))"
  by (auto simp: owned_def require_owner_def split: option.splits)

lemma review_fields_sel [simp]:
  "gr_id (review_fields b key scope g) = gr_id g"
  "gr_user_id (review_fields b key scope g) = gr_user_id g"
  "gr_status (review_fields b key scope g) = gr_status g"
  "gr_category_id (review_fields b key scope g) = Some key"
  "gr_safety_level (review_fields b key scope g) = gr_safety_level g"
  "gr_disposition (review_fields b key scope g) = Some (rd_disposition (review_policy key scope g))"
  "gr_review_status (review_fields b key scope g) = Some (review_after (review_policy key scope g))"
  "gr_state_version (review_fields b key scope g) = gr_state_version g + 1"
  by (simp_all add: review_fields_def Let_def)

lemma update_review_frame: "row_frame i d (snd (update_review v u i b d))"
proof -
  have set: "row_frame i d d1" if "set_grievance_fields (wb_now v) i (review_fields b key scope) d = Inr (g, d1)"
    for key scope g d1
    using that by (rule row_frame_set) simp_all
  show ?thesis
    by (auto simp: update_review_def intro: set row_frame_trans [OF set row_frame_job]
        split: sum.splits option.splits)
qed

lemma replace_photo_frame: "row_frame i d (snd (replace_photo s v u i photo d))"
proof -
  have set: "row_frame i d d1"
    if "set_grievance_fields now i (\<lambda>r. r\<lparr>gr_photo_path := p, gr_photo_media_id := None\<rparr>) d = Inr (g, d1)"
    for now p g d1
    using that by (rule row_frame_set) simp_all
  have two: "row_frame i d d2"
    if "set_grievance_fields now i (\<lambda>r. r\<lparr>gr_photo_path := p, gr_photo_media_id := None\<rparr>) d = Inr (g, d1)"
      "recheck_image w s now i False d1 = (x, d2)" for now p g d1 w x d2
    using set [OF that(1)] recheck_image_frame [OF that(2)] by (rule row_frame_trans)
  show ?thesis
    by (auto simp: replace_photo_def Let_def intro: two split: sum.splits prod.splits)
qed

lemma confirm_draft_frame: "row_frame i d (snd (confirm_draft s v u i d))"
proof -
  have fin: "row_frame i d1 (snd (finalize_grievance w s now hex8 i d1))" for w now hex8 d1
    by (rule finalize_frame) (rule surjective_pairing)
  have acc: "row_frame i d d1" if "accept_photo_mismatch w s now i d = (r, d1)" for w now r d1
    using that by (rule accept_mismatch_frame)
  show ?thesis
    by (auto simp: confirm_draft_def seqE_def intro: fin acc row_frame_trans [OF acc fin]
        split: sum.splits prod.splits)
qed



section \<open>A new photo\<close>

lemma recheck_image_row:
  assumes "get_grievance i d = Some g" and "recheck_image w s now i False d = (Inr res, d1)"
  shows "\<exists>g'. get_grievance i d1 = Some g' \<and> gr_status g' = pr_status res \<and>
    gr_status g' \<in> {Gs_awaiting_confirmation, Gs_photo_mismatch} \<and>
    gr_dispatch_ref g' = gr_dispatch_ref g \<and> held_back g' = held_back g \<and>
    dispatch_enabled g' = dispatch_enabled g \<and> gr_category g' = gr_category g"
proof -
  have policy: "held_back (recheck_fields im r) = held_back r" "dispatch_enabled (recheck_fields im r) = dispatch_enabled r"
    "gr_category (recheck_fields im r) = gr_category r" for im r
    by (simp_all add: held_back_def awaits_disposition_def dispatch_enabled_def recheck_fields_def)
  have stamps: "held_back (r\<lparr>gr_updated_at := u\<rparr>) = held_back r"
    "held_back (r\<lparr>gr_pdf_path := q\<rparr>) = held_back r"
    "dispatch_enabled (r\<lparr>gr_updated_at := u\<rparr>) = dispatch_enabled r"
    "dispatch_enabled (r\<lparr>gr_pdf_path := q\<rparr>) = dispatch_enabled r" for r :: grievance and q u
    by (simp_all add: held_back_def awaits_disposition_def dispatch_enabled_def)
  obtain im photo d0 where photo: "recheck_photo w s now g False d = (Inr (im, photo), d0)"
    using assms by (cases "recheck_photo w s now g False d") (auto simp: recheck_image_def seqE_def split: sum.splits)
  have get0: "get_grievance i d0 = Some g"
    using get_grievance_side [OF recheck_photo_side [OF photo]] assms(1) by simp
  obtain t da where set: "set_grievance_fields now i (recheck_fields im) d0 =
      Inr ((recheck_fields im g)\<lparr>gr_updated_at := t\<rparr>, da)"
    "get_grievance i da = Some ((recheck_fields im g)\<lparr>gr_updated_at := t\<rparr>)"
    using set_fields_step [OF get0, of "recheck_fields im" now] by auto
  have st: "status_after_image im \<in> {Gs_awaiting_confirmation, Gs_photo_mismatch}"
    by (simp add: status_after_image_def)
  let ?g = "(recheck_fields im g)\<lparr>gr_updated_at := t\<rparr>"
  have i: "gr_id ?g = i" using get_grievance_id [OF get0] by simp
  have get1: "get_grievance (gr_id ?g) da = Some ?g" using set(2) i by simp
  show ?thesis
  proof (cases "status_after_image im = Gs_awaiting_confirmation")
    case True
    from build_pdfE [OF get1, of w s now photo] obtain t2 pdf path db where
      "build_and_store_pdf w s now ?g photo da = Inr (pdf, ?g\<lparr>gr_pdf_path := Some path, gr_updated_at := t2\<rparr>, db)"
      "get_grievance i db = Some (?g\<lparr>gr_pdf_path := Some path, gr_updated_at := t2\<rparr>)"
      using i by metis
    with assms st show ?thesis
      by (auto simp: recheck_image_def photo seqE_Inr set(1) True commitE_def name_department_def
          policy stamps split: sum.splits)
  next
    case False
    with assms st set(2) show ?thesis
      by (auto simp: recheck_image_def photo seqE_Inr set(1) commitE_def name_department_def
          policy stamps split: sum.splits)
  qed
qed

text \<open>C39. Replacing the photo reopens a complaint whatever its status: one that was sent, merged,
  registered or cancelled awaits the citizen again afterwards, with its dispatch reference still on
  the row, so that a second confirmation is let through. One that the first pass has not looked at yet
  can be confirmed too: its category, its place before the officials and the switch of its dispatch
  are taken as they are, and a complaint without a first pass is neither held back nor disabled. The
  answer is built before the check and still shows the old status.\<close>

theorem new_photo_reopens:
  assumes "get_grievance i d = Some g" and "replace_photo s v u i photo d = (Inr r, d1)"
  shows "gr_status (dr_row r) = gr_status g \<and>
    (gr_disposition g = None \<and> gr_review_status g = None \<and> gr_routing_snapshot g = None \<longrightarrow>
       \<not> held_back g \<and> dispatch_enabled g) \<and>
    (\<exists>g'. get_grievance i d1 = Some g' \<and> gr_dispatch_ref g' = gr_dispatch_ref g \<and>
       held_back g' = held_back g \<and> dispatch_enabled g' = dispatch_enabled g \<and>
       gr_category g' = gr_category g \<and>
       gr_status g' \<in> {Gs_awaiting_confirmation, Gs_photo_mismatch} \<and>
       confirm_draft s v u i d1 =
         seqE (if gr_status g' = Gs_photo_mismatch
               then accept_photo_mismatch (wb_world v) s (wb_now v) i d1 else (Inr (), d1))
           (\<lambda>_ d2. finalize_grievance (wb_world v) s (wb_now v) (wb_hex v) i d2))"
proof -
  obtain p da where own: "owned i u d = Inr g"
    and set: "set_grievance_fields (wb_now v) i
      (\<lambda>r. r\<lparr>gr_photo_path := Some p, gr_photo_media_id := None\<rparr>) d = Inr (dr_row r, da)"
    and check: "\<exists>res. recheck_image (wb_world v) s (wb_now v) i False da = (Inr res, d1)"
    using assms by (auto simp: replace_photo_def Let_def owned_iff draft_response_def bindE_Inr_iff
        split: sum.splits prod.splits)
  let ?f = "\<lambda>r :: grievance. r\<lparr>gr_photo_path := Some p, gr_photo_media_id := None\<rparr>"
  from set_fields_step [OF assms(1), of ?f "wb_now v"] set obtain t where
    row: "dr_row r = (?f g)\<lparr>gr_updated_at := t\<rparr>" "get_grievance i da = Some (dr_row r)" by auto
  from check obtain res where "recheck_image (wb_world v) s (wb_now v) i False da = (Inr res, d1)" ..
  from recheck_image_row [OF row(2) this] obtain g' where
    g': "get_grievance i d1 = Some g'" "gr_status g' \<in> {Gs_awaiting_confirmation, Gs_photo_mismatch}"
    "gr_dispatch_ref g' = gr_dispatch_ref g" "held_back g' = held_back g"
    "dispatch_enabled g' = dispatch_enabled g" "gr_category g' = gr_category g"
    using row(1) by (auto simp: held_back_def awaits_disposition_def dispatch_enabled_def)
  have "row_frame i d d1"
    using replace_photo_frame [of i d s v u photo] assms(2) by simp
  then have "gr_user_id g' = Some (us_id u)"
    using assms(1) g'(1) own unfolding row_frame_def owned_iff by fastforce
  then have "owned i u d1 = Inr g'" using g'(1) by (simp add: owned_iff)
  moreover have "\<not> held_back g \<and> dispatch_enabled g"
    if "gr_disposition g = None \<and> gr_review_status g = None \<and> gr_routing_snapshot g = None"
    using that by (simp add: held_back_def awaits_disposition_def dispatch_enabled_def)
  ultimately show ?thesis using g' row(1) by (simp add: confirm_draft_def)
qed

section \<open>The review of a citizen\<close>

text \<open>A citizen's review. It is answered only to the owner; the row gets a category of the taxonomy,
  the disposition and the review status that the policy gives for the stored safety level, and the
  next version, and the lifecycle status stays. A complaint with an immediate danger stays an
  emergency for the officials whatever the citizen picks. A decision an official had taken is
  overwritten. A correction or a clarification leaves a second extraction in the queue.\<close>

theorem review_recomputes_routing:
  assumes "get_grievance i d = Some g" and "update_review v u i b d = (Inr r, d1)"
  shows "gr_user_id g = Some (us_id u) \<and>
    (\<exists>g' key. get_grievance i d1 = Some g' \<and> g' = dr_row r \<and>
       gr_category_id g' = Some key \<and> canonical_category_key (Some key) = Some key \<and>
       gr_status g' = gr_status g \<and> gr_state_version g' = gr_state_version g + 1 \<and>
       gr_review_status g' \<in> {Some Rv_pending_official, Some Rv_citizen_review} \<and>
       (gr_safety_level g = Some Safety_immediate \<longrightarrow>
          gr_disposition g' = Some Emergency_redirect \<and> gr_review_status g' = Some Rv_pending_official) \<and>
       (truthy (rb_category_id b) \<or> truthy (rb_clarification_answer b) \<longrightarrow>
          job_key_stored (job_key i Stage_reextract (show_nat (gr_state_version g + 2))) d1))"
proof -
  obtain key scope g1 da where own: "gr_user_id g = Some (us_id u)"
    and key: "review_category b g = Some key"
    and set: "set_grievance_fields (wb_now v) i (review_fields b key scope) d = Inr (g1, da)"
    and res: "draft_response g1 = Inr r"
    and d1: "d1 = (if truthy (rb_category_id b) \<or> truthy (rb_clarification_answer b)
       then enqueue_pipeline_job (wb_now v) i Stage_reextract (show_nat (gr_state_version g1 + 1)) da
       else da)"
    using assms by (auto simp: update_review_def owned_iff split: if_splits sum.splits option.splits)
  from set_fields_step [OF assms(1), of "review_fields b key scope" "wb_now v"] set obtain t where
    row: "g1 = (review_fields b key scope g)\<lparr>gr_updated_at := t\<rparr>" "get_grievance i da = Some g1" by auto
  have get1: "get_grievance i d1 = Some g1"
    using row(2) by (simp add: d1 get_grievance_def enqueue_pipeline_job_def new_id_def Let_def)
  have emergency: "rd_disposition (review_policy key scope g) = Emergency_redirect \<and>
      rd_needs_official_review (review_policy key scope g)" if "gr_safety_level g = Some Safety_immediate"
    using that by (simp add: review_policy_def evaluate_routing_policy_def decide_def Let_def)
  have queued: "job_key_stored (job_key i Stage_reextract k) (enqueue_pipeline_job now i Stage_reextract k da)"
    for now k by (auto simp: enqueue_pipeline_job_def job_key_stored_def new_id_def Let_def)
  have "dr_row r = g1" using res by (auto simp: draft_response_def bindE_Inr_iff Let_def)
  moreover have "canonical_category_key (Some key) = Some key"
    using key unfolding review_category_def by (rule canonical_key_fix)
  moreover have "review_after (review_policy key scope g) \<in> {Rv_pending_official, Rv_citizen_review}"
    by (simp add: review_after_def)
  ultimately show ?thesis
    using own get1 emergency queued [where now = "wb_now v" and k = "show_nat (gr_state_version g + 2)"]
    by (auto simp: row(1) d1 review_after_def)
qed

section \<open>An accepted form\<close>

lemma draft_response_total: "\<exists>r. draft_response g = Inr r \<and> dr_row r = g"
proof -
  obtain dept where "department_for_category
      (Some (cat_key (category_or_default (opt_or (gr_category_id g) (gr_category g))))) = Inr dept"
    using department_total by blast
  then show ?thesis by (simp add: draft_response_def Let_def)
qed

lemma accept_form_messages:
  assumes "accept_form w s u f = Inr (texts, photo, clips)"
  shows "us_contact_id u \<noteq> None" "texts \<noteq> [] \<or> clips \<noteq> []" "form_ok f"
  using assms by (auto simp: accept_form_def bindE_Inr_iff Let_def split: if_splits option.splits)

lemma new_draft_row:
  assumes "\<forall>g \<in> set (db_grievances d). gr_id g \<noteq> fst (new_id d)"
  shows "\<exists>d1. create_draft_grievance now ct None u src di d =
      ((draft_row now (fst (new_id d)) (db_human_seq d) ct None u src di, True), d1) \<and>
    get_grievance (fst (new_id d)) d1 =
      Some (draft_row now (fst (new_id d)) (db_human_seq d) ct None u src di)"
proof -
  have "tget gr_id (uuid_str (db_ids d)) (db_grievances d) = None"
    using assms by (auto simp: tget_None_iff new_id_def)
  then show ?thesis
    by (simp add: create_draft_grievance_def conversation_draft_def new_id_def get_grievance_def
        tget_append tget_Cons draft_row_def Let_def)
qed

lemma create_draft_run:
  assumes "\<forall>g \<in> set (db_grievances d). gr_id g \<noteq> fst (new_id d)"
    and acc: "accept_form (wb_world v) s u f = Inr (texts, photo, clips)"
  obtains r g d2 where
    "create_draft s v u f d =
       (Inr r, enqueue_pipeline_job (wb_now v) (fst (new_id d)) Stage_intelligence [] d2)"
    "dr_row r = g" "get_grievance (fst (new_id d)) d2 = Some g" "gr_status g = Gs_processing"
    "gr_user_id g = Some (us_id u)" "gr_contact_id g = the (us_contact_id u)"
    "gr_issue_messages g \<noteq> []" "gr_location_latitude g = Some (fm_lat f)"
    "gr_location_longitude g = Some (fm_lon f)"
proof -
  note ok = accept_form_messages [OF acc]
  let ?i = "fst (new_id d)"
  let ?row = "draft_row (wb_now v) ?i (db_human_seq d) (the (us_contact_id u)) None (Some (us_id u)) Src_web
    (web_input f texts)"
  from new_draft_row [OF assms(1)] obtain d1 where
    draft: "create_draft_grievance (wb_now v) (the (us_contact_id u)) None (Some (us_id u)) Src_web
        (web_input f texts) d = ((?row, True), d1)" and get: "get_grievance ?i d1 = Some ?row"
    by blast
  let ?audio = "map (clip_message s v ?i) (numbered clips)"
  let ?path = "map_option (\<lambda>(data, mime). save_upload s ?i (new_filename v (length clips) (Some mime))) photo"
  let ?f = "\<lambda>r :: grievance. r\<lparr>gr_issue_messages := texts @ ?audio, gr_photo_path := ?path,
    gr_status := Gs_processing\<rparr>"
  obtain t d2 where set: "set_grievance_fields (wb_now v) ?i ?f d1 = Inr ((?f ?row)\<lparr>gr_updated_at := t\<rparr>, d2)"
    "get_grievance ?i d2 = Some ((?f ?row)\<lparr>gr_updated_at := t\<rparr>)"
    using set_fields_step [OF get, of ?f "wb_now v"] by auto
  let ?g = "(?f ?row)\<lparr>gr_updated_at := t\<rparr>"
  let ?d3 = "enqueue_pipeline_job (wb_now v) ?i Stage_intelligence [] d2"
  have id: "gr_id ?row = ?i" by (simp add: draft_row_def)
  have run: "create_draft s v u f d = (draft_response ?g, ?d3)"
    by (simp add: create_draft_def acc draft id set(1) Let_def)
  obtain r where r: "draft_response ?g = Inr r" "dr_row r = ?g"
    using draft_response_total [of ?g] by blast
  have "numbered clips \<noteq> [] \<or> texts \<noteq> []" using ok(2) by (auto simp: numbered_def)
  then show thesis
    using run r set(2) by (intro that [of r d2 ?g]) (auto simp: draft_row_def web_input_def)
qed

text \<open>Filing through the form. An answer of 201 means that the complaint is stored under a new id for
  the signed-in user, with at least one message, the coordinates of the form, in processing, and that
  the worker's job for it is in the queue. A refusal stores nothing.\<close>

theorem accepted_form_is_queued:
  assumes "\<forall>g \<in> set (db_grievances d). gr_id g \<noteq> fst (new_id d)"
  shows "case create_draft s v u f d of
      (Inr r, d1) \<Rightarrow>
        (\<exists>g. get_grievance (fst (new_id d)) d1 = Some g \<and> g = dr_row r \<and>
          gr_status g = Gs_processing \<and> gr_user_id g = Some (us_id u) \<and>
          Some (gr_contact_id g) = us_contact_id u \<and> gr_issue_messages g \<noteq> [] \<and>
          gr_location_latitude g = Some (fm_lat f) \<and> gr_location_longitude g = Some (fm_lon f)) \<and>
        job_key_stored (job_key (fst (new_id d)) Stage_intelligence []) d1 \<and> form_ok f
    | (Inl e, d1) \<Rightarrow> d1 = d"
proof (cases "accept_form (wb_world v) s u f")
  case (Inl e)
  then show ?thesis by (simp add: create_draft_def)
next
  case (Inr x)
  obtain texts photo clips where x: "x = (texts, photo, clips)" by (cases x)
  note ok = accept_form_messages [OF Inr [unfolded x]]
  show ?thesis
  proof (rule create_draft_run [OF assms Inr [unfolded x]])
    fix r g d2
    let ?i = "fst (new_id d)"
    let ?d3 = "enqueue_pipeline_job (wb_now v) ?i Stage_intelligence [] d2"
    assume run: "create_draft s v u f d = (Inr r, ?d3)" and get: "get_grievance ?i d2 = Some g"
      and row: "dr_row r = g" "gr_status g = Gs_processing" "gr_user_id g = Some (us_id u)"
      "gr_contact_id g = the (us_contact_id u)" "gr_issue_messages g \<noteq> []"
      "gr_location_latitude g = Some (fm_lat f)" "gr_location_longitude g = Some (fm_lon f)"
    have "get_grievance ?i ?d3 = Some g"
      using get by (simp add: get_grievance_def enqueue_pipeline_job_def new_id_def Let_def)
    moreover have "job_key_stored (job_key ?i Stage_intelligence []) ?d3"
      by (auto simp: enqueue_pipeline_job_def job_key_stored_def new_id_def Let_def)
    ultimately show ?thesis using ok row by (simp add: run)
  qed
qed

section \<open>Witnesses\<close>

definition mine :: "grievance \<Rightarrow> grievance" where
  "mine g = g\<lparr>gr_user_id := Some ''u1'', gr_status := Gs_awaiting_confirmation,
     gr_review_status := Some Rv_pending_official\<rparr>"

lemma mine_sel [simp]:
  "gr_id (mine g) = gr_id g" "gr_user_id (mine g) = Some ''u1''"
  "gr_status (mine g) = Gs_awaiting_confirmation" "gr_safety_level (mine g) = gr_safety_level g"
  "gr_review_status (mine g) = Some Rv_pending_official" "gr_state_version (mine g) = gr_state_version g"
  "gr_asset_scope (mine g) = gr_asset_scope g" "gr_photo_path (mine g) = gr_photo_path g"
  by (simp_all add: mine_def)

lemma mine_stored: "get_grievance ''g1'' (filed_db mine) = Some (mine sample_filed)"
  by (rule filed_db_get) simp

lemma sample_user_id [simp]: "us_id sample_user = ''u1''"
  by (simp add: sample_user_def)

definition sample_web :: web_env where
  "sample_web = \<lparr>wb_world = sample_world, wb_now = 0, wb_hex = ''00'', wb_names = (\<lambda>_. ''f''),
     wb_guess_extension = (\<lambda>_. None)\<rparr>"



theorem review_recomputes_routing_witness:
  "\<exists>r d1 g'. update_review sample_web sample_user ''g1''
       \<lparr>rb_category_id = Some ''unmapped_service'', rb_asset_scope = None, rb_summary = Some ''x'',
        rb_clarification_answer = None\<rparr> (filed_db mine) = (Inr r, d1) \<and>
     get_grievance ''g1'' d1 = Some g' \<and> gr_state_version g' = 1 \<and> gr_status g' = Gs_awaiting_confirmation"
proof -
  let ?b = "\<lparr>rb_category_id = Some ''unmapped_service'', rb_asset_scope = None, rb_summary = Some ''x'',
        rb_clarification_answer = None\<rparr>"
  have key: "review_category ?b (mine sample_filed) = Some ''unmapped_service''"
    using canonical_fix canonical_unmapped by (simp add: review_category_def opt_or_def truthy_def)
  obtain scope where scope: "review_scope ?b (mine sample_filed) = Some scope"
    by (simp add: review_scope_def truthy_def)
  obtain t d1 where set: "set_grievance_fields 0 ''g1'' (review_fields ?b ''unmapped_service'' scope) (filed_db mine) =
      Inr ((review_fields ?b ''unmapped_service'' scope (mine sample_filed))\<lparr>gr_updated_at := t\<rparr>, d1)"
    using set_fields_step [OF mine_stored, of "review_fields ?b ''unmapped_service'' scope" 0] by auto
  obtain r where "draft_response
      ((review_fields ?b ''unmapped_service'' scope (mine sample_filed))\<lparr>gr_updated_at := t\<rparr>) = Inr r"
    using draft_response_total by blast
  moreover have "owned ''g1'' sample_user (filed_db mine) = Inr (mine sample_filed)"
    by (simp add: owned_iff mine_stored)
  moreover have "review_body_ok ?b" by (simp add: review_body_ok_def at_most_def py_len_def)
  ultimately obtain d2 where run: "update_review sample_web sample_user ''g1'' ?b (filed_db mine) = (Inr r, d2)"
    by (simp add: update_review_def key scope set sample_web_def)
  have "gr_state_version sample_filed = 0" by (simp add: sample_filed_def draft_row_def)
  with review_recomputes_routing [OF mine_stored run] run show ?thesis by auto
qed

definition sample_photo :: upload where
  "sample_photo = \<lparr>up_filename = Some ''p.jpg'', up_content_type = Some ''image/jpeg'', up_data = ''x''\<rparr>"

definition sent :: "grievance \<Rightarrow> grievance" where
  "sent g = g\<lparr>gr_user_id := Some ''u1'', gr_status := Gs_submitted, gr_dispatch_ref := Some ''REF''\<rparr>"

lemma sent_sel [simp]:
  "gr_id (sent g) = gr_id g" "gr_user_id (sent g) = Some ''u1''" "gr_status (sent g) = Gs_submitted"
  "gr_dispatch_ref (sent g) = Some ''REF''"
  by (simp_all add: sent_def)

lemma sent_stored: "get_grievance ''g1'' (filed_db sent) = Some (sent sample_filed)"
  by (rule filed_db_get) simp

text \<open>A complaint sent under \<^verbatim>\<open>REF\<close> awaits confirmation again after a new photo.\<close>

theorem new_photo_reopens_witness:
  "\<exists>r d1 g'. replace_photo sample_settings sample_web sample_user ''g1'' sample_photo (filed_db sent) = (Inr r, d1) \<and>
     gr_status (dr_row r) = Gs_submitted \<and> get_grievance ''g1'' d1 = Some g' \<and>
     gr_dispatch_ref g' = Some ''REF'' \<and> gr_status g' \<in> {Gs_awaiting_confirmation, Gs_photo_mismatch}"
proof -
  let ?path = "save_upload sample_settings ''g1'' (new_filename sample_web 0 (Some ''image/jpeg''))"
  let ?f = "\<lambda>r :: grievance. r\<lparr>gr_photo_path := Some ?path, gr_photo_media_id := None\<rparr>"
  obtain g1 d1 where set: "set_grievance_fields 0 ''g1'' ?f (filed_db sent) = Inr (g1, d1)"
    and get1: "get_grievance ''g1'' d1 = Some g1" and g1: "gr_photo_path g1 = Some ?path"
    using set_fields_step [OF sent_stored, of ?f 0] by auto
  have path: "truthy (Some ?path)"
    by (simp add: save_upload_def sample_settings_def new_filename_def) code_simp
  have photo: "recheck_photo sample_world sample_settings 0 g1 False d1 = (Inr (Im_skipped, None), d1)"
    using path by (simp add: recheck_photo_def fetch_photo_def sample_world_def g1 Let_def)
  obtain g2 d2 where set2: "set_grievance_fields 0 ''g1'' (recheck_fields Im_skipped) d1 = Inr (g2, d2)"
    and get2: "get_grievance ''g1'' d2 = Some g2"
    using set_fields_step [OF get1, of "recheck_fields Im_skipped" 0] by auto
  have "get_grievance (gr_id g2) d2 = Some g2" using get2 get_grievance_id [OF get2] by simp
  then obtain pdf g3 d3 where
    pdf: "build_and_store_pdf sample_world sample_settings 0 g2 None d2 = Inr (pdf, g3, d3)"
    by (rule build_pdfE) (rule that)
  obtain dept where dept: "department_for_category (Some (category_of g3)) = Inr dept"
    using department_total by blast
  have st: "status_after_image Im_skipped = Gs_awaiting_confirmation" by (simp add: status_after_image_def)
  have "\<exists>res. recheck_image sample_world sample_settings 0 ''g1'' False d1 =
      (Inr res, add_grievance_event 0 ''g1'' Gs_awaiting_confirmation None d3)"
    unfolding recheck_image_def get1 option.simps photo seqE_Inr prod.case set2 st bindE_simps
    by (simp add: pdf commitE_def seqE_Inr name_department_def dept)
  then obtain res where check: "recheck_image sample_world sample_settings 0 ''g1'' False d1 =
      (Inr res, add_grievance_event 0 ''g1'' Gs_awaiting_confirmation None d3)" ..
  have up: "checked_upload (Some ''image/jpeg'') (read_upload (s_max_image_bytes sample_settings) sample_photo)
      Kind_image sample_settings = Inr ()"
  proof -
    have "\<exists>m \<in> set IMAGE_MIME_TYPES. normalize_mime_type (Some ''image/jpeg'') = Some m" by code_simp
    then show ?thesis
      by (simp add: checked_upload_def validate_upload_def read_upload_def sample_photo_def sample_settings_def)
  qed
  obtain r where "draft_response g1 = Inr r" using draft_response_total by blast
  moreover have "owned ''g1'' sample_user (filed_db sent) = Inr (sent sample_filed)"
    by (simp add: owned_iff sent_stored)
  ultimately have "replace_photo sample_settings sample_web sample_user ''g1'' sample_photo (filed_db sent) =
      (Inr r, add_grievance_event 0 ''g1'' Gs_awaiting_confirmation None d3)"
    using up check set
    by (simp add: replace_photo_def sample_web_def sample_photo_def str_or_def Let_def)
  from new_photo_reopens [OF sent_stored this] this show ?thesis by auto
qed

definition sample_form :: form where
  "sample_form = \<lparr>fm_lat = 20, fm_lon = 78, fm_text = Some ''x'', fm_landmark = None, fm_photo = None,
     fm_audio = [], fm_audio_metadata = []\<rparr>"

theorem accepted_form_is_queued_witness:
  "\<exists>r d1. create_draft sample_settings sample_web sample_user sample_form empty_db = (Inr r, d1) \<and>
     gr_status (dr_row r) = Gs_processing \<and> gr_location_latitude (dr_row r) = Some 20"
proof -
  have strip: "stripped (Some ''x'') = Some ''x''" by code_simp
  have no_strip: "stripped None = None" by code_simp
  have ok: "form_ok sample_form" by (simp add: form_ok_def sample_form_def py_len_def)
  have acc: "accept_form (wb_world sample_web) sample_settings sample_user sample_form =
      Inr ([text_message ''x''], None, [])"
    using ok by (simp add: accept_form_def sample_form_def strip no_strip accept_photo_def sample_user_def)
  have fresh: "\<forall>g \<in> set (db_grievances empty_db). gr_id g \<noteq> fst (new_id empty_db)"
    by (simp add: empty_db_def)
  obtain r d1 where run: "create_draft sample_settings sample_web sample_user sample_form empty_db = (Inr r, d1)"
    by (rule create_draft_run [OF fresh acc])
  with accepted_form_is_queued [OF fresh, where s = sample_settings and v = sample_web and u = sample_user and f = sample_form]
  show ?thesis by (auto simp: sample_form_def)
qed

end
