(* ===== verification/Gateway.thy ===== *)
theory Gateway
  imports WebApi
begin

text \<open>
  \<^verbatim>\<open>whatsapp/api.py\<close> and \<^verbatim>\<open>worker.py\<close>: the doors of the program. The webhook checks, stores and drives
  what Meta posts; the service routes need the API key; one round of the worker runs the queued
  jobs and the sweeps. HMAC-SHA256 and the JSON parser are parameters. The round of the worker
  is given the environments of its jobs and events, since time goes on while it runs.
\<close>

section \<open>Keys\<close>

definition is_development_environment :: "environment \<Rightarrow> bool" where
  "is_development_environment e = (e = Development \<or> e = Test)"

definition require_api_key :: "settings \<Rightarrow> string option \<Rightarrow> exn + unit" where
  "require_api_key s x_api_key =
     (case s_api_key s of
        None \<Rightarrow>
          if is_development_environment (s_environment s) then Inr () else Inl (HTTPException 503)
      | Some expected \<Rightarrow>
          if \<not> truthy x_api_key then Inl (HTTPException 401)
          else bindE (compare_digest (the x_api_key) expected) (\<lambda>same.
                 if same then Inr () else Inl (HTTPException 401)))"

section \<open>The service routes\<close>

definition get_contacts ::
    "settings \<Rightarrow> string option \<Rightarrow> int \<Rightarrow> int \<Rightarrow> db \<Rightarrow> exn + contact list" where
  "get_contacts s x_api_key limit offset d =
     bindE (require_api_key s x_api_key) (\<lambda>_.
       if limit < 1 \<or> limit > 200 \<or> offset < 0 then Inl (HTTPException 422)
       else Inr (list_contacts (nat limit) (nat offset) d))"

definition get_messages ::
    "settings \<Rightarrow> string option \<Rightarrow> int \<Rightarrow> string option \<Rightarrow> db \<Rightarrow> exn + message list" where
  "get_messages s x_api_key limit wa_id d =
     bindE (require_api_key s x_api_key) (\<lambda>_.
       if limit < 1 \<or> limit > 500 then Inl (HTTPException 422)
       else Inr (list_messages (nat limit) wa_id d))"

text \<open>The message is sent before it is stored.\<close>

definition sent_response :: "exn + json \<Rightarrow> exn + json" where
  "sent_response r =
     (case r of
        Inl e \<Rightarrow> Inl (if e = WhatsAppClientUnavailable then HTTPException 503
                      else if \<exists>n. e = HTTPStatusError n then HTTPException 502 else e)
      | Inr v \<Rightarrow> Inr v)"

definition send_text_message ::
    "settings \<Rightarrow> (json \<Rightarrow> exn + json) \<Rightarrow> time \<Rightarrow> string option \<Rightarrow> string \<Rightarrow> string \<Rightarrow> db
     \<Rightarrow> (exn + (json \<times> message)) \<times> db" where
  "send_text_message s post now x_api_key recipient body d =
     (case require_api_key s x_api_key of
        Inl e \<Rightarrow> (Inl e, d)
      | Inr _ \<Rightarrow>
          if \<not> (len_between 5 32 recipient \<and> len_between 1 4096 body) then (Inl (HTTPException 422), d)
          else
            commitE d
              (bindE (sent_response (send_raw s post (build_text_payload recipient body))) (\<lambda>response.
               bindE (case response of JObj _ \<Rightarrow> first_message_id response | _ \<Rightarrow> Inl AttributeError)
                 (\<lambda>meta_id.
               bindE (store_outgoing_message now recipient meta_id body response d) (\<lambda>(m, d1).
                 Inr ((response, m), d1))))))"

section \<open>The webhook\<close>

definition verify_webhook ::
    "settings \<Rightarrow> string option \<Rightarrow> string option \<Rightarrow> string option \<Rightarrow> exn + string" where
  "verify_webhook s mode verify_token challenge =
     (if mode = Some ''subscribe'' \<and> verify_token = Some (s_whatsapp_verify_token s) \<and> truthy challenge
      then Inr (the challenge) else Inl (HTTPException 403))"

definition json_len :: "json \<Rightarrow> exn + nat" where
  "json_len v =
     (case v of
        JArr xs \<Rightarrow> Inr (length xs) | JObj m \<Rightarrow> Inr (length m) | JStr t \<Rightarrow> Inr (py_len t)
      | _ \<Rightarrow> Inl TypeError)"

text \<open>The count for the log line, over a payload of any shape.\<close>

definition statuses_in :: "json \<Rightarrow> exn + nat list" where
  "statuses_in entry =
     bindE (jattr entry ''changes'' (JArr [])) (\<lambda>cs.
     bindE (jiter cs) (\<lambda>changes.
       mapE (\<lambda>change. bindE (jattr change ''value'' (JObj [])) (\<lambda>value.
                     bindE (jattr value ''statuses'' (JArr [])) json_len)) changes))"

definition statuses_seen :: "jobject \<Rightarrow> exn + nat" where
  "statuses_seen payload =
     bindE (jattr (JObj payload) ''entry'' (JArr [])) (\<lambda>es.
     bindE (json_len es) (\<lambda>_.
     bindE (jiter es) (\<lambda>entries.
     bindE (mapE statuses_in entries) (\<lambda>counts. Inr (sum_list (concat counts))))))"

text \<open>The messages seen and the event for the background task.\<close>

definition receive_webhook ::
    "settings \<Rightarrow> (string \<Rightarrow> string \<Rightarrow> string) \<Rightarrow> (string \<Rightarrow> json option) \<Rightarrow> time \<Rightarrow> string \<Rightarrow> string option \<Rightarrow> db
     \<Rightarrow> (exn + (nat \<times> uuid)) \<times> db" where
  "receive_webhook s hmac loads now raw_body signature d =
     (if s_whatsapp_app_secret s = None \<and> \<not> is_development_environment (s_environment s)
      then (Inl (HTTPException 503), d)
      else if \<not> verify_meta_signature hmac raw_body signature (s_whatsapp_app_secret s)
      then (Inl (HTTPException 401), d)
      else
        case loads raw_body of
          Some (JObj payload) \<Rightarrow>
            (case iter_incoming_messages now payload of
               Inl e \<Rightarrow> (Inl e, d)
             | Inr ms \<Rightarrow>
                 (case store_webhook_event now payload True d of
                    (i, d1) \<Rightarrow>
                      (case statuses_seen payload of
                         Inl e \<Rightarrow> (Inl e, d1)
                       | Inr n \<Rightarrow> (Inr (length ms, i), d1))))
        | _ \<Rightarrow> (Inl (HTTPException 400), d))"

text \<open>The background task runs after the answer, and only when the handler returned one.\<close>

definition webhook_request ::
    "settings \<Rightarrow> auth_lib \<Rightarrow> (string \<Rightarrow> string \<Rightarrow> string) \<Rightarrow> (string \<Rightarrow> json option) \<Rightarrow> (nat \<Rightarrow> turn_env)
     \<Rightarrow> time \<Rightarrow> string \<Rightarrow> string option \<Rightarrow> db \<Rightarrow> (exn + nat) \<times> db" where
  "webhook_request s lib hmac loads env now raw_body signature d =
     (case receive_webhook s hmac loads now raw_body signature d of
        (Inl e, d1) \<Rightarrow> (Inl e, d1)
      | (Inr (n, i), d1) \<Rightarrow> (Inr n, snd (drive_event s lib env i d1)))"

section \<open>One round of the worker\<close>

record worker_env =
  wk_now :: time
  wk_job :: "nat \<Rightarrow> turn_env"
  wk_job_end :: "nat \<Rightarrow> time"
  wk_events :: "nat \<Rightarrow> nat \<Rightarrow> turn_env"
  wk_tick :: "nat \<Rightarrow> time"
  wk_stuck :: "nat \<Rightarrow> turn_env"
  wk_sweep :: turn_env

definition JOB_LEASE_SECONDS :: nat where "JOB_LEASE_SECONDS = 120"

definition run_stage :: "settings \<Rightarrow> turn_env \<Rightarrow> pipeline_job \<Rightarrow> db \<Rightarrow> (exn + unit) \<times> db" where
  "run_stage s te job d =
     (if pj_stage job = Stage_reextract
      then reextract_grievance (te_world te) s (te_now te) (pj_grievance_id job) d
      else seqE (run_pipeline (te_world te) s (te_now te) (pj_grievance_id job) d) (\<lambda>_ d1. (Inr (), d1)))"

definition run_job :: "settings \<Rightarrow> turn_env \<Rightarrow> time \<Rightarrow> pipeline_job \<Rightarrow> db \<Rightarrow> db" where
  "run_job s te job_end job d =
     (case run_stage s te job d of
        (Inl e, d1) \<Rightarrow> fail_pipeline_job job_end (pj_id job) e d1
      | (Inr _, d1) \<Rightarrow> complete_pipeline_job (pj_id job) d1)"

fun run_jobs :: "settings \<Rightarrow> worker_env \<Rightarrow> nat \<Rightarrow> pipeline_job list \<Rightarrow> db \<Rightarrow> db" where
  "run_jobs s wk k [] d = d"
| "run_jobs s wk k (job # jobs) d =
     run_jobs s wk (Suc k) jobs (run_job s (wk_job wk k) (wk_job_end wk k) job d)"

definition worker_sweeps :: "settings \<Rightarrow> worker_env \<Rightarrow> db \<Rightarrow> db" where
  "worker_sweeps s wk d =
     (let te = wk_sweep wk;
          n = s_worker_batch_size s;
          d1 = snd (sweep_pending_outbound s (w_post_graph (te_world te)) (wk_tick wk) n d);
          d2 = snd (sweep_stuck_processing s (wk_stuck wk) (te_now te) n d1);
          d3 = snd (sweep_expired_windows (te_world te) s (te_now te) (te_hex te) n d2)
      in snd (sweep_stuck_dispatching (te_world te) s (te_now te) (te_hex te) n d3))"

definition worker_round :: "settings \<Rightarrow> auth_lib \<Rightarrow> worker_env \<Rightarrow> db \<Rightarrow> db" where
  "worker_round s lib wk d =
     (case claim_pipeline_jobs (wk_now wk) (s_worker_batch_size s) JOB_LEASE_SECONDS d of
        (jobs, d1) \<Rightarrow>
          let d2 = run_jobs s wk 0 jobs d1;
              d3 = snd (process_pending_events s lib (wk_events wk) (wk_now wk) (s_worker_batch_size s) d2)
          in if s_auto_reply_enabled s then worker_sweeps s wk d3 else d3)"

section \<open>What the webhook lets in\<close>

lemma store_event_sel:
  "store_webhook_event now payload sv d = (i, d1) \<Longrightarrow>
     i = fst (new_id d) \<and> db_ids d1 = Suc (db_ids d) \<and>
     (\<exists>e. db_events d1 = db_events d @ [e] \<and> we_id e = i \<and> we_payload e = payload \<and>
        we_signature_valid e = sv \<and> we_processed_at e = None \<and> we_attempt_count e = 0 \<and>
        we_locked_until e = None)"
  by (auto simp: store_webhook_event_def new_id_def Let_def)

text \<open>C16. The webhook stores an event only for a body that is a JSON object the message parser accepts
  and, when an app secret is set, that carries the HMAC of the exact bytes under that secret; without
  a secret it works only in development. Anything else leaves the database as it was. An event that is
  stored can be claimed by a driver at any time, also when the handler fails after the commit, and an
  answered request names the new event.\<close>

theorem only_signed_bodies_stored:
  assumes "receive_webhook s hmac loads now raw_body signature d = (r, d1)"
  shows "(d1 = d \<and> (\<exists>e. r = Inl e)) \<or>
    (\<exists>payload ms e. loads raw_body = Some (JObj payload) \<and>
       iter_incoming_messages now payload = Inr ms \<and>
       (case s_whatsapp_app_secret s of
          None \<Rightarrow> is_development_environment (s_environment s)
        | Some secret \<Rightarrow> signature = Some (''sha256='' @ hmac secret raw_body)) \<and>
       db_events d1 = db_events d @ [e] \<and> we_payload e = payload \<and> (\<forall>t. drivable t e) \<and>
       (\<forall>n i. r = Inr (n, i) \<longrightarrow> n = length ms \<and> i = we_id e))"
proof -
  let ?secret = "s_whatsapp_app_secret s"
  let ?gate = "case ?secret of None \<Rightarrow> is_development_environment (s_environment s)
    | Some secret \<Rightarrow> signature = Some (''sha256='' @ hmac secret raw_body)"
  show ?thesis
  proof (cases "(?secret = None \<longrightarrow> is_development_environment (s_environment s)) \<and>
      verify_meta_signature hmac raw_body signature ?secret")
    case False
    with assms have "d1 = d \<and> (\<exists>e. r = Inl e)"
      by (cases "?secret = None \<and> \<not> is_development_environment (s_environment s)")
        (auto simp only: receive_webhook_def if_True if_False simp_thms)
    then show ?thesis ..
  next
    case True
    then have gate: ?gate by (auto simp: verify_meta_signature_def split: option.splits if_splits)
    from True assms have run: "(case loads raw_body of
          Some (JObj payload) \<Rightarrow>
            (case iter_incoming_messages now payload of
               Inl e \<Rightarrow> (Inl e, d)
             | Inr ms \<Rightarrow>
                 (case store_webhook_event now payload True d of
                    (i, d1) \<Rightarrow>
                      (case statuses_seen payload of
                         Inl e \<Rightarrow> (Inl e, d1)
                       | Inr n \<Rightarrow> (Inr (length ms, i), d1))))
        | _ \<Rightarrow> (Inl (HTTPException 400), d)) = (r, d1)"
      by (auto simp: receive_webhook_def)
    show ?thesis
    proof (cases "\<exists>payload ms. loads raw_body = Some (JObj payload) \<and>
        iter_incoming_messages now payload = Inr ms")
      case False
      with run show ?thesis by (auto split: option.splits json.splits sum.splits)
    next
      case True
      then obtain payload ms where p: "loads raw_body = Some (JObj payload)"
        "iter_incoming_messages now payload = Inr ms" by blast
      obtain i da where st: "store_webhook_event now payload True d = (i, da)" by fastforce
      from store_event_sel [OF st] obtain e where "db_events da = db_events d @ [e]" "we_id e = i"
        "we_payload e = payload" "we_processed_at e = None" "we_locked_until e = None" by auto
      then show ?thesis
        using run p st gate by (intro disjI2 exI [of _ payload] exI [of _ ms] exI [of _ e])
          (auto simp: drivable_def split: sum.splits)
    qed
  qed
qed

text \<open>C17. Meta may deliver a webhook again. When every message of the payload is stored already, the
  repeated request is answered and stores its event, but no turn runs: the consumption records,
  the conversations and the complaints stay as they were, and the new event is marked processed.\<close>

theorem redelivery_runs_no_turn:
  assumes "event_ids d" and fresh: "\<forall>e \<in> set (db_events d). we_id e \<noteq> fst (new_id d)"
    and loads: "loads raw_body = Some (JObj payload)"
    and parsed: "iter_incoming_messages now payload = Inr ms"
    and stored: "\<forall>m \<in> set ms. meta_id_stored (in_meta_message_id m) d"
    and answered: "receive_webhook s hmac loads now raw_body signature d = (Inr (n, i), d1)"
  shows "\<exists>d2 e. webhook_request s lib hmac loads env now raw_body signature d = (Inr n, d2) \<and>
    db_consumptions d2 = db_consumptions d \<and> db_conversations d2 = db_conversations d \<and>
    db_grievances d2 = db_grievances d \<and>
    tget we_id i (db_events d2) = Some e \<and> we_processed_at e = Some (te_now (env 0))"
proof -
  define t where "t = te_now (env 0)"
  have d1: "store_webhook_event now payload True d = (i, d1)"
    using answered loads parsed
    by (auto simp: receive_webhook_def split: if_splits sum.splits prod.splits)
  then have d1': "d1 = snd (store_webhook_event now payload True d)" by simp
  from store_event_sel [OF d1] obtain e where e: "i = fst (new_id d)" "db_events d1 = db_events d @ [e]"
    "we_id e = i" "we_payload e = payload" "we_processed_at e = None" "we_attempt_count e = 0"
    "we_locked_until e = None" by auto
  have "tget we_id i (db_events d) = None" using fresh e(1) by (auto simp: tget_None_iff)
  then have get: "tget we_id i (db_events d1) = Some e"
    by (simp add: e(2,3) tget_append tget_Cons)
  have ids: "event_ids d1"
    using assms(1) fresh e(1-3) by (auto simp: event_ids_def)
  define d4 where "d4 = snd (claim_event t i EVENT_LEASE_SECONDS d1)"
  have "fst (claim_event t i EVENT_LEASE_SECONDS d1) = Some (payload, 1)"
    using claim_event_iff [OF ids, of t i EVENT_LEASE_SECONDS payload 1] get e by (simp add: drivable_def)
  then have claim: "claim_event t i EVENT_LEASE_SECONDS d1 = (Some (payload, 1), d4)"
    by (metis d4_def prod.collapse)
  from iter_same_ids [of now payload t] parsed obtain ms' where
    ms': "iter_incoming_messages t payload = Inr ms'" "list_all2 same_ids ms ms'"
    by (cases "iter_incoming_messages t payload") auto
  have "meta_id_stored (in_meta_message_id m) d4" if "m \<in> set ms'" for m
  proof -
    from same_ids_member [OF ms'(2) that] stored have "meta_id_stored (in_meta_message_id m) d" by metis
    then show ?thesis
      by (simp add: d4_def d1' claim_event_def store_webhook_event_def new_id_def meta_id_stored_def Let_def)
  qed
  note kept = this
  define d5 where "d5 = snd (store_incoming_messages t ms' d4)"
  have run: "drive_event s lib env i d1 = (Inr (), mark_event_processed t i d5)"
    using drive_stored [where env = env, OF claim [unfolded t_def] _ ms'(1) [unfolded t_def] kept]
    by (simp add: t_def d5_def MAX_EVENT_ATTEMPTS_def)
  have "tget we_id i (db_events d5) \<noteq> None"
    by (simp add: d5_def d4_def claim_event_tget get)
  then obtain e5 where "tget we_id i (db_events d5) = Some e5" by auto
  then have "tget we_id i (db_events (mark_event_processed t i d5)) =
      Some (e5\<lparr>we_processed_at := Some t, we_locked_until := None\<rparr>)"
    using tget_SomeD [of we_id i "db_events d5" e5] by (simp add: mark_event_processed_def tget_tupd)
  moreover have "db_consumptions (mark_event_processed t i d5) = db_consumptions d \<and>
      db_conversations (mark_event_processed t i d5) = db_conversations d \<and>
      db_grievances (mark_event_processed t i d5) = db_grievances d"
    by (simp add: mark_event_processed_def d5_def d4_def d1' store_webhook_event_def new_id_def Let_def)
  moreover have "webhook_request s lib hmac loads env now raw_body signature d =
      (Inr n, mark_event_processed t i d5)"
    by (simp add: webhook_request_def answered run)
  ultimately show ?thesis by (simp add: t_def)
qed

section \<open>The jobs of a round\<close>

lemma set_fields_jobs: "set_grievance_fields now i f d = Inr (g, d1) \<Longrightarrow> db_jobs d1 = db_jobs d"
  by (auto simp: set_fields_Inr)

lemma side_commit_jobs: "side_commit d d1 \<Longrightarrow> db_jobs d1 = db_jobs d"
  by (auto elim!: side_commitE)

lemma add_row_jobs [simp]:
  "db_jobs (add_grievance_event now i st nt d) = db_jobs d"
  "db_jobs (add_extraction i v x facts b d) = db_jobs d"
  by (simp_all add: add_grievance_event_def add_extraction_def new_id_def Let_def)

lemma build_pdf_jobs:
  "build_and_store_pdf w s now g ph d = Inr (p, g1, d1) \<Longrightarrow> db_jobs d1 = db_jobs d"
  by (auto simp: build_and_store_pdf_def bindE_Inr_iff Let_def dest: set_fields_jobs)

lemma run_pipeline_jobs: "db_jobs (snd (run_pipeline w s now i d)) = db_jobs d"
proof (cases "get_grievance i d")
  case None
  then show ?thesis by (simp add: run_pipeline_def)
next
  case (Some g)
  obtain r d1 where run: "run_pipeline w s now i d = (r, d1)" by fastforce
  from Some run show ?thesis
  proof (cases rule: run_pipeline_cases)
    case (failed e)
    then show ?thesis by (simp add: run side_commit_jobs)
  next
    case (stored x col address photo dc res)
    then have "db_jobs d1 = db_jobs dc"
      by (auto simp: store_first_pass_def bindE_Inr_iff Let_def split: if_splits
          dest!: set_fields_jobs build_pdf_jobs)
    with stored(1) show ?thesis by (simp add: run side_commit_jobs)
  qed
qed

lemma reextract_jobs: "db_jobs (snd (reextract_grievance w s now i d)) = db_jobs d"
proof (cases "get_grievance i d")
  case None
  then show ?thesis by (simp add: reextract_grievance_def)
next
  case (Some g)
  obtain x d1 where ext: "extract_issue w s now (gr_issue_text g) None ''image/jpeg'' True
      (correction_context w g) d = (x, d1)" by fastforce
  have "db_jobs d1 = db_jobs d" by (rule side_commit_jobs [OF extract_issue_side [OF ext]])
  moreover have "db_jobs d2 = db_jobs d1" if "store_reextraction now g y d1 = Inr (a, d2)" for y a d2
    using that by (auto simp: store_reextraction_def bindE_Inr_iff Let_def dest!: set_fields_jobs)
  ultimately show ?thesis
    by (auto simp: reextract_grievance_def Some ext seqE_def commitE_def split: sum.splits)
qed

lemma run_stage_jobs: "db_jobs (snd (run_stage s te job d)) = db_jobs d"
  using run_pipeline_jobs [of "te_world te" s "te_now te" "pj_grievance_id job" d]
  by (cases "run_pipeline (te_world te) s (te_now te) (pj_grievance_id job) d")
    (auto simp: run_stage_def reextract_jobs seqE_def split: sum.splits)

definition settled :: "pipeline_job \<Rightarrow> pipeline_job \<Rightarrow> bool" where
  "settled j r \<longleftrightarrow>
     pj_attempt_count r = pj_attempt_count j \<and> pj_locked_until r = None \<and>
     (pj_status r = Js_completed \<or>
      pj_status r = Js_retry \<and> pj_attempt_count r < pj_max_attempts r \<or>
      pj_status r = Js_dead_letter \<and> pj_max_attempts r \<le> pj_attempt_count r)"

lemma run_job_rows:
  "tget pj_id k (db_jobs (run_job s te t job d)) =
     (if k = pj_id job
      then map_option (\<lambda>j. case fst (run_stage s te job d) of
             Inl e \<Rightarrow> failed_job t e j
           | Inr _ \<Rightarrow> j\<lparr>pj_status := Js_completed, pj_locked_until := None, pj_last_error := None\<rparr>)
             (tget pj_id k (db_jobs d))
      else tget pj_id k (db_jobs d))"
proof -
  obtain r d1 where run: "run_stage s te job d = (r, d1)" by fastforce
  have jobs: "db_jobs d1 = db_jobs d" using run_stage_jobs [of s te job d] run by simp
  have id: "pj_id (failed_job t e j) = pj_id j" for e j by (simp add: failed_job_def Let_def)
  show ?thesis
    using tget_SomeD [of pj_id k "db_jobs d"]
    by (cases r; cases "tget pj_id k (db_jobs d)")
      (auto simp: run_job_def run jobs fail_pipeline_job_def complete_pipeline_job_def tget_tupd id)
qed

lemma run_job_settles:
  "tget pj_id (pj_id job) (db_jobs d) = Some j \<Longrightarrow>
   \<exists>r. tget pj_id (pj_id job) (db_jobs (run_job s te t job d)) = Some r \<and> settled j r"
  by (auto simp: run_job_rows settled_def split: sum.splits)

lemma run_jobs_other:
  "k \<notin> pj_id ` set jobs \<Longrightarrow>
   tget pj_id k (db_jobs (run_jobs s wk n jobs d)) = tget pj_id k (db_jobs d)"
  by (induction jobs arbitrary: n d) (auto simp: run_job_rows)

lemma run_jobs_settle:
  "distinct (map pj_id jobs) \<Longrightarrow> job \<in> set jobs \<Longrightarrow>
   tget pj_id (pj_id job) (db_jobs d) = Some j \<Longrightarrow>
   \<exists>r. tget pj_id (pj_id job) (db_jobs (run_jobs s wk n jobs d)) = Some r \<and> settled j r"
proof (induction jobs arbitrary: n d)
  case (Cons x jobs)
  let ?d = "run_job s (wk_job wk n) (wk_job_end wk n) x d"
  show ?case
  proof (cases "job = x")
    case True
    then have "pj_id job \<notin> pj_id ` set jobs" using Cons.prems(1) by auto
    with True run_job_settles [OF Cons.prems(3), of s "wk_job wk n" "wk_job_end wk n"] show ?thesis
      by (simp add: run_jobs_other)
  next
    case False
    with Cons.prems(2) have tail: "job \<in> set jobs" by simp
    with Cons.prems(1) have "pj_id job \<noteq> pj_id x" by (auto simp: image_iff)
    with tail Cons.prems Cons.IH [of ?d "Suc n"] show ?thesis by (simp add: run_job_rows)
  qed
qed simp

text \<open>C12. A round of the worker settles every job it claims: after its stages have run, each of them is
  completed, or waits for a retry with attempts left, or is a dead letter with none left; its
  lease is released and exactly one attempt is on its account, whatever the stage raised. The
  jobs the round did not claim keep their rows.\<close>

theorem claimed_jobs_settled:
  assumes "distinct (map pj_id (db_jobs d))"
    and "claim_pipeline_jobs now limit lease d = (jobs, d1)"
  shows "(\<forall>job \<in> set jobs. \<exists>j r. j \<in> set (db_jobs d) \<and> pj_id j = pj_id job \<and> claimable now j \<and>
      tget pj_id (pj_id job) (db_jobs (run_jobs s wk 0 jobs d1)) = Some r \<and>
      settled (j\<lparr>pj_attempt_count := pj_attempt_count j + 1\<rparr>) r) \<and>
    (\<forall>k. k \<notin> pj_id ` set jobs \<longrightarrow>
      tget pj_id k (db_jobs (run_jobs s wk 0 jobs d1)) = tget pj_id k (db_jobs d))"
proof -
  let ?picked = "take limit (order_by pj_next_attempt_at (filter (claimable now) (db_jobs d)))"
  have id: "pj_id (claim_job now lease j) = pj_id j" for j by (simp add: claim_job_def)
  have jobs: "jobs = map (claim_job now lease) ?picked"
    and d1: "db_jobs d1 = tupd (\<lambda>j. pj_id j \<in> pj_id ` set ?picked) (claim_job now lease) (db_jobs d)"
    using assms(2) by (auto simp: claim_pipeline_jobs_def Let_def)
  have ids: "pj_id ` set jobs = pj_id ` set ?picked" by (simp add: jobs image_image id)
  have "distinct (map pj_id (filter (claimable now) (db_jobs d)))"
    using assms(1) by (rule distinct_map_filter)
  then have "distinct (map pj_id (order_by pj_next_attempt_at (filter (claimable now) (db_jobs d))))"
    by (simp add: order_by_def distinct_map)
  then have "distinct (map pj_id ?picked)" by (metis distinct_take take_map)
  then have dist: "distinct (map pj_id jobs)" by (simp add: jobs id comp_def)
  have member: "j \<in> set (db_jobs d) \<and> claimable now j" if "j \<in> set ?picked" for j
    using in_set_takeD [OF that] by (simp add: order_by_def)
  have get: "tget pj_id k (db_jobs d1) =
      map_option (\<lambda>j. if pj_id j \<in> pj_id ` set ?picked then claim_job now lease j else j)
        (tget pj_id k (db_jobs d))" for k
    by (simp add: d1 tget_tupd id)
  have "\<exists>j r. j \<in> set (db_jobs d) \<and> pj_id j = pj_id job \<and> claimable now j \<and>
      tget pj_id (pj_id job) (db_jobs (run_jobs s wk 0 jobs d1)) = Some r \<and>
      settled (j\<lparr>pj_attempt_count := pj_attempt_count j + 1\<rparr>) r" if job: "job \<in> set jobs" for job
  proof -
    from job obtain j where j: "j \<in> set ?picked" "job = claim_job now lease j" by (auto simp: jobs)
    have "tget pj_id (pj_id job) (db_jobs d) = Some j"
      using tget_unique [OF assms(1)] member [OF j(1)] by (simp add: j(2) id)
    then have "tget pj_id (pj_id job) (db_jobs d1) = Some job"
      using j by (auto simp: get)
    from run_jobs_settle [OF dist job this] obtain r where
      "tget pj_id (pj_id job) (db_jobs (run_jobs s wk 0 jobs d1)) = Some r" "settled job r" by blast
    moreover have "settled (j\<lparr>pj_attempt_count := pj_attempt_count j + 1\<rparr>) r"
      using \<open>settled job r\<close> by (auto simp: j(2) settled_def)
    moreover have "pj_id j = pj_id job" by (simp add: j(2) id)
    ultimately show ?thesis using member [OF j(1)] by blast
  qed
  moreover have "tget pj_id k (db_jobs (run_jobs s wk 0 jobs d1)) = tget pj_id k (db_jobs d)"
    if "k \<notin> pj_id ` set jobs" for k
    using that tget_SomeD [of pj_id k "db_jobs d"]
    by (cases "tget pj_id k (db_jobs d)") (auto simp: run_jobs_other get ids)
  ultimately show ?thesis by blast
qed

text \<open>The jobs of a batch are leased together and run one after the other: once the lease of a later one
  has run out, another worker may claim it, with an attempt left, while it waits for its turn.\<close>

lemma waiting_job_claimed_again:
  assumes "claimable now j" and "pj_attempt_count j + 1 < pj_max_attempts j"
    and "now + seconds (int JOB_LEASE_SECONDS) < t"
  shows "claimable t (claim_job now JOB_LEASE_SECONDS j)"
  using assms by (simp add: claimable_def claim_job_def JOB_LEASE_SECONDS_def time_defs)

section \<open>Witnesses\<close>

lemma sample_statuses: "statuses_seen sample_hook = Inr 0"
  by (simp add: statuses_seen_def statuses_in_def sample_hook_def jattr_def json_len_def jiter_def)

lemma sample_receive:
  "receive_webhook sample_settings (\<lambda>k b. ''h'') (\<lambda>b. Some (JObj sample_hook)) 5 ''body'' (Some ''sha256=h'') d =
     (Inr (1, fst (new_id d)), snd (store_webhook_event 5 sample_hook True d))"
proof -
  obtain m where m: "iter_incoming_messages 5 sample_hook = Inr [m]"
    using sample_hook_parsed by blast
  have "s_whatsapp_app_secret sample_settings = Some ''as''" by (simp add: sample_settings_def)
  then show ?thesis
    by (simp add: receive_webhook_def m sample_statuses verify_meta_signature_def startswith_def
        store_webhook_event_def new_id_def Let_def)
qed

theorem only_signed_bodies_stored_witness:
  "\<exists>r d1 e. receive_webhook sample_settings (\<lambda>k b. ''h'') (\<lambda>b. Some (JObj sample_hook)) 5 ''body''
       (Some ''sha256=h'') empty_db = (r, d1) \<and> db_events d1 = [e] \<and> drivable 0 e \<and>
     we_payload e = sample_hook"
proof -
  have "db_events empty_db = []" by (simp add: empty_db_def)
  moreover have "snd (store_webhook_event 5 sample_hook True empty_db) \<noteq> empty_db"
    by (simp add: store_webhook_event_def new_id_def empty_db_def Let_def)
  ultimately show ?thesis
    using only_signed_bodies_stored [OF sample_receive [of empty_db]] sample_receive [of empty_db] by auto
qed

theorem redelivery_runs_no_turn_witness:
  "\<exists>d d2 e i. meta_id_stored ''w7'' d \<and>
     webhook_request sample_settings sample_lib (\<lambda>k b. ''h'') (\<lambda>b. Some (JObj sample_hook)) sample_te 5
       ''body'' (Some ''sha256=h'') d = (Inr 1, d2) \<and>
     db_consumptions d2 = [] \<and> tget we_id i (db_events d2) = Some e \<and> we_processed_at e \<noteq> None"
proof -
  obtain m where m: "iter_incoming_messages 5 sample_hook = Inr [m]"
    and w7: "in_meta_message_id m = ''w7''"
    using sample_hook_parsed by blast
  define d where "d = snd (store_incoming_messages 5 [m] empty_db)"
  have stored: "\<forall>x \<in> set [m]. meta_id_stored (in_meta_message_id x) d"
    using store_incoming_messages_stores [of m "[m]" 5 empty_db] by (simp add: d_def)
  have tables: "db_events d = []" "db_consumptions d = []" unfolding d_def store_incoming_frame
    by (simp_all add: empty_db_def)
  have ids: "event_ids d" and fresh: "\<forall>e \<in> set (db_events d). we_id e \<noteq> fst (new_id d)"
    by (simp_all add: event_ids_def tables)
  from redelivery_runs_no_turn [OF ids fresh refl m stored sample_receive [of d], of sample_lib sample_te]
  obtain d2 e where "webhook_request sample_settings sample_lib (\<lambda>k b. ''h'') (\<lambda>b. Some (JObj sample_hook))
      sample_te 5 ''body'' (Some ''sha256=h'') d = (Inr 1, d2)" "db_consumptions d2 = db_consumptions d"
    "tget we_id (fst (new_id d)) (db_events d2) = Some e" "we_processed_at e = Some (te_now (sample_te 0))"
    by blast
  moreover have "meta_id_stored ''w7'' d" using stored w7 by simp
  ultimately have "meta_id_stored ''w7'' d \<and>
      webhook_request sample_settings sample_lib (\<lambda>k b. ''h'') (\<lambda>b. Some (JObj sample_hook)) sample_te 5
        ''body'' (Some ''sha256=h'') d = (Inr 1, d2) \<and>
      db_consumptions d2 = [] \<and> tget we_id (fst (new_id d)) (db_events d2) = Some e \<and> we_processed_at e \<noteq> None"
    by (simp add: tables)
  then show ?thesis by blast
qed

definition sample_worker :: worker_env where
  "sample_worker = \<lparr>wk_now = 0, wk_job = sample_te, wk_job_end = (\<lambda>_. 9), wk_events = (\<lambda>_. sample_te),
     wk_tick = int, wk_stuck = sample_te, wk_sweep = sample_te 0\<rparr>"

theorem claimed_jobs_settled_witness:
  "\<exists>job d1 r. claim_pipeline_jobs 0 1 JOB_LEASE_SECONDS (empty_db\<lparr>db_jobs := [sample_job]\<rparr>) = ([job], d1) \<and>
     tget pj_id ''j1'' (db_jobs (run_jobs sample_settings sample_worker 0 [job] d1)) = Some r \<and>
     pj_attempt_count r = 1 \<and> pj_locked_until r = None"
proof -
  let ?d = "empty_db\<lparr>db_jobs := [sample_job]\<rparr>"
  let ?job = "claim_job 0 JOB_LEASE_SECONDS sample_job"
  have "claimable 0 sample_job" by (simp add: claimable_def sample_job_def)
  then obtain d1 where c: "claim_pipeline_jobs 0 1 JOB_LEASE_SECONDS ?d = ([?job], d1)"
    by (simp add: claim_pipeline_jobs_def order_by_def Let_def)
  have ids: "distinct (map pj_id (db_jobs ?d))" by simp
  have id: "pj_id ?job = ''j1''" by (simp add: claim_job_def sample_job_def)
  from claimed_jobs_settled [OF ids c, of sample_settings sample_worker] id obtain j r where
    "j = sample_job"
    "tget pj_id ''j1'' (db_jobs (run_jobs sample_settings sample_worker 0 [?job] d1)) = Some r"
    "settled (j\<lparr>pj_attempt_count := pj_attempt_count j + 1\<rparr>) r"
    by auto
  moreover from this have "pj_attempt_count r = 1" "pj_locked_until r = None"
    by (simp_all add: settled_def sample_job_def)
  ultimately show ?thesis using c by blast
qed

end
