(* ===== verification/Lifecycle.thy ===== *)
theory Lifecycle
  imports Gateway
begin

text \<open>
  The life cycle of a complaint, which \<^verbatim>\<open>db/models.py\<close> promises in the documentation of
  \<^verbatim>\<open>Grievance\<close>, as a state machine of its own: a status with the columns that go with it, and the
  history that \<^verbatim>\<open>grievance_events\<close> keeps. Every operation of the program that writes a complaint is
  shown to make only steps of this machine, whatever it is run on, and what holds of every history
  of the machine then holds of every database the program can reach.
\<close>

section \<open>The abstract life of a complaint\<close>

record standing =
  sd_status :: gr_status
  sd_assessed :: bool
  sd_confirmed :: bool
  sd_master :: "uuid option"
  sd_window :: "time option"
  sd_ref :: "string option"
  sd_attempts :: nat

type_synonym life = "standing \<times> gr_status list"

definition new_standing :: standing where
  "new_standing = \<lparr>sd_status = Gs_draft, sd_assessed = False, sd_confirmed = False, sd_master = None,
     sd_window = None, sd_ref = None, sd_attempts = 0\<rparr>"

text \<open>The statuses a confirmation leads to, and those from which a complaint is handed over.\<close>

definition filed_status :: "gr_status \<Rightarrow> bool" where
  "filed_status st = (st \<in> {Gs_registered, Gs_pending_window, Gs_duplicate, Gs_dispatching,
     Gs_submitted, Gs_dispatch_failed})"

definition due_status :: "gr_status \<Rightarrow> bool" where
  "due_status st = (st \<in> {Gs_registered, Gs_pending_window, Gs_dispatching})"

text \<open>A step moves the status and appends to the history. Taking up a web draft and starting a
  dispatch are silent; a second extraction notes the status again.\<close>

inductive life_step :: "life option \<Rightarrow> life option \<Rightarrow> bool" where
  opened: "life_step None (Some (new_standing, []))"
| taken_up: "sd_status c = Gs_draft \<Longrightarrow>
    life_step (Some (c, h)) (Some (c\<lparr>sd_status := Gs_processing\<rparr>, h))"
| put_forward: "st \<in> {Gs_awaiting_confirmation, Gs_photo_mismatch} \<Longrightarrow> (sd_assessed c \<longrightarrow> a) \<Longrightarrow>
    life_step (Some (c, h)) (Some (c\<lparr>sd_status := st, sd_assessed := a\<rparr>, h @ [st]))"
| noted_again: "sd_assessed c \<Longrightarrow> life_step (Some (c, h)) (Some (c, h @ [sd_status c]))"
| confirmed: "life_step (Some (c, h))
    (Some (c\<lparr>sd_status := Gs_registered, sd_confirmed := True\<rparr>, h @ [Gs_registered]))"
| held: "due_status (sd_status c) \<Longrightarrow> sd_confirmed c \<Longrightarrow>
    life_step (Some (c, h)) (Some (c\<lparr>sd_status := Gs_registered\<rparr>, h @ [Gs_registered]))"
| merged: "sd_status c = Gs_registered \<Longrightarrow> sd_confirmed c \<Longrightarrow>
    life_step (Some (c, h))
      (Some (c\<lparr>sd_status := Gs_duplicate, sd_master := Some m\<rparr>, h @ [Gs_duplicate]))"
| window_opened: "sd_status c = Gs_registered \<Longrightarrow> sd_confirmed c \<Longrightarrow>
    life_step (Some (c, h))
      (Some (c\<lparr>sd_status := Gs_pending_window, sd_window := Some t\<rparr>, h @ [Gs_pending_window]))"
| handed_over: "due_status (sd_status c) \<Longrightarrow> sd_confirmed c \<Longrightarrow>
    life_step (Some (c, h)) (Some (c\<lparr>sd_status := Gs_dispatching\<rparr>, h))"
| accepted: "sd_status c = Gs_dispatching \<Longrightarrow>
    life_step (Some (c, h))
      (Some (c\<lparr>sd_status := Gs_submitted, sd_ref := Some ref\<rparr>, h @ [Gs_submitted]))"
| refused: "sd_status c = Gs_dispatching \<Longrightarrow> Suc (sd_attempts c) < MAX_DISPATCH_ATTEMPTS \<Longrightarrow>
    life_step (Some (c, h)) (Some (c\<lparr>sd_attempts := Suc (sd_attempts c)\<rparr>, h))"
| given_up: "sd_status c = Gs_dispatching \<Longrightarrow> MAX_DISPATCH_ATTEMPTS \<le> Suc (sd_attempts c) \<Longrightarrow>
    life_step (Some (c, h))
      (Some (c\<lparr>sd_attempts := Suc (sd_attempts c), sd_status := Gs_dispatch_failed\<rparr>,
             h @ [Gs_dispatch_failed]))"
| cancelled: "life_step (Some (c, h)) (Some (c\<lparr>sd_status := Gs_cancelled\<rparr>, h @ [Gs_cancelled]))"

inductive_cases life_stepE: "life_step l l1"
inductive_simps opened_iff: "life_step None l1"

text \<open>A history is in order when every status past the confirmation comes after a registration.\<close>

definition in_order :: "gr_status list \<Rightarrow> bool" where
  "in_order h \<longleftrightarrow>
     (\<forall>pre st post. h = pre @ st # post \<longrightarrow> filed_status st \<longrightarrow> st = Gs_registered \<or> Gs_registered \<in> set pre)"

definition life_ok :: "life option \<Rightarrow> bool" where
  "life_ok l =
     (case l of
        None \<Rightarrow> True
      | Some (c, h) \<Rightarrow>
          (sd_status c \<in> {Gs_draft, Gs_processing} \<longrightarrow> h = [] \<and> \<not> sd_assessed c) \<and>
          (sd_status c \<notin> {Gs_draft, Gs_processing} \<longrightarrow> h \<noteq> []) \<and>
          (sd_status c \<notin> {Gs_draft, Gs_processing, Gs_dispatching} \<longrightarrow> last h = sd_status c) \<and>
          (sd_status c = Gs_dispatching \<longrightarrow> last h \<in> {Gs_registered, Gs_pending_window, Gs_dispatching}) \<and>
          (filed_status (sd_status c) \<longrightarrow> sd_confirmed c) \<and>
          (sd_confirmed c \<longrightarrow> Gs_registered \<in> set h) \<and> in_order h \<and>
          (sd_status c = Gs_duplicate \<longrightarrow> sd_master c \<noteq> None) \<and>
          (sd_status c = Gs_pending_window \<longrightarrow> sd_window c \<noteq> None) \<and>
          (sd_status c = Gs_submitted \<longrightarrow> sd_ref c \<noteq> None) \<and>
          (sd_status c = Gs_dispatch_failed \<longrightarrow> MAX_DISPATCH_ATTEMPTS \<le> sd_attempts c))"

lemma in_order_Nil [simp]: "in_order []"
  by (simp add: in_order_def)

lemma in_order_snoc [simp]:
  "in_order (h @ [st]) \<longleftrightarrow>
     in_order h \<and> (filed_status st \<longrightarrow> st = Gs_registered \<or> Gs_registered \<in> set h)"
proof
  assume o: "in_order (h @ [st])"
  have "in_order h"
    unfolding in_order_def
  proof (intro allI impI)
    fix pre x post assume "h = pre @ x # post" "filed_status x"
    then have "h @ [st] = pre @ x # (post @ [st])" by simp
    with o \<open>filed_status x\<close> show "x = Gs_registered \<or> Gs_registered \<in> set pre"
      unfolding in_order_def by blast
  qed
  with o show "in_order h \<and> (filed_status st \<longrightarrow> st = Gs_registered \<or> Gs_registered \<in> set h)"
    by (auto simp: in_order_def)
next
  assume h: "in_order h \<and> (filed_status st \<longrightarrow> st = Gs_registered \<or> Gs_registered \<in> set h)"
  show "in_order (h @ [st])"
    unfolding in_order_def
  proof (intro allI impI)
    fix pre x post assume e: "h @ [st] = pre @ x # post" and x: "filed_status x"
    show "x = Gs_registered \<or> Gs_registered \<in> set pre"
    proof (cases post rule: rev_cases)
      case Nil
      with e x h show ?thesis by simp
    next
      case (snoc p y)
      with e have "h = pre @ x # p" by simp
      with h x show ?thesis unfolding in_order_def by blast
    qed
  qed
qed

lemma status_kinds [simp]:
  "filed_status Gs_registered" "filed_status Gs_pending_window" "filed_status Gs_duplicate"
  "filed_status Gs_dispatching" "filed_status Gs_submitted" "filed_status Gs_dispatch_failed"
  "\<not> filed_status Gs_draft" "\<not> filed_status Gs_processing" "\<not> filed_status Gs_photo_mismatch"
  "\<not> filed_status Gs_awaiting_confirmation" "\<not> filed_status Gs_cancelled"
  "due_status Gs_registered" "due_status Gs_pending_window" "due_status Gs_dispatching"
  by (simp_all add: filed_status_def due_status_def)

lemma due_statusE:
  assumes "due_status st"
  obtains "st = Gs_registered" | "st = Gs_pending_window" | "st = Gs_dispatching"
  using assms by (auto simp: due_status_def)

lemma life_ok_confirmed: "life_ok (Some (c, h)) \<Longrightarrow> due_status (sd_status c) \<Longrightarrow> sd_confirmed c"
  by (erule due_statusE) (simp_all add: life_ok_def)

lemma life_ok_step:
  assumes "life_step l l1" and "life_ok l"
  shows "life_ok l1"
  using assms
proof (induction rule: life_step.induct)
  case opened
  then show ?case by (simp add: life_ok_def new_standing_def)
next
  case (noted_again c h)
  then show ?case by (cases "sd_status c") (simp_all add: life_ok_def)
next
  case (put_forward st c a h)
  then show ?case by (elim insertE emptyE) (simp_all add: life_ok_def)
next
  case (handed_over c h)
  from handed_over(1) show ?case
    by (rule due_statusE) (use handed_over in \<open>simp_all add: life_ok_def\<close>)
qed (simp_all add: life_ok_def)

lemma life_ok_steps: "life_step\<^sup>*\<^sup>* l l1 \<Longrightarrow> life_ok l \<Longrightarrow> life_ok l1"
  by (induction rule: rtranclp_induct) (auto intro: life_ok_step)

section \<open>Simulations\<close>

text \<open>A system whose parts, each seen through \<open>view k\<close>, follow an abstract machine.\<close>

locale simulation =
  fixes step :: "'s \<Rightarrow> 's \<Rightarrow> bool"
    and initial :: "'s \<Rightarrow> bool"
    and good :: "'s \<Rightarrow> bool"
    and abs_step :: "'a \<Rightarrow> 'a \<Rightarrow> bool"
    and start :: "'a \<Rightarrow> bool"
    and view :: "'k \<Rightarrow> 's \<Rightarrow> 'a"
  assumes initial_good: "initial d \<Longrightarrow> good d"
    and step_good: "good d \<Longrightarrow> step d d1 \<Longrightarrow> good d1"
    and initial_view: "initial d \<Longrightarrow> start (view k d)"
    and step_view: "good d \<Longrightarrow> step d d1 \<Longrightarrow> abs_step\<^sup>*\<^sup>* (view k d) (view k d1)"
begin

lemma run_good: "step\<^sup>*\<^sup>* d0 d \<Longrightarrow> initial d0 \<Longrightarrow> good d"
  by (induction rule: rtranclp_induct) (auto intro: initial_good step_good)

lemma run_view: "step\<^sup>*\<^sup>* d0 d \<Longrightarrow> good d0 \<Longrightarrow> good d \<and> abs_step\<^sup>*\<^sup>* (view k d0) (view k d)"
  by (induction rule: rtranclp_induct) (auto intro: step_good rtranclp_trans step_view)

text \<open>An invariant of the abstract machine holds of every view of every reachable state.\<close>

lemma invariant_holds:
  assumes "step\<^sup>*\<^sup>* d0 d" and "initial d0"
    and start: "\<And>a. start a \<Longrightarrow> I a" and keep: "\<And>a b. abs_step a b \<Longrightarrow> I a \<Longrightarrow> I b"
  shows "I (view k d)"
proof -
  have steps: "abs_step\<^sup>*\<^sup>* a b \<Longrightarrow> I a \<Longrightarrow> I b" for a b
    by (induction rule: rtranclp_induct) (auto intro: keep)
  from assms(1,2) have "abs_step\<^sup>*\<^sup>* (view k d0) (view k d)"
    using run_view initial_good by blast
  then show ?thesis
    by (rule steps) (rule start, rule initial_view, rule assms(2))
qed

end

section \<open>The life of a complaint in the database\<close>

definition standing_of :: "grievance \<Rightarrow> standing" where
  "standing_of g =
     \<lparr>sd_status = gr_status g, sd_assessed = (gr_issue_text g \<noteq> None),
      sd_confirmed = (gr_confirmed_at g \<noteq> None), sd_master = gr_duplicate_of_id g,
      sd_window = gr_window_expires_at g, sd_ref = gr_dispatch_ref g,
      sd_attempts = gr_dispatch_attempts g\<rparr>"

definition standing_at :: "uuid \<Rightarrow> db \<Rightarrow> standing option" where
  "standing_at i d = map_option standing_of (get_grievance i d)"

text \<open>The rows of the history in the order they were stored.\<close>

definition timeline :: "uuid \<Rightarrow> db \<Rightarrow> gr_status list" where
  "timeline i d = map ge_status (filter (\<lambda>e. ge_grievance_id e = i) (db_grievance_events d))"

definition life_at :: "uuid \<Rightarrow> db \<Rightarrow> life option" where
  "life_at i d = map_option (\<lambda>c. (c, timeline i d)) (standing_at i d)"

definition grievance_ids :: "db \<Rightarrow> uuid list" where
  "grievance_ids d = map gr_id (db_grievances d)"

text \<open>The primary key of \<^verbatim>\<open>grievances\<close> and the foreign key of \<^verbatim>\<open>grievance_events\<close>.\<close>

definition keyed :: "db \<Rightarrow> bool" where
  "keyed d = distinct (grievance_ids d)"

definition events_owned :: "db \<Rightarrow> bool" where
  "events_owned d = (\<forall>e \<in> set (db_grievance_events d). standing_at (ge_grievance_id e) d \<noteq> None)"

definition sound :: "db \<Rightarrow> bool" where
  "sound d \<longleftrightarrow> keyed d \<and> events_owned d \<and> (\<forall>i. life_ok (life_at i d))"

text \<open>Complaints are only added, and what happens to each is a run of the abstract machine.\<close>

definition lives :: "db \<Rightarrow> db \<Rightarrow> bool" where
  "lives d d1 \<longleftrightarrow>
     (\<exists>new. grievance_ids d1 = grievance_ids d @ new) \<and>
     (keyed d1 \<longrightarrow> sound d \<longrightarrow>
        events_owned d1 \<and> (\<forall>i. life_step\<^sup>*\<^sup>* (life_at i d) (life_at i d1)))"

lemma sound_keyed: "sound d \<Longrightarrow> keyed d"
  by (simp add: sound_def)

lemma lives_refl [simp, intro]: "lives d d"
  by (auto simp: lives_def sound_def)

lemma lives_keyed: "lives d d1 \<Longrightarrow> keyed d1 \<Longrightarrow> keyed d"
  by (auto simp: lives_def keyed_def)

lemma lives_sound: "lives d d1 \<Longrightarrow> keyed d1 \<Longrightarrow> sound d \<Longrightarrow> sound d1"
  unfolding lives_def sound_def using life_ok_steps by blast

lemma lives_steps: "lives d d1 \<Longrightarrow> keyed d1 \<Longrightarrow> sound d \<Longrightarrow> life_step\<^sup>*\<^sup>* (life_at i d) (life_at i d1)"
  by (simp add: lives_def)

lemma lives_trans [trans]:
  assumes "lives d d1" and "lives d1 d2"
  shows "lives d d2"
  unfolding lives_def
proof (intro conjI impI allI)
  show "\<exists>new. grievance_ids d2 = grievance_ids d @ new"
    using assms by (auto simp: lives_def)
  assume k2: "keyed d2" and s: "sound d"
  have k1: "keyed d1" using assms(2) k2 by (rule lives_keyed)
  have s1: "sound d1" using assms(1) k1 s by (rule lives_sound)
  show "events_owned d2" using lives_sound [OF assms(2) k2 s1] by (simp add: sound_def)
  show "life_step\<^sup>*\<^sup>* (life_at i d) (life_at i d2)" for i
    using lives_steps [OF assms(1) k1 s] lives_steps [OF assms(2) k2 s1] by (rule rtranclp_trans)
qed

text \<open>What a run does is only of interest on a sound database.\<close>

lemma lives_if_sound:
  assumes "\<exists>new. grievance_ids d1 = grievance_ids d @ new" and "keyed d1 \<Longrightarrow> sound d \<Longrightarrow> lives d d1"
  shows "lives d d1"
  using assms by (auto simp: lives_def)

text \<open>The tables of complaints and of their histories are left alone.\<close>

definition calm :: "db \<Rightarrow> db \<Rightarrow> bool" where
  "calm d d1 \<longleftrightarrow> db_grievances d1 = db_grievances d \<and> db_grievance_events d1 = db_grievance_events d"

lemma calm_refl [simp, intro]: "calm d d"
  by (simp add: calm_def)

lemma calm_trans [trans]: "calm d d1 \<Longrightarrow> calm d1 d2 \<Longrightarrow> calm d d2"
  by (simp add: calm_def)

lemma calm_get: "calm d d1 \<Longrightarrow> get_grievance i d1 = get_grievance i d"
  by (simp add: calm_def get_grievance_def)

lemma lives_calm: "calm d d1 \<Longrightarrow> lives d d1"
  by (simp add: calm_def lives_def sound_def grievance_ids_def events_owned_def standing_at_def
      get_grievance_def life_at_def timeline_def)

lemma calm_side: "side_commit d d1 \<Longrightarrow> calm d d1"
  by (simp add: calm_def side_commit_sel)

section \<open>Writes to one complaint\<close>

text \<open>Complaint \<open>i\<close> goes from standing \<open>c\<close> to \<open>c1\<close> and gets the entries \<open>h\<close>.\<close>

definition wrote :: "uuid \<Rightarrow> standing \<Rightarrow> standing \<Rightarrow> gr_status list \<Rightarrow> db \<Rightarrow> db \<Rightarrow> bool" where
  "wrote i c c1 h d d1 \<longleftrightarrow>
     standing_at i d = Some c \<and> standing_at i d1 = Some c1 \<and>
     (\<forall>j. j \<noteq> i \<longrightarrow> standing_at j d1 = standing_at j d) \<and> grievance_ids d1 = grievance_ids d \<and>
     (\<exists>es. db_grievance_events d1 = db_grievance_events d @ es \<and>
        (\<forall>e \<in> set es. ge_grievance_id e = i) \<and> map ge_status es = h)"

lemma wrote_trans:
  assumes "wrote i c c1 h d d1" and "wrote i c1 c2 h1 d1 d2"
  shows "wrote i c c2 (h @ h1) d d2"
proof -
  obtain es where es: "db_grievance_events d1 = db_grievance_events d @ es"
    "\<forall>e \<in> set es. ge_grievance_id e = i" "map ge_status es = h"
    using assms(1) by (auto simp: wrote_def)
  obtain fs where fs: "db_grievance_events d2 = db_grievance_events d1 @ fs"
    "\<forall>e \<in> set fs. ge_grievance_id e = i" "map ge_status fs = h1"
    using assms(2) by (auto simp: wrote_def)
  have "\<exists>es. db_grievance_events d2 = db_grievance_events d @ es \<and>
      (\<forall>e \<in> set es. ge_grievance_id e = i) \<and> map ge_status es = h @ h1"
    by (rule exI [of _ "es @ fs"]) (use es fs in auto)
  then show ?thesis using assms by (simp add: wrote_def)
qed

lemma wrote_timeline:
  assumes "wrote i c c1 h d d1"
  shows "timeline j d1 = timeline j d @ (if j = i then h else [])"
proof -
  obtain es where es: "db_grievance_events d1 = db_grievance_events d @ es"
    "\<forall>e \<in> set es. ge_grievance_id e = i" "map ge_status es = h"
    using assms by (auto simp: wrote_def)
  have "filter (\<lambda>e. ge_grievance_id e = j) es = (if j = i then es else [])"
    using es(2) by (auto simp: filter_id_conv filter_empty_conv)
  with es show ?thesis by (simp add: timeline_def)
qed

lemma wrote_life:
  assumes "wrote i c c1 h d d1"
  shows "life_at i d = Some (c, timeline i d)" "life_at i d1 = Some (c1, timeline i d @ h)"
    "j \<noteq> i \<Longrightarrow> life_at j d1 = life_at j d"
  using assms wrote_timeline [OF assms] by (simp_all add: wrote_def life_at_def)

lemma lives_wrote:
  assumes w: "wrote i c c1 h d d1"
    and step: "\<And>tl. life_ok (Some (c, tl)) \<Longrightarrow> life_step\<^sup>*\<^sup>* (Some (c, tl)) (Some (c1, tl @ h))"
  shows "lives d d1"
  unfolding lives_def
proof (intro conjI impI allI)
  show "\<exists>new. grievance_ids d1 = grievance_ids d @ new" using w by (simp add: wrote_def)
  have old: "standing_at j d1 \<noteq> None" if "standing_at j d \<noteq> None" for j
    using w that by (cases "j = i") (auto simp: wrote_def)
  assume s: "sound d"
  then show "events_owned d1"
    using w old by (fastforce simp: sound_def events_owned_def wrote_def)
  have "life_ok (Some (c, timeline i d))"
    using s wrote_life(1) [OF w] unfolding sound_def by metis
  then show "life_step\<^sup>*\<^sup>* (life_at j d) (life_at j d1)" for j
    using wrote_life [OF w] step by (cases "j = i") simp_all
qed

lemma lives_wrote_step:
  "wrote i c c1 h d d1 \<Longrightarrow> (\<And>tl. life_ok (Some (c, tl)) \<Longrightarrow> life_step (Some (c, tl)) (Some (c1, tl @ h))) \<Longrightarrow> lives d d1"
  by (rule lives_wrote) auto

lemma standing_apply [simp]: "standing_of (apply_fields now f g) = standing_of (f g)"
  by (simp add: apply_fields_def standing_of_def)

lemma status_apply [simp]: "gr_status (apply_fields now f g) = gr_status (f g)"
  by (simp add: apply_fields_def)

text \<open>The writes of the repository.\<close>

lemma wrote_set:
  assumes "set_grievance_fields now i f d = Inr (g1, d1)" and "\<And>r. gr_id (f r) = gr_id r"
    and "get_grievance i d = Some g"
  shows "wrote i (standing_of g) (standing_of (f g)) [] d d1" "get_grievance i d1 = Some g1"
    "g1 = apply_fields now f g" "gr_id g1 = i"
proof -
  show g1: "g1 = apply_fields now f g" and "get_grievance i d1 = Some g1"
    using assms set_fields_get [OF assms(1,2)] by (auto simp: set_fields_Inr)
  moreover have "db_grievance_events d1 = db_grievance_events d"
    using assms(1) by (auto simp: set_fields_Inr)
  moreover have "grievance_ids d1 = grievance_ids d"
    unfolding grievance_ids_def using assms(1) by (rule grievance_ids_kept) (rule assms(2))
  ultimately show "wrote i (standing_of g) (standing_of (f g)) [] d d1"
    using assms(3) set_fields_get [OF assms(1,2)] by (simp add: wrote_def standing_at_def)
  show "gr_id g1 = i" using g1 assms(2,3) get_grievance_id by (auto simp: apply_fields_def)
qed

lemma wrote_event:
  "standing_at i d = Some c \<Longrightarrow> wrote i c c [st] d (add_grievance_event now i st nt d)"
  by (simp add: wrote_def standing_at_def grievance_ids_def add_grievance_event_def new_id_def
      get_grievance_def Let_def)

lemma wrote_calm:
  "standing_at i d = Some c \<Longrightarrow> calm d d1 \<Longrightarrow> wrote i c c [] d d1"
  by (simp add: wrote_def calm_def standing_at_def grievance_ids_def get_grievance_def)

text \<open>A write and its entry in the history.\<close>

lemma wrote_set_event:
  assumes "set_grievance_fields now i f d = Inr (g1, d1)" and "\<And>r. gr_id (f r) = gr_id r"
    and "get_grievance i d = Some g"
  shows "wrote i (standing_of g) (standing_of (f g)) [st] d (add_grievance_event t i st nt d1)"
proof -
  have "standing_at i d1 = Some (standing_of (f g))"
    using wrote_set [OF assms] by (simp add: wrote_def)
  from wrote_trans [OF wrote_set(1) [OF assms] wrote_event [OF this]] show ?thesis by simp
qed

lemma set_fields_row: "set_grievance_fields now i f d = Inr (g1, d1) \<Longrightarrow> \<exists>g. get_grievance i d = Some g"
  by (auto simp: set_fields_Inr)

text \<open>Columns that are no part of the standing.\<close>

lemma lives_set:
  assumes "set_grievance_fields now i f d = Inr (g1, d1)" and "\<And>r. gr_id (f r) = gr_id r"
    and "\<And>r. standing_of (f r) = standing_of r"
  shows "lives d d1"
proof -
  obtain g where g: "get_grievance i d = Some g" using set_fields_row [OF assms(1)] ..
  show ?thesis
    by (rule lives_wrote [OF wrote_set(1) [OF assms(1,2) g]]) (simp add: assms(3))
qed

section \<open>The pipeline\<close>

lemma lives_commit:
  "(\<And>a d1. r = Inr (a, d1) \<Longrightarrow> lives d d1) \<Longrightarrow> lives d (snd (commitE d r))"
  by (cases r) (auto simp: commitE_def)

lemma lives_seq:
  "lives d (snd m) \<Longrightarrow> (\<And>a d1. m = (Inr a, d1) \<Longrightarrow> lives d1 (snd (k a d1))) \<Longrightarrow> lives d (snd (seqE m k))"
  by (cases m) (auto simp: seqE_def intro: lives_trans split: sum.splits)

lemma standing_of_status [simp]: "sd_status (standing_of g) = gr_status g"
  by (simp add: standing_of_def)

text \<open>Setting columns that are no part of the standing.\<close>

lemma wrote_pdf:
  assumes "build_and_store_pdf w s now g photo d = Inr (pdf, g2, d1)" and "standing_at (gr_id g) d = Some c"
  shows "wrote (gr_id g) c c [] d d1"
proof -
  obtain path where set: "set_grievance_fields now (gr_id g) (\<lambda>r. r\<lparr>gr_pdf_path := path\<rparr>) d = Inr (g2, d1)"
    using assms(1) by (auto simp: build_and_store_pdf_def bindE_Inr_iff Let_def)
  obtain g0 where g0: "get_grievance (gr_id g) d = Some g0" using set_fields_row [OF set] ..
  with assms(2) have "c = standing_of g0" by (simp add: standing_at_def)
  moreover have "wrote (gr_id g) (standing_of g0) (standing_of (g0\<lparr>gr_pdf_path := path\<rparr>)) [] d d1"
    by (rule wrote_set(1) [OF set _ g0]) simp
  ultimately show ?thesis by (simp add: standing_of_def)
qed

text \<open>A write, the receipt when it is due, and the entry in the history.\<close>

lemma wrote_set_pdf_event:
  assumes set: "set_grievance_fields now i f d = Inr (g1, d1)" and id: "\<And>r. gr_id (f r) = gr_id r"
    and row: "get_grievance i d = Some g"
    and pdf: "d2 = d1 \<or> (\<exists>p g2. build_and_store_pdf w s now g1 photo d1 = Inr (p, g2, d2))"
  shows "wrote i (standing_of g) (standing_of (f g)) [st] d (add_grievance_event t i st nt d2)"
proof -
  note w = wrote_set [OF set id row]
  have at: "standing_at i d1 = Some (standing_of (f g))" using w(1) by (simp add: wrote_def)
  from pdf have "wrote i (standing_of (f g)) (standing_of (f g)) [] d1 d2"
  proof
    assume "d2 = d1" with at show ?thesis by (simp add: wrote_calm)
  next
    assume "\<exists>p g2. build_and_store_pdf w s now g1 photo d1 = Inr (p, g2, d2)"
    then show ?thesis using wrote_pdf [of w s now g1 photo d1] at w(4) by blast
  qed
  from wrote_trans [OF w(1) this] have w2: "wrote i (standing_of g) (standing_of (f g)) [] d d2" by simp
  then have "standing_at i d2 = Some (standing_of (f g))" by (simp add: wrote_def)
  from wrote_trans [OF w2 wrote_event [OF this]] show ?thesis by simp
qed

lemma status_after_image_waits: "status_after_image im \<in> {Gs_awaiting_confirmation, Gs_photo_mismatch}"
  by (simp add: status_after_image_def)

lemma lives_put_forward:
  assumes "wrote i c (c\<lparr>sd_status := st, sd_assessed := a\<rparr>) [st] d d1"
    and "st \<in> {Gs_awaiting_confirmation, Gs_photo_mismatch}" and "sd_assessed c \<longrightarrow> a"
  shows "lives d d1"
  using assms(1) by (rule lives_wrote_step) (rule put_forward, rule assms(2), rule assms(3))

lemma store_first_pass_lives:
  assumes row: "get_grievance (gr_id g) d = Some g0"
    and run: "store_first_pass w s now g col address photo x d = Inr (r, d1)"
  shows "lives d d1"
proof -
  define im where "im = first_image_match photo x"
  obtain e f g1 d2 d3 where
    e: "e = add_extraction (gr_id g) ''2'' x f
      (rd_needs_official_review (first_pass_policy address x)) d"
    and set: "set_grievance_fields now (gr_id g) (first_pass_fields col address x im
        (first_pass_flags (fst (snd (snd col))) photo x (first_pass_policy address x))
        (first_pass_policy address x) (first_pass_snapshot now g address x d) f) e = Inr (g1, d2)"
    and pdf: "d3 = d2 \<or> (\<exists>p g2. build_and_store_pdf w s now g1 photo d2 = Inr (p, g2, d3))"
    and d1: "d1 = add_grievance_event now (gr_id g) (status_after_image im) None d3"
    using run
    by (auto simp: store_first_pass_def Let_def bindE_Inr_iff im_def split: if_splits) blast+
  have calm: "calm d e" by (simp add: e calm_def add_extraction_def new_id_def Let_def)
  have row_e: "get_grievance (gr_id g) e = Some g0" using row calm_get [OF calm] by simp
  from wrote_set_pdf_event [OF set _ row_e pdf] have
    "wrote (gr_id g) (standing_of g0)
       ((standing_of g0)\<lparr>sd_status := status_after_image im, sd_assessed := True\<rparr>)
       [status_after_image im] e d1"
    by (simp add: d1 standing_of_def first_pass_fields_def Let_def)
  then have "lives e d1"
    using status_after_image_waits by (rule lives_put_forward) simp
  with lives_calm [OF calm] show ?thesis by (rule lives_trans)
qed

lemma run_pipeline_lives: "lives d (snd (run_pipeline w s now i d))"
proof (cases "get_grievance i d")
  case None
  then show ?thesis by (simp add: run_pipeline_def)
next
  case (Some g)
  obtain r d1 where run: "run_pipeline w s now i d = (r, d1)" by fastforce
  from Some run have "lives d d1"
  proof (cases rule: run_pipeline_cases)
    case (failed e)
    then show ?thesis by (intro lives_calm calm_side)
  next
    case (stored x col address photo dc res)
    have "get_grievance (gr_id g) dc = Some g"
      using Some get_grievance_id [OF Some] get_grievance_side [OF stored(1)] by simp
    from store_first_pass_lives [OF this stored(3)] have "lives dc d1" .
    with lives_calm [OF calm_side [OF stored(1)]] show ?thesis by (rule lives_trans)
  qed
  with run show ?thesis by simp
qed

lemma accept_photo_mismatch_lives: "lives d (snd (accept_photo_mismatch w s now i d))"
proof (cases "\<exists>g. get_grievance i d = Some g \<and> gr_status g = Gs_photo_mismatch")
  case False
  then show ?thesis by (auto simp: accept_photo_mismatch_def split: option.splits)
next
  case True
  then obtain g where g: "get_grievance i d = Some g" "gr_status g = Gs_photo_mismatch" by blast
  show ?thesis
    unfolding accept_photo_mismatch_def g(1) option.simps
  proof (simp only: g(2) simp_thms if_False, rule lives_commit)
    fix a d1
    assume run: "bindE (fetch_photo w s (gr_photo_media_id g) (gr_photo_path g)) (\<lambda>(photo, mime).
        bindE (set_grievance_fields now i (\<lambda>r. r\<lparr>gr_status := Gs_awaiting_confirmation,
            gr_flags := with_flag Fl_photo_mismatch_accepted (first_occurrences (gr_flags g))\<rparr>) d) (\<lambda>(g1, d1).
        bindE (build_and_store_pdf w s now g1 photo d1) (\<lambda>(pdf, g2, d2).
          Inr ((), add_grievance_event now i Gs_awaiting_confirmation
            (Some ''Citizen filed despite the photo/description mismatch'') d2)))) = Inr (a, d1)"
    then obtain photo g1 d2 d3 where
      set: "set_grievance_fields now i (\<lambda>r. r\<lparr>gr_status := Gs_awaiting_confirmation,
            gr_flags := with_flag Fl_photo_mismatch_accepted (first_occurrences (gr_flags g))\<rparr>) d = Inr (g1, d2)"
      and pdf: "\<exists>p g2. build_and_store_pdf w s now g1 photo d2 = Inr (p, g2, d3)"
      and d1: "d1 = add_grievance_event now i Gs_awaiting_confirmation
          (Some ''Citizen filed despite the photo/description mismatch'') d3"
      by (auto simp: bindE_Inr_iff) blast
    from wrote_set_pdf_event [OF set _ g(1) disjI2 [OF pdf], of Gs_awaiting_confirmation now
        "Some ''Citizen filed despite the photo/description mismatch''"]
    have "wrote i (standing_of g)
        ((standing_of g)\<lparr>sd_status := Gs_awaiting_confirmation, sd_assessed := sd_assessed (standing_of g)\<rparr>)
        [Gs_awaiting_confirmation] d d1"
      by (simp add: d1 standing_of_def)
    then show "lives d d1" by (rule lives_put_forward) simp_all
  qed
qed

lemma recheck_image_lives: "lives d (snd (recheck_image w s now i p d))"
proof (cases "get_grievance i d")
  case None
  then show ?thesis by (simp add: recheck_image_def)
next
  case (Some g)
  show ?thesis
    unfolding recheck_image_def Some option.simps
  proof (rule lives_seq, goal_cases)
    case 1
    show ?case by (intro lives_calm calm_side recheck_photo_side) (rule surjective_pairing)
  next
    case (2 a d0)
    obtain im photo where a: "a = (im, photo)" by fastforce
    from 2 have side: "side_commit d d0" by (rule recheck_photo_side)
    have row: "get_grievance i d0 = Some g" using Some get_grievance_side [OF side] by simp
    show ?case
      unfolding a prod.case seqE_name
    proof (rule lives_commit)
      fix b d1
      assume "bindE (set_grievance_fields now i (recheck_fields im) d0) (\<lambda>(g1, d1).
         bindE (if status_after_image im = Gs_awaiting_confirmation
                then bindE (build_and_store_pdf w s now g1 photo d1) (\<lambda>(_, g2, d2). Inr (g2, d2))
                else Inr (g1, d1)) (\<lambda>(g2, d2).
           Inr (\<lparr>pr_status = status_after_image im, pr_category = category_of g2,
                 pr_department_name = [], pr_priority = priority_of g2,
                 pr_flags = gr_flags g2, pr_image_match = im\<rparr>,
                add_grievance_event now i (status_after_image im) None d2))) = Inr (b, d1)"
      then obtain g1 d2 d3 where
        set: "set_grievance_fields now i (recheck_fields im) d0 = Inr (g1, d2)"
        and pdf: "d3 = d2 \<or> (\<exists>p g2. build_and_store_pdf w s now g1 photo d2 = Inr (p, g2, d3))"
        and d1: "d1 = add_grievance_event now i (status_after_image im) None d3"
        by (auto simp: bindE_Inr_iff split: if_splits) blast+
      from wrote_set_pdf_event [OF set _ row pdf, of "status_after_image im" now None]
      have "wrote i (standing_of g)
          ((standing_of g)\<lparr>sd_status := status_after_image im, sd_assessed := sd_assessed (standing_of g)\<rparr>)
          [status_after_image im] d0 d1"
        by (simp add: d1 standing_of_def recheck_fields_def)
      then show "lives d0 d1" using status_after_image_waits by (rule lives_put_forward) simp
    qed
  qed
qed

lemma store_reextraction_lives:
  assumes row: "get_grievance (gr_id g) d = Some g" and worded: "truthy (gr_issue_text g)"
    and run: "store_reextraction now g x d = Inr (u, d1)"
  shows "lives d d1"
proof -
  define e where "e = add_extraction (gr_id g) ''2-escalated'' x (merged_facts (facts_of g) x)
    (rd_needs_official_review (reextract_policy g x)) d"
  obtain g1 d2 where
    set: "set_grievance_fields now (gr_id g) (reextract_fields now g x d) e = Inr (g1, d2)"
    and d1: "d1 = add_grievance_event now (gr_id g) (gr_status g)
      (Some ''Re-checked with the citizen's correction using a stronger model'') d2"
    using run by (auto simp: store_reextraction_def Let_def bindE_Inr_iff e_def)
  have calm: "calm d e" by (simp add: e_def calm_def add_extraction_def new_id_def Let_def)
  have row_e: "get_grievance (gr_id g) e = Some g" using row calm_get [OF calm] by simp
  have same: "standing_of (reextract_fields now g x d g) = standing_of g"
    by (simp add: standing_of_def reextract_fields_def Let_def)
  from wrote_set_event [OF set _ row_e] have
    w: "wrote (gr_id g) (standing_of g) (standing_of g) [gr_status g] e d1"
    by (simp add: d1 same)
  have assessed: "sd_assessed (standing_of g)"
    using worded by (auto simp: standing_of_def truthy_def split: option.splits)
  have "life_step (Some (standing_of g, tl)) (Some (standing_of g, tl @ [gr_status g]))" for tl
    using noted_again [OF assessed, of tl] by simp
  with w have "lives e d1" by (rule lives_wrote_step)
  with lives_calm [OF calm] show ?thesis by (rule lives_trans)
qed

lemma reextract_lives: "lives d (snd (reextract_grievance w s now i d))"
proof (cases "\<exists>g. get_grievance i d = Some g \<and> truthy (gr_issue_text g)")
  case False
  then show ?thesis by (auto simp: reextract_grievance_def split: option.splits)
next
  case True
  then obtain g where g: "get_grievance i d = Some g" "truthy (gr_issue_text g)" by blast
  have i: "gr_id g = i" using g(1) by (rule get_grievance_id)
  have "lives d (snd (seqE (extract_issue w s now (gr_issue_text g) None ''image/jpeg'' True
      (correction_context w g) d)
      (\<lambda>x d1. if xt_degraded x then (Inr (), d1) else commitE d1 (store_reextraction now g x d1))))"
  proof (rule lives_seq, goal_cases)
    case 1
    show ?case by (intro lives_calm calm_side extract_issue_side) (rule surjective_pairing)
  next
    case (2 x d1)
    have row: "get_grievance (gr_id g) d1 = Some g"
      using g(1) i get_grievance_side [OF extract_issue_side [OF 2]] by simp
    have "lives d1 (snd (commitE d1 (store_reextraction now g x d1)))"
      by (rule lives_commit) (erule store_reextraction_lives [OF row g(2)])
    then show ?case by simp
  qed
  then show ?thesis by (simp add: reextract_grievance_def g)
qed

section \<open>Confirmation and dispatch\<close>

text \<open>A write that leaves the standing of its row leaves the standing of every row.\<close>

lemma wrote_neutral:
  assumes "set_grievance_fields now k f d = Inr (g1, d1)" and "\<And>r. gr_id (f r) = gr_id r"
    and "\<And>r. standing_of (f r) = standing_of r" and "standing_at i d = Some c"
  shows "wrote i c c [] d d1"
proof -
  obtain g where g: "get_grievance k d = Some g" using set_fields_row [OF assms(1)] ..
  have w: "wrote k (standing_of g) (standing_of g) [] d d1"
    using wrote_set(1) [OF assms(1,2) g] by (simp add: assms(3))
  then have "standing_at j d1 = standing_at j d" for j by (cases "j = k") (auto simp: wrote_def)
  with w assms(4) show ?thesis by (simp add: wrote_def)
qed

lemma hold_lives:
  assumes row: "get_grievance (gr_id g) d = Some g" and due: "due_status (gr_status g)"
    and run: "hold_for_official now g d = Inr (a, d1)"
  shows "lives d d1"
proof -
  obtain g1 d2 where
    set: "set_grievance_fields now (gr_id g)
        (\<lambda>r. r\<lparr>gr_status := Gs_registered, gr_review_status := Some Rv_pending_official\<rparr>) d = Inr (g1, d2)"
    and d1: "d1 = add_grievance_event now (gr_id g) Gs_registered
        (Some ''Live dispatch disabled for demo or unreviewed jurisdiction route'') d2"
    using run by (auto simp: hold_for_official_def bindE_Inr_iff)
  from wrote_set_event [OF set _ row] have
    "wrote (gr_id g) (standing_of g) ((standing_of g)\<lparr>sd_status := Gs_registered\<rparr>) [Gs_registered] d d1"
    by (simp add: d1 standing_of_def)
  then show ?thesis
  proof (rule lives_wrote_step)
    fix tl assume "life_ok (Some (standing_of g, tl))"
    then have "sd_confirmed (standing_of g)"
      by (rule life_ok_confirmed) (simp add: due)
    with due show "life_step (Some (standing_of g, tl))
        (Some ((standing_of g)\<lparr>sd_status := Gs_registered\<rparr>, tl @ [Gs_registered]))"
      by (intro held) simp_all
  qed
qed

lemma record_dispatch_lives:
  assumes row: "get_grievance (gr_id g) d = Some g" and st: "gr_status g = Gs_dispatching"
  shows "lives d (snd (record_dispatch now g answer d))"
proof (cases answer)
  case (Inr ref)
  have "lives d d1"
    if "bindE (set_grievance_fields now (gr_id g)
            (\<lambda>r. r\<lparr>gr_status := Gs_submitted, gr_dispatch_ref := Some ref\<rparr>) d)
          (\<lambda>(g1, d1). Inr (outcome_of Gs_submitted g1,
             add_grievance_event now (gr_id g) Gs_submitted (Some ref) d1)) = Inr (a, d1)" for a d1
  proof -
    from that obtain g1 d2 where
      set: "set_grievance_fields now (gr_id g)
          (\<lambda>r. r\<lparr>gr_status := Gs_submitted, gr_dispatch_ref := Some ref\<rparr>) d = Inr (g1, d2)"
      and d1: "d1 = add_grievance_event now (gr_id g) Gs_submitted (Some ref) d2"
      by (auto simp: bindE_Inr_iff)
    from wrote_set_event [OF set _ row] have
      "wrote (gr_id g) (standing_of g)
         ((standing_of g)\<lparr>sd_status := Gs_submitted, sd_ref := Some ref\<rparr>) [Gs_submitted] d d1"
      by (simp add: d1 standing_of_def)
    then show ?thesis by (rule lives_wrote_step) (rule accepted, simp add: st)
  qed
  with Inr show ?thesis by (simp add: record_dispatch_def lives_commit)
next
  case (Inl e)
  show ?thesis
  proof (cases "e = DispatchError")
    case False
    then show ?thesis by (simp add: record_dispatch_def Inl)
  next
    case True
    define n where "n = gr_dispatch_attempts g + 1"
    define st' where "st' = (if n \<ge> MAX_DISPATCH_ATTEMPTS then Gs_dispatch_failed else Gs_dispatching)"
    have "lives d d1"
      if "bindE (set_grievance_fields now (gr_id g) (\<lambda>r. r\<lparr>gr_dispatch_attempts := n, gr_status := st'\<rparr>) d)
            (\<lambda>(g1, d1). Inr (outcome_of st' g1,
               if st' = Gs_dispatch_failed
               then add_grievance_event now (gr_id g) Gs_dispatch_failed None d1 else d1)) = Inr (a, d1)" for a d1
    proof -
      from that obtain g1 d2 where
        set: "set_grievance_fields now (gr_id g) (\<lambda>r. r\<lparr>gr_dispatch_attempts := n, gr_status := st'\<rparr>) d = Inr (g1, d2)"
        and d1: "d1 = (if st' = Gs_dispatch_failed
            then add_grievance_event now (gr_id g) Gs_dispatch_failed None d2 else d2)"
        by (auto simp: bindE_Inr_iff)
      show ?thesis
      proof (cases "n \<ge> MAX_DISPATCH_ATTEMPTS")
        case True
        from wrote_set_event [OF set _ row] True have
          "wrote (gr_id g) (standing_of g)
             ((standing_of g)\<lparr>sd_attempts := Suc (sd_attempts (standing_of g)), sd_status := Gs_dispatch_failed\<rparr>)
             [Gs_dispatch_failed] d d1"
          by (simp add: d1 st'_def n_def standing_of_def)
        then show ?thesis
        proof (rule lives_wrote_step, intro given_up)
          show "MAX_DISPATCH_ATTEMPTS \<le> Suc (sd_attempts (standing_of g))"
            using True by (simp add: n_def standing_of_def)
        qed (simp add: st)
      next
        case False
        have "wrote (gr_id g) (standing_of g)
             (standing_of (g\<lparr>gr_dispatch_attempts := n, gr_status := st'\<rparr>)) [] d d2"
          by (rule wrote_set(1) [OF set _ row]) simp
        with False have
          "wrote (gr_id g) (standing_of g)
             ((standing_of g)\<lparr>sd_attempts := Suc (sd_attempts (standing_of g))\<rparr>) [] d d1"
          by (simp add: d1 st'_def n_def standing_of_def st)
        then show ?thesis
        proof (rule lives_wrote_step)
          fix tl
          have "Suc (sd_attempts (standing_of g)) < MAX_DISPATCH_ATTEMPTS"
            using False by (simp add: n_def standing_of_def)
          with refused [of "standing_of g" tl] st show "life_step (Some (standing_of g, tl))
              (Some ((standing_of g)\<lparr>sd_attempts := Suc (sd_attempts (standing_of g))\<rparr>, tl @ []))"
            by simp
        qed
      qed
    qed
    moreover have "record_dispatch now g answer d =
        commitE d (bindE (set_grievance_fields now (gr_id g) (\<lambda>r. r\<lparr>gr_dispatch_attempts := n, gr_status := st'\<rparr>) d)
            (\<lambda>(g1, d1). Inr (outcome_of st' g1,
               if st' = Gs_dispatch_failed
               then add_grievance_event now (gr_id g) Gs_dispatch_failed None d1 else d1)))"
      by (simp only: record_dispatch_def Inl True Let_def n_def st'_def sum.case simp_thms if_False)
    ultimately show ?thesis by (simp only: lives_commit)
  qed
qed

text \<open>A complaint is handed over from a status that is due only.\<close>

lemma dispatch_lives:
  assumes due: "\<And>g. get_grievance i d = Some g \<Longrightarrow> due_status (gr_status g)"
  shows "lives d (snd (dispatch_grievance w s now hex8 i d))"
proof (cases "get_grievance i d")
  case None
  then show ?thesis by (simp add: dispatch_grievance_def)
next
  case (Some g)
  have i: "gr_id g = i" using Some by (rule get_grievance_id)
  show ?thesis
  proof (cases "dispatch_enabled g")
    case False
    have "lives d (snd (commitE d (hold_for_official now g d)))"
      by (rule lives_commit) (erule hold_lives [rotated 2], simp_all add: i Some due)
    with False show ?thesis by (simp add: dispatch_grievance_def Some)
  next
    case True
    show ?thesis
    proof (cases "set_grievance_fields now i (\<lambda>r. r\<lparr>gr_status := Gs_dispatching\<rparr>) d")
      case (Inl e)
      with True Some show ?thesis by (simp add: dispatch_grievance_def)
    next
      case (Inr gd)
      obtain g1 d1 where gd: "gd = (g1, d1)" by fastforce
      note set = Inr [unfolded gd]
      note w = wrote_set [OF set _ Some, simplified]
      have w1: "wrote i (standing_of g) ((standing_of g)\<lparr>sd_status := Gs_dispatching\<rparr>) [] d d1"
        using w(1) by (simp add: standing_of_def)
      have first: "lives d d1"
        using w1
      proof (rule lives_wrote_step)
        fix tl assume "life_ok (Some (standing_of g, tl))"
        then have "sd_confirmed (standing_of g)" by (rule life_ok_confirmed) (simp add: due Some)
        then show "life_step (Some (standing_of g, tl))
            (Some ((standing_of g)\<lparr>sd_status := Gs_dispatching\<rparr>, tl @ []))"
          using handed_over [of "standing_of g" tl] due Some by simp
      qed
      have "gr_status g1 = Gs_dispatching"
        using w(3) by simp
      then have "lives d1 (snd (record_dispatch now g1 (call_department w s hex8 g1) d1))"
        using w(2,4) by (intro record_dispatch_lives) simp_all
      with first have "lives d (snd (record_dispatch now g1 (call_department w s hex8 g1) d1))"
        by (rule lives_trans)
      with True show ?thesis by (simp add: dispatch_grievance_def Some set)
    qed
  qed
qed

text \<open>Every branch of the confirmation starts by registering.\<close>

lemma register_lives:
  assumes set: "set_grievance_fields now i f d = Inr (g1, d1)" and id: "\<And>r. gr_id (f r) = gr_id r"
    and f: "\<And>r. standing_of (f r) = (standing_of r)\<lparr>sd_status := Gs_registered, sd_confirmed := True\<rparr>"
  shows "lives d (add_grievance_event now i Gs_registered nt d1)"
proof -
  obtain g where g: "get_grievance i d = Some g" using set_fields_row [OF set] ..
  have "wrote i (standing_of g) ((standing_of g)\<lparr>sd_status := Gs_registered, sd_confirmed := True\<rparr>)
      [Gs_registered] d (add_grievance_event now i Gs_registered nt d1)"
    using wrote_set_event [OF set id g] by (simp add: f)
  then show ?thesis by (rule lives_wrote_step) (rule confirmed)
qed

lemma mark_duplicate_lives:
  assumes row: "get_grievance (gr_id g) d = Some g" and st: "gr_status g = Gs_registered"
    and run: "mark_duplicate now g m d = Inr (a, d1)"
  shows "lives d d1"
proof -
  obtain g1 d2 m1 d3 where
    set: "set_grievance_fields now (gr_id g)
        (\<lambda>r. r\<lparr>gr_status := Gs_duplicate, gr_duplicate_of_id := Some (gr_id m)\<rparr>) d = Inr (g1, d2)"
    and count: "set_grievance_fields now (gr_id m) (\<lambda>r. r\<lparr>gr_report_count := gr_report_count m + 1\<rparr>) d2 = Inr (m1, d3)"
    and d1: "d1 = add_grievance_event now (gr_id g) Gs_duplicate (Some (''duplicate of '' @ gr_human_id m)) d3"
    using run by (auto simp: mark_duplicate_def bindE_Inr_iff)
  let ?c = "(standing_of g)\<lparr>sd_status := Gs_duplicate, sd_master := Some (gr_id m)\<rparr>"
  have w: "wrote (gr_id g) (standing_of g) ?c [] d d2"
    using wrote_set(1) [OF set _ row] by (simp add: standing_of_def)
  then have at2: "standing_at (gr_id g) d2 = Some ?c" by (simp add: wrote_def)
  have w2: "wrote (gr_id g) ?c ?c [] d2 d3"
    by (rule wrote_neutral [OF count _ _ at2]) (simp_all add: standing_of_def)
  then have "standing_at (gr_id g) d3 = Some ?c" by (simp add: wrote_def)
  then have "wrote (gr_id g) ?c ?c [Gs_duplicate] d3 d1" unfolding d1 by (rule wrote_event)
  from wrote_trans [OF wrote_trans [OF w w2] this]
  have "wrote (gr_id g) (standing_of g) ?c [Gs_duplicate] d d1" by simp
  then show ?thesis
  proof (rule lives_wrote_step)
    fix tl assume "life_ok (Some (standing_of g, tl))"
    then have "sd_confirmed (standing_of g)" by (rule life_ok_confirmed) (simp add: st)
    then show "life_step (Some (standing_of g, tl)) (Some (?c, tl @ [Gs_duplicate]))"
      by (intro merged) (simp_all add: st)
  qed
qed

lemma open_window_lives:
  assumes row: "get_grievance (gr_id g) d = Some g" and st: "gr_status g = Gs_registered"
    and run: "open_window s now g d = Inr (a, d1)"
  shows "lives d d1"
proof -
  let ?t = "now + hours (int (s_dedup_window_hours s))"
  obtain g1 d2 where
    set: "set_grievance_fields now (gr_id g)
        (\<lambda>r. r\<lparr>gr_status := Gs_pending_window, gr_window_expires_at := Some ?t\<rparr>) d = Inr (g1, d2)"
    and d1: "d1 = add_grievance_event now (gr_id g) Gs_pending_window None d2"
    using run by (auto simp: open_window_def bindE_Inr_iff)
  let ?c = "(standing_of g)\<lparr>sd_status := Gs_pending_window, sd_window := Some ?t\<rparr>"
  from wrote_set_event [OF set _ row] have
    "wrote (gr_id g) (standing_of g) ?c [Gs_pending_window] d d1"
    by (simp add: d1 standing_of_def)
  then show ?thesis
  proof (rule lives_wrote_step)
    fix tl assume "life_ok (Some (standing_of g, tl))"
    then have "sd_confirmed (standing_of g)" by (rule life_ok_confirmed) (simp add: st)
    then show "life_step (Some (standing_of g, tl)) (Some (?c, tl @ [Gs_pending_window]))"
      by (intro window_opened) (simp_all add: st)
  qed
qed

lemma register_standing:
  "standing_of (register_fields now r) = (standing_of r)\<lparr>sd_status := Gs_registered, sd_confirmed := True\<rparr>"
  "standing_of ((register_fields now r)\<lparr>gr_review_status := rv\<rparr>) =
     (standing_of r)\<lparr>sd_status := Gs_registered, sd_confirmed := True\<rparr>"
  by (simp_all add: register_fields_def standing_of_def)

lemma finalize_lives: "lives d (snd (finalize_grievance w s now hex8 i d))"
proof (cases "get_grievance i d")
  case None
  then show ?thesis by (simp add: finalize_grievance_def)
next
  case (Some g)
  have id: "gr_id (register_fields now r) = gr_id r" for r by (simp add: register_fields_def)
  show ?thesis
  proof (cases "held_back g")
    case True
    have first: "lives d (snd (commitE d (bindE (set_grievance_fields now i f d) (\<lambda>(g1, d1).
        Inr (outcome_of Gs_registered g, add_grievance_event now i Gs_registered nt d1)))))"
      if "f = register_fields now \<or> f = (\<lambda>r. (register_fields now r)\<lparr>gr_review_status := Some Rv_pending_official\<rparr>)"
      for f nt
      using that
      by (intro lives_commit) (auto simp: bindE_Inr_iff register_standing id intro!: register_lives)
    from True show ?thesis
      by (auto simp: finalize_grievance_def Some held_back_def first)
  next
    case False
    show ?thesis
    proof (cases "set_grievance_fields now i (register_fields now) d")
      case (Inl e)
      with False Some show ?thesis by (simp add: finalize_grievance_def held_back_def)
    next
      case (Inr gd)
      obtain g1 d1 where gd: "gd = (g1, d1)" by fastforce
      note set = Inr [unfolded gd]
      define d2 where "d2 = add_grievance_event now i Gs_registered None d1"
      have first: "lives d d2"
        unfolding d2_def by (rule register_lives [OF set id register_standing(1)])
      note w = wrote_set [OF set id Some]
      have row: "get_grievance (gr_id g1) d2 = Some g1" and i: "gr_id g1 = i"
        using w(2,4) by (simp_all add: d2_def)
      have st: "gr_status g1 = Gs_registered"
        using w(3) by (simp add: register_fields_def)
      have sent: "lives d2 (snd (dispatch_grievance w s now hex8 i d2))"
        by (rule dispatch_lives) (use row i st in simp)
      have "snd (finalize_grievance w s now hex8 i d) =
          (if priority_of g1 = Pr_priority then snd (dispatch_grievance w s now hex8 i d2)
           else snd (commitE d
             (case find_duplicate now (category_of g1) (gr_location_latitude g1)
                     (gr_location_longitude g1) (s_dedup_radius_m s) (Some i) d2 of
                Some (master, distance) \<Rightarrow> mark_duplicate now g1 master d2
              | None \<Rightarrow> open_window s now g1 d2)))"
        using False by (simp add: finalize_grievance_def Some held_back_def set d2_def Let_def cong: option.case_cong)
      moreover have "lives d (snd (commitE d r))" if "\<And>a d3. r = Inr (a, d3) \<Longrightarrow> lives d2 d3" for r :: "exn + (outcome \<times> db)"
        by (rule lives_commit) (rule lives_trans [OF first], erule that)
      ultimately show ?thesis
        using lives_trans [OF first sent] mark_duplicate_lives [OF row st] open_window_lives [OF row st]
        by (auto split: option.splits)
    qed
  qed
qed

lemma cancel_lives: "lives d (snd (cancel_grievance now i d))"
  unfolding cancel_grievance_def
proof (rule lives_commit)
  fix a d1
  assume "bindE (set_grievance_fields now i (\<lambda>r. r\<lparr>gr_status := Gs_cancelled\<rparr>) d)
       (\<lambda>(g1, d1). Inr ((), add_grievance_event now i Gs_cancelled None d1)) = Inr (a, d1)"
  then obtain g1 d2 where
    set: "set_grievance_fields now i (\<lambda>r. r\<lparr>gr_status := Gs_cancelled\<rparr>) d = Inr (g1, d2)"
    and d1: "d1 = add_grievance_event now i Gs_cancelled None d2"
    by (auto simp: bindE_Inr_iff)
  obtain g where g: "get_grievance i d = Some g" using set_fields_row [OF set] ..
  from wrote_set_event [OF set _ g] have
    "wrote i (standing_of g) ((standing_of g)\<lparr>sd_status := Gs_cancelled\<rparr>) [Gs_cancelled] d d1"
    by (simp add: d1 standing_of_def)
  then show "lives d d1" by (rule lives_wrote_step) (rule cancelled)
qed

end
