(* ===== verification/System.thy ===== *)
theory System
  imports Lifecycle
begin

text \<open>
  The whole program as one transition system: the requests of the webhook, of the citizens and of the
  officials, and the rounds of the worker, in any order. Each of them moves every complaint along
  the life cycle of \<open>Lifecycle\<close> only, so that what holds of every history of that machine holds of
  every database the program can reach.
\<close>

section \<open>The steps that leave complaints alone\<close>

named_theorems calm_rules

lemma calm_set_jobs [calm_rules]:
  "calm d (enqueue_pipeline_job now i st k d)"
  "calm d (complete_pipeline_job j d)"
  "calm d (fail_pipeline_job now j e d)"
  "calm d (snd (claim_pipeline_jobs now n l d))"
  by (simp_all add: calm_def enqueue_pipeline_job_def complete_pipeline_job_def
      fail_pipeline_job_def claim_pipeline_jobs_def new_id_def Let_def)

lemma calm_messages [calm_rules]:
  "calm d (snd (upsert_contact now w p d))"
  "calm d (snd (claim_inbound mid d))"
  "calm d (annotate_consumption mid c a b d)"
  "calm d (snd (store_outgoing_pending now k g d))"
  "calm d (update_conversation v f d)"
  "calm d (mark_event_processed now e d)"
  "calm d (snd (claim_event now e n d))"
  "calm d (snd (upsert_conversation_state now conv ct st ctx l t1 t2 d))"
  by (auto simp: calm_def upsert_contact_def claim_inbound_def annotate_consumption_def
      store_outgoing_pending_def update_conversation_def mark_event_processed_def claim_event_def
      upsert_conversation_state_def new_id_def Let_def split: option.splits)

lemma calm_store_incoming: "calm d (snd (store_incoming now m d))"
proof -
  obtain c d1 where up: "upsert_contact now (in_wa_id m) (in_profile_name m) d = (c, d1)" by fastforce
  have "calm d d1" using calm_messages(1) [of d now "in_wa_id m" "in_profile_name m"] by (simp add: up)
  then show ?thesis
    by (auto simp: calm_def store_incoming_def up new_id_def Let_def split: option.splits)
qed

lemma calm_incoming [calm_rules]: "calm d (snd (store_incoming_messages now ms d))"
proof (induction ms arbitrary: d)
  case Nil
  then show ?case by simp
next
  case (Cons m ms)
  have "calm d (snd (store_incoming now m d))" by (rule calm_store_incoming)
  also have "calm \<dots> (snd (store_incoming_messages now ms (snd (store_incoming now m d))))" by (rule Cons)
  finally show ?case by (simp add: case_prod_beta Let_def)
qed

lemma calm_audit [calm_rules]: "calm d (add_official_audit now u g a r b f q d)"
  by (simp add: calm_def add_official_audit_def new_id_def Let_def)

lemma calm_lock:
  "lock_contact_and_get_conversation now c d = Inr (conv, d1) \<Longrightarrow> calm d d1"
  by (cases "scalar_one_or_none (filter (\<lambda>v. cv_contact_id v = c \<and> cv_active v) (db_conversations d))")
    (auto simp: lock_contact_and_get_conversation_def calm_def split: option.split_asm if_split_asm)

lemma calm_decide:
  "decide_login_approval now cid vh contact p ctx dm decision d = Inr (r, d1) \<Longrightarrow> calm d d1"
  by (auto simp: decide_login_approval_def bindE_Inr_iff calm_def Let_def split: if_splits)

lemma calm_verify: "verify_code_from_whatsapp lib now w ct body d = Inr (r, d1) \<Longrightarrow> calm d d1"
  by (auto simp: verify_code_from_whatsapp_def upsert_user_for_verified_phone_def
      mark_verification_verified_def new_id_def bindE_Inr_iff calm_def Let_def
      split: if_splits option.splits)

lemma calm_intercept [calm_rules]: "calm d (snd (intercept now m c k p b d))"
  using calm_trans [OF calm_messages(3) calm_messages(4)]
  by (simp add: intercept_def case_prod_beta Let_def)

lemma calm_send [calm_rules]: "calm d (snd (send_pending s post now i d))"
proof -
  have prepare: "calm d d1" if "prepare_send s now i d = Inr (g, d1)" for g d1
    using that
    by (auto simp: prepare_send_def calm_def claim_outbound_def mark_outbound_def approval_to_fallback_def bindE_Inr_iff Let_def
        split: option.splits if_splits prod.splits)
  have recorded: "calm d1 (snd (record_send i r d1))" for r d1
    by (auto simp: record_send_def calm_def mark_outbound_def Let_def split: sum.splits option.splits)
  show ?thesis
    using prepare calm_trans [OF prepare recorded]
    by (auto simp: send_pending_def split: sum.splits prod.splits send_gate.splits)
qed

lemma calm_send_all [calm_rules]: "calm d (snd (send_all s post now ms d))"
proof (induction ms arbitrary: d)
  case Nil
  then show ?case by simp
next
  case (Cons m ms)
  obtain r d1 where r: "send_pending s post now m d = (r, d1)" by fastforce
  have "calm d d1" using calm_send [of d s post now m] by (simp add: r)
  then show ?case using calm_trans [OF _ Cons] by (cases r) (auto simp: r seqE_def)
qed

lemma calm_sweep_rows: "calm d (snd (sweep_rows s post tick k ms d))"
proof (induction ms arbitrary: k d)
  case Nil
  then show ?case by simp
next
  case (Cons m ms)
  obtain r d1 where r: "send_pending s post (tick k) m d = (r, d1)" by fastforce
  have "calm d d1" using calm_send [of d s post "tick k" m] by (simp add: r)
  then show ?case using calm_trans [OF _ Cons] by (cases r) (auto simp: r)
qed

lemma calm_sweep [calm_rules]: "calm d (snd (sweep_pending_outbound s post tick n d))"
  using calm_sweep_rows [of d s post tick 1 "fetch_sweepable_outbound (tick 0) n d"]
  by (auto simp: sweep_pending_outbound_def Let_def split: prod.splits sum.splits)

lemma calm_standalone [calm_rules]: "calm d (snd (send_standalone_reply s te w b k key d))"
proof -
  obtain c d1 where up: "upsert_contact (te_now te) w None d = (c, d1)" by fastforce
  obtain row d2 where st: "store_outgoing_pending (te_now te) key (text_reply (ct_id c) w k b None) d1 = (row, d2)"
    by fastforce
  have "calm d d1" using calm_messages(1) [of d "te_now te" w None] by (simp add: up)
  also have "calm d1 d2"
    using calm_messages(4) [of d1 "te_now te" key "text_reply (ct_id c) w k b None"] by (simp add: st)
  also have "calm d2 (snd (send_standalone_reply s te w b k key d))"
    by (simp add: send_standalone_reply_def up st calm_send_all)
  finally show ?thesis .
qed

lemma calm_followup [calm_rules]: "calm d (snd (send_pipeline_followup_message s te c w i r d))"
proof -
  have store: "calm d d1" if "store_pipeline_followup s te c w i r d = Inr (row, d1)" for row d1
    using that calm_lock calm_trans [OF calm_trans [OF calm_lock calm_messages(5)] calm_messages(4)]
    by (auto simp: store_pipeline_followup_def bindE_Inr_iff split: option.splits)
      (metis snd_conv)
  show ?thesis
    using store calm_trans [OF store calm_send_all]
    by (auto simp: send_pipeline_followup_message_def seqE_def commitE_def split: sum.splits prod.splits)
qed

lemma calm_geocode [calm_rules]: "calm d (snd (geocode_inbound s te m d))"
proof -
  obtain r d1 where r: "reverse_geocode_cached (te_world te) s (te_now te) (the (in_location_latitude m))
      (in_location_longitude m) d = (r, d1)" by fastforce
  have "calm d d1" by (rule calm_side [OF reverse_geocode_side [OF r]])
  then show ?thesis
    using r by (cases r) (auto simp: geocode_inbound_def seqE_def split: option.splits)
qed

lemma calm_webhook [calm_rules]: "calm d (snd (receive_webhook s hmac loads now body sig d))"
proof -
  have "calm d d1" if "store_webhook_event now payload sv d = (i, d1)" for payload sv i d1
    using that by (auto simp: store_webhook_event_def new_id_def calm_def Let_def)
  then show ?thesis
    by (auto simp: receive_webhook_def split: option.splits json.splits sum.splits prod.splits)
qed

lemma calm_store_intents [calm_rules]: "calm d (snd (store_intents now c v mid its d))"
proof (induction its arbitrary: d)
  case Nil
  then show ?case by simp
next
  case (Cons it its)
  show ?case
    using calm_trans [OF calm_messages(4) Cons] by (simp add: case_prod_beta Let_def)
qed

lemmas lives_calm_rules = calm_rules [THEN lives_calm]

section \<open>A new complaint\<close>

lemma create_draft_lives: "lives d (snd (create_draft_grievance now c cv u src di d))"
proof -
  let ?d0 = "d\<lparr>db_human_seq := db_human_seq d + 1\<rparr>"
  show ?thesis
  proof (cases "conversation_draft cv ?d0")
    case (Some g)
    then have "calm d (snd (create_draft_grievance now c cv u src di d))"
      by (simp add: create_draft_grievance_def calm_def Let_def)
    then show ?thesis by (rule lives_calm)
  next
    case None
    define g where "g = draft_row now (uuid_str (db_ids d)) (db_human_seq d) c cv u src di"
    define d1 where "d1 = snd (create_draft_grievance now c cv u src di d)"
    have rows: "db_grievances d1 = db_grievances d @ [g]"
      and events: "db_grievance_events d1 = db_grievance_events d"
      using None by (simp_all add: d1_def g_def create_draft_grievance_def new_id_def Let_def)
    have ids: "grievance_ids d1 = grievance_ids d @ [gr_id g]"
      by (simp add: grievance_ids_def rows)
    have new: "standing_of g = new_standing"
      by (simp add: g_def standing_of_def new_standing_def draft_row_def)
    have "lives d d1"
      unfolding lives_def
    proof (intro conjI impI allI)
      show "\<exists>new. grievance_ids d1 = grievance_ids d @ new" using ids by blast
      assume "keyed d1" and s: "sound d"
      then have "gr_id g \<notin> set (grievance_ids d)" by (simp add: keyed_def ids)
      then have fresh: "get_grievance (gr_id g) d = None"
        by (simp add: grievance_ids_def get_grievance_def tget_None_iff)
      have get: "get_grievance j d1 = (if j = gr_id g then Some g else get_grievance j d)" for j
        using fresh by (simp add: get_grievance_def rows tget_append tget_Cons split: option.split)
      then have at: "standing_at j d1 = (if j = gr_id g then Some new_standing else standing_at j d)" for j
        by (simp add: standing_at_def new)
      from s have "events_owned d" by (simp add: sound_def)
      then show "events_owned d1" by (auto simp: events_owned_def at events)
      have "ge_grievance_id e \<noteq> gr_id g" if "e \<in> set (db_grievance_events d)" for e
        using \<open>events_owned d\<close> that fresh by (auto simp: events_owned_def standing_at_def)
      then have "timeline (gr_id g) d = []"
        by (auto simp: timeline_def filter_empty_conv)
      then have "life_at (gr_id g) d1 = Some (new_standing, [])"
        by (simp add: life_at_def at timeline_def events)
      moreover have "life_at (gr_id g) d = None" using fresh by (simp add: life_at_def standing_at_def)
      moreover have "life_at j d1 = life_at j d" if "j \<noteq> gr_id g" for j
        using that by (simp add: life_at_def at timeline_def events)
      ultimately show "life_step\<^sup>*\<^sup>* (life_at j d) (life_at j d1)" for j
        using opened by (cases "j = gr_id g") auto
    qed
    then show ?thesis by (simp add: d1_def)
  qed
qed

section \<open>A turn of the dialog\<close>

lemma act_lives:
  assumes "act_in_transaction now c v r d = Inr (ctx, d1)"
  shows "lives d d1"
proof (cases "fr_action r = Some Start_pipeline")
  case True
  then obtain u f where
    d1: "d1 = update_conversation v f (snd (create_draft_grievance now c (Some v) u Src_whatsapp
        (draft_of_context (fr_context r)) d))"
    using assms by (auto simp: act_in_transaction_def bindE_Inr_iff case_prod_beta Let_def)
  show ?thesis
    unfolding d1 by (rule lives_trans [OF create_draft_lives lives_calm]) (rule calm_rules)
next
  case False
  show ?thesis
  proof (cases "fr_action r = Some Recheck_photo")
    case True
    then obtain gid p g where "set_grievance_fields now gid
        (\<lambda>g. g\<lparr>gr_photo_media_id := p, gr_photo_path := None\<rparr>) d = Inr (g, d1)"
      using assms by (auto simp: act_in_transaction_def bindE_Inr_iff split: option.splits)
    then show ?thesis by (rule lives_set) (simp_all add: standing_of_def)
  next
    case False
    with \<open>fr_action r \<noteq> Some Start_pipeline\<close> assms show ?thesis
      by (auto simp: act_in_transaction_def split: option.splits action.splits)
  qed
qed

lemma run_dialog_lives:
  assumes "run_dialog s now m geo c conv d = Inr (t, d1)"
  shows "lives d d1"
proof -
  from assms obtain r where adv: "advance now (in_wa_id m) (map_option cv_state conv)
      (map_option cv_context conv) m geo = Inr r"
    by (auto simp: run_dialog_def bindE_Inr_iff)
  obtain v d2 where u: "upsert_conversation_state now conv c (fr_state r) (fr_context r)
      (in_received_at m) (s_conversation_ttl_hours s) (s_service_window_hours s) d = (v, d2)" by fastforce
  from assms obtain ctx d3 where a: "act_in_transaction now c (cv_id v) r d2 = Inr (ctx, d3)"
    by (auto simp: run_dialog_def adv u bindE_Inr_iff)
  obtain rows d4 where st: "store_intents now c (cv_id v) (in_meta_message_id m) (fr_intents r)
      (annotate_consumption (in_meta_message_id m) (Some (cv_id v)) (map_option cv_state conv)
        (Some (fr_state r)) d3) = (rows, d4)" by fastforce
  have d1: "d1 = (if fr_close r then update_conversation (cv_id v) (\<lambda>x. x\<lparr>cv_active := False\<rparr>) d4 else d4)"
    using assms by (simp add: run_dialog_def adv u a st Let_def)
  have "calm d d2" using calm_messages(8) u by (metis snd_conv)
  moreover have "calm d3 d4"
    using calm_trans [OF calm_messages(3) calm_store_intents] st by (metis snd_conv)
  moreover have "calm d4 d1" by (simp add: d1 calm_messages)
  ultimately show ?thesis
    using act_lives [OF a] by (meson lives_calm lives_trans)
qed

lemma calm_tap:
  assumes "handle_login_tap lib now m c tap d = Inr (t, d1)"
  shows "calm d d1"
proof -
  obtain dec cid vh where tap: "tap = (dec, cid, vh)" by (cases tap) auto
  define decision where "decision = (if dec = ''login_yes'' then ''approved'' else ''denied'')"
  from assms obtain r d2 where
    dd: "decide_login_approval now cid (hash_code lib vh) c (in_wa_id m)
        (the (in_context_message_id m)) (in_meta_message_id m) decision d = Inr (r, d2)"
    by (auto simp: handle_login_tap_def tap bindE_Inr_iff Let_def decision_def [symmetric])
  from assms have "\<exists>k p b. intercept now m c k p b d2 = (t, d1)"
    unfolding handle_login_tap_def tap Let_def prod.case decision_def [symmetric] dd bindE_simps sum.inject
    by blast
  then obtain k p b where i: "intercept now m c k p b d2 = (t, d1)" by blast
  have "calm d2 d1" using calm_intercept [of d2 now m c k p b] by (simp add: i)
  with calm_decide [OF dd] show ?thesis by (rule calm_trans)
qed

lemma inbound_lives:
  assumes "inbound_transaction s lib now m geo d = Inr (t, d1)"
  shows "lives d d1"
proof -
  obtain c da where c: "upsert_contact now (in_wa_id m) (in_profile_name m) d = (c, da)" by fastforce
  obtain fresh db where cl: "claim_inbound (in_meta_message_id m) da = (fresh, db)" by fastforce
  have "calm d da" "calm da db" using calm_messages(1,2) c cl by (metis snd_conv)+
  then have pre: "calm d db" by (rule calm_trans)
  have tap: "calm db d1" if "handle_login_tap lib now m (ct_id c) x db = Inr (t, d1)" for x
    using that by (rule calm_tap)
  have code: "calm db d1" if "verify_code_from_whatsapp lib now w ct body db = Inr (b, d3)"
    "intercept now m ct k p b d3 = (t, d1)" for w ct body b d3 k p
    using calm_trans [OF calm_verify [OF that(1)] calm_intercept] that(2) by (metis snd_conv)
  have dialog: "lives db d1" if "lock_contact_and_get_conversation now ct db = Inr (conv, d3)"
    "run_dialog s now m geo ct conv d3 = Inr (t, d1)" for ct conv d3
    using lives_trans [OF lives_calm [OF calm_lock [OF that(1)]] run_dialog_lives [OF that(2)]] .
  have query: "calm db d1" if "lock_contact_and_get_conversation now ct db = Inr (conv, d3)"
    "intercept now m ct k p b d3 = (t, d1)" for ct conv d3 k p b
    using calm_trans [OF calm_lock [OF that(1)] calm_intercept] that(2) by (metis snd_conv)
  have "lives db d1"
    using assms
    by (auto simp: inbound_transaction_def c cl bindE_Inr_iff split: if_split_asm option.split_asm
        dest: tap code query dialog intro: lives_calm)
  with lives_calm [OF pre] show ?thesis by (rule lives_trans)
qed

text \<open>What follows the transaction: the pipeline step the dialog asked for, and its replies.\<close>

lemma then_followup_lives:
  "lives d (snd result) \<Longrightarrow> lives d (snd (then_followup s te c w i result))"
  using lives_trans [OF _ lives_calm [OF calm_followup]]
  by (auto simp: then_followup_def split: prod.splits sum.splits)

lemma pipeline_followup_lives: "lives d (snd (run_pipeline_followup s te c w i d))"
  unfolding run_pipeline_followup_def by (rule then_followup_lives) (rule run_pipeline_lives)

lemma recheck_followup_lives: "lives d (snd (recheck_followup s te c w i p d))"
  unfolding recheck_followup_def by (rule then_followup_lives) (rule recheck_image_lives)

lemma finalize_followup_lives: "lives d (snd (finalize_followup s te w i d))"
proof -
  obtain r d1 where r: "finalize_grievance (te_world te) s (te_now te) (te_hex te) i d = (r, d1)" by fastforce
  have fin: "lives d d1" using finalize_lives [of d "te_world te" s "te_now te" "te_hex te" i] by (simp add: r)
  then show ?thesis
    using lives_trans [OF fin lives_calm [OF calm_standalone]]
    by (cases r) (simp_all add: finalize_followup_def r)
qed

lemma cancel_followup_lives: "lives d (snd (cancel_followup s te w i d))"
  unfolding cancel_followup_def
  by (rule lives_seq [OF cancel_lives]) (intro lives_calm calm_rules)

lemma turn_followup_lives: "lives d (snd (turn_followup s te w t d))"
  by (simp add: turn_followup_def pipeline_followup_lives recheck_followup_lives
      finalize_followup_lives cancel_followup_lives split: option.split sum.split action.split)

lemma handle_inbound_lives: "lives d (snd (handle_inbound s lib te m d))"
  unfolding handle_inbound_def
proof (intro lives_seq)
  show "lives d (snd (geocode_inbound s te m d))" by (intro lives_calm calm_rules)
  fix geo d1
  show "lives d1 (snd (commitE d1 (inbound_transaction s lib (te_now te) m geo d1)))"
    by (rule lives_commit) (erule inbound_lives)
  fix t :: turn and d2
  show "lives d2 (snd (send_all s (w_post_graph (te_world te)) (te_now te) (tn_pending t) d2))"
    by (intro lives_calm calm_rules)
  fix u d3
  show "lives d3 (snd (turn_followup s te (in_wa_id m) t d3))" by (rule turn_followup_lives)
qed

section \<open>Events\<close>

lemma run_turns_lives: "lives d (snd (run_turns s lib env k ms d))"
proof (induction ms arbitrary: k d)
  case Nil
  then show ?case by simp
next
  case (Cons m ms)
  obtain r d1 where r: "handle_inbound s lib (env k) m d = (r, d1)" by fastforce
  have "lives d d1" using handle_inbound_lives [of d s lib "env k" m] by (simp add: r)
  then have "lives d (snd (run_turns s lib env (Suc k) ms d1))" by (rule lives_trans) (rule Cons)
  then show ?case by (simp add: r case_prod_beta)
qed

lemma drive_messages_lives: "lives d (drive_messages s lib env e ms d)"
proof -
  obtain created d1 where st: "store_incoming_messages (te_now (env 0)) ms d = (created, d1)" by fastforce
  have d1: "lives d d1" using lives_calm [OF calm_incoming [of d "te_now (env 0)" ms]] by (simp add: st)
  obtain ok d2 where tn: "(if s_auto_reply_enabled s
      then run_turns s lib env 1 (fresh_messages ms created) d1 else (True, d1)) = (ok, d2)" by fastforce
  have d2: "lives d1 d2"
    using run_turns_lives [of d1 s lib env 1 "fresh_messages ms created"] tn
    by (auto split: if_splits)
  have "lives d2 (mark_event_processed (te_now (env 0)) e d2)" by (intro lives_calm calm_rules)
  then show ?thesis
    using lives_trans [OF d1 d2] lives_trans [OF lives_trans [OF d1 d2]]
    by (simp add: drive_messages_def st tn)
qed

lemma drive_event_lives: "lives d (snd (drive_event s lib env e d))"
proof -
  obtain c d1 where c: "claim_event (te_now (env 0)) e EVENT_LEASE_SECONDS d = (c, d1)" by fastforce
  have d1: "lives d d1"
    using lives_calm [OF calm_messages(7) [of d "te_now (env 0)" e EVENT_LEASE_SECONDS]] by (simp add: c)
  have "lives d (mark_event_processed (te_now (env 0)) e d1)"
    by (rule lives_trans [OF d1]) (intro lives_calm calm_rules)
  moreover have "lives d (drive_messages s lib env e ms d1)" for ms
    using lives_trans [OF d1 drive_messages_lives] by simp
  ultimately show ?thesis
    using d1 by (auto simp: drive_event_def c split: option.splits sum.splits)
qed

lemma drive_each_lives: "lives d (snd (drive_each s lib envs k is d))"
proof (induction "is" arbitrary: k d)
  case Nil
  then show ?case by simp
next
  case (Cons i "is")
  show ?case
    unfolding drive_each.simps by (rule lives_seq) (rule drive_event_lives, rule Cons)
qed

lemma pending_events_lives: "lives d (snd (process_pending_events s lib envs now n d))"
  unfolding process_pending_events_def Let_def
  by (rule lives_seq [OF drive_each_lives]) simp

lemma webhook_lives: "lives d (snd (webhook_request s lib hmac loads env now body sig d))"
proof -
  obtain r d1 where r: "receive_webhook s hmac loads now body sig d = (r, d1)" by fastforce
  have d1: "lives d d1" using lives_calm [OF calm_webhook [of d s hmac loads now body sig]] by (simp add: r)
  then show ?thesis
    using lives_trans [OF d1 drive_event_lives]
    by (cases r) (auto simp: webhook_request_def r)
qed

section \<open>The worker\<close>

lemma event_ids [simp]: "grievance_ids (add_grievance_event now j st nt d) = grievance_ids d"
  by (simp add: grievance_ids_def add_grievance_event_def new_id_def Let_def)

lemma set_ids:
  "set_grievance_fields now j f d = Inr (g, d1) \<Longrightarrow> (\<And>r. gr_id (f r) = gr_id r) \<Longrightarrow>
   grievance_ids d1 = grievance_ids d"
  unfolding grievance_ids_def by (rule grievance_ids_kept)

lemma dispatch_ids: "grievance_ids (snd (dispatch_grievance w s now hex8 i d)) = grievance_ids d"
proof -
  have held: "grievance_ids (snd (commitE d (hold_for_official now g d))) = grievance_ids d" for g
    by (auto simp: commitE_def hold_for_official_def bindE_Inr_iff split: sum.splits elim!: set_ids)
  have ended: "grievance_ids (snd (record_dispatch now g a d)) = grievance_ids d" for g a d
    by (auto simp: record_dispatch_def commitE_def bindE_Inr_iff Let_def split: sum.splits
        elim!: set_ids)
  have mark: "grievance_ids (snd (record_dispatch now g a d1)) = grievance_ids d"
    if "set_grievance_fields now i (\<lambda>r. r\<lparr>gr_status := Gs_dispatching\<rparr>) d = Inr (g1, d1)" for g g1 a d1
    using set_ids [OF that] by (simp add: ended)
  show ?thesis
    by (auto simp: dispatch_grievance_def held mark split: option.split sum.split prod.split)
qed

lemma dispatch_other:
  "j \<noteq> i \<Longrightarrow> get_grievance j (snd (dispatch_grievance w s now hex8 i d)) = get_grievance j d"
  by (cases "get_grievance i d") (simp add: dispatch_grievance_def, use dispatch_row in blast)

lemma dispatch_each_ids: "grievance_ids (dispatch_each w s now hex8 is d) = grievance_ids d"
  by (induction "is" arbitrary: d) (simp_all add: dispatch_ids)

lemma dispatch_each_lives:
  assumes "distinct is" and "\<And>i g. i \<in> set is \<Longrightarrow> get_grievance i d = Some g \<Longrightarrow> due_status (gr_status g)"
  shows "lives d (dispatch_each w s now hex8 is d)"
  using assms
proof (induction "is" arbitrary: d)
  case Nil
  then show ?case by simp
next
  case (Cons i "is")
  define d1 where "d1 = snd (dispatch_grievance w s now hex8 i d)"
  have "lives d d1" unfolding d1_def by (rule dispatch_lives, rule Cons.prems(2)) simp_all
  moreover have "lives d1 (dispatch_each w s now hex8 is d1)"
  proof (rule Cons.IH)
    show "distinct is" using Cons.prems(1) by simp
    fix j g assume j: "j \<in> set is" and g: "get_grievance j d1 = Some g"
    with Cons.prems(1) have "j \<noteq> i" by auto
    with g have "get_grievance j d = Some g" by (simp add: d1_def dispatch_other)
    then show "due_status (gr_status g)" using Cons.prems(2) [of j g] j by simp
  qed
  ultimately show ?case by (simp add: d1_def) (rule lives_trans)
qed

text \<open>A sweep over rows whose status is due. On a keyed table the fetched identifiers name them.\<close>

lemma fetched_lives:
  assumes due: "\<And>g. P g \<Longrightarrow> due_status (gr_status g)"
  shows "lives d (dispatch_each w s now hex8 (take n (map gr_id (filter P (db_grievances d)))) d)"
proof (rule lives_if_sound)
  show "\<exists>new. grievance_ids (dispatch_each w s now hex8 (take n (map gr_id (filter P (db_grievances d)))) d) =
      grievance_ids d @ new" by (simp add: dispatch_each_ids)
  assume "sound d"
  then have k: "distinct (map gr_id (db_grievances d))"
    by (simp add: sound_def keyed_def grievance_ids_def)
  show "lives d (dispatch_each w s now hex8 (take n (map gr_id (filter P (db_grievances d)))) d)"
  proof (rule dispatch_each_lives)
    show "distinct (take n (map gr_id (filter P (db_grievances d))))"
      using k by (simp add: distinct_map_filter)
    fix i g
    assume i: "i \<in> set (take n (map gr_id (filter P (db_grievances d))))" and g: "get_grievance i d = Some g"
    from in_set_takeD [OF i] obtain r where r: "r \<in> set (db_grievances d)" "P r" "gr_id r = i" by auto
    with k g have "r = g" using get_grievance_member by fastforce
    with r(2) show "due_status (gr_status g)" by (simp add: due)
  qed
qed

lemma sweep_windows_lives: "lives d (snd (sweep_expired_windows w s now hex8 n d))"
  unfolding sweep_expired_windows_def fetch_expired_windows_def Let_def snd_conv
  by (rule fetched_lives) (simp add: window_expired_def)

lemma sweep_dispatching_lives: "lives d (snd (sweep_stuck_dispatching w s now hex8 n d))"
  unfolding sweep_stuck_dispatching_def fetch_stuck_dispatching_def Let_def snd_conv
  by (rule fetched_lives) (simp add: dispatch_retriable_def)

lemma recover_each_lives: "lives d (recover_each s env k cs d)"
proof (induction cs arbitrary: k d)
  case Nil
  then show ?case by simp
next
  case (Cons x cs)
  obtain i c w where x: "x = (i, c, w)" by (cases x) auto
  show ?case
    unfolding x recover_each.simps by (rule lives_trans [OF pipeline_followup_lives Cons])
qed

lemma sweep_processing_lives: "lives d (snd (sweep_stuck_processing s env now n d))"
  by (simp add: sweep_stuck_processing_def Let_def recover_each_lives)

lemma run_job_lives: "lives d (run_job s te job_end job d)"
proof -
  obtain r d1 where r: "run_stage s te job d = (r, d1)" by fastforce
  have "lives d (snd (run_stage s te job d))"
    unfolding run_stage_def
    by (cases "pj_stage job = Stage_reextract")
      (simp_all add: reextract_lives lives_seq [OF run_pipeline_lives])
  then have "lives d d1" by (simp add: r)
  moreover have "lives d1 (run_job s te job_end job d)"
    by (cases r) (simp_all add: run_job_def r lives_calm_rules)
  ultimately show ?thesis by (rule lives_trans)
qed

lemma run_jobs_lives: "lives d (run_jobs s wk k jobs d)"
proof (induction jobs arbitrary: k d)
  case Nil
  then show ?case by simp
next
  case (Cons job jobs)
  show ?case unfolding run_jobs.simps by (rule lives_trans [OF run_job_lives Cons])
qed

lemma worker_sweeps_lives: "lives d (worker_sweeps s wk d)"
  unfolding worker_sweeps_def Let_def
  by (rule lives_trans [OF lives_trans [OF lives_trans [OF lives_calm [OF calm_sweep]
        sweep_processing_lives] sweep_windows_lives] sweep_dispatching_lives])

lemma worker_round_lives: "lives d (worker_round s lib wk d)"
proof -
  obtain jobs d1 where c: "claim_pipeline_jobs (wk_now wk) (s_worker_batch_size s) JOB_LEASE_SECONDS d = (jobs, d1)"
    by fastforce
  have "calm d d1" using calm_set_jobs(4) c by (metis snd_conv)
  then have d1: "lives d d1" by (rule lives_calm)
  define d3 where "d3 = snd (process_pending_events s lib (wk_events wk) (wk_now wk)
    (s_worker_batch_size s) (run_jobs s wk 0 jobs d1))"
  have d3: "lives d d3"
    unfolding d3_def by (rule lives_trans [OF lives_trans [OF d1 run_jobs_lives] pending_events_lives])
  then show ?thesis
    using lives_trans [OF d3 worker_sweeps_lives]
    by (simp add: worker_round_def c d3_def Let_def)
qed

section \<open>The requests of citizens and officials\<close>

lemma create_draft_handler_lives: "lives d (snd (create_draft s v u f d))"
proof (cases "accept_form (wb_world v) s u f")
  case (Inl e)
  then show ?thesis by (simp add: create_draft_def)
next
  case (Inr a)
  obtain texts photo clips where a: "a = (texts, photo, clips)" by (cases a) auto
  obtain g b d1 where c: "create_draft_grievance (wb_now v) (the (us_contact_id u)) None (Some (us_id u))
      Src_web (web_input f texts) d = ((g, b), d1)" by (metis prod.collapse)
  have d1: "lives d d1" using create_draft_lives c by (metis snd_conv)
  have g: "g = draft_row (wb_now v) (uuid_str (db_ids d)) (db_human_seq d) (the (us_contact_id u)) None
      (Some (us_id u)) Src_web (web_input f texts)" "db_grievances d1 = db_grievances d @ [g]"
    using c by (auto simp: create_draft_grievance_def conversation_draft_def new_id_def Let_def)
  have taken: "lives d1 d2"
    if set: "set_grievance_fields (wb_now v) (gr_id g)
      (\<lambda>r. r\<lparr>gr_issue_messages := ms, gr_photo_path := p, gr_status := Gs_processing\<rparr>) d1 = Inr (g2, d2)"
    for ms p g2 d2
  proof (rule lives_if_sound)
    have "grievance_ids d2 = grievance_ids d1"
      unfolding grievance_ids_def using set by (rule grievance_ids_kept) simp
    then show "\<exists>new. grievance_ids d2 = grievance_ids d1 @ new" by simp
    assume "sound d1"
    then have "distinct (map gr_id (db_grievances d1))"
      by (simp add: sound_def keyed_def grievance_ids_def)
    then have row: "get_grievance (gr_id g) d1 = Some g"
      by (rule get_grievance_member) (simp add: g(2))
    have "wrote (gr_id g) (standing_of g) ((standing_of g)\<lparr>sd_status := Gs_processing\<rparr>) [] d1 d2"
      using wrote_set(1) [OF set _ row] by (simp add: standing_of_def)
    then show "lives d1 d2"
    proof (rule lives_wrote_step)
      fix tl
      have "sd_status (standing_of g) = Gs_draft" by (simp add: g(1) draft_row_def)
      from taken_up [OF this] show "life_step (Some (standing_of g, tl))
          (Some ((standing_of g)\<lparr>sd_status := Gs_processing\<rparr>, tl @ []))" by simp
    qed
  qed
  show ?thesis
    using d1 lives_trans [OF d1 lives_trans [OF taken lives_calm [OF calm_set_jobs(1)]]]
    by (auto simp: create_draft_def Inr a c Let_def split: sum.splits)
qed

lemma update_review_lives: "lives d (snd (update_review v u i b d))"
proof -
  have set: "lives d d1" if "set_grievance_fields (wb_now v) i (review_fields b key scope) d = Inr (g, d1)"
    for key scope g d1
    using that by (rule lives_set) (simp_all add: standing_of_def review_fields_def Let_def)
  show ?thesis
    using set lives_trans [OF set lives_calm [OF calm_set_jobs(1)]]
    by (auto simp: update_review_def split: sum.splits option.splits)
qed

lemma replace_photo_lives: "lives d (snd (replace_photo s v u i photo d))"
proof -
  have set: "lives d d1"
    if "set_grievance_fields now i (\<lambda>r. r\<lparr>gr_photo_path := p, gr_photo_media_id := None\<rparr>) d = Inr (g, d1)"
    for now p g d1
    using that by (rule lives_set) (simp_all add: standing_of_def)
  have two: "lives d d2"
    if "set_grievance_fields now i (\<lambda>r. r\<lparr>gr_photo_path := p, gr_photo_media_id := None\<rparr>) d = Inr (g, d1)"
      "recheck_image w s now i False d1 = (x, d2)" for now p g d1 w x d2
    using lives_trans [OF set [OF that(1)] recheck_image_lives [of d1 w s now i False]] that(2) by simp
  show ?thesis
    by (auto simp: replace_photo_def Let_def intro: two split: sum.splits prod.splits)
qed

lemma confirm_draft_lives: "lives d (snd (confirm_draft s v u i d))"
proof -
  have "lives d (snd (seqE m (\<lambda>_ d1. finalize_grievance (wb_world v) s (wb_now v) (wb_hex v) i d1)))"
    if "lives d (snd m)" for m :: "(exn + unit) \<times> db"
    using that by (rule lives_seq) (rule finalize_lives)
  from this [OF accept_photo_mismatch_lives] this [of "(Inr (), d)"] show ?thesis
    by (auto simp: confirm_draft_def split: sum.splits)
qed

lemma official_action_lives: "lives d (snd (official_action now rid o1 i b d))"
proof -
  have set: "lives d d1" if "set_grievance_fields now i (act_fields b key) d = Inr (g, d1)" for key g d1
    using that by (rule lives_set) (simp_all add: standing_of_def act_fields_def Let_def)
  show ?thesis
    using lives_trans [OF set lives_calm [OF calm_audit]]
    by (auto simp: official_action_def split: sum.splits option.splits)
qed

section \<open>The program as a transition system\<close>

text \<open>One request or round. \<open>elsewhere\<close> stands for everything that leaves the complaints and their
  histories alone: sign-in, accounts, reading, downloads and the service routes.\<close>

inductive request :: "db \<Rightarrow> db \<Rightarrow> bool" where
  by_meta: "request d (snd (webhook_request s lib hmac loads env now body sig d))"
| by_worker: "request d (worker_round s lib wk d)"
| by_form: "request d (snd (create_draft s v u f d))"
| by_review: "request d (snd (update_review v u i b d))"
| by_photo: "request d (snd (replace_photo s v u i photo d))"
| by_confirmation: "request d (snd (confirm_draft s v u i d))"
| by_official: "request d (snd (official_action now rid o1 i act d))"
| elsewhere: "calm d d1 \<Longrightarrow> request d d1"

lemma request_lives: "request d d1 \<Longrightarrow> lives d d1"
  by (induction rule: request.induct)
    (intro webhook_lives worker_round_lives create_draft_handler_lives update_review_lives
      replace_photo_lives confirm_draft_lives official_action_lives lives_calm; assumption)+

definition no_complaints :: "db \<Rightarrow> bool" where
  "no_complaints d \<longleftrightarrow> db_grievances d = [] \<and> db_grievance_events d = []"

text \<open>The database refuses a second row under a primary key, so a request ends in a keyed table.\<close>

definition served :: "db \<Rightarrow> db \<Rightarrow> bool" where
  "served d d1 \<longleftrightarrow> request d d1 \<and> keyed d1"

lemma life_at_empty: "no_complaints d \<Longrightarrow> life_at i d = None"
  by (simp add: no_complaints_def life_at_def standing_at_def get_grievance_def)

interpretation lc: simulation served no_complaints sound life_step "\<lambda>l. l = None" life_at
proof
  show "sound d" if "no_complaints d" for d
    using that life_at_empty [OF that]
    by (simp add: sound_def keyed_def grievance_ids_def events_owned_def no_complaints_def life_ok_def)
  show "sound d1" if "sound d" "served d d1" for d d1
    using that by (auto simp: served_def intro: lives_sound [OF request_lives])
  show "life_at k d = None" if "no_complaints d" for k d
    using that by (rule life_at_empty)
  show "life_step\<^sup>*\<^sup>* (life_at k d) (life_at k d1)" if "sound d" "served d d1" for k d d1
    using that by (auto simp: served_def intro: lives_steps [OF request_lives])
qed

lemma lc_invariant: "served\<^sup>*\<^sup>* d0 d \<Longrightarrow> no_complaints d0 \<Longrightarrow> life_ok (life_at i d)"
  by (erule lc.invariant_holds) (auto simp: life_ok_def intro: life_ok_step [unfolded life_ok_def])



section \<open>After an official's approval\<close>

lemma run_pipeline_ids: "grievance_ids (snd (run_pipeline w s now i d)) = grievance_ids d"
proof (cases "get_grievance i d")
  case None
  then show ?thesis by (simp add: run_pipeline_def)
next
  case (Some g)
  obtain r d1 where run: "run_pipeline w s now i d = (r, d1)" by fastforce
  from Some run have "grievance_ids d1 = grievance_ids d"
  proof (cases rule: run_pipeline_cases)
    case (failed e)
    then show ?thesis by (simp add: grievance_ids_def side_commit_sel)
  next
    case (stored x col address photo dc res)
    have pdf: "grievance_ids d3 = grievance_ids d2"
      if "build_and_store_pdf w s now g1 photo d2 = Inr (p, g2, d3)" for g1 d2 p g2 d3
      using that by (auto simp: build_and_store_pdf_def bindE_Inr_iff Let_def elim!: set_ids)
    have add: "grievance_ids (add_extraction j v x f b d) = grievance_ids d" for j v f b d
      by (simp add: grievance_ids_def add_extraction_def new_id_def Let_def)
    have set: "grievance_ids d2 = grievance_ids da"
      if "set_grievance_fields now j (first_pass_fields c2 ad x2 im fl po sn fa) da = Inr (g1, d2)"
      for j c2 ad x2 im fl po sn fa da g1 d2
      using that by (rule set_ids) simp
    have "grievance_ids d1 = grievance_ids dc"
      using stored(3) unfolding store_first_pass_def Let_def
      by (auto simp: bindE_Inr_iff add dest!: set pdf split: if_splits)
    with stored(1) show ?thesis by (simp add: grievance_ids_def side_commit_sel)
  qed
  with run show ?thesis by simp
qed

lemma run_pipeline_other:
  assumes "j \<noteq> i"
  shows "get_grievance j (snd (run_pipeline w s now i d)) = get_grievance j d"
proof (cases "get_grievance i d")
  case None
  then show ?thesis by (simp add: run_pipeline_def)
next
  case (Some g)
  obtain r d1 where run: "run_pipeline w s now i d = (r, d1)" by fastforce
  from Some run have "get_grievance j d1 = get_grievance j d"
  proof (cases rule: run_pipeline_cases)
    case (failed e)
    then show ?thesis by (simp add: get_grievance_side)
  next
    case (stored x col address photo dc res)
    have i: "gr_id g = i" using Some by (rule get_grievance_id)
    have "get_grievance (gr_id g) dc = Some g" using Some get_grievance_side [OF stored(1)] by (simp add: i)
    from store_first_pass_row [OF this stored(3)] assms show ?thesis
      using get_grievance_side [OF stored(1)] by (auto simp: i)
  qed
  with run show ?thesis by simp
qed

lemma recovery_other:
  "i \<notin> fst ` set cs \<Longrightarrow> get_grievance i (recover_each s env k cs d) = get_grievance i d \<and>
   grievance_ids (recover_each s env k cs d) = grievance_ids d"
proof (induction cs arbitrary: k d)
  case Nil
  then show ?case by simp
next
  case (Cons x cs)
  obtain j c w where x: "x = (j, c, w)" by (cases x) auto
  obtain r d1 where r: "run_pipeline (te_world (env k)) s (te_now (env k)) j d = (r, d1)" by fastforce
  define d2 where "d2 = snd (run_pipeline_followup s (env k) c w j d)"
  have "calm d1 d2"
    using calm_followup by (cases r) (auto simp: d2_def run_pipeline_followup_def r then_followup_def)
  then have d2: "get_grievance i d2 = get_grievance i d1" "grievance_ids d2 = grievance_ids d1"
    by (simp_all add: calm_get) (simp add: calm_def grievance_ids_def)
  have "get_grievance i d1 = get_grievance i d" "grievance_ids d1 = grievance_ids d"
    using run_pipeline_other [of i j "te_world (env k)" s "te_now (env k)" d]
      run_pipeline_ids [of "te_world (env k)" s "te_now (env k)" j d] Cons.prems by (auto simp: r x)
  with d2 Cons show ?case by (simp add: x d2_def)
qed

lemma dispatch_each_other:
  "i \<notin> set js \<Longrightarrow> get_grievance i (dispatch_each w s now hex8 js d) = get_grievance i d"
  by (induction js arbitrary: d) (simp_all add: dispatch_other)

lemma not_fetched:
  assumes "keyed d" and "get_grievance i d = Some g" and "\<not> P g"
  shows "i \<notin> set (take n (map gr_id (filter P (db_grievances d))))"
proof
  assume i: "i \<in> set (take n (map gr_id (filter P (db_grievances d))))"
  from in_set_takeD [OF i] obtain r where r: "r \<in> set (db_grievances d)" "P r" "gr_id r = i" by auto
  have "get_grievance (gr_id r) d = Some r"
    using assms(1) r(1) by (intro get_grievance_member) (simp_all add: keyed_def grievance_ids_def)
  with r assms(2,3) show False by simp
qed

text \<open>A complaint that is registered is in none of the sweeps.\<close>

lemma registered_rests:
  assumes k: "keyed d" and g: "get_grievance i d = Some g" and st: "gr_status g = Gs_registered"
  shows "get_grievance i (worker_sweeps s wk d) = Some g"
proof -
  define te n where "te = wk_sweep wk" and "n = s_worker_batch_size s"
  define d1 where "d1 = snd (sweep_pending_outbound s (w_post_graph (te_world te)) (wk_tick wk) n d)"
  define d2 where "d2 = snd (sweep_stuck_processing s (wk_stuck wk) (te_now te) n d1)"
  define d3 where "d3 = snd (sweep_expired_windows (te_world te) s (te_now te) (te_hex te) n d2)"
  have "calm d d1" unfolding d1_def by (rule calm_sweep)
  then have g1: "get_grievance i d1 = Some g" and k1: "keyed d1"
    using g k by (simp_all add: calm_get) (simp add: calm_def keyed_def grievance_ids_def)
  let ?cs = "stuck_contacts (te_now te) n d1"
  have "i \<notin> set (fetch_stuck_processing (te_now te - seconds (int STUCK_PROCESSING_AFTER_SECONDS)) n d1)"
    unfolding fetch_stuck_processing_def by (rule not_fetched [OF k1 g1]) (simp add: st)
  then have "i \<notin> fst ` set ?cs"
    by (auto simp: stuck_contacts_def List.map_filter_def split: bind_splits)
  then have g2: "get_grievance i d2 = Some g" and k2: "keyed d2"
    using recovery_other g1 k1 by (simp_all add: d2_def sweep_stuck_processing_def keyed_def Let_def)
  have "i \<notin> set (fetch_expired_windows (te_now te) n d2)"
    unfolding fetch_expired_windows_def by (rule not_fetched [OF k2 g2]) (simp add: window_expired_def st)
  then have g3: "get_grievance i d3 = Some g" and k3: "keyed d3"
    using g2 k2 by (simp_all add: d3_def sweep_expired_windows_def keyed_def Let_def
        dispatch_each_other dispatch_each_ids)
  have "i \<notin> set (fetch_stuck_dispatching n d3)"
    unfolding fetch_stuck_dispatching_def by (rule not_fetched [OF k3 g3]) (simp add: dispatch_retriable_def st)
  then have "get_grievance i (snd (sweep_stuck_dispatching (te_world te) s (te_now te) (te_hex te) n d3)) = Some g"
    using g3 by (simp add: sweep_stuck_dispatching_def Let_def dispatch_each_other)
  then show ?thesis
    by (simp add: worker_sweeps_def Let_def te_def n_def d1_def d2_def d3_def)
qed

text \<open>C35. An official's decision hands nothing over. Whatever action an official takes on a registered
  complaint, approval included, the complaint stays registered with its history unchanged, and no
  sweep of the worker touches it afterwards: of an approved complaint only the review status tells,
  and it reaches no department.\<close>

theorem approval_hands_nothing_over:
  assumes "get_grievance i d = Some g" and "gr_status g = Gs_registered" and "keyed d"
    and "official_action now rid o1 i b d = (Inr j, d1)"
  shows "\<exists>g1. get_grievance i d1 = Some g1 \<and> gr_status g1 = Gs_registered \<and>
    gr_review_status g1 = Some (review_of_act (ab_action b)) \<and> timeline i d1 = timeline i d \<and>
    (\<forall>s wk. get_grievance i (worker_sweeps s wk d1) = Some g1)"
proof -
  obtain key g1 d2 u r f t where
    set: "set_grievance_fields now i (act_fields b key) d = Inr (g1, d2)"
    and d1: "d1 = add_official_audit now (of_id o1) (Some i) u r f t (Some rid) d2"
    using assms(4) by (auto simp: official_action_def split: if_splits sum.splits option.splits)
  have id: "gr_id (act_fields b key r) = gr_id r" for r by (simp add: act_fields_def Let_def)
  note w = wrote_set [OF set id assms(1)]
  have calm: "calm d2 d1" unfolding d1 by (rule calm_audit)
  have g1: "get_grievance i d1 = Some g1" using w(2) calm_get [OF calm] by simp
  have st: "gr_status g1 = Gs_registered"
    using w(3) assms(2) by (simp add: act_fields_def Let_def)
  have rv: "gr_review_status g1 = Some (review_of_act (ab_action b))"
    using w(3) by (auto simp: apply_fields_def act_fields_def Let_def dest: arg_cong [of _ _ gr_review_status])
  have "timeline i d2 = timeline i d" using wrote_timeline [OF w(1), of i] by simp
  then have "timeline i d1 = timeline i d" using calm by (simp add: calm_def timeline_def)
  moreover have "keyed d1"
    using set_ids [OF set id] assms(3) calm by (simp add: keyed_def calm_def grievance_ids_def)
  ultimately show ?thesis using registered_rests g1 st rv by blast
qed

section \<open>Concrete databases\<close>

definition registered_case :: grievance where
  "registered_case = sample_case\<lparr>gr_status := Gs_registered\<rparr>"

definition registered_db :: db where
  "registered_db = sample_console_db\<lparr>db_grievances := [registered_case]\<rparr>"

theorem approval_hands_nothing_over_witness:
  "\<exists>j d1 g1. official_action 5 ''r1'' sample_official ''g1'' sample_action registered_db = (Inr j, d1) \<and>
     get_grievance ''g1'' d1 = Some g1 \<and> gr_review_status g1 = Some Rv_approved \<and>
     gr_status g1 = Gs_registered \<and>
     (\<forall>s wk. get_grievance ''g1'' (worker_sweeps s wk d1) = Some g1)"
proof -
  have "len_between 3 1000 (ab_reason sample_action)" by code_simp
  moreover have g: "get_grievance ''g1'' registered_db = Some registered_case"
    by (simp add: get_grievance_def registered_db_def tget_Cons registered_case_def sample_case_def draft_row_def)
  moreover have "accessible sample_official ''g1'' registered_db = Inr registered_case"
    unfolding accessible_iff using g
    by (simp add: official_can_access_def sample_official_def registered_case_def sample_case_def draft_row_def)
  moreover have "canonical_category_key (Some ''unmapped_service'') = Some ''unmapped_service''"
    by (rule canonical_fix) (simp add: canonical_unmapped)
  then have "act_category sample_action registered_case = Some ''unmapped_service''"
    by (simp add: act_category_def opt_or_def truthy_def sample_action_def registered_case_def sample_case_def)
  moreover obtain g1 d2 where "set_grievance_fields 5 ''g1'' (act_fields sample_action ''unmapped_service'') registered_db = Inr (g1, d2)"
    using g by (simp add: set_grievance_fields_def Let_def)
  ultimately obtain j d1 where act:
    "official_action 5 ''r1'' sample_official ''g1'' sample_action registered_db = (Inr j, d1)"
    by (simp add: official_action_def) (simp add: sample_official_def)
  have st: "gr_status registered_case = Gs_registered" by (simp add: registered_case_def)
  have k: "keyed registered_db" by (simp add: keyed_def grievance_ids_def registered_db_def)
  have "review_of_act (ab_action sample_action) = Rv_approved"
    by (simp add: sample_action_def review_of_act_def)
  with approval_hands_nothing_over [OF g st k act] act show ?thesis by auto
qed

text \<open>A complaint that waits for its citizen, with its history.\<close>

definition waiting_db :: db where
  "waiting_db = add_grievance_event 0 ''g1'' Gs_awaiting_confirmation None (filed_db mine)"

lemma waiting_stored: "get_grievance ''g1'' waiting_db = Some (mine sample_filed)"
  by (simp add: waiting_db_def mine_stored)

lemma waiting_standing:
  "standing_of (mine sample_filed) = new_standing\<lparr>sd_status := Gs_awaiting_confirmation\<rparr>"
  by (simp add: standing_of_def new_standing_def mine_def sample_filed_def draft_row_def)

lemma waiting_life: "life_at i waiting_db =
  (if i = ''g1'' then Some (new_standing\<lparr>sd_status := Gs_awaiting_confirmation\<rparr>, [Gs_awaiting_confirmation]) else None)"
proof -
  have rows: "db_grievances waiting_db = [mine sample_filed]"
    by (simp add: waiting_db_def filed_db_def add_grievance_event_def new_id_def Let_def)
  have "timeline ''g1'' waiting_db = [Gs_awaiting_confirmation]"
    by (simp add: timeline_def waiting_db_def filed_db_def add_grievance_event_def new_id_def empty_db_def Let_def)
  then show ?thesis
    by (simp add: life_at_def standing_at_def get_grievance_def rows tget_Cons waiting_standing)
qed

lemma waiting_sound: "sound waiting_db"
proof -
  have "keyed waiting_db" "events_owned waiting_db"
    by (simp_all add: keyed_def grievance_ids_def events_owned_def standing_at_def get_grievance_def
        waiting_db_def filed_db_def add_grievance_event_def new_id_def empty_db_def tget_Cons Let_def)
  then show ?thesis by (simp add: sound_def waiting_life life_ok_def new_standing_def
        in_order_snoc [of "[]", simplified])
qed



end
