(* ===== verification/Schema.thy ===== *)
theory Schema
  imports Models
begin

text \<open>
  The language in which \<^verbatim>\<open>migrations/versions/*.py\<close> change the database: tables with their columns,
  constraints, indexes and stored rows, the operations of Alembic that the scripts use, and what
  each of them does to a schema, with the errors of PostgreSQL that the scripts can meet. Names
  left out follow \<^verbatim>\<open>NAMING_CONVENTION\<close> of \<^verbatim>\<open>db/session.py\<close>. Of a row only what the operations depend on
  is kept: which cells are null, and the texts. Adding a unique constraint or a foreign key is not
  checked against the stored rows.
\<close>

section \<open>Tables\<close>

datatype sql_type =
    Ty_uuid | Ty_string nat | Ty_text | Ty_boolean | Ty_integer | Ty_float | Ty_timestamp | Ty_jsonb

datatype sql_default = Df_text string | Df_int nat | Df_bool bool | Df_list | Df_object

datatype on_delete = Cascade | Set_null | Restrict

datatype cell = Cl_null | Cl_text string | Cl_other

type_synonym stored_row = "(string \<times> cell) list"

record sql_column =
  sc_name :: string
  sc_type :: sql_type
  sc_nullable :: bool
  sc_default :: "sql_default option"

definition required :: "string \<Rightarrow> sql_type \<Rightarrow> sql_column" where
  "required n t = \<lparr>sc_name = n, sc_type = t, sc_nullable = False, sc_default = None\<rparr>"

definition nullable :: "string \<Rightarrow> sql_type \<Rightarrow> sql_column" where
  "nullable n t = \<lparr>sc_name = n, sc_type = t, sc_nullable = True, sc_default = None\<rparr>"

definition with_default :: "string \<Rightarrow> sql_type \<Rightarrow> sql_default \<Rightarrow> sql_column" where
  "with_default n t v = \<lparr>sc_name = n, sc_type = t, sc_nullable = False, sc_default = Some v\<rparr>"

datatype con_name = Named string | Conventional

datatype sql_constraint =
    Ct_primary con_name "string list"
  | Ct_unique con_name "string list"
  | Ct_foreign con_name "string list" string "string list" on_delete

record sql_index =
  ix_name :: string
  ix_columns :: "string list"
  ix_unique :: bool
  ix_where :: "string option"

record sql_table =
  tb_name :: string
  tb_columns :: "sql_column list"
  tb_constraints :: "sql_constraint list"
  tb_indexes :: "sql_index list"
  tb_rows :: "stored_row list"

record schema =
  sch_tables :: "sql_table list"
  sch_sequences :: "string list"

definition empty_schema :: schema where
  "empty_schema = \<lparr>sch_tables = [], sch_sequences = []\<rparr>"

section \<open>Names\<close>

text \<open>Equality of names, decided from the left.\<close>

fun name_eq :: "string \<Rightarrow> string \<Rightarrow> bool" where
  "name_eq [] [] = True"
| "name_eq (c # cs) (k # ks) = (if c = k then name_eq cs ks else False)"
| "name_eq _ _ = False"

lemma name_eq_iff: "name_eq a b \<longleftrightarrow> a = b"
  by (induction a b rule: name_eq.induct) auto

fun conventional_name :: "string \<Rightarrow> sql_constraint \<Rightarrow> string" where
  "conventional_name t (Ct_primary _ _) = ''pk_'' @ t"
| "conventional_name t (Ct_unique _ cs) = ''uq_'' @ t @ ''_'' @ hd cs"
| "conventional_name t (Ct_foreign _ cs r _ _) = ''fk_'' @ t @ ''_'' @ hd cs @ ''_'' @ r"

definition chosen_name :: "string \<Rightarrow> sql_constraint \<Rightarrow> con_name \<Rightarrow> string" where
  "chosen_name t c n = (case n of Named s \<Rightarrow> s | Conventional \<Rightarrow> conventional_name t c)"

fun constraint_name :: "string \<Rightarrow> sql_constraint \<Rightarrow> string" where
  "constraint_name t (Ct_primary n cs) = chosen_name t (Ct_primary n cs) n"
| "constraint_name t (Ct_unique n cs) = chosen_name t (Ct_unique n cs) n"
| "constraint_name t (Ct_foreign n cs r rs od) = chosen_name t (Ct_foreign n cs r rs od) n"

fun named :: "string \<Rightarrow> sql_constraint \<Rightarrow> sql_constraint" where
  "named t (Ct_primary n cs) = Ct_primary (Named (chosen_name t (Ct_primary n cs) n)) cs"
| "named t (Ct_unique n cs) = Ct_unique (Named (chosen_name t (Ct_unique n cs) n)) cs"
| "named t (Ct_foreign n cs r rs od) = Ct_foreign (Named (chosen_name t (Ct_foreign n cs r rs od) n)) cs r rs od"

fun constraint_columns :: "sql_constraint \<Rightarrow> string list" where
  "constraint_columns (Ct_primary _ cs) = cs"
| "constraint_columns (Ct_unique _ cs) = cs"
| "constraint_columns (Ct_foreign _ cs _ _ _) = cs"

fun refers_to :: "string \<Rightarrow> sql_constraint \<Rightarrow> bool" where
  "refers_to t (Ct_foreign _ _ r _ _) = name_eq t r"
| "refers_to t _ = False"

fun refers_to_column :: "string \<Rightarrow> string \<Rightarrow> sql_constraint \<Rightarrow> bool" where
  "refers_to_column t c (Ct_foreign _ _ r rs _) = (if name_eq t r then list_ex (name_eq c) rs else False)"
| "refers_to_column t c _ = False"

section \<open>Operations\<close>

text \<open>What one statement does to one table.\<close>

datatype alteration =
    Add_column sql_column
  | Drop_column string
  | Drop_default string
  | Alter_type string sql_type
  | Create_index string "string list" bool "string option"
  | Drop_index string
  | Create_constraint sql_constraint
  | Drop_constraint string
  | Insert_row stored_row

datatype ddl =
    Create_table string "sql_column list" "sql_constraint list"
  | Drop_table string
  | Alter string alteration
  | Create_sequence string
  | Drop_sequence string

datatype ddl_error =
    Duplicate_table | Undefined_table | Duplicate_column | Undefined_column | Duplicate_object
  | Undefined_object | Dependent_objects | Not_null_violation | String_too_long

definition find_table :: "string \<Rightarrow> schema \<Rightarrow> sql_table option" where
  "find_table n s = find (\<lambda>t. name_eq n (tb_name t)) (sch_tables s)"

definition has_table :: "schema \<Rightarrow> string \<Rightarrow> bool" where
  "has_table s n = (find_table n s \<noteq> None)"

definition mentions :: "string \<Rightarrow> string list \<Rightarrow> bool" where
  "mentions c cs = list_ex (name_eq c) cs"

definition has_column :: "sql_table \<Rightarrow> string \<Rightarrow> bool" where
  "has_column t c = list_ex (\<lambda>k. name_eq c (sc_name k)) (tb_columns t)"

definition has_table_index :: "sql_table \<Rightarrow> string \<Rightarrow> bool" where
  "has_table_index t i = list_ex (\<lambda>x. name_eq i (ix_name x)) (tb_indexes t)"

definition has_constraint :: "sql_table \<Rightarrow> string \<Rightarrow> bool" where
  "has_constraint t k = list_ex (\<lambda>c. name_eq k (constraint_name (tb_name t) c)) (tb_constraints t)"

text \<open>An index expression is not a column; it is written with its argument in brackets.\<close>

definition indexable :: "sql_table \<Rightarrow> string \<Rightarrow> bool" where
  "indexable t c = (has_column t c \<or> list_ex (\<lambda>k. k = CHR ''('') c)"

definition default_cell :: "sql_column \<Rightarrow> cell" where
  "default_cell c =
     (case sc_default c of None \<Rightarrow> Cl_null | Some (Df_text v) \<Rightarrow> Cl_text v | Some _ \<Rightarrow> Cl_other)"

definition fits :: "sql_type \<Rightarrow> cell \<Rightarrow> bool" where
  "fits ty v = (case (ty, v) of (Ty_string n, Cl_text x) \<Rightarrow> py_len x \<le> n | _ \<Rightarrow> True)"

definition cell_of :: "string \<Rightarrow> stored_row \<Rightarrow> cell" where
  "cell_of c r = (case find (\<lambda>p. name_eq c (fst p)) r of None \<Rightarrow> Cl_null | Some p \<Rightarrow> snd p)"

definition column_stored :: "stored_row \<Rightarrow> sql_column \<Rightarrow> string \<times> cell" where
  "column_stored r c =
     (sc_name c, case find (\<lambda>p. name_eq (sc_name c) (fst p)) r of
                   None \<Rightarrow> default_cell c | Some p \<Rightarrow> snd p)"

definition new_table :: "string \<Rightarrow> sql_column list \<Rightarrow> sql_constraint list \<Rightarrow> sql_table" where
  "new_table n cols cons =
     \<lparr>tb_name = n, tb_columns = cols, tb_constraints = map (named n) cons, tb_indexes = [], tb_rows = []\<rparr>"

text \<open>Why the table itself does not allow a statement.\<close>

fun refused :: "alteration \<Rightarrow> sql_table \<Rightarrow> ddl_error option" where
  "refused (Add_column c) t =
     (if has_column t (sc_name c) then Some Duplicate_column
      else if tb_rows t \<noteq> [] \<and> \<not> sc_nullable c \<and> sc_default c = None then Some Not_null_violation
      else None)"
| "refused (Drop_column c) t = (if has_column t c then None else Some Undefined_column)"
| "refused (Drop_default c) t = (if has_column t c then None else Some Undefined_column)"
| "refused (Alter_type c ty) t =
     (if \<not> has_column t c then Some Undefined_column
      else if list_all (\<lambda>r. fits ty (cell_of c r)) (tb_rows t) then None
      else Some String_too_long)"
| "refused (Create_index i cs u w) t =
     (if list_all (indexable t) cs then None else Some Undefined_column)"
| "refused (Drop_index i) t = (if has_table_index t i then None else Some Undefined_object)"
| "refused (Create_constraint c) t =
     (if has_constraint t (constraint_name (tb_name t) c) then Some Duplicate_object
      else if list_all (has_column t) (constraint_columns c) then None
      else Some Undefined_column)"
| "refused (Drop_constraint k) t = (if has_constraint t k then None else Some Undefined_object)"
| "refused (Insert_row r) t =
     (if \<not> list_all (\<lambda>p. has_column t (fst p)) r then Some Undefined_column
      else if \<not> list_all (\<lambda>k. sc_nullable k \<or> snd (column_stored r k) \<noteq> Cl_null) (tb_columns t)
      then Some Not_null_violation
      else if list_all (\<lambda>k. fits (sc_type k) (snd (column_stored r k))) (tb_columns t) then None
      else Some String_too_long)"

definition alter_column :: "string \<Rightarrow> (sql_column \<Rightarrow> sql_column) \<Rightarrow> sql_table \<Rightarrow> sql_table" where
  "alter_column c f t =
     t\<lparr>tb_columns := map (\<lambda>k. if name_eq c (sc_name k) then f k else k) (tb_columns t)\<rparr>"

text \<open>A column goes with the constraints and the indexes that name it.\<close>

fun altered :: "alteration \<Rightarrow> sql_table \<Rightarrow> sql_table" where
  "altered (Add_column c) t =
     t\<lparr>tb_columns := tb_columns t @ [c],
       tb_rows := map (\<lambda>r. r @ [(sc_name c, default_cell c)]) (tb_rows t)\<rparr>"
| "altered (Drop_column c) t =
     t\<lparr>tb_columns := filter (\<lambda>k. \<not> name_eq c (sc_name k)) (tb_columns t),
       tb_constraints := filter (\<lambda>k. \<not> mentions c (constraint_columns k)) (tb_constraints t),
       tb_indexes := filter (\<lambda>i. \<not> mentions c (ix_columns i)) (tb_indexes t),
       tb_rows := map (filter (\<lambda>p. \<not> name_eq c (fst p))) (tb_rows t)\<rparr>"
| "altered (Drop_default c) t = alter_column c (\<lambda>k. k\<lparr>sc_default := None\<rparr>) t"
| "altered (Alter_type c ty) t = alter_column c (\<lambda>k. k\<lparr>sc_type := ty\<rparr>) t"
| "altered (Create_index i cs u w) t =
     t\<lparr>tb_indexes := tb_indexes t @ [\<lparr>ix_name = i, ix_columns = cs, ix_unique = u, ix_where = w\<rparr>]\<rparr>"
| "altered (Drop_index i) t = t\<lparr>tb_indexes := filter (\<lambda>x. \<not> name_eq i (ix_name x)) (tb_indexes t)\<rparr>"
| "altered (Create_constraint c) t = t\<lparr>tb_constraints := tb_constraints t @ [named (tb_name t) c]\<rparr>"
| "altered (Drop_constraint k) t =
     t\<lparr>tb_constraints := filter (\<lambda>c. \<not> name_eq k (constraint_name (tb_name t) c)) (tb_constraints t)\<rparr>"
| "altered (Insert_row r) t = t\<lparr>tb_rows := tb_rows t @ [map (column_stored r) (tb_columns t)]\<rparr>"

text \<open>Why the rest of the database does not allow it.\<close>

definition referenced_exists :: "schema \<Rightarrow> string \<Rightarrow> sql_constraint \<Rightarrow> bool" where
  "referenced_exists s self c =
     (case c of Ct_foreign _ _ r _ _ \<Rightarrow> (if name_eq self r then True else has_table s r) | _ \<Rightarrow> True)"

definition has_index :: "schema \<Rightarrow> string \<Rightarrow> bool" where
  "has_index s i = list_ex (\<lambda>t. has_table_index t i) (sch_tables s)"

definition depended_on :: "string \<Rightarrow> (sql_constraint \<Rightarrow> bool) \<Rightarrow> schema \<Rightarrow> bool" where
  "depended_on n p s =
     list_ex (\<lambda>t. if name_eq n (tb_name t) then False else list_ex p (tb_constraints t)) (sch_tables s)"

fun blocked :: "string \<Rightarrow> alteration \<Rightarrow> schema \<Rightarrow> ddl_error option" where
  "blocked n (Drop_column c) s =
     (if depended_on n (refers_to_column n c) s then Some Dependent_objects else None)"
| "blocked n (Create_index i cs u w) s = (if has_index s i then Some Duplicate_object else None)"
| "blocked n (Create_constraint c) s = (if referenced_exists s n c then None else Some Undefined_table)"
| "blocked n _ s = None"

definition map_table :: "string \<Rightarrow> (sql_table \<Rightarrow> sql_table) \<Rightarrow> schema \<Rightarrow> schema" where
  "map_table n f s = s\<lparr>sch_tables := map (\<lambda>t. if name_eq n (tb_name t) then f t else t) (sch_tables s)\<rparr>"

fun run_ddl :: "ddl \<Rightarrow> schema \<Rightarrow> ddl_error + schema" where
  "run_ddl (Create_table n cols cons) s =
     (if has_table s n then Inl Duplicate_table
      else if \<not> list_all (referenced_exists s n) cons then Inl Undefined_table
      else Inr (s\<lparr>sch_tables := sch_tables s @ [new_table n cols cons]\<rparr>))"
| "run_ddl (Drop_table n) s =
     (if \<not> has_table s n then Inl Undefined_table
      else if depended_on n (refers_to n) s then Inl Dependent_objects
      else Inr (s\<lparr>sch_tables := filter (\<lambda>t. \<not> name_eq n (tb_name t)) (sch_tables s)\<rparr>))"
| "run_ddl (Alter n a) s =
     (case find_table n s of
        None \<Rightarrow> Inl Undefined_table
      | Some t \<Rightarrow>
          (case blocked n a s of
             Some e \<Rightarrow> Inl e
           | None \<Rightarrow>
               (case refused a t of
                  Some e \<Rightarrow> Inl e
                | None \<Rightarrow> Inr (map_table n (altered a) s))))"
| "run_ddl (Create_sequence q) s =
     Inr (if mentions q (sch_sequences s) then s else s\<lparr>sch_sequences := sch_sequences s @ [q]\<rparr>)"
| "run_ddl (Drop_sequence q) s =
     Inr (s\<lparr>sch_sequences := filter (\<lambda>x. \<not> name_eq q x) (sch_sequences s)\<rparr>)"

text \<open>A script runs in one transaction: the first error undoes it.\<close>

fun run_ops :: "ddl list \<Rightarrow> schema \<Rightarrow> ddl_error + schema" where
  "run_ops [] s = Inr s"
| "run_ops (x # xs) s = (case run_ddl x s of Inl e \<Rightarrow> Inl e | Inr s1 \<Rightarrow> run_ops xs s1)"

record revision =
  rv_id :: string
  rv_down :: "string option"
  rv_upgrade :: "ddl list"
  rv_downgrade :: "ddl list"

fun upgrade_all :: "revision list \<Rightarrow> schema \<Rightarrow> ddl_error + schema" where
  "upgrade_all [] s = Inr s"
| "upgrade_all (r # rs) s = (case run_ops (rv_upgrade r) s of Inl e \<Rightarrow> Inl e | Inr s1 \<Rightarrow> upgrade_all rs s1)"

section \<open>Comparing schemas\<close>

text \<open>Alembic compares by name: the order of columns, constraints and indexes does not count.\<close>

definition same_columns :: "sql_column list \<Rightarrow> sql_column list \<Rightarrow> bool" where
  "same_columns xs ys =
     (length xs = length ys \<and>
      list_all (\<lambda>c. list_ex (\<lambda>d. if name_eq (sc_name c) (sc_name d) then c = d else False) ys) xs)"

definition same_constraints :: "string \<Rightarrow> sql_constraint list \<Rightarrow> sql_constraint list \<Rightarrow> bool" where
  "same_constraints n xs ys =
     (length xs = length ys \<and>
      list_all (\<lambda>c. list_ex (\<lambda>d. if name_eq (constraint_name n c) (constraint_name n d) then c = d else False) ys)
        xs)"

definition same_indexes :: "sql_index list \<Rightarrow> sql_index list \<Rightarrow> bool" where
  "same_indexes xs ys =
     (length xs = length ys \<and>
      list_all (\<lambda>c. list_ex (\<lambda>d. if name_eq (ix_name c) (ix_name d) then c = d else False) ys) xs)"

definition same_table :: "sql_table \<Rightarrow> sql_table \<Rightarrow> bool" where
  "same_table a b =
     (same_columns (tb_columns a) (tb_columns b) \<and>
      same_constraints (tb_name a) (tb_constraints a) (tb_constraints b) \<and>
      same_indexes (tb_indexes a) (tb_indexes b))"

definition same_tables :: "sql_table list \<Rightarrow> sql_table list \<Rightarrow> bool" where
  "same_tables xs ys =
     (length xs = length ys \<and>
      list_all (\<lambda>t. list_ex (\<lambda>u. if name_eq (tb_name t) (tb_name u) then same_table t u else False) ys) xs)"

end
