(* ===== verification/SchemaRuns.thy ===== *)
theory SchemaRuns
  imports Schema
begin

text \<open>
  How a script acts on a single table: what becomes of a table depends on that table alone, and a
  script succeeds when each table admits its statements and the names that tables share (of tables,
  of indexes, of referenced columns) are in order. So a long script is checked table by table.
\<close>

section \<open>Lookups\<close>

lemma find_map_table:
  "(\<And>t. tb_name (f t) = tb_name t) \<Longrightarrow>
   find_table n (map_table m f s) = (if n = m then map_option f (find_table n s) else find_table n s)"
proof -
  assume keep: "\<And>t. tb_name (f t) = tb_name t"
  have "find (\<lambda>t. n = tb_name t) (map (\<lambda>t. if m = tb_name t then f t else t) ts) =
      (if n = m then map_option f (find (\<lambda>t. n = tb_name t) ts) else find (\<lambda>t. n = tb_name t) ts)" for ts
    by (induction ts) (auto simp: keep)
  then show ?thesis by (simp add: find_table_def map_table_def name_eq_iff)
qed

lemma find_snoc: "find p (xs @ [y]) = (case find p xs of None \<Rightarrow> (if p y then Some y else None) | Some x \<Rightarrow> Some x)"
  by (induction xs) auto

lemma find_other: "find (\<lambda>t. n = tb_name t) (filter (\<lambda>t. m \<noteq> tb_name t) ts) =
    (if n = m then None else find (\<lambda>t. n = tb_name t) ts)"
  by (induction ts) auto

lemma altered_name [simp]: "tb_name (altered a t) = tb_name t"
  by (cases a) (auto simp: alter_column_def)

lemma find_table_name: "find_table n s = Some t \<Longrightarrow> tb_name t = n"
  by (auto simp: find_table_def find_Some_iff name_eq_iff)

lemma find_table_in: "find_table n s = Some t \<Longrightarrow> t \<in> set (sch_tables s)"
  by (auto simp: find_table_def find_Some_iff)

section \<open>One table\<close>

fun table_step :: "string \<Rightarrow> ddl \<Rightarrow> sql_table option \<Rightarrow> sql_table option" where
  "table_step n (Create_table m cols cons) t = (if name_eq n m then Some (new_table m cols cons) else t)"
| "table_step n (Drop_table m) t = (if name_eq n m then None else t)"
| "table_step n (Alter m a) t = (if name_eq n m then map_option (altered a) t else t)"
| "table_step n _ t = t"

fun table_after :: "string \<Rightarrow> ddl list \<Rightarrow> sql_table option \<Rightarrow> sql_table option" where
  "table_after n [] t = t"
| "table_after n (x # xs) t = table_after n xs (table_step n x t)"

definition permits :: "alteration \<Rightarrow> sql_table option \<Rightarrow> bool" where
  "permits a t = (case t of None \<Rightarrow> False | Some u \<Rightarrow> Option.is_none (refused a u))"

fun admits :: "string \<Rightarrow> ddl \<Rightarrow> sql_table option \<Rightarrow> bool" where
  "admits n (Create_table m cols cons) t = (if name_eq n m then Option.is_none t else True)"
| "admits n (Drop_table m) t = (if name_eq n m then \<not> Option.is_none t else True)"
| "admits n (Alter m a) t = (if name_eq n m then permits a t else True)"
| "admits n _ t = True"

fun admits_all :: "string \<Rightarrow> ddl list \<Rightarrow> sql_table option \<Rightarrow> bool" where
  "admits_all n [] t = True"
| "admits_all n (x # xs) t = (admits n x t \<and> admits_all n xs (table_step n x t))"

lemma run_ddl_table:
  "run_ddl x s = Inr s1 \<Longrightarrow> find_table n s1 = table_step n x (find_table n s)"
  by (cases x)
     (auto simp: find_map_table name_eq_iff has_table_def split: if_splits option.splits,
      auto simp: find_table_def find_snoc find_other name_eq_iff new_table_def split: option.splits if_splits)

lemma run_ddl_admits: "run_ddl x s = Inr s1 \<Longrightarrow> admits n x (find_table n s)"
  by (cases x)
     (auto simp: name_eq_iff has_table_def permits_def Option.is_none_def split: if_splits option.splits)

lemma run_ops_Cons:
  assumes "run_ops (x # xs) s = Inr s2"
  obtains s1 where "run_ddl x s = Inr s1" "run_ops xs s1 = Inr s2"
  using assms by (auto split: sum.splits)

lemma run_ops_table: "run_ops xs s = Inr s1 \<Longrightarrow> find_table n s1 = table_after n xs (find_table n s)"
  by (induction xs arbitrary: s) (auto elim!: run_ops_Cons simp del: run_ops.simps(2) simp: run_ddl_table)

lemma run_ops_admits: "run_ops xs s = Inr s1 \<Longrightarrow> admits_all n xs (find_table n s)"
proof (induction xs arbitrary: s)
  case (Cons x xs)
  then show ?case by (elim run_ops_Cons) (metis admits_all.simps(2) run_ddl_admits run_ddl_table)
qed simp

lemma run_ops_append:
  "run_ops (xs @ ys) s = (case run_ops xs s of Inl e \<Rightarrow> Inl e | Inr s1 \<Rightarrow> run_ops ys s1)"
  by (induction xs arbitrary: s) (auto split: sum.splits)

lemma upgrade_all_run: "upgrade_all rs s = run_ops (concat (map rv_upgrade rs)) s"
  by (induction rs arbitrary: s) (auto simp: run_ops_append split: sum.splits)

section \<open>Names that tables share\<close>

definition to_id :: "sql_constraint \<Rightarrow> bool" where
  "to_id c = (case c of Ct_foreign _ _ _ rs _ \<Rightarrow> rs = [''id''] | _ \<Rightarrow> True)"

definition links :: "string \<Rightarrow> string list \<Rightarrow> sql_constraint \<Rightarrow> bool" where
  "links n ts c = (case c of Ct_foreign _ _ r _ _ \<Rightarrow> mentions r (n # ts) | _ \<Rightarrow> True)"

text \<open>A foreign key: the table it is on, its name, and the table it points to.\<close>

definition reference :: "string \<Rightarrow> sql_constraint \<Rightarrow> (string \<times> string \<times> string) list" where
  "reference n c = (case c of Ct_foreign _ _ r _ _ \<Rightarrow> [(n, constraint_name n c, r)] | _ \<Rightarrow> [])"

text \<open>Tables there are, and all the indexes and foreign keys there may be.\<close>

record names =
  nm_tables :: "string list"
  nm_indexes :: "string list"
  nm_references :: "(string \<times> string \<times> string) list"

fun names_altered :: "string \<Rightarrow> alteration \<Rightarrow> names \<Rightarrow> names" where
  "names_altered n (Create_index i cs u w) m = m\<lparr>nm_indexes := i # nm_indexes m\<rparr>"
| "names_altered n (Create_constraint c) m = m\<lparr>nm_references := reference n c @ nm_references m\<rparr>"
| "names_altered n (Drop_constraint k) m =
     m\<lparr>nm_references := filter (\<lambda>(t, j, r). if name_eq k j then \<not> name_eq n t else True) (nm_references m)\<rparr>"
| "names_altered n _ m = m"

fun alteration_ok :: "string \<Rightarrow> alteration \<Rightarrow> names \<Rightarrow> bool" where
  "alteration_ok n (Drop_column c) m = (\<not> name_eq c ''id'')"
| "alteration_ok n (Create_index i cs u w) m = (\<not> mentions i (nm_indexes m))"
| "alteration_ok n (Create_constraint c) m = (to_id c \<and> links n (nm_tables m) c)"
| "alteration_ok n _ m = True"

fun names_step :: "ddl \<Rightarrow> names \<Rightarrow> names" where
  "names_step (Create_table n cols cons) m =
     m\<lparr>nm_tables := n # nm_tables m, nm_references := concat (map (reference n) cons) @ nm_references m\<rparr>"
| "names_step (Drop_table n) m =
     m\<lparr>nm_tables := filter (\<lambda>t. \<not> name_eq n t) (nm_tables m),
       nm_references := filter (\<lambda>(t, k, r). \<not> name_eq n t) (nm_references m)\<rparr>"
| "names_step (Alter n a) m = names_altered n a m"
| "names_step _ m = m"

fun step_ok :: "ddl \<Rightarrow> names \<Rightarrow> bool" where
  "step_ok (Create_table n cols cons) m = (list_all to_id cons \<and> list_all (links n (nm_tables m)) cons)"
| "step_ok (Drop_table n) m = list_all (\<lambda>(t, k, r). if name_eq n r then name_eq n t else True) (nm_references m)"
| "step_ok (Alter n a) m = alteration_ok n a m"
| "step_ok _ m = True"

fun names_ok :: "ddl list \<Rightarrow> names \<Rightarrow> bool \<Rightarrow> bool" where
  "names_ok [] m b = b"
| "names_ok (x # xs) m b = names_ok xs (names_step x m) (b \<and> step_ok x m)"

definition no_names :: names where
  "no_names = \<lparr>nm_tables = [], nm_indexes = [], nm_references = []\<rparr>"

definition table_known :: "names \<Rightarrow> sql_table \<Rightarrow> bool" where
  "table_known m t \<longleftrightarrow>
     (\<forall>i\<in>set (tb_indexes t). ix_name i \<in> set (nm_indexes m)) \<and>
     (\<forall>c\<in>set (tb_constraints t). to_id c \<and> set (reference (tb_name t) c) \<subseteq> set (nm_references m))"

definition names_known :: "names \<Rightarrow> schema \<Rightarrow> bool" where
  "names_known m s \<longleftrightarrow>
     (\<forall>n\<in>set (nm_tables m). has_table s n) \<and> (\<forall>t\<in>set (sch_tables s). table_known m t)"

lemma names_ok_acc: "names_ok xs m b \<Longrightarrow> b"
  by (induction xs arbitrary: m b) auto

lemma mentions_iff [simp]: "mentions c cs \<longleftrightarrow> c \<in> set cs"
  by (auto simp: mentions_def list_ex_iff name_eq_iff)

lemma to_id_named [simp]: "to_id (named n c) = to_id c"
  by (cases c) (auto simp: to_id_def)

lemma constraint_name_named [simp]: "constraint_name n (named n c) = constraint_name n c"
  by (cases c) (auto simp: chosen_name_def)

lemma reference_named [simp]: "reference n (named n c) = reference n c"
  using constraint_name_named [of n c] by (cases c) (auto simp: reference_def)

section \<open>A script that succeeds\<close>

lemma links_referenced: "links n ts c \<Longrightarrow> \<forall>m\<in>set ts. has_table s m \<Longrightarrow> referenced_exists s n c"
  by (cases c) (auto simp: links_def referenced_exists_def name_eq_iff)

lemma to_id_column: "to_id k \<Longrightarrow> c \<noteq> ''id'' \<Longrightarrow> \<not> refers_to_column n c k"
  by (cases k) (auto simp: to_id_def name_eq_iff)

lemma not_depended: "names_known m s \<Longrightarrow> c \<noteq> ''id'' \<Longrightarrow> \<not> depended_on n (refers_to_column n c) s"
  using to_id_column by (auto simp: names_known_def table_known_def depended_on_def list_ex_iff)

lemma refers_reference: "refers_to n c \<Longrightarrow> (t, constraint_name t c, n) \<in> set (reference t c)"
  by (cases c) (auto simp: reference_def name_eq_iff)

lemma droppable:
  assumes "names_known m s" "step_ok (Drop_table n) m"
  shows "\<not> depended_on n (refers_to n) s"
proof
  assume "depended_on n (refers_to n) s"
  then obtain t c where t: "t \<in> set (sch_tables s)" "n \<noteq> tb_name t" "c \<in> set (tb_constraints t)" "refers_to n c"
    by (auto simp: depended_on_def list_ex_iff name_eq_iff split: if_splits)
  then have "(tb_name t, constraint_name (tb_name t) c, n) \<in> set (nm_references m)"
    using assms(1) refers_reference by (fastforce simp: names_known_def table_known_def)
  then show False
    using assms(2) t(2) by (fastforce simp: list_all_iff name_eq_iff)
qed

lemma fresh_index: "names_known m s \<Longrightarrow> i \<notin> set (nm_indexes m) \<Longrightarrow> \<not> has_index s i"
  by (auto simp: names_known_def table_known_def has_index_def has_table_index_def list_ex_iff name_eq_iff)

lemma not_blocked: "names_known m s \<Longrightarrow> alteration_ok n a m \<Longrightarrow> blocked n a s = None"
  by (cases a) (auto simp: not_depended fresh_index links_referenced names_known_def name_eq_iff
      split: if_splits)

lemma reference_parts: "(t, k, r) \<in> set (reference n c) \<Longrightarrow> t = n \<and> k = constraint_name n c"
  by (auto simp: reference_def split: sql_constraint.splits)

lemma table_known_mono:
  "table_known m t \<Longrightarrow> set (nm_indexes m) \<subseteq> set (nm_indexes k) \<Longrightarrow>
   set (nm_references m) \<subseteq> set (nm_references k) \<Longrightarrow> table_known k t"
  unfolding table_known_def by blast

lemma altered_known:
  "table_known m t \<Longrightarrow> alteration_ok (tb_name t) a m \<Longrightarrow>
   table_known (names_altered (tb_name t) a m) (altered a t)"
  by (cases a) (fastforce simp: table_known_def alter_column_def name_eq_iff dest: reference_parts)+

lemma other_known: "table_known m t \<Longrightarrow> tb_name t \<noteq> n \<Longrightarrow> table_known (names_altered n a m) t"
  by (cases a) (fastforce simp: table_known_def name_eq_iff dest: reference_parts)+

lemma names_altered_tables [simp]: "nm_tables (names_altered n a m) = nm_tables m"
  by (cases a) auto

lemma alter_known:
  assumes "names_known m s" "alteration_ok n a m"
  shows "names_known (names_altered n a m) (map_table n (altered a) s)"
  unfolding names_known_def
proof (intro conjI ballI)
  fix k
  assume "k \<in> set (nm_tables (names_altered n a m))"
  then show "has_table (map_table n (altered a) s) k"
    using assms(1) by (auto simp: names_known_def has_table_def find_map_table)
next
  fix t
  assume "t \<in> set (sch_tables (map_table n (altered a) s))"
  then show "table_known (names_altered n a m) t"
    using assms altered_known other_known
    by (auto simp: names_known_def map_table_def name_eq_iff)
qed

lemma create_known:
  assumes "names_known m s" "step_ok (Create_table n cols cons) m"
  shows "names_known (names_step (Create_table n cols cons) m)
    (s\<lparr>sch_tables := sch_tables s @ [new_table n cols cons]\<rparr>)"
proof -
  let ?m = "names_step (Create_table n cols cons) m"
  have "table_known ?m t" if "t \<in> set (sch_tables s)" for t
    by (rule table_known_mono [of m]) (use assms(1) that in \<open>auto simp: names_known_def\<close>)
  moreover have "table_known ?m (new_table n cols cons)"
    using assms(2) by (auto simp: table_known_def new_table_def list_all_iff)
  ultimately show ?thesis
    using assms(1)
    by (auto simp: names_known_def has_table_def find_table_def find_snoc new_table_def name_eq_iff
        split: option.splits)
qed

lemma drop_known:
  assumes "names_known m s"
  shows "names_known (names_step (Drop_table n) m)
    (s\<lparr>sch_tables := filter (\<lambda>t. \<not> name_eq n (tb_name t)) (sch_tables s)\<rparr>)"
proof -
  have "table_known (names_step (Drop_table n) m) t" if "t \<in> set (sch_tables s)" "n \<noteq> tb_name t" for t
    using assms that by (fastforce simp: names_known_def table_known_def name_eq_iff dest: reference_parts)
  then show ?thesis
    using assms by (auto simp: names_known_def has_table_def find_table_def find_other name_eq_iff)
qed

lemma names_known_sequences [simp]: "names_known m (s\<lparr>sch_sequences := q\<rparr>) = names_known m s"
  by (simp add: names_known_def has_table_def find_table_def)

lemma runs_step:
  assumes known: "names_known m s" and ok: "step_ok x m" and admit: "\<And>n. admits n x (find_table n s)"
  obtains s1 where "run_ddl x s = Inr s1" "names_known (names_step x m) s1"
proof (cases x)
  case (Create_table n cols cons)
  have "list_all (referenced_exists s n) cons"
    using ok known links_referenced Create_table by (auto simp: list_all_iff names_known_def)
  then have "run_ddl x s = Inr (s\<lparr>sch_tables := sch_tables s @ [new_table n cols cons]\<rparr>)"
    using admit [of n] Create_table by (simp add: has_table_def Option.is_none_def name_eq_iff)
  then show ?thesis
    using that create_known [OF known ok [unfolded Create_table]] Create_table by blast
next
  case (Alter n a)
  have a_ok: "alteration_ok n a m"
    using ok Alter by simp
  have "run_ddl x s = Inr (map_table n (altered a) s)"
    using admit [of n] not_blocked [OF known a_ok] Alter
    by (auto simp: permits_def Option.is_none_def name_eq_iff split: option.splits)
  then show ?thesis
    using that alter_known [OF known a_ok] Alter by simp
next
  case (Drop_table n)
  have "run_ddl x s = Inr (s\<lparr>sch_tables := filter (\<lambda>t. \<not> name_eq n (tb_name t)) (sch_tables s)\<rparr>)"
    using admit [of n] droppable [OF known] ok Drop_table by (simp add: has_table_def Option.is_none_def name_eq_iff)
  then show ?thesis
    using that drop_known [OF known] Drop_table by blast
next
  case (Create_sequence q)
  then show ?thesis using that known by simp
next
  case (Drop_sequence q)
  then show ?thesis using that known by simp
qed

theorem runs_if_names_ok:
  assumes "names_known m s" "names_ok xs m True" "\<And>n. admits_all n xs (find_table n s)"
  shows "\<exists>s1. run_ops xs s = Inr s1"
  using assms
proof (induction xs arbitrary: m s)
  case (Cons x xs)
  have admit: "admits n x (find_table n s)" for n
    using Cons.prems(3) [of n] by simp
  have ok: "step_ok x m" "names_ok xs (names_step x m) True"
    using Cons.prems(2) names_ok_acc by (auto, force)
  obtain s1 where s1: "run_ddl x s = Inr s1" "names_known (names_step x m) s1"
    using runs_step [OF Cons.prems(1) ok(1) admit] by blast
  have "admits_all n xs (find_table n s1)" for n
    using Cons.prems(3) [of n] by (simp add: run_ddl_table [OF s1(1)])
  then show ?case
    using Cons.IH [OF s1(2) ok(2)] s1(1) by simp
qed simp

text \<open>Only the tables that a script names matter.\<close>

fun subjects :: "ddl list \<Rightarrow> string list" where
  "subjects [] = []"
| "subjects (Create_table n cols cons # xs) = n # subjects xs"
| "subjects (Drop_table n # xs) = n # subjects xs"
| "subjects (Alter n a # xs) = n # subjects xs"
| "subjects (x # xs) = subjects xs"

lemma not_subject:
  "n \<notin> set (subjects xs) \<Longrightarrow> admits_all n xs t \<and> table_after n xs t = t"
  by (induction xs rule: subjects.induct) (auto simp: name_eq_iff)

section \<open>A schema built table by table\<close>

lemma run_ddl_distinct:
  "run_ddl x s = Inr s1 \<Longrightarrow> distinct (map tb_name (sch_tables s)) \<Longrightarrow> distinct (map tb_name (sch_tables s1))"
proof (cases x)
  case (Create_table n cols cons)
  assume "run_ddl x s = Inr s1" "distinct (map tb_name (sch_tables s))"
  then show ?thesis
    using Create_table
    by (auto simp: has_table_def find_table_def new_table_def name_eq_iff find_None_iff split: if_splits)
next
  case (Alter n a)
  have "map tb_name (map (\<lambda>t. if name_eq n (tb_name t) then altered a t else t) ts) = map tb_name ts" for ts
    by (induction ts) auto
  then show "run_ddl x s = Inr s1 \<Longrightarrow> distinct (map tb_name (sch_tables s)) \<Longrightarrow> ?thesis"
    using Alter by (auto simp: map_table_def simp del: map_map split: option.splits)
qed (auto simp: distinct_map_filter split: if_splits)

lemma run_ops_distinct:
  "run_ops xs s = Inr s1 \<Longrightarrow> distinct (map tb_name (sch_tables s)) \<Longrightarrow> distinct (map tb_name (sch_tables s1))"
  by (induction xs arbitrary: s) (auto elim!: run_ops_Cons simp del: run_ops.simps(2) dest: run_ddl_distinct)

lemma find_table_distinct:
  assumes "distinct (map tb_name (sch_tables s))" "t \<in> set (sch_tables s)"
  shows "find_table (tb_name t) s = Some t"
proof -
  have "distinct (map tb_name ts) \<Longrightarrow> t \<in> set ts \<Longrightarrow> find (\<lambda>u. tb_name t = tb_name u) ts = Some t" for ts
    by (induction ts) (auto simp: image_iff)
  then show ?thesis using assms by (simp add: find_table_def name_eq_iff)
qed

fun sequences_after :: "ddl list \<Rightarrow> string list \<Rightarrow> string list" where
  "sequences_after [] qs = qs"
| "sequences_after (Create_sequence q # xs) qs = sequences_after xs (if mentions q qs then qs else qs @ [q])"
| "sequences_after (Drop_sequence q # xs) qs = sequences_after xs (filter (\<lambda>p. \<not> name_eq q p) qs)"
| "sequences_after (x # xs) qs = sequences_after xs qs"

lemma run_ops_sequences: "run_ops xs s = Inr s1 \<Longrightarrow> sch_sequences s1 = sequences_after xs (sch_sequences s)"
proof (induction xs arbitrary: s)
  case (Cons x xs)
  then show ?case
    by (elim run_ops_Cons; cases x) (fastforce simp: map_table_def split: if_splits option.splits)+
qed simp

text \<open>
  The statements about one table, and whether it admits them: with accumulators, so that a long
  script is read once.
\<close>

fun about :: "string \<Rightarrow> ddl \<Rightarrow> bool" where
  "about n (Create_table m cols cons) = name_eq n m"
| "about n (Drop_table m) = name_eq n m"
| "about n (Alter m a) = name_eq n m"
| "about n _ = False"

fun own :: "string \<Rightarrow> ddl list \<Rightarrow> ddl list \<Rightarrow> ddl list" where
  "own n [] ys = rev ys"
| "own n (x # xs) ys = own n xs (if about n x then x # ys else ys)"

fun admitted :: "string \<Rightarrow> ddl list \<Rightarrow> sql_table option \<Rightarrow> bool \<Rightarrow> bool" where
  "admitted n [] t b = b"
| "admitted n (x # xs) t b = admitted n xs (table_step n x t) (b \<and> admits n x t)"

lemma own_filter: "own n xs ys = rev ys @ filter (about n) xs"
  by (induction xs arbitrary: ys) auto

lemma not_about: "\<not> about n x \<Longrightarrow> admits n x t \<and> table_step n x t = t"
  by (cases x) auto

lemma admitted_own: "admitted n (own n xs []) t b = (b \<and> admits_all n xs t)"
proof -
  have "admitted n (filter (about n) xs) t b = (b \<and> admits_all n xs t)"
    by (induction xs arbitrary: t b) (auto simp: not_about)
  then show ?thesis by (simp add: own_filter)
qed

lemma table_after_own: "table_after n (own n xs []) t = table_after n xs t"
proof -
  have "table_after n (filter (about n) xs) t = table_after n xs t"
    by (induction xs arbitrary: t) (auto simp: not_about)
  then show ?thesis by (simp add: own_filter)
qed

text \<open>The script, from nothing, ends with the table \<open>d\<close>.\<close>

definition builds_from :: "ddl list \<Rightarrow> sql_table \<Rightarrow> bool" where
  "builds_from xs d =
     (admitted (tb_name d) xs None True \<and>
      (case table_after (tb_name d) xs None of None \<Rightarrow> False | Some t \<Rightarrow> same_table t d))"

definition builds :: "ddl list \<Rightarrow> sql_table \<Rightarrow> bool" where
  "builds xs d = builds_from (own (tb_name d) xs []) d"

lemma builds_iff:
  "builds xs d \<longleftrightarrow>
     admits_all (tb_name d) xs None \<and> (\<exists>t. table_after (tb_name d) xs None = Some t \<and> same_table t d)"
  by (simp add: builds_def builds_from_def admitted_own table_after_own split: option.splits)

lemma find_table_none: "find_table n s = None \<longleftrightarrow> n \<notin> tb_name ` set (sch_tables s)"
  by (auto simp: find_table_def find_None_iff name_eq_iff)

lemma table_names: "tb_name ` set (sch_tables s) = {n. find_table n s \<noteq> None}"
  by (simp add: find_table_none)

lemma same_tables_by_name:
  assumes a: "distinct (map tb_name (sch_tables a))" and b: "distinct (map tb_name (sch_tables b))"
    and same: "\<And>n. rel_option same_table (find_table n a) (find_table n b)"
  shows "same_tables (sch_tables a) (sch_tables b)"
proof -
  have "(find_table n a \<noteq> None) = (find_table n b \<noteq> None)" for n
    using same [of n] by (cases "find_table n a"; cases "find_table n b") auto
  then have "length (sch_tables a) = length (sch_tables b)"
    using distinct_card [OF a] distinct_card [OF b] by (simp add: table_names)
  moreover have "\<exists>u\<in>set (sch_tables b). tb_name t = tb_name u \<and> same_table t u" if t: "t \<in> set (sch_tables a)" for t
  proof -
    obtain u where "find_table (tb_name t) b = Some u" "same_table t u"
      using same [of "tb_name t"] find_table_distinct [OF a t] by (auto simp: option_rel_Some1)
    then show ?thesis using find_table_in find_table_name by metis
  qed
  ultimately show ?thesis
    by (simp add: same_tables_def list_all_iff list_ex_iff name_eq_iff) metis
qed

theorem builds_schema:
  assumes "names_ok xs no_names True" and builds: "list_all (builds xs) ds"
    and subjects: "list_all (\<lambda>n. mentions n (map tb_name ds)) (subjects xs)" and ds: "distinct (map tb_name ds)"
  shows "\<exists>s. run_ops xs empty_schema = Inr s \<and> same_tables (sch_tables s) ds"
proof -
  let ?d = "\<lparr>sch_tables = ds, sch_sequences = []\<rparr>"
  have none: "find_table n empty_schema = None" for n
    by (simp add: find_table_def empty_schema_def)
  have each: "admits_all n xs None \<and> rel_option same_table (table_after n xs None) (find_table n ?d)" for n
  proof (cases "n \<in> tb_name ` set ds")
    case True
    then obtain d where d: "d \<in> set ds" "n = tb_name d" by blast
    then show ?thesis
      using builds find_table_distinct [of ?d d] ds by (auto simp: list_all_iff builds_iff)
  next
    case False
    then show ?thesis
      using subjects not_subject find_table_none [of n ?d] by (auto simp: list_all_iff)
  qed
  have "names_known no_names empty_schema"
    by (simp add: names_known_def no_names_def empty_schema_def)
  then obtain s where s: "run_ops xs empty_schema = Inr s"
    using runs_if_names_ok assms(1) each none by metis
  have "same_tables (sch_tables s) (sch_tables ?d)"
    using each run_ops_table [OF s] none run_ops_distinct [OF s] ds
    by (intro same_tables_by_name) (auto simp: empty_schema_def)
  then show ?thesis using s by auto
qed

section \<open>A script that is taken back\<close>

definition unchanged :: "string \<Rightarrow> sql_table option \<Rightarrow> ddl list \<Rightarrow> bool" where
  "unchanged n t ys =
     (admitted n ys t True \<and>
      (case table_after n ys t of
         None \<Rightarrow> Option.is_none t
       | Some b \<Rightarrow> (case t of None \<Rightarrow> False | Some a \<Rightarrow> same_table b a)))"

text \<open>After \<open>xs\<close>, the script \<open>ys\<close> leaves the table \<open>n\<close> as it is.\<close>

definition restored :: "ddl list \<Rightarrow> ddl list \<Rightarrow> string \<Rightarrow> bool" where
  "restored xs ys n = unchanged n (table_after n (own n xs []) None) (own n ys [])"

lemma restored_iff:
  "restored xs ys n \<longleftrightarrow>
     admits_all n ys (table_after n xs None) \<and>
     rel_option same_table (table_after n ys (table_after n xs None)) (table_after n xs None)"
  by (auto simp: restored_def unchanged_def admitted_own table_after_own Option.is_none_def option_rel_Some1
      split: option.splits)

lemma admits_all_append:
  "admits_all n (xs @ ys) t \<longleftrightarrow> admits_all n xs t \<and> admits_all n ys (table_after n xs t)"
  by (induction xs arbitrary: t) auto

lemma same_table_refl [simp]: "same_table t t"
  by (auto simp: same_table_def same_columns_def same_constraints_def same_indexes_def list_all_iff list_ex_iff
      name_eq_iff)

lemma rel_option_refl: "rel_option same_table t t"
  by (cases t) auto

theorem taken_back:
  assumes s: "run_ops xs empty_schema = Inr s" and ok: "names_ok (xs @ ys) no_names True"
    and ns: "list_all (\<lambda>n. mentions n ns) (subjects ys)" and restored: "list_all (restored xs ys) ns"
  shows "\<exists>s1. run_ops ys s = Inr s1 \<and> same_tables (sch_tables s1) (sch_tables s)"
proof -
  have none: "find_table n empty_schema = None" for n
    by (simp add: find_table_def empty_schema_def)
  have found: "find_table n s = table_after n xs None" for n
    using run_ops_table [OF s] none by simp
  have undo: "admits_all n ys (find_table n s)" "rel_option same_table (table_after n ys (find_table n s)) (find_table n s)" for n
    using ns restored not_subject [of n ys] rel_option_refl
    by (cases "n \<in> set (subjects ys)"; auto simp: list_all_iff restored_iff found)+
  have "names_known no_names empty_schema"
    by (simp add: names_known_def no_names_def empty_schema_def)
  moreover have "admits_all n (xs @ ys) (find_table n empty_schema)" for n
    using undo(1) [of n] run_ops_admits [OF s, of n] by (simp add: admits_all_append none found)
  ultimately obtain s1 where "run_ops (xs @ ys) empty_schema = Inr s1"
    using runs_if_names_ok ok by blast
  then have s1: "run_ops ys s = Inr s1"
    by (simp add: run_ops_append s)
  have d: "distinct (map tb_name (sch_tables s))"
    using run_ops_distinct [OF s] by (simp add: empty_schema_def)
  have "same_tables (sch_tables s1) (sch_tables s)"
    using same_tables_by_name [OF run_ops_distinct [OF s1 d] d] undo(2) by (simp add: run_ops_table [OF s1])
  then show ?thesis using s1 by blast
qed

end
