(* ===== verification/Declared.thy ===== *)
theory Declared
  imports Schema
begin

text \<open>
  The tables as the classes of \<^verbatim>\<open>db/models.py\<close> declare them to SQLAlchemy: types, nullability, defaults kept
  by the database, keys and indexes, named by \<^verbatim>\<open>NAMING_CONVENTION\<close>. The values that Python itself fills in
  (\<^verbatim>\<open>default=\<close>, \<^verbatim>\<open>onupdate=\<close>) are not part of a table.
\<close>

section \<open>Mapped columns\<close>

record mapped_column =
  mc_column :: sql_column
  mc_primary :: bool
  mc_unique :: bool
  mc_index :: bool
  mc_foreign :: "(string \<times> string \<times> on_delete) option"

definition mandatory :: "string \<Rightarrow> sql_type \<Rightarrow> mapped_column" where
  "mandatory n t = \<lparr>mc_column = required n t, mc_primary = False, mc_unique = False, mc_index = False,
     mc_foreign = None\<rparr>"

definition optional :: "string \<Rightarrow> sql_type \<Rightarrow> mapped_column" where
  "optional n t = \<lparr>mc_column = nullable n t, mc_primary = False, mc_unique = False, mc_index = False,
     mc_foreign = None\<rparr>"

definition primary_key :: "mapped_column \<Rightarrow> mapped_column" where
  "primary_key m = m\<lparr>mc_primary := True\<rparr>"

definition unique_key :: "mapped_column \<Rightarrow> mapped_column" where
  "unique_key m = m\<lparr>mc_unique := True\<rparr>"

definition indexed :: "mapped_column \<Rightarrow> mapped_column" where
  "indexed m = m\<lparr>mc_index := True\<rparr>"

definition references :: "string \<Rightarrow> string \<Rightarrow> on_delete \<Rightarrow> mapped_column \<Rightarrow> mapped_column" where
  "references t c d m = m\<lparr>mc_foreign := Some (t, c, d)\<rparr>"

definition server_default :: "sql_default \<Rightarrow> mapped_column \<Rightarrow> mapped_column" where
  "server_default v m = m\<lparr>mc_column := (mc_column m)\<lparr>sc_default := Some v\<rparr>\<rparr>"

definition table_index :: "string \<Rightarrow> string list \<Rightarrow> bool \<Rightarrow> string option \<Rightarrow> sql_index" where
  "table_index n cs u w = \<lparr>ix_name = n, ix_columns = cs, ix_unique = u, ix_where = w\<rparr>"

section \<open>Tables of mapped columns\<close>

definition column_constraints :: "mapped_column \<Rightarrow> sql_constraint list" where
  "column_constraints m =
     (if mc_unique m then [Ct_unique Conventional [sc_name (mc_column m)]] else []) @
     (case mc_foreign m of
        None \<Rightarrow> []
      | Some (t, c, d) \<Rightarrow> [Ct_foreign Conventional [sc_name (mc_column m)] t [c] d])"

definition column_index :: "string \<Rightarrow> mapped_column \<Rightarrow> sql_index" where
  "column_index t m =
     table_index (''ix_'' @ t @ ''_'' @ sc_name (mc_column m)) [sc_name (mc_column m)] False None"

definition primary_columns :: "mapped_column list \<Rightarrow> string list" where
  "primary_columns ms = map (\<lambda>m. sc_name (mc_column m)) (filter mc_primary ms)"

definition table_of ::
    "string \<Rightarrow> mapped_column list \<Rightarrow> sql_constraint list \<Rightarrow> sql_index list \<Rightarrow> sql_table" where
  "table_of t ms cs ixs =
     \<lparr>tb_name = t, tb_columns = map mc_column ms,
      tb_constraints =
        map (named t) (Ct_primary Conventional (primary_columns ms) # concat (map column_constraints ms) @ cs),
      tb_indexes = map (column_index t) (filter mc_index ms) @ ixs, tb_rows = []\<rparr>"

section \<open>The classes\<close>

definition timestamp_mixin :: "mapped_column list" where
  "timestamp_mixin =
    [mandatory ''created_at'' Ty_timestamp, mandatory ''updated_at'' Ty_timestamp]"

text \<open>\<^verbatim>\<open>class Contact\<close>\<close>

definition declared_contacts :: sql_table where
  "declared_contacts = table_of ''contacts''
     ([primary_key (mandatory ''id'' Ty_uuid), unique_key (mandatory ''wa_id'' (Ty_string 32)),
       optional ''profile_name'' (Ty_string 255)] @ timestamp_mixin)
      []
      []"

text \<open>\<^verbatim>\<open>class WhatsAppMessage\<close>\<close>

definition declared_whatsapp_messages :: sql_table where
  "declared_whatsapp_messages = table_of ''whatsapp_messages''
     ([primary_key (mandatory ''id'' Ty_uuid),
       references ''contacts'' ''id'' Set_null (indexed (optional ''contact_id'' Ty_uuid)),
       unique_key (optional ''meta_message_id'' (Ty_string 255)),
       mandatory ''direction'' (Ty_string 16), mandatory ''message_type'' (Ty_string 64),
       optional ''text_body'' Ty_text, optional ''media_id'' (Ty_string 255),
       optional ''media_mime_type'' (Ty_string 255), optional ''location_latitude'' Ty_float,
       optional ''location_longitude'' Ty_float, optional ''location_name'' (Ty_string 255),
       optional ''location_address'' Ty_text, optional ''location_url'' Ty_text,
       mandatory ''raw_payload'' Ty_jsonb, indexed (mandatory ''received_at'' Ty_timestamp),
       optional ''reply_id'' (Ty_string 256), optional ''interactive_type'' (Ty_string 32),
       optional ''button_payload'' Ty_text, optional ''context_message_id'' (Ty_string 255),
       mandatory ''status'' (Ty_string 16),
       unique_key (optional ''idempotency_key'' (Ty_string 255)),
       optional ''reply_kind'' (Ty_string 32),
       references ''conversations'' ''id'' Set_null (indexed (optional ''conversation_id'' Ty_uuid)),
       optional ''in_response_to_message_id'' (Ty_string 255),
       optional ''locked_until'' Ty_timestamp, mandatory ''attempt_count'' Ty_integer] @ timestamp_mixin)
      []
      []"

text \<open>\<^verbatim>\<open>class Conversation\<close>\<close>

definition declared_conversations :: sql_table where
  "declared_conversations = table_of ''conversations''
     ([primary_key (mandatory ''id'' Ty_uuid),
       references ''contacts'' ''id'' Cascade (indexed (mandatory ''contact_id'' Ty_uuid)),
       mandatory ''state'' (Ty_string 32), mandatory ''context'' Ty_jsonb,
       mandatory ''state_version'' Ty_integer, mandatory ''active'' Ty_boolean,
       optional ''last_user_message_at'' Ty_timestamp,
       optional ''service_window_expires_at'' Ty_timestamp, optional ''expires_at'' Ty_timestamp] @ timestamp_mixin)
      []
      [table_index ''uq_conversations_active_contact'' [''contact_id''] True (Some ''active'')]"

text \<open>\<^verbatim>\<open>class FsmMessageConsumption\<close>\<close>

definition declared_fsm_message_consumptions :: sql_table where
  "declared_fsm_message_consumptions = table_of ''fsm_message_consumptions''
      [primary_key (mandatory ''id'' Ty_uuid),
       unique_key (mandatory ''inbound_message_id'' (Ty_string 255)),
       references ''conversations'' ''id'' Set_null (indexed (optional ''conversation_id'' Ty_uuid)),
       optional ''state_before'' (Ty_string 32), optional ''state_after'' (Ty_string 32),
       mandatory ''created_at'' Ty_timestamp]
      []
      []"

text \<open>\<^verbatim>\<open>class GeocodeCache\<close>\<close>

definition declared_geocode_cache :: sql_table where
  "declared_geocode_cache = table_of ''geocode_cache''
      [primary_key (mandatory ''provider'' (Ty_string 32)),
       primary_key (mandatory ''lat_round'' Ty_float),
       primary_key (mandatory ''lon_round'' Ty_float),
       primary_key (mandatory ''accept_language'' (Ty_string 32)),
       mandatory ''status'' (Ty_string 16), optional ''display_address'' Ty_text,
       optional ''address_components'' Ty_jsonb, optional ''raw'' Ty_jsonb,
       mandatory ''created_at'' Ty_timestamp]
      []
      []"

text \<open>\<^verbatim>\<open>class ExternalRateLimit\<close>\<close>

definition declared_external_rate_limits :: sql_table where
  "declared_external_rate_limits = table_of ''external_rate_limits''
      [primary_key (mandatory ''provider'' (Ty_string 64)),
       mandatory ''next_allowed_at'' Ty_timestamp]
      []
      []"

text \<open>\<^verbatim>\<open>class Grievance\<close>\<close>

definition declared_grievances :: sql_table where
  "declared_grievances = table_of ''grievances''
     ([primary_key (mandatory ''id'' Ty_uuid), unique_key (mandatory ''human_id'' (Ty_string 32)),
       references ''contacts'' ''id'' Cascade (indexed (mandatory ''contact_id'' Ty_uuid)),
       references ''conversations'' ''id'' Set_null (unique_key (optional ''conversation_id'' Ty_uuid)),
       references ''users'' ''id'' Set_null (indexed (optional ''user_id'' Ty_uuid)),
       mandatory ''source'' (Ty_string 16), optional ''location_latitude'' Ty_float,
       optional ''location_longitude'' Ty_float, optional ''location_address'' Ty_text,
       mandatory ''issue_messages'' Ty_jsonb, optional ''issue_text'' Ty_text,
       optional ''source_language'' (Ty_string 16), optional ''photo_media_id'' (Ty_string 255),
       optional ''photo_path'' Ty_text, mandatory ''audio_paths'' Ty_jsonb,
       optional ''pdf_path'' Ty_text, mandatory ''status'' (Ty_string 32),
       optional ''category'' (Ty_string 64), optional ''department_key'' (Ty_string 64),
       optional ''priority'' (Ty_string 16), optional ''term'' (Ty_string 16),
       optional ''confidence'' Ty_float, optional ''image_match_status'' (Ty_string 16),
       mandatory ''flags'' Ty_jsonb, mandatory ''report_count'' Ty_integer,
       references ''grievances'' ''id'' Set_null (indexed (optional ''duplicate_of_id'' Ty_uuid)),
       optional ''window_expires_at'' Ty_timestamp, optional ''dispatch_ref'' (Ty_string 255),
       mandatory ''dispatch_attempts'' Ty_integer, optional ''drafted_at'' Ty_timestamp,
       optional ''confirmed_at'' Ty_timestamp, optional ''taxonomy_version'' (Ty_string 32),
       indexed (optional ''category_id'' (Ty_string 96)),
       indexed (optional ''aggregation_key'' (Ty_string 96)),
       indexed (optional ''jurisdiction_id'' (Ty_string 64)),
       optional ''safety_level'' (Ty_string 16), optional ''asset_scope'' (Ty_string 16),
       optional ''disposition'' (Ty_string 40),
       indexed (optional ''review_status'' (Ty_string 32)),
       optional ''policy_version'' (Ty_string 32), optional ''routing_snapshot'' Ty_jsonb,
       optional ''structured_facts'' Ty_jsonb,
       server_default Df_list (mandatory ''transcript_metadata'' Ty_jsonb),
       server_default (Df_int 0) (mandatory ''state_version'' Ty_integer)] @ timestamp_mixin)
      []
      [table_index ''ix_grievances_status'' [''status''] False None,
       table_index ''ix_grievances_created_at'' [''created_at''] False None,
       table_index ''ix_grievances_category_window'' [''category'', ''window_expires_at''] False None,
       table_index ''ix_grievances_lat_lon'' [''location_latitude'', ''location_longitude''] False None,
       table_index ''ix_grievances_jurisdiction_department'' [''jurisdiction_id'', ''department_key''] False None]"

text \<open>\<^verbatim>\<open>class GrievanceEvent\<close>\<close>

definition declared_grievance_events :: sql_table where
  "declared_grievance_events = table_of ''grievance_events''
      [primary_key (mandatory ''id'' Ty_uuid),
       references ''grievances'' ''id'' Cascade (indexed (mandatory ''grievance_id'' Ty_uuid)),
       mandatory ''status'' (Ty_string 32), optional ''note'' Ty_text,
       mandatory ''created_at'' Ty_timestamp]
      []
      []"

text \<open>\<^verbatim>\<open>class User\<close>\<close>

definition declared_users :: sql_table where
  "declared_users = table_of ''users''
     ([primary_key (mandatory ''id'' Ty_uuid), unique_key (mandatory ''phone'' (Ty_string 32)),
       references ''contacts'' ''id'' Set_null (unique_key (optional ''contact_id'' Ty_uuid)),
       optional ''name'' (Ty_string 255)] @ timestamp_mixin)
      []
      []"

text \<open>\<^verbatim>\<open>class PhoneVerification\<close>\<close>

definition declared_phone_verifications :: sql_table where
  "declared_phone_verifications = table_of ''phone_verifications''
      [primary_key (mandatory ''id'' Ty_uuid), mandatory ''phone'' (Ty_string 32),
       indexed (mandatory ''code_hash'' (Ty_string 64)), mandatory ''status'' (Ty_string 16),
       mandatory ''expires_at'' Ty_timestamp, optional ''verified_at'' Ty_timestamp,
       references ''users'' ''id'' Set_null (indexed (optional ''user_id'' Ty_uuid)),
       mandatory ''created_at'' Ty_timestamp]
      []
      [table_index ''ix_phone_verifications_phone_created_at'' [''phone'', ''created_at''] False None]"

text \<open>\<^verbatim>\<open>class RefreshToken\<close>\<close>

definition declared_refresh_tokens :: sql_table where
  "declared_refresh_tokens = table_of ''refresh_tokens''
      [primary_key (mandatory ''id'' Ty_uuid),
       references ''users'' ''id'' Cascade (indexed (mandatory ''user_id'' Ty_uuid)),
       unique_key (mandatory ''token_hash'' (Ty_string 64)),
       mandatory ''expires_at'' Ty_timestamp, optional ''revoked_at'' Ty_timestamp,
       mandatory ''created_at'' Ty_timestamp]
      []
      []"

text \<open>\<^verbatim>\<open>class LoginApprovalChallenge\<close>\<close>

definition declared_login_approval_challenges :: sql_table where
  "declared_login_approval_challenges = table_of ''login_approval_challenges''
      [primary_key (mandatory ''id'' Ty_uuid),
       references ''users'' ''id'' Cascade (indexed (mandatory ''user_id'' Ty_uuid)),
       references ''contacts'' ''id'' Cascade (indexed (mandatory ''contact_id'' Ty_uuid)),
       mandatory ''phone'' (Ty_string 32),
       unique_key (mandatory ''verifier_hash'' (Ty_string 64)),
       mandatory ''browser_nonce_hash'' (Ty_string 64),
       optional ''browser_label'' (Ty_string 128), indexed (mandatory ''status'' (Ty_string 24)),
       mandatory ''requested_at'' Ty_timestamp, indexed (mandatory ''expires_at'' Ty_timestamp),
       optional ''decided_at'' Ty_timestamp, optional ''consumed_at'' Ty_timestamp,
       unique_key (optional ''decision_message_id'' (Ty_string 255)),
       references ''whatsapp_messages'' ''id'' Set_null (indexed (optional ''approval_outbound_message_id'' Ty_uuid)),
       optional ''request_ip_hash'' (Ty_string 64)]
      []
      [table_index ''ix_login_approval_user_status_requested'' [''user_id'', ''status'', ''requested_at''] False None]"

text \<open>\<^verbatim>\<open>class WebhookEvent\<close>\<close>

definition declared_webhook_events :: sql_table where
  "declared_webhook_events = table_of ''webhook_events''
      [primary_key (mandatory ''id'' Ty_uuid), indexed (mandatory ''source'' (Ty_string 64)),
       mandatory ''signature_valid'' Ty_boolean, mandatory ''payload'' Ty_jsonb,
       indexed (mandatory ''created_at'' Ty_timestamp), optional ''processed_at'' Ty_timestamp,
       mandatory ''attempt_count'' Ty_integer, optional ''locked_until'' Ty_timestamp]
      []
      [table_index ''ix_webhook_events_unprocessed'' [''created_at''] False (Some ''processed_at IS NULL'')]"

text \<open>\<^verbatim>\<open>class Jurisdiction\<close>\<close>

definition declared_jurisdictions :: sql_table where
  "declared_jurisdictions = table_of ''jurisdictions''
     ([primary_key (mandatory ''id'' (Ty_string 64)), mandatory ''name'' (Ty_string 255),
       mandatory ''taxonomy_version'' (Ty_string 32),
       server_default (Df_bool True) (mandatory ''is_demo'' Ty_boolean),
       server_default (Df_bool True) (mandatory ''active'' Ty_boolean),
       optional ''geofence'' Ty_jsonb] @ timestamp_mixin)
      []
      []"

text \<open>\<^verbatim>\<open>class JurisdictionRoute\<close>\<close>

definition declared_jurisdiction_routes :: sql_table where
  "declared_jurisdiction_routes = table_of ''jurisdiction_routes''
     ([primary_key (mandatory ''id'' Ty_uuid),
       references ''jurisdictions'' ''id'' Cascade (indexed (mandatory ''jurisdiction_id'' (Ty_string 64))),
       mandatory ''taxonomy_version'' (Ty_string 32), mandatory ''category_id'' (Ty_string 96),
       mandatory ''department_key'' (Ty_string 64), mandatory ''owning_agency'' (Ty_string 255),
       optional ''dispatch_target'' Ty_jsonb,
       server_default (Df_bool False) (mandatory ''dispatch_enabled'' Ty_boolean),
       optional ''sla_hours'' Ty_integer, optional ''source_url'' Ty_text,
       optional ''reviewed_by'' (Ty_string 255), optional ''effective_from'' Ty_timestamp,
       optional ''effective_to'' Ty_timestamp] @ timestamp_mixin)
      [Ct_unique (Named ''uq_jurisdiction_route_version_category'') [''jurisdiction_id'', ''taxonomy_version'', ''category_id'']]
      []"

text \<open>\<^verbatim>\<open>class GrievanceExtraction\<close>\<close>

definition declared_grievance_extractions :: sql_table where
  "declared_grievance_extractions = table_of ''grievance_extractions''
      [primary_key (mandatory ''id'' Ty_uuid),
       references ''grievances'' ''id'' Cascade (indexed (mandatory ''grievance_id'' Ty_uuid)),
       mandatory ''extraction_version'' (Ty_string 32),
       mandatory ''taxonomy_version'' (Ty_string 32), mandatory ''prompt_version'' (Ty_string 32),
       mandatory ''provider'' (Ty_string 32),
       server_default Df_list (mandatory ''requested_models'' Ty_jsonb),
       optional ''actual_model'' (Ty_string 255), mandatory ''status'' (Ty_string 32),
       optional ''latency_ms'' Ty_integer, optional ''raw_response'' Ty_jsonb,
       optional ''normalized_result'' Ty_jsonb, optional ''confidence'' Ty_float,
       server_default (Df_bool True) (mandatory ''needs_review'' Ty_boolean),
       optional ''degradation_reason'' (Ty_string 128), optional ''accepted_at'' Ty_timestamp,
       optional ''accepted_by_type'' (Ty_string 32), optional ''accepted_by_id'' (Ty_string 64),
       mandatory ''created_at'' Ty_timestamp]
      []
      []"

text \<open>\<^verbatim>\<open>class PipelineJob\<close>\<close>

definition declared_pipeline_jobs :: sql_table where
  "declared_pipeline_jobs = table_of ''pipeline_jobs''
     ([primary_key (mandatory ''id'' Ty_uuid),
       references ''grievances'' ''id'' Cascade (indexed (mandatory ''grievance_id'' Ty_uuid)),
       mandatory ''stage'' (Ty_string 32), indexed (mandatory ''status'' (Ty_string 16)),
       unique_key (mandatory ''idempotency_key'' (Ty_string 255)),
       server_default (Df_int 0) (mandatory ''attempt_count'' Ty_integer),
       server_default (Df_int 5) (mandatory ''max_attempts'' Ty_integer),
       mandatory ''next_attempt_at'' Ty_timestamp, optional ''locked_until'' Ty_timestamp,
       optional ''last_error'' Ty_text, server_default Df_object (mandatory ''payload'' Ty_jsonb)] @ timestamp_mixin)
      []
      [table_index ''ix_pipeline_jobs_status_next_attempt'' [''status'', ''next_attempt_at''] False None]"

text \<open>\<^verbatim>\<open>class DispatchOutbox\<close>\<close>

definition declared_dispatch_outbox :: sql_table where
  "declared_dispatch_outbox = table_of ''dispatch_outbox''
     ([primary_key (mandatory ''id'' Ty_uuid),
       references ''grievances'' ''id'' Cascade (indexed (mandatory ''grievance_id'' Ty_uuid)),
       unique_key (mandatory ''idempotency_key'' (Ty_string 255)),
       indexed (mandatory ''status'' (Ty_string 16)), mandatory ''routing_snapshot'' Ty_jsonb,
       server_default (Df_int 0) (mandatory ''attempt_count'' Ty_integer),
       mandatory ''next_attempt_at'' Ty_timestamp, optional ''locked_until'' Ty_timestamp,
       optional ''provider_ref'' (Ty_string 255), optional ''last_error'' Ty_text] @ timestamp_mixin)
      []
      []"

text \<open>\<^verbatim>\<open>class OfficialUser\<close>\<close>

definition declared_official_users :: sql_table where
  "declared_official_users = table_of ''official_users''
     ([primary_key (mandatory ''id'' Ty_uuid), unique_key (mandatory ''email'' (Ty_string 320)),
       mandatory ''name'' (Ty_string 255), mandatory ''role'' (Ty_string 32),
       references ''jurisdictions'' ''id'' Restrict (indexed (mandatory ''jurisdiction_id'' (Ty_string 64))),
       server_default Df_list (mandatory ''department_keys'' Ty_jsonb),
       server_default (Df_bool True) (mandatory ''active'' Ty_boolean),
       optional ''last_login_at'' Ty_timestamp] @ timestamp_mixin)
      []
      [table_index ''uq_official_users_email_lower'' [''lower(email)''] True None]"

text \<open>\<^verbatim>\<open>class OfficialLoginChallenge\<close>\<close>

definition declared_official_login_challenges :: sql_table where
  "declared_official_login_challenges = table_of ''official_login_challenges''
      [primary_key (mandatory ''id'' Ty_uuid),
       references ''official_users'' ''id'' Cascade (indexed (optional ''official_user_id'' Ty_uuid)),
       indexed (mandatory ''email_hash'' (Ty_string 64)), mandatory ''code_hash'' (Ty_string 64),
       mandatory ''expires_at'' Ty_timestamp, optional ''consumed_at'' Ty_timestamp,
       server_default (Df_int 0) (mandatory ''attempt_count'' Ty_integer),
       mandatory ''created_at'' Ty_timestamp]
      []
      []"

text \<open>\<^verbatim>\<open>class OfficialAuditEvent\<close>\<close>

definition declared_official_audit_events :: sql_table where
  "declared_official_audit_events = table_of ''official_audit_events''
      [primary_key (mandatory ''id'' Ty_uuid),
       references ''official_users'' ''id'' Restrict (indexed (mandatory ''official_user_id'' Ty_uuid)),
       references ''grievances'' ''id'' Set_null (indexed (optional ''grievance_id'' Ty_uuid)),
       mandatory ''action'' (Ty_string 64), optional ''reason'' Ty_text,
       optional ''before'' Ty_jsonb, optional ''after'' Ty_jsonb,
       optional ''request_id'' (Ty_string 64), optional ''ip_hash'' (Ty_string 64),
       mandatory ''created_at'' Ty_timestamp]
      []
      []"

definition declared :: "sql_table list" where
  "declared =
    [declared_contacts, declared_whatsapp_messages, declared_conversations,
     declared_fsm_message_consumptions, declared_geocode_cache, declared_external_rate_limits,
     declared_grievances, declared_grievance_events, declared_users, declared_phone_verifications,
     declared_refresh_tokens, declared_login_approval_challenges, declared_webhook_events,
     declared_jurisdictions, declared_jurisdiction_routes, declared_grievance_extractions,
     declared_pipeline_jobs, declared_dispatch_outbox, declared_official_users,
     declared_official_login_challenges, declared_official_audit_events]"

end
