(* ===== verification/Migrations.thy ===== *)
theory Migrations
  imports Declared
begin

text \<open>
  The migration scripts under \<^verbatim>\<open>migrations/versions/\<close>, each as the list of operations of its
  \<^verbatim>\<open>upgrade\<close> and of its \<^verbatim>\<open>downgrade\<close>.
\<close>

section \<open>\<^verbatim>\<open>202606222009_initial_schema.py\<close>\<close>

definition create_contacts :: ddl where
  "create_contacts = Create_table ''contacts''
      [required ''id'' Ty_uuid, required ''wa_id'' (Ty_string 32),
       nullable ''profile_name'' (Ty_string 255), required ''created_at'' Ty_timestamp,
       required ''updated_at'' Ty_timestamp]
      [Ct_primary (Named ''pk_contacts'') [''id''],
       Ct_unique (Named ''uq_contacts_wa_id'') [''wa_id'']]"

definition create_webhook_events :: ddl where
  "create_webhook_events = Create_table ''webhook_events''
      [required ''id'' Ty_uuid, required ''source'' (Ty_string 64),
       required ''signature_valid'' Ty_boolean, required ''payload'' Ty_jsonb,
       required ''created_at'' Ty_timestamp, nullable ''processed_at'' Ty_timestamp]
      [Ct_primary (Named ''pk_webhook_events'') [''id'']]"

definition upgrade_initial_1 :: "ddl list" where
  "upgrade_initial_1 =
    [Alter ''webhook_events''
       (Create_index ''ix_webhook_events_created_at'' [''created_at''] False None),
     Alter ''webhook_events''
       (Create_index ''ix_webhook_events_source'' [''source''] False None)]"

definition create_whatsapp_messages :: ddl where
  "create_whatsapp_messages = Create_table ''whatsapp_messages''
      [required ''id'' Ty_uuid, nullable ''contact_id'' Ty_uuid,
       nullable ''meta_message_id'' (Ty_string 255), required ''direction'' (Ty_string 16),
       required ''message_type'' (Ty_string 64), nullable ''text_body'' Ty_text,
       nullable ''media_id'' (Ty_string 255), nullable ''media_mime_type'' (Ty_string 255),
       nullable ''location_latitude'' Ty_float, nullable ''location_longitude'' Ty_float,
       nullable ''location_name'' (Ty_string 255), nullable ''location_address'' Ty_text,
       nullable ''location_url'' Ty_text, required ''raw_payload'' Ty_jsonb,
       required ''received_at'' Ty_timestamp, required ''created_at'' Ty_timestamp,
       required ''updated_at'' Ty_timestamp]
      [Ct_foreign (Named ''fk_whatsapp_messages_contact_id_contacts'') [''contact_id''] ''contacts'' [''id''] Set_null,
       Ct_primary (Named ''pk_whatsapp_messages'') [''id''],
       Ct_unique (Named ''uq_whatsapp_messages_meta_message_id'') [''meta_message_id'']]"

definition upgrade_initial_2 :: "ddl list" where
  "upgrade_initial_2 =
    [Alter ''whatsapp_messages''
       (Create_index ''ix_whatsapp_messages_contact_id'' [''contact_id''] False None),
     Alter ''whatsapp_messages''
       (Create_index ''ix_whatsapp_messages_received_at'' [''received_at''] False None)]"

definition upgrade_initial :: "ddl list" where
  "upgrade_initial =
    [create_contacts] @ [create_webhook_events] @ upgrade_initial_1 @
    [create_whatsapp_messages] @ upgrade_initial_2"

definition downgrade_initial :: "ddl list" where
  "downgrade_initial =
    [Alter ''whatsapp_messages'' (Drop_index ''ix_whatsapp_messages_received_at''),
     Alter ''whatsapp_messages'' (Drop_index ''ix_whatsapp_messages_contact_id''),
     Drop_table ''whatsapp_messages'',
     Alter ''webhook_events'' (Drop_index ''ix_webhook_events_source''),
     Alter ''webhook_events'' (Drop_index ''ix_webhook_events_created_at''),
     Drop_table ''webhook_events'',
     Drop_table ''contacts'']"

section \<open>\<^verbatim>\<open>202606251200_conversation_engine.py\<close>\<close>

definition create_conversations :: ddl where
  "create_conversations = Create_table ''conversations''
      [required ''id'' Ty_uuid, required ''contact_id'' Ty_uuid,
       required ''state'' (Ty_string 32), required ''context'' Ty_jsonb,
       required ''state_version'' Ty_integer, required ''active'' Ty_boolean,
       nullable ''last_user_message_at'' Ty_timestamp,
       nullable ''service_window_expires_at'' Ty_timestamp, nullable ''expires_at'' Ty_timestamp,
       required ''created_at'' Ty_timestamp, required ''updated_at'' Ty_timestamp]
      [Ct_foreign (Named ''fk_conversations_contact_id_contacts'') [''contact_id''] ''contacts'' [''id''] Cascade,
       Ct_primary (Named ''pk_conversations'') [''id'']]"

definition upgrade_conversations_1 :: "ddl list" where
  "upgrade_conversations_1 =
    [Alter ''conversations''
       (Create_index ''ix_conversations_contact_id'' [''contact_id''] False None),
     Alter ''conversations''
       (Create_index ''uq_conversations_active_contact'' [''contact_id''] True (Some ''active''))]"

definition create_fsm_message_consumptions :: ddl where
  "create_fsm_message_consumptions = Create_table ''fsm_message_consumptions''
      [required ''id'' Ty_uuid, required ''inbound_message_id'' (Ty_string 255),
       nullable ''conversation_id'' Ty_uuid, nullable ''state_before'' (Ty_string 32),
       nullable ''state_after'' (Ty_string 32), required ''created_at'' Ty_timestamp]
      [Ct_foreign (Named ''fk_fsm_message_consumptions_conversation_id_conversations'') [''conversation_id''] ''conversations'' [''id''] Set_null,
       Ct_primary (Named ''pk_fsm_message_consumptions'') [''id''],
       Ct_unique (Named ''uq_fsm_message_consumptions_inbound_message_id'') [''inbound_message_id'']]"

definition upgrade_conversations_2 :: "ddl list" where
  "upgrade_conversations_2 =
    [Alter ''fsm_message_consumptions''
       (Create_index ''ix_fsm_message_consumptions_conversation_id'' [''conversation_id''] False None)]"

definition create_geocode_cache :: ddl where
  "create_geocode_cache = Create_table ''geocode_cache''
      [required ''provider'' (Ty_string 32), required ''lat_round'' Ty_float,
       required ''lon_round'' Ty_float, required ''accept_language'' (Ty_string 32),
       required ''status'' (Ty_string 16), nullable ''display_address'' Ty_text,
       nullable ''address_components'' Ty_jsonb, nullable ''raw'' Ty_jsonb,
       required ''created_at'' Ty_timestamp]
      [Ct_primary (Named ''pk_geocode_cache'') [''provider'', ''lat_round'', ''lon_round'', ''accept_language'']]"

definition create_external_rate_limits :: ddl where
  "create_external_rate_limits = Create_table ''external_rate_limits''
      [required ''provider'' (Ty_string 64), required ''next_allowed_at'' Ty_timestamp]
      [Ct_primary (Named ''pk_external_rate_limits'') [''provider'']]"

definition upgrade_conversations_3 :: "ddl list" where
  "upgrade_conversations_3 =
    [Alter ''whatsapp_messages'' (Add_column (nullable ''reply_id'' (Ty_string 256))),
     Alter ''whatsapp_messages'' (Add_column (nullable ''interactive_type'' (Ty_string 32))),
     Alter ''whatsapp_messages'' (Add_column (nullable ''button_payload'' Ty_text)),
     Alter ''whatsapp_messages'' (Add_column (nullable ''context_message_id'' (Ty_string 255))),
     Alter ''whatsapp_messages'' (Add_column (with_default ''status'' (Ty_string 16) (Df_text ''received''))),
     Alter ''whatsapp_messages'' (Drop_default ''status''),
     Alter ''whatsapp_messages'' (Add_column (nullable ''idempotency_key'' (Ty_string 255))),
     Alter ''whatsapp_messages'' (Add_column (nullable ''reply_kind'' (Ty_string 32))),
     Alter ''whatsapp_messages'' (Add_column (nullable ''conversation_id'' Ty_uuid)),
     Alter ''whatsapp_messages'' (Add_column (nullable ''in_response_to_message_id'' (Ty_string 255))),
     Alter ''whatsapp_messages'' (Add_column (nullable ''locked_until'' Ty_timestamp)),
     Alter ''whatsapp_messages'' (Add_column (with_default ''attempt_count'' Ty_integer (Df_int 0))),
     Alter ''whatsapp_messages'' (Drop_default ''attempt_count''),
     Alter ''whatsapp_messages''
       (Create_constraint (Ct_unique (Named ''uq_whatsapp_messages_idempotency_key'') [''idempotency_key''])),
     Alter ''whatsapp_messages''
       (Create_index ''ix_whatsapp_messages_conversation_id'' [''conversation_id''] False None),
     Alter ''whatsapp_messages''
       (Create_constraint (Ct_foreign (Named ''fk_whatsapp_messages_conversation_id_conversations'') [''conversation_id''] ''conversations'' [''id''] Set_null))]"

definition upgrade_conversations :: "ddl list" where
  "upgrade_conversations =
    [create_conversations] @ upgrade_conversations_1 @ [create_fsm_message_consumptions] @
    upgrade_conversations_2 @ [create_geocode_cache] @ [create_external_rate_limits] @
    upgrade_conversations_3"

definition downgrade_conversations :: "ddl list" where
  "downgrade_conversations =
    [Alter ''whatsapp_messages'' (Drop_constraint ''fk_whatsapp_messages_conversation_id_conversations''),
     Alter ''whatsapp_messages'' (Drop_index ''ix_whatsapp_messages_conversation_id''),
     Alter ''whatsapp_messages'' (Drop_constraint ''uq_whatsapp_messages_idempotency_key''),
     Alter ''whatsapp_messages'' (Drop_column ''attempt_count''),
     Alter ''whatsapp_messages'' (Drop_column ''locked_until''),
     Alter ''whatsapp_messages'' (Drop_column ''in_response_to_message_id''),
     Alter ''whatsapp_messages'' (Drop_column ''conversation_id''),
     Alter ''whatsapp_messages'' (Drop_column ''reply_kind''),
     Alter ''whatsapp_messages'' (Drop_column ''idempotency_key''),
     Alter ''whatsapp_messages'' (Drop_column ''status''),
     Alter ''whatsapp_messages'' (Drop_column ''context_message_id''),
     Alter ''whatsapp_messages'' (Drop_column ''button_payload''),
     Alter ''whatsapp_messages'' (Drop_column ''interactive_type''),
     Alter ''whatsapp_messages'' (Drop_column ''reply_id''),
     Drop_table ''external_rate_limits'',
     Drop_table ''geocode_cache'',
     Alter ''fsm_message_consumptions'' (Drop_index ''ix_fsm_message_consumptions_conversation_id''),
     Drop_table ''fsm_message_consumptions'',
     Alter ''conversations'' (Drop_index ''uq_conversations_active_contact''),
     Alter ''conversations'' (Drop_index ''ix_conversations_contact_id''),
     Drop_table ''conversations'']"

section \<open>\<^verbatim>\<open>202606251529_grievances.py\<close>\<close>

definition upgrade_grievances_1 :: "ddl list" where
  "upgrade_grievances_1 =
    [Create_sequence ''grievance_human_seq'']"

definition create_grievances :: ddl where
  "create_grievances = Create_table ''grievances''
      [required ''id'' Ty_uuid, required ''human_id'' (Ty_string 32),
       required ''contact_id'' Ty_uuid, nullable ''conversation_id'' Ty_uuid,
       nullable ''location_latitude'' Ty_float, nullable ''location_longitude'' Ty_float,
       nullable ''location_address'' Ty_text, required ''issue_message_ids'' Ty_jsonb,
       nullable ''issue_text'' Ty_text, nullable ''photo_media_id'' (Ty_string 255),
       required ''status'' (Ty_string 16), required ''created_at'' Ty_timestamp,
       required ''updated_at'' Ty_timestamp]
      [Ct_foreign (Named ''fk_grievances_contact_id_contacts'') [''contact_id''] ''contacts'' [''id''] Cascade,
       Ct_foreign (Named ''fk_grievances_conversation_id_conversations'') [''conversation_id''] ''conversations'' [''id''] Set_null,
       Ct_primary (Named ''pk_grievances'') [''id''],
       Ct_unique (Named ''uq_grievances_conversation_id'') [''conversation_id''],
       Ct_unique (Named ''uq_grievances_human_id'') [''human_id'']]"

definition upgrade_grievances_2 :: "ddl list" where
  "upgrade_grievances_2 =
    [Alter ''grievances''
       (Create_index ''ix_grievances_contact_id'' [''contact_id''] False None)]"

definition upgrade_grievances :: "ddl list" where
  "upgrade_grievances =
    upgrade_grievances_1 @ [create_grievances] @ upgrade_grievances_2"

definition downgrade_grievances :: "ddl list" where
  "downgrade_grievances =
    [Alter ''grievances'' (Drop_index ''ix_grievances_contact_id''),
     Drop_table ''grievances'',
     Drop_sequence ''grievance_human_seq'']"

section \<open>\<^verbatim>\<open>202607061627_pipeline_auth_schema_and_hardening.py\<close>\<close>

definition create_users :: ddl where
  "create_users = Create_table ''users''
      [required ''id'' Ty_uuid, required ''phone'' (Ty_string 32),
       nullable ''contact_id'' Ty_uuid, nullable ''name'' (Ty_string 255),
       required ''created_at'' Ty_timestamp, required ''updated_at'' Ty_timestamp]
      [Ct_foreign (Named ''fk_users_contact_id_contacts'') [''contact_id''] ''contacts'' [''id''] Set_null,
       Ct_primary (Named ''pk_users'') [''id''],
       Ct_unique (Named ''uq_users_contact_id'') [''contact_id''],
       Ct_unique (Named ''uq_users_phone'') [''phone'']]"

definition create_phone_verifications :: ddl where
  "create_phone_verifications = Create_table ''phone_verifications''
      [required ''id'' Ty_uuid, required ''phone'' (Ty_string 32),
       required ''code_hash'' (Ty_string 64), required ''status'' (Ty_string 16),
       required ''expires_at'' Ty_timestamp, nullable ''verified_at'' Ty_timestamp,
       nullable ''user_id'' Ty_uuid, required ''created_at'' Ty_timestamp]
      [Ct_foreign (Named ''fk_phone_verifications_user_id_users'') [''user_id''] ''users'' [''id''] Set_null,
       Ct_primary (Named ''pk_phone_verifications'') [''id'']]"

definition upgrade_hardening_1 :: "ddl list" where
  "upgrade_hardening_1 =
    [Alter ''phone_verifications''
       (Create_index ''ix_phone_verifications_code_hash'' [''code_hash''] False None),
     Alter ''phone_verifications''
       (Create_index ''ix_phone_verifications_phone_created_at'' [''phone'', ''created_at''] False None)]"

definition create_refresh_tokens :: ddl where
  "create_refresh_tokens = Create_table ''refresh_tokens''
      [required ''id'' Ty_uuid, required ''user_id'' Ty_uuid,
       required ''token_hash'' (Ty_string 64), required ''expires_at'' Ty_timestamp,
       nullable ''revoked_at'' Ty_timestamp, required ''created_at'' Ty_timestamp]
      [Ct_foreign (Named ''fk_refresh_tokens_user_id_users'') [''user_id''] ''users'' [''id''] Cascade,
       Ct_primary (Named ''pk_refresh_tokens'') [''id''],
       Ct_unique (Named ''uq_refresh_tokens_token_hash'') [''token_hash'']]"

definition upgrade_hardening_2 :: "ddl list" where
  "upgrade_hardening_2 =
    [Alter ''refresh_tokens''
       (Create_index ''ix_refresh_tokens_user_id'' [''user_id''] False None)]"

definition create_grievance_events :: ddl where
  "create_grievance_events = Create_table ''grievance_events''
      [required ''id'' Ty_uuid, required ''grievance_id'' Ty_uuid,
       required ''status'' (Ty_string 32), nullable ''note'' Ty_text,
       required ''created_at'' Ty_timestamp]
      [Ct_foreign (Named ''fk_grievance_events_grievance_id_grievances'') [''grievance_id''] ''grievances'' [''id''] Cascade,
       Ct_primary (Named ''pk_grievance_events'') [''id'']]"

definition upgrade_hardening_3 :: "ddl list" where
  "upgrade_hardening_3 =
    [Alter ''grievance_events''
       (Create_index ''ix_grievance_events_grievance_id'' [''grievance_id''] False None),
     Alter ''grievances'' (Add_column (nullable ''user_id'' Ty_uuid)),
     Alter ''grievances'' (Add_column (with_default ''source'' (Ty_string 16) (Df_text ''whatsapp''))),
     Alter ''grievances'' (Drop_default ''source''),
     Alter ''grievances'' (Add_column (with_default ''issue_messages'' Ty_jsonb Df_list)),
     Alter ''grievances'' (Drop_default ''issue_messages''),
     Alter ''grievances'' (Add_column (nullable ''source_language'' (Ty_string 16))),
     Alter ''grievances'' (Add_column (nullable ''photo_path'' Ty_text)),
     Alter ''grievances'' (Add_column (with_default ''audio_paths'' Ty_jsonb Df_list)),
     Alter ''grievances'' (Drop_default ''audio_paths''),
     Alter ''grievances'' (Add_column (nullable ''pdf_path'' Ty_text)),
     Alter ''grievances'' (Add_column (nullable ''category'' (Ty_string 64))),
     Alter ''grievances'' (Add_column (nullable ''department_key'' (Ty_string 64))),
     Alter ''grievances'' (Add_column (nullable ''priority'' (Ty_string 16))),
     Alter ''grievances'' (Add_column (nullable ''term'' (Ty_string 16))),
     Alter ''grievances'' (Add_column (nullable ''confidence'' Ty_float)),
     Alter ''grievances'' (Add_column (nullable ''image_match_status'' (Ty_string 16))),
     Alter ''grievances'' (Add_column (with_default ''flags'' Ty_jsonb Df_list)),
     Alter ''grievances'' (Drop_default ''flags''),
     Alter ''grievances'' (Add_column (with_default ''report_count'' Ty_integer (Df_int 1))),
     Alter ''grievances'' (Drop_default ''report_count''),
     Alter ''grievances'' (Add_column (nullable ''duplicate_of_id'' Ty_uuid)),
     Alter ''grievances'' (Add_column (nullable ''window_expires_at'' Ty_timestamp)),
     Alter ''grievances'' (Add_column (nullable ''dispatch_ref'' (Ty_string 255))),
     Alter ''grievances'' (Add_column (with_default ''dispatch_attempts'' Ty_integer (Df_int 0))),
     Alter ''grievances'' (Drop_default ''dispatch_attempts''),
     Alter ''grievances'' (Add_column (nullable ''drafted_at'' Ty_timestamp)),
     Alter ''grievances'' (Add_column (nullable ''confirmed_at'' Ty_timestamp)),
     Alter ''grievances'' (Alter_type ''status'' (Ty_string 32)),
     Alter ''grievances''
       (Create_index ''ix_grievances_category_window'' [''category'', ''window_expires_at''] False None),
     Alter ''grievances''
       (Create_index ''ix_grievances_created_at'' [''created_at''] False None),
     Alter ''grievances''
       (Create_index ''ix_grievances_duplicate_of_id'' [''duplicate_of_id''] False None)]"

definition upgrade_hardening_4 :: "ddl list" where
  "upgrade_hardening_4 =
    [Alter ''grievances''
       (Create_index ''ix_grievances_lat_lon'' [''location_latitude'', ''location_longitude''] False None),
     Alter ''grievances''
       (Create_index ''ix_grievances_status'' [''status''] False None),
     Alter ''grievances''
       (Create_index ''ix_grievances_user_id'' [''user_id''] False None),
     Alter ''grievances''
       (Create_constraint (Ct_foreign (Named ''fk_grievances_duplicate_of_id_grievances'') [''duplicate_of_id''] ''grievances'' [''id''] Set_null)),
     Alter ''grievances''
       (Create_constraint (Ct_foreign (Named ''fk_grievances_user_id_users'') [''user_id''] ''users'' [''id''] Set_null)),
     Alter ''grievances'' (Drop_column ''issue_message_ids''),
     Alter ''webhook_events'' (Add_column (with_default ''attempt_count'' Ty_integer (Df_int 0))),
     Alter ''webhook_events'' (Drop_default ''attempt_count''),
     Alter ''webhook_events'' (Add_column (nullable ''locked_until'' Ty_timestamp))]"

definition upgrade_hardening :: "ddl list" where
  "upgrade_hardening =
    [create_users] @ [create_phone_verifications] @ upgrade_hardening_1 @
    [create_refresh_tokens] @ upgrade_hardening_2 @ [create_grievance_events] @
    upgrade_hardening_3 @ upgrade_hardening_4"

definition downgrade_hardening :: "ddl list" where
  "downgrade_hardening =
    [Alter ''webhook_events'' (Drop_column ''locked_until''),
     Alter ''webhook_events'' (Drop_column ''attempt_count''),
     Alter ''grievances'' (Add_column (with_default ''issue_message_ids'' Ty_jsonb Df_list)),
     Alter ''grievances'' (Drop_default ''issue_message_ids''),
     Alter ''grievances'' (Drop_constraint ''fk_grievances_user_id_users''),
     Alter ''grievances'' (Drop_constraint ''fk_grievances_duplicate_of_id_grievances''),
     Alter ''grievances'' (Drop_index ''ix_grievances_user_id''),
     Alter ''grievances'' (Drop_index ''ix_grievances_status''),
     Alter ''grievances'' (Drop_index ''ix_grievances_lat_lon''),
     Alter ''grievances'' (Drop_index ''ix_grievances_duplicate_of_id''),
     Alter ''grievances'' (Drop_index ''ix_grievances_created_at''),
     Alter ''grievances'' (Drop_index ''ix_grievances_category_window''),
     Alter ''grievances'' (Alter_type ''status'' (Ty_string 16)),
     Alter ''grievances'' (Drop_column ''confirmed_at''),
     Alter ''grievances'' (Drop_column ''drafted_at''),
     Alter ''grievances'' (Drop_column ''dispatch_attempts''),
     Alter ''grievances'' (Drop_column ''dispatch_ref''),
     Alter ''grievances'' (Drop_column ''window_expires_at''),
     Alter ''grievances'' (Drop_column ''duplicate_of_id''),
     Alter ''grievances'' (Drop_column ''report_count''),
     Alter ''grievances'' (Drop_column ''flags''),
     Alter ''grievances'' (Drop_column ''image_match_status''),
     Alter ''grievances'' (Drop_column ''confidence''),
     Alter ''grievances'' (Drop_column ''term''),
     Alter ''grievances'' (Drop_column ''priority''),
     Alter ''grievances'' (Drop_column ''department_key''),
     Alter ''grievances'' (Drop_column ''category''),
     Alter ''grievances'' (Drop_column ''pdf_path''),
     Alter ''grievances'' (Drop_column ''audio_paths''),
     Alter ''grievances'' (Drop_column ''photo_path''),
     Alter ''grievances'' (Drop_column ''source_language''),
     Alter ''grievances'' (Drop_column ''issue_messages''),
     Alter ''grievances'' (Drop_column ''source''),
     Alter ''grievances'' (Drop_column ''user_id''),
     Alter ''grievance_events'' (Drop_index ''ix_grievance_events_grievance_id''),
     Drop_table ''grievance_events'',
     Alter ''refresh_tokens'' (Drop_index ''ix_refresh_tokens_user_id''),
     Drop_table ''refresh_tokens'',
     Alter ''phone_verifications'' (Drop_index ''ix_phone_verifications_phone_created_at''),
     Alter ''phone_verifications'' (Drop_index ''ix_phone_verifications_code_hash''),
     Drop_table ''phone_verifications'',
     Drop_table ''users'']"

section \<open>\<^verbatim>\<open>202607151400_intelligence_and_official_ops.py\<close>\<close>

definition create_jurisdictions :: ddl where
  "create_jurisdictions = Create_table ''jurisdictions''
      [required ''id'' (Ty_string 64), required ''name'' (Ty_string 255),
       required ''taxonomy_version'' (Ty_string 32),
       with_default ''is_demo'' Ty_boolean (Df_bool True),
       with_default ''active'' Ty_boolean (Df_bool True), nullable ''geofence'' Ty_jsonb,
       required ''created_at'' Ty_timestamp, required ''updated_at'' Ty_timestamp]
      [Ct_primary Conventional [''id'']]"

definition create_jurisdiction_routes :: ddl where
  "create_jurisdiction_routes = Create_table ''jurisdiction_routes''
      [required ''id'' Ty_uuid, required ''jurisdiction_id'' (Ty_string 64),
       required ''taxonomy_version'' (Ty_string 32), required ''category_id'' (Ty_string 96),
       required ''department_key'' (Ty_string 64), required ''owning_agency'' (Ty_string 255),
       nullable ''dispatch_target'' Ty_jsonb,
       with_default ''dispatch_enabled'' Ty_boolean (Df_bool False),
       nullable ''sla_hours'' Ty_integer, nullable ''source_url'' Ty_text,
       nullable ''reviewed_by'' (Ty_string 255), nullable ''effective_from'' Ty_timestamp,
       nullable ''effective_to'' Ty_timestamp, required ''created_at'' Ty_timestamp,
       required ''updated_at'' Ty_timestamp]
      [Ct_primary Conventional [''id''],
       Ct_foreign Conventional [''jurisdiction_id''] ''jurisdictions'' [''id''] Cascade,
       Ct_unique (Named ''uq_jurisdiction_route_version_category'') [''jurisdiction_id'', ''taxonomy_version'', ''category_id'']]"

definition upgrade_officials_1 :: "ddl list" where
  "upgrade_officials_1 =
    [Alter ''jurisdiction_routes''
       (Create_index ''ix_jurisdiction_routes_jurisdiction_id'' [''jurisdiction_id''] False None)]"

definition officials_columns :: "sql_column list" where
  "officials_columns =
    [nullable ''taxonomy_version'' (Ty_string 32), nullable ''category_id'' (Ty_string 96),
     nullable ''aggregation_key'' (Ty_string 96), nullable ''jurisdiction_id'' (Ty_string 64),
     nullable ''safety_level'' (Ty_string 16), nullable ''asset_scope'' (Ty_string 16),
     nullable ''disposition'' (Ty_string 40), nullable ''review_status'' (Ty_string 32),
     nullable ''policy_version'' (Ty_string 32), nullable ''routing_snapshot'' Ty_jsonb,
     nullable ''structured_facts'' Ty_jsonb,
     with_default ''transcript_metadata'' Ty_jsonb Df_list,
     with_default ''state_version'' Ty_integer (Df_int 0)]"

definition upgrade_officials_2 :: "ddl list" where
  "upgrade_officials_2 =
    map (\<lambda>c. Alter ''grievances'' (Add_column c)) officials_columns"

definition upgrade_officials_3 :: "ddl list" where
  "upgrade_officials_3 =
    map (\<lambda>c. Alter ''grievances'' (Create_index (''ix_grievances_'' @ c) [c] False None))
     [''category_id'', ''aggregation_key'', ''jurisdiction_id'', ''review_status'']"

definition create_grievance_extractions :: ddl where
  "create_grievance_extractions = Create_table ''grievance_extractions''
      [required ''id'' Ty_uuid, required ''grievance_id'' Ty_uuid,
       required ''extraction_version'' (Ty_string 32),
       required ''taxonomy_version'' (Ty_string 32), required ''prompt_version'' (Ty_string 32),
       required ''provider'' (Ty_string 32), with_default ''requested_models'' Ty_jsonb Df_list,
       nullable ''actual_model'' (Ty_string 255), required ''status'' (Ty_string 32),
       nullable ''latency_ms'' Ty_integer, nullable ''raw_response'' Ty_jsonb,
       nullable ''normalized_result'' Ty_jsonb, nullable ''confidence'' Ty_float,
       with_default ''needs_review'' Ty_boolean (Df_bool True),
       nullable ''degradation_reason'' (Ty_string 128), nullable ''accepted_at'' Ty_timestamp,
       nullable ''accepted_by_type'' (Ty_string 32), nullable ''accepted_by_id'' (Ty_string 64),
       required ''created_at'' Ty_timestamp]
      [Ct_primary Conventional [''id''],
       Ct_foreign Conventional [''grievance_id''] ''grievances'' [''id''] Cascade]"

definition upgrade_officials_4 :: "ddl list" where
  "upgrade_officials_4 =
    [Alter ''grievance_extractions''
       (Create_index ''ix_grievance_extractions_grievance_id'' [''grievance_id''] False None)]"

definition create_pipeline_jobs :: ddl where
  "create_pipeline_jobs = Create_table ''pipeline_jobs''
      [required ''id'' Ty_uuid, required ''grievance_id'' Ty_uuid,
       required ''stage'' (Ty_string 32), required ''status'' (Ty_string 16),
       required ''idempotency_key'' (Ty_string 255),
       with_default ''attempt_count'' Ty_integer (Df_int 0),
       with_default ''max_attempts'' Ty_integer (Df_int 5),
       required ''next_attempt_at'' Ty_timestamp, nullable ''locked_until'' Ty_timestamp,
       nullable ''last_error'' Ty_text, with_default ''payload'' Ty_jsonb Df_object,
       required ''created_at'' Ty_timestamp, required ''updated_at'' Ty_timestamp]
      [Ct_primary Conventional [''id''], Ct_unique Conventional [''idempotency_key''],
       Ct_foreign Conventional [''grievance_id''] ''grievances'' [''id''] Cascade]"

definition upgrade_officials_5 :: "ddl list" where
  "upgrade_officials_5 =
    [Alter ''pipeline_jobs''
       (Create_index ''ix_pipeline_jobs_grievance_id'' [''grievance_id''] False None),
     Alter ''pipeline_jobs''
       (Create_index ''ix_pipeline_jobs_status'' [''status''] False None)]"

definition create_dispatch_outbox :: ddl where
  "create_dispatch_outbox = Create_table ''dispatch_outbox''
      [required ''id'' Ty_uuid, required ''grievance_id'' Ty_uuid,
       required ''idempotency_key'' (Ty_string 255), required ''status'' (Ty_string 16),
       required ''routing_snapshot'' Ty_jsonb,
       with_default ''attempt_count'' Ty_integer (Df_int 0),
       required ''next_attempt_at'' Ty_timestamp, nullable ''locked_until'' Ty_timestamp,
       nullable ''provider_ref'' (Ty_string 255), nullable ''last_error'' Ty_text,
       required ''created_at'' Ty_timestamp, required ''updated_at'' Ty_timestamp]
      [Ct_primary Conventional [''id''], Ct_unique Conventional [''idempotency_key''],
       Ct_foreign Conventional [''grievance_id''] ''grievances'' [''id''] Cascade]"

definition upgrade_officials_6 :: "ddl list" where
  "upgrade_officials_6 =
    [Alter ''dispatch_outbox''
       (Create_index ''ix_dispatch_outbox_grievance_id'' [''grievance_id''] False None),
     Alter ''dispatch_outbox''
       (Create_index ''ix_dispatch_outbox_status'' [''status''] False None)]"

definition create_official_users :: ddl where
  "create_official_users = Create_table ''official_users''
      [required ''id'' Ty_uuid, required ''email'' (Ty_string 320),
       required ''name'' (Ty_string 255), required ''role'' (Ty_string 32),
       required ''jurisdiction_id'' (Ty_string 64),
       with_default ''department_keys'' Ty_jsonb Df_list,
       with_default ''active'' Ty_boolean (Df_bool True), nullable ''last_login_at'' Ty_timestamp,
       required ''created_at'' Ty_timestamp, required ''updated_at'' Ty_timestamp]
      [Ct_primary Conventional [''id''], Ct_unique Conventional [''email''],
       Ct_foreign Conventional [''jurisdiction_id''] ''jurisdictions'' [''id''] Restrict]"

definition upgrade_officials_7 :: "ddl list" where
  "upgrade_officials_7 =
    [Alter ''official_users''
       (Create_index ''ix_official_users_jurisdiction_id'' [''jurisdiction_id''] False None)]"

definition create_official_login_challenges :: ddl where
  "create_official_login_challenges = Create_table ''official_login_challenges''
      [required ''id'' Ty_uuid, nullable ''official_user_id'' Ty_uuid,
       required ''email_hash'' (Ty_string 64), required ''code_hash'' (Ty_string 64),
       required ''expires_at'' Ty_timestamp, nullable ''consumed_at'' Ty_timestamp,
       with_default ''attempt_count'' Ty_integer (Df_int 0), required ''created_at'' Ty_timestamp]
      [Ct_primary Conventional [''id''],
       Ct_foreign Conventional [''official_user_id''] ''official_users'' [''id''] Cascade]"

definition upgrade_officials_8 :: "ddl list" where
  "upgrade_officials_8 =
    [Alter ''official_login_challenges''
       (Create_index ''ix_official_login_challenges_official_user_id'' [''official_user_id''] False None),
     Alter ''official_login_challenges''
       (Create_index ''ix_official_login_challenges_email_hash'' [''email_hash''] False None)]"

definition create_official_audit_events :: ddl where
  "create_official_audit_events = Create_table ''official_audit_events''
      [required ''id'' Ty_uuid, required ''official_user_id'' Ty_uuid,
       nullable ''grievance_id'' Ty_uuid, required ''action'' (Ty_string 64),
       nullable ''reason'' Ty_text, nullable ''before'' Ty_jsonb, nullable ''after'' Ty_jsonb,
       nullable ''request_id'' (Ty_string 64), nullable ''ip_hash'' (Ty_string 64),
       required ''created_at'' Ty_timestamp]
      [Ct_primary Conventional [''id''],
       Ct_foreign Conventional [''official_user_id''] ''official_users'' [''id''] Restrict,
       Ct_foreign Conventional [''grievance_id''] ''grievances'' [''id''] Set_null]"

definition upgrade_officials_9 :: "ddl list" where
  "upgrade_officials_9 =
    [Alter ''official_audit_events''
       (Create_index ''ix_official_audit_events_official_user_id'' [''official_user_id''] False None),
     Alter ''official_audit_events''
       (Create_index ''ix_official_audit_events_grievance_id'' [''grievance_id''] False None),
     Alter ''jurisdictions'' (Insert_row
       [(''id'', Cl_text ''demo-ulb''),
        (''name'', Cl_text ''Demo Municipal Corporation (non-production)''),
        (''taxonomy_version'', Cl_text ''2026-07-v2''), (''is_demo'', Cl_other),
        (''active'', Cl_other), (''created_at'', Cl_other), (''updated_at'', Cl_other)]),
     Alter ''official_users'' (Insert_row
       [(''id'', Cl_text ''00000000-0000-4000-8000-000000000001''),
        (''email'', Cl_text ''demo-official@example.com''),
        (''name'', Cl_text ''Demo Triage Officer''), (''role'', Cl_text ''supervisor''),
        (''jurisdiction_id'', Cl_text ''demo-ulb''), (''department_keys'', Cl_other),
        (''active'', Cl_other), (''created_at'', Cl_other), (''updated_at'', Cl_other)])]"

definition upgrade_officials :: "ddl list" where
  "upgrade_officials =
    [create_jurisdictions] @ [create_jurisdiction_routes] @ upgrade_officials_1 @
    upgrade_officials_2 @ upgrade_officials_3 @ [create_grievance_extractions] @
    upgrade_officials_4 @ [create_pipeline_jobs] @ upgrade_officials_5 @
    [create_dispatch_outbox] @ upgrade_officials_6 @ [create_official_users] @
    upgrade_officials_7 @ [create_official_login_challenges] @ upgrade_officials_8 @
    [create_official_audit_events] @ upgrade_officials_9"

definition downgrade_officials_1 :: "ddl list" where
  "downgrade_officials_1 =
    map Drop_table
     [''official_audit_events'', ''official_login_challenges'', ''official_users'',
      ''dispatch_outbox'', ''pipeline_jobs'', ''grievance_extractions'', ''jurisdiction_routes'']"

definition downgrade_officials_2 :: "ddl list" where
  "downgrade_officials_2 =
    map (\<lambda>c. Alter ''grievances'' (Drop_column c))
     [''state_version'', ''transcript_metadata'', ''structured_facts'', ''routing_snapshot'',
      ''policy_version'', ''review_status'', ''disposition'', ''asset_scope'', ''safety_level'',
      ''jurisdiction_id'', ''aggregation_key'', ''category_id'', ''taxonomy_version'']"

definition downgrade_officials_3 :: "ddl list" where
  "downgrade_officials_3 =
    [Drop_table ''jurisdictions'']"

definition downgrade_officials :: "ddl list" where
  "downgrade_officials =
    downgrade_officials_1 @ downgrade_officials_2 @ downgrade_officials_3"

section \<open>\<^verbatim>\<open>202607151600_whatsapp_login_approval.py\<close>\<close>

definition create_login_approval_challenges :: ddl where
  "create_login_approval_challenges = Create_table ''login_approval_challenges''
      [required ''id'' Ty_uuid, required ''user_id'' Ty_uuid, required ''contact_id'' Ty_uuid,
       required ''phone'' (Ty_string 32), required ''verifier_hash'' (Ty_string 64),
       required ''browser_nonce_hash'' (Ty_string 64), nullable ''browser_label'' (Ty_string 128),
       required ''status'' (Ty_string 24), required ''requested_at'' Ty_timestamp,
       required ''expires_at'' Ty_timestamp, nullable ''decided_at'' Ty_timestamp,
       nullable ''consumed_at'' Ty_timestamp, nullable ''decision_message_id'' (Ty_string 255),
       nullable ''approval_outbound_message_id'' Ty_uuid,
       nullable ''request_ip_hash'' (Ty_string 64)]
      [Ct_foreign Conventional [''approval_outbound_message_id''] ''whatsapp_messages'' [''id''] Set_null,
       Ct_foreign Conventional [''contact_id''] ''contacts'' [''id''] Cascade,
       Ct_foreign Conventional [''user_id''] ''users'' [''id''] Cascade,
       Ct_primary Conventional [''id''], Ct_unique Conventional [''decision_message_id''],
       Ct_unique Conventional [''verifier_hash'']]"

definition upgrade_approvals_1 :: "ddl list" where
  "upgrade_approvals_1 =
    [Alter ''login_approval_challenges''
       (Create_index ''ix_login_approval_challenges_user_id'' [''user_id''] False None),
     Alter ''login_approval_challenges''
       (Create_index ''ix_login_approval_challenges_contact_id'' [''contact_id''] False None),
     Alter ''login_approval_challenges''
       (Create_index ''ix_login_approval_challenges_status'' [''status''] False None),
     Alter ''login_approval_challenges''
       (Create_index ''ix_login_approval_challenges_expires_at'' [''expires_at''] False None),
     Alter ''login_approval_challenges''
       (Create_index ''ix_login_approval_challenges_approval_outbound_message_id'' [''approval_outbound_message_id''] False None),
     Alter ''login_approval_challenges''
       (Create_index ''ix_login_approval_user_status_requested'' [''user_id'', ''status'', ''requested_at''] False None)]"

definition upgrade_approvals :: "ddl list" where
  "upgrade_approvals =
    [create_login_approval_challenges] @ upgrade_approvals_1"

definition downgrade_approvals :: "ddl list" where
  "downgrade_approvals =
    [Drop_table ''login_approval_challenges'']"

section \<open>\<^verbatim>\<open>202608121200_db_review_indexes.py\<close>\<close>

definition upgrade_indexes :: "ddl list" where
  "upgrade_indexes =
    [Alter ''phone_verifications''
       (Create_index ''ix_phone_verifications_user_id'' [''user_id''] False None),
     Alter ''grievances''
       (Create_index ''ix_grievances_jurisdiction_department'' [''jurisdiction_id'', ''department_key''] False None),
     Alter ''official_users''
       (Create_index ''uq_official_users_email_lower'' [''lower(email)''] True None),
     Alter ''webhook_events''
       (Create_index ''ix_webhook_events_unprocessed'' [''created_at''] False (Some ''processed_at IS NULL'')),
     Alter ''pipeline_jobs''
       (Create_index ''ix_pipeline_jobs_status_next_attempt'' [''status'', ''next_attempt_at''] False None)]"

definition downgrade_indexes :: "ddl list" where
  "downgrade_indexes =
    [Alter ''pipeline_jobs'' (Drop_index ''ix_pipeline_jobs_status_next_attempt''),
     Alter ''webhook_events'' (Drop_index ''ix_webhook_events_unprocessed''),
     Alter ''official_users'' (Drop_index ''uq_official_users_email_lower''),
     Alter ''grievances'' (Drop_index ''ix_grievances_jurisdiction_department''),
     Alter ''phone_verifications'' (Drop_index ''ix_phone_verifications_user_id'')]"

section \<open>The history\<close>

text \<open>In the order of the files; each names the one before it.\<close>

definition rev_initial :: revision where
  "rev_initial =
     \<lparr>rv_id = ''9d5942d5f4db'', rv_down = None,
      rv_upgrade = upgrade_initial, rv_downgrade = downgrade_initial\<rparr>"

definition rev_conversations :: revision where
  "rev_conversations =
     \<lparr>rv_id = ''e280b336d745'', rv_down = Some ''9d5942d5f4db'',
      rv_upgrade = upgrade_conversations, rv_downgrade = downgrade_conversations\<rparr>"

definition rev_grievances :: revision where
  "rev_grievances =
     \<lparr>rv_id = ''1fd85bbfe004'', rv_down = Some ''e280b336d745'',
      rv_upgrade = upgrade_grievances, rv_downgrade = downgrade_grievances\<rparr>"

definition rev_hardening :: revision where
  "rev_hardening =
     \<lparr>rv_id = ''a992b6951a6b'', rv_down = Some ''1fd85bbfe004'',
      rv_upgrade = upgrade_hardening, rv_downgrade = downgrade_hardening\<rparr>"

definition rev_officials :: revision where
  "rev_officials =
     \<lparr>rv_id = ''c481a9f70e31'', rv_down = Some ''a992b6951a6b'',
      rv_upgrade = upgrade_officials, rv_downgrade = downgrade_officials\<rparr>"

definition rev_approvals :: revision where
  "rev_approvals =
     \<lparr>rv_id = ''d72f06a81c44'', rv_down = Some ''c481a9f70e31'',
      rv_upgrade = upgrade_approvals, rv_downgrade = downgrade_approvals\<rparr>"

definition rev_indexes :: revision where
  "rev_indexes =
     \<lparr>rv_id = ''50e84f16c409'', rv_down = Some ''d72f06a81c44'',
      rv_upgrade = upgrade_indexes, rv_downgrade = downgrade_indexes\<rparr>"

definition revisions :: "revision list" where
  "revisions = [rev_initial, rev_conversations, rev_grievances, rev_hardening, rev_officials, rev_approvals, rev_indexes]"

end
