(* ===== verification/Upgrades.thy ===== *)
theory Upgrades
  imports Migrations SchemaRuns Officials
begin

text \<open>
  What the migration scripts achieve together: on an empty database they build exactly the tables
  that \<^verbatim>\<open>db/models.py\<close> declares, each downgrade takes its upgrade back, and no upgrade loses what is
  stored, but for the one column it means to drop.
\<close>

section \<open>The tables that result\<close>

definition statements :: "revision list \<Rightarrow> ddl list" where
  "statements rs = concat (map rv_upgrade rs)"

text \<open>Each script names the one before it.\<close>

fun chained :: "string option \<Rightarrow> revision list \<Rightarrow> bool" where
  "chained p [] = True"
| "chained p (r # rs) = (rv_down r = p \<and> chained (Some (rv_id r)) rs)"

lemma revisions_chained: "chained None revisions"
  by (simp add: revisions_def rev_initial_def rev_conversations_def rev_grievances_def rev_hardening_def
      rev_officials_def rev_approvals_def rev_indexes_def)

lemma builds_messages:
  "list_all (builds (statements revisions))
     [declared_contacts, declared_whatsapp_messages, declared_conversations, declared_fsm_message_consumptions]"
  by code_simp

lemma builds_caches:
  "list_all (builds (statements revisions))
     [declared_geocode_cache, declared_external_rate_limits, declared_grievance_events, declared_webhook_events,
      declared_jurisdictions, declared_jurisdiction_routes]"
  by code_simp

lemma builds_grievances: "list_all (builds (statements revisions)) [declared_grievances]"
  by code_simp

lemma builds_accounts:
  "list_all (builds (statements revisions))
     [declared_users, declared_phone_verifications, declared_refresh_tokens, declared_login_approval_challenges]"
  by code_simp

lemma builds_work:
  "list_all (builds (statements revisions))
     [declared_grievance_extractions, declared_pipeline_jobs, declared_dispatch_outbox]"
  by code_simp

lemma builds_officials:
  "list_all (builds (statements revisions))
     [declared_official_users, declared_official_login_challenges, declared_official_audit_events]"
  by code_simp

lemma builds_declared: "list_all (builds (statements revisions)) declared"
  using builds_messages builds_caches builds_grievances builds_accounts builds_work builds_officials
  by (simp add: declared_def)

lemma statements_names_ok: "names_ok (statements revisions) no_names True"
  by code_simp

lemma statements_subjects: "list_all (\<lambda>n. mentions n (map tb_name declared)) (subjects (statements revisions))"
  by code_simp

lemma declared_distinct: "distinct (map tb_name declared)"
  by code_simp

lemma statements_sequences: "sequences_after (statements revisions) [] = [''grievance_human_seq'']"
  by code_simp

lemma migrations_run:
  "\<exists>s. run_ops (statements revisions) empty_schema = Inr s \<and> same_tables (sch_tables s) declared"
  using builds_schema [OF statements_names_ok builds_declared statements_subjects declared_distinct] .

text \<open>C3. On an empty database all the upgrades succeed, and the schema they end with is, table by table
  (columns with type, nullability and stored default, primary keys, unique and foreign keys with what a
  deletion does, indexes with their conditions), the one that the classes of \<^verbatim>\<open>db/models.py\<close> declare, plus the
  sequence the complaint numbers are drawn from.\<close>

theorem migrations_build_declared:
  "\<exists>s. upgrade_all revisions empty_schema = Inr s \<and> same_tables (sch_tables s) declared \<and>
       sch_sequences s = [''grievance_human_seq'']"
proof -
  obtain s where s: "run_ops (statements revisions) empty_schema = Inr s" "same_tables (sch_tables s) declared"
    using migrations_run by blast
  moreover have "sch_sequences s = [''grievance_human_seq'']"
    using run_ops_sequences [OF s(1)] statements_sequences by (simp add: empty_schema_def)
  ultimately show ?thesis
    by (simp add: upgrade_all_run statements_def)
qed

section \<open>Taking a script back\<close>

definition there_and_back :: "revision \<Rightarrow> ddl list" where
  "there_and_back r = rv_upgrade r @ rv_downgrade r"

definition undone :: "revision list \<Rightarrow> revision \<Rightarrow> bool" where
  "undone rs r =
     (case upgrade_all rs empty_schema of
        Inl _ \<Rightarrow> False
      | Inr s \<Rightarrow>
          (case run_ops (there_and_back r) s of
             Inl _ \<Rightarrow> False
           | Inr s1 \<Rightarrow> same_tables (sch_tables s1) (sch_tables s) \<and> sch_sequences s1 = sch_sequences s))"

text \<open>What is checked of a revision and those before it, with the tables that it touches.\<close>

definition names_back :: "revision list \<Rightarrow> revision \<Rightarrow> string list \<Rightarrow> bool" where
  "names_back rs r ns =
     (names_ok (statements rs @ there_and_back r) no_names True \<and>
      list_all (\<lambda>n. mentions n ns) (subjects (there_and_back r)) \<and>
      sequences_after (there_and_back r) (sequences_after (statements rs) []) = sequences_after (statements rs) [])"

definition tables_back :: "revision list \<Rightarrow> revision \<Rightarrow> string list \<Rightarrow> bool" where
  "tables_back rs r ns = list_all (restored (statements rs) (there_and_back r)) ns"

lemma undone_by_tables:
  assumes "revisions = rs @ later" "names_back rs r ns" "tables_back rs r ns"
  shows "undone rs r"
proof -
  obtain s2 where "run_ops (statements (rs @ later)) empty_schema = Inr s2"
    using migrations_run assms(1) by auto
  then obtain s where s: "run_ops (statements rs) empty_schema = Inr s"
    by (auto simp: statements_def run_ops_append split: sum.splits)
  obtain s1 where s1: "run_ops (there_and_back r) s = Inr s1" "same_tables (sch_tables s1) (sch_tables s)"
    using taken_back [OF s, of "there_and_back r" ns] assms(2,3) by (auto simp: names_back_def tables_back_def)
  have "sch_sequences s1 = sch_sequences s"
    using run_ops_sequences [OF s1(1)] run_ops_sequences [OF s] assms(2)
    by (simp add: names_back_def empty_schema_def)
  then show ?thesis
    using s s1 by (simp add: undone_def upgrade_all_run statements_def)
qed

definition touched_by_initial :: "string list" where
  "touched_by_initial =
     [''contacts'', ''webhook_events'', ''whatsapp_messages'']"

lemma names_back_initial: "names_back [] rev_initial touched_by_initial"
  by code_simp

lemma tables_back_initial: "tables_back [] rev_initial touched_by_initial"
  by code_simp

definition touched_by_conversations :: "string list" where
  "touched_by_conversations =
     [''conversations'', ''fsm_message_consumptions'', ''geocode_cache'', ''external_rate_limits'', ''whatsapp_messages'']"

lemma names_back_conversations: "names_back [rev_initial] rev_conversations touched_by_conversations"
  by code_simp

lemma tables_back_conversations: "tables_back [rev_initial] rev_conversations touched_by_conversations"
  by code_simp

definition touched_by_grievances :: "string list" where
  "touched_by_grievances =
     [''grievances'']"

lemma names_back_grievances: "names_back [rev_initial, rev_conversations] rev_grievances touched_by_grievances"
  by code_simp

lemma tables_back_grievances: "tables_back [rev_initial, rev_conversations] rev_grievances touched_by_grievances"
  by code_simp

definition touched_by_hardening :: "string list" where
  "touched_by_hardening =
     [''users'', ''phone_verifications'', ''refresh_tokens'', ''grievance_events'', ''grievances'', ''webhook_events'']"

lemma names_back_hardening: "names_back [rev_initial, rev_conversations, rev_grievances] rev_hardening touched_by_hardening"
  by code_simp

lemma tables_back_hardening: "tables_back [rev_initial, rev_conversations, rev_grievances] rev_hardening touched_by_hardening"
  by code_simp

definition touched_by_officials :: "string list" where
  "touched_by_officials =
     [''jurisdictions'', ''jurisdiction_routes'', ''grievance_extractions'', ''pipeline_jobs'', ''dispatch_outbox'', ''official_users'', ''official_login_challenges'', ''official_audit_events'', ''grievances'']"

lemma names_back_officials: "names_back [rev_initial, rev_conversations, rev_grievances, rev_hardening] rev_officials touched_by_officials"
  by code_simp

lemma tables_back_officials: "tables_back [rev_initial, rev_conversations, rev_grievances, rev_hardening] rev_officials touched_by_officials"
  by code_simp

definition touched_by_approvals :: "string list" where
  "touched_by_approvals =
     [''login_approval_challenges'']"

lemma names_back_approvals: "names_back [rev_initial, rev_conversations, rev_grievances, rev_hardening, rev_officials] rev_approvals touched_by_approvals"
  by code_simp

lemma tables_back_approvals: "tables_back [rev_initial, rev_conversations, rev_grievances, rev_hardening, rev_officials] rev_approvals touched_by_approvals"
  by code_simp

definition touched_by_indexes :: "string list" where
  "touched_by_indexes =
     [''phone_verifications'', ''grievances'', ''official_users'', ''webhook_events'', ''pipeline_jobs'']"

lemma names_back_indexes: "names_back [rev_initial, rev_conversations, rev_grievances, rev_hardening, rev_officials, rev_approvals] rev_indexes touched_by_indexes"
  by code_simp

lemma tables_back_indexes: "tables_back [rev_initial, rev_conversations, rev_grievances, rev_hardening, rev_officials, rev_approvals] rev_indexes touched_by_indexes"
  by code_simp


section \<open>Rows\<close>

definition let_go :: "string \<Rightarrow> string \<Rightarrow> bool" where
  "let_go n c = (if name_eq n ''grievances'' then name_eq c ''issue_message_ids'' else False)"

definition carries :: "string \<Rightarrow> stored_row \<Rightarrow> stored_row \<Rightarrow> bool" where
  "carries n r u = (\<forall>p\<in>set r. let_go n (fst p) \<or> p \<in> set u)"

definition keeps_rows :: "string \<Rightarrow> sql_table \<Rightarrow> sql_table \<Rightarrow> bool" where
  "keeps_rows n t u \<longleftrightarrow> (\<exists>us vs. tb_rows u = us @ vs \<and> list_all2 (carries n) (tb_rows t) us)"

text \<open>A statement that drops nothing but that column.\<close>

fun careful :: "ddl \<Rightarrow> bool" where
  "careful (Drop_table n) = False"
| "careful (Alter n (Drop_column c)) = let_go n c"
| "careful x = True"

lemma statements_careful: "list_all careful (statements revisions)"
  by code_simp

lemma carries_refl: "list_all2 (carries n) rs rs"
  by (simp add: carries_def list_all2_same)

lemma keeps_rows_refl: "keeps_rows n t t"
  using carries_refl by (auto simp: keeps_rows_def)

lemma keeps_rows_trans: "keeps_rows n t u \<Longrightarrow> keeps_rows n u v \<Longrightarrow> keeps_rows n t v"
  unfolding keeps_rows_def
proof (elim exE conjE)
  fix us vs ws zs
  assume u: "tb_rows u = us @ vs" "list_all2 (carries n) (tb_rows t) us"
    and v: "tb_rows v = ws @ zs" "list_all2 (carries n) (tb_rows u) ws"
  then obtain ws1 ws2 where w: "ws = ws1 @ ws2" "list_all2 (carries n) us ws1"
    by (auto simp: list_all2_append1)
  have "list_all2 (carries n) (tb_rows t) ws1"
    by (rule list_all2_trans [OF _ u(2) w(2)]) (force simp: carries_def)
  then show "\<exists>us vs. tb_rows v = us @ vs \<and> list_all2 (carries n) (tb_rows t) us"
    using v(1) w(1) by auto
qed

lemma keeps_rows_map: "(\<And>r. carries n r (f r)) \<Longrightarrow> tb_rows u = map f (tb_rows t) \<Longrightarrow> keeps_rows n t u"
  unfolding keeps_rows_def by (rule exI [of _ "map f (tb_rows t)"]) (simp add: list_all2_map2 list_all2_same)

lemma careful_step:
  assumes "careful x" "admits n x (Some t)"
  shows "\<exists>u. table_step n x (Some t) = Some u \<and> keeps_rows n t u"
proof (cases "about n x")
  case False
  then show ?thesis using not_about keeps_rows_refl by blast
next
  case True
  then obtain a where x: "x = Alter n a"
    using assms by (cases x) (auto simp: name_eq_iff)
  have "keeps_rows n t (altered a t)"
  proof (cases a)
    case (Add_column c)
    then show ?thesis
      by (intro keeps_rows_map [where f = "\<lambda>r. r @ [(sc_name c, default_cell c)]"]) (auto simp: carries_def)
  next
    case (Drop_column c)
    then show ?thesis
      using assms(1) x
      by (intro keeps_rows_map [where f = "filter (\<lambda>p. \<not> name_eq c (fst p))"])
         (auto simp: carries_def name_eq_iff)
  next
    case (Insert_row r)
    then show ?thesis using carries_refl by (auto simp: keeps_rows_def)
  qed (use carries_refl in \<open>auto simp: keeps_rows_def alter_column_def intro: exI [of _ "[]"]\<close>)
  then show ?thesis by (simp add: x name_eq_iff)
qed

lemma careful_run:
  assumes "list_all careful xs" "admits_all n xs (Some t)"
  shows "\<exists>u. table_after n xs (Some t) = Some u \<and> keeps_rows n t u"
  using assms
proof (induction xs arbitrary: t)
  case (Cons x xs)
  then obtain u where u: "table_step n x (Some t) = Some u" "keeps_rows n t u"
    using careful_step by fastforce
  moreover obtain v where "table_after n xs (Some u) = Some v" "keeps_rows n u v"
    using Cons.IH [of u] Cons.prems u(1) by auto
  ultimately show ?case
    using keeps_rows_trans [of n t u v] by simp
qed (simp add: keeps_rows_refl)

text \<open>C18. Whatever is stored, upgrading a database that is at any of the seven revisions to the last one keeps
  every table and, row by row, every value: rows only gain the new columns, and the scripts' own rows come
  after them. The one thing lost is the column \<^verbatim>\<open>issue_message_ids\<close> of \<^verbatim>\<open>grievances\<close>, which the fourth script
  drops.\<close>

theorem upgrades_keep_rows:
  assumes "upgrade_all (drop k revisions) s = Inr s1" "find_table n s = Some t"
  shows "\<exists>t1. find_table n s1 = Some t1 \<and> keeps_rows n t t1"
proof -
  have "list_all careful (statements (take k revisions @ drop k revisions))"
    using statements_careful by simp
  then have "list_all careful (statements (drop k revisions))"
    by (simp only: statements_def map_append concat_append list_all_append)
  moreover have run: "run_ops (statements (drop k revisions)) s = Inr s1"
    using assms(1) by (simp add: upgrade_all_run statements_def)
  ultimately show ?thesis
    using careful_run run_ops_admits [OF run, of n] assms(2) run_ops_table [OF run, of n] by auto
qed

definition sample_table :: "string \<Rightarrow> string list \<Rightarrow> sql_constraint list \<Rightarrow> string list \<Rightarrow> stored_row list \<Rightarrow> sql_table"
where
  "sample_table n cs cons ixs rows =
     \<lparr>tb_name = n, tb_columns = map (\<lambda>c. nullable c Ty_text) cs, tb_constraints = cons,
      tb_indexes = map (\<lambda>i. \<lparr>ix_name = i, ix_columns = [], ix_unique = False, ix_where = None\<rparr>) ixs, tb_rows = rows\<rparr>"

definition sample_official :: stored_row where
  "sample_official = [(''email'', Cl_text ''a@example.org'')]"

definition sample_before_indexes :: schema where
  "sample_before_indexes =
     \<lparr>sch_tables =
        [sample_table ''phone_verifications'' [''user_id''] [] [] [],
         sample_table ''grievances'' [''jurisdiction_id'', ''department_key''] [] [] [],
         sample_table ''official_users'' [''email''] [] [] [sample_official],
         sample_table ''webhook_events'' [''created_at''] [] [] [],
         sample_table ''pipeline_jobs'' [''status'', ''next_attempt_at''] [] [] []],
      sch_sequences = []\<rparr>"

lemma sample_upgrade:
  "(case upgrade_all (drop 6 revisions) sample_before_indexes of Inl e \<Rightarrow> False | Inr s1 \<Rightarrow> True)"
  "find_table ''official_users'' sample_before_indexes =
     Some (sample_table ''official_users'' [''email''] [] [] [sample_official])"
  by (code_simp, simp add: find_table_def sample_before_indexes_def sample_table_def)

theorem upgrades_keep_rows_witness:
  "\<exists>s1 t1. upgrade_all (drop 6 revisions) sample_before_indexes = Inr s1 \<and>
     find_table ''official_users'' s1 = Some t1 \<and>
     keeps_rows ''official_users'' (sample_table ''official_users'' [''email''] [] [] [sample_official]) t1"
proof -
  obtain s1 where "upgrade_all (drop 6 revisions) sample_before_indexes = Inr s1"
    using sample_upgrade(1) by (auto split: sum.splits)
  then show ?thesis
    using upgrades_keep_rows sample_upgrade(2) by blast
qed

section \<open>A downgrade that the data refuse\<close>

text \<open>A statement that leaves the column \<open>c\<close> of the table \<open>n\<close>.\<close>

fun leaves :: "string \<Rightarrow> string \<Rightarrow> ddl \<Rightarrow> bool" where
  "leaves n c (Drop_table m) = (\<not> name_eq n m)"
| "leaves n c (Alter m (Drop_column k)) = (if name_eq n m then \<not> name_eq c k else True)"
| "leaves n c x = True"

definition stores :: "sql_table \<Rightarrow> string \<Rightarrow> string \<Rightarrow> bool" where
  "stores t c v = list_ex (\<lambda>r. cell_of c r = Cl_text v) (tb_rows t)"

lemma cell_of_append: "cell_of c r = Cl_text v \<Longrightarrow> cell_of c (r @ q) = Cl_text v"
  by (induction r) (auto simp: cell_of_def)

lemma find_filter_other: "c \<noteq> k \<Longrightarrow> find (\<lambda>p. c = fst p) (filter (\<lambda>p. k \<noteq> fst p) r) = find (\<lambda>p. c = fst p) r"
  by (induction r) auto

lemma cell_of_filter: "c \<noteq> k \<Longrightarrow> cell_of c (filter (\<lambda>p. k \<noteq> fst p) r) = cell_of c r"
  by (simp add: cell_of_def find_filter_other name_eq_iff)

lemma leaves_step:
  assumes "leaves n c x" "admits n x (Some t)" "stores t c v"
  shows "\<exists>u. table_step n x (Some t) = Some u \<and> stores u c v"
proof (cases "about n x")
  case False
  then show ?thesis using not_about assms(3) by blast
next
  case True
  then obtain a where x: "x = Alter n a"
    using assms by (cases x) (auto simp: name_eq_iff)
  have "stores (altered a t) c v"
    using assms(1,3) x
    by (cases a)
       (auto simp: stores_def list_ex_iff alter_column_def cell_of_filter name_eq_iff split: if_splits
         intro: cell_of_append)
  then show ?thesis by (simp add: x name_eq_iff)
qed

lemma leaves_run:
  assumes "list_all (leaves n c) xs" "admits_all n xs (Some t)" "stores t c v"
  shows "\<exists>u. table_after n xs (Some t) = Some u \<and> stores u c v"
  using assms
proof (induction xs arbitrary: t)
  case (Cons x xs)
  then obtain u where u: "table_step n x (Some t) = Some u" "stores u c v"
    using leaves_step by fastforce
  then show ?case using Cons by simp
qed simp


lemma status_shrinks:
  "downgrade_hardening ! 12 = Alter ''grievances'' (Alter_type ''status'' (Ty_string 16))"
  "12 < length downgrade_hardening" "list_all (leaves ''grievances'' ''status'') (take 12 downgrade_hardening)"
  by (simp_all add: downgrade_hardening_def)

text \<open>C36. The downgrade of the fourth script narrows \<^verbatim>\<open>grievances.status\<close> to 16 characters. On any database that
  holds a complaint waiting for its citizen to confirm (\<^verbatim>\<open>awaiting_confirmation\<close>, 21 characters) it does not
  succeed: it stops with an error, and the database stays at that revision.\<close>

theorem long_status_refuses_downgrade:
  assumes t: "find_table ''grievances'' s = Some t" and r: "r \<in> set (tb_rows t)"
    and v: "cell_of ''status'' r = Cl_text (gr_status_text Gs_awaiting_confirmation)"
  shows "\<exists>e. run_ops downgrade_hardening s = Inl e"
proof (rule ccontr)
  let ?g = "''grievances''" and ?xs = "take 12 downgrade_hardening"
  let ?x = "Alter ?g (Alter_type ''status'' (Ty_string 16))"
  assume "\<nexists>e. run_ops downgrade_hardening s = Inl e"
  then obtain s1 where "run_ops downgrade_hardening s = Inr s1"
    by (cases "run_ops downgrade_hardening s") auto
  then have "admits_all ?g (?xs @ ?x # drop 13 downgrade_hardening) (Some t)"
    using run_ops_admits [of downgrade_hardening s s1 ?g] t status_shrinks(1)
      id_take_nth_drop [OF status_shrinks(2)] by simp
  then have admits: "admits_all ?g ?xs (Some t)" "admits ?g ?x (table_after ?g ?xs (Some t))"
    by (simp_all add: admits_all_append)
  moreover have "stores t ''status'' ''awaiting_confirmation''"
    using r v by (auto simp: stores_def list_ex_iff gr_status_text_def)
  ultimately obtain u where "table_after ?g ?xs (Some t) = Some u" "stores u ''status'' ''awaiting_confirmation''"
    using leaves_run [OF status_shrinks(3)] by blast
  moreover have "\<not> fits (Ty_string 16) (Cl_text ''awaiting_confirmation'')"
    by code_simp
  ultimately show False
    using admits(2)
    by (auto simp: permits_def stores_def list_ex_iff list_all_iff name_eq_iff Option.is_none_def split: if_splits)
qed


definition sample_waiting :: stored_row where
  "sample_waiting = [(''status'', Cl_text ''awaiting_confirmation'')]"

definition sample_complaints :: sql_table where
  "sample_complaints =
     sample_table ''grievances'' [''status'', ''user_id'', ''duplicate_of_id'']
       [Ct_foreign (Named ''fk_grievances_user_id_users'') [''user_id''] ''users'' [''id''] Set_null,
        Ct_foreign (Named ''fk_grievances_duplicate_of_id_grievances'') [''duplicate_of_id''] ''grievances'' [''id'']
          Set_null]
       [''ix_grievances_user_id'', ''ix_grievances_status'', ''ix_grievances_lat_lon'',
        ''ix_grievances_duplicate_of_id'', ''ix_grievances_created_at'', ''ix_grievances_category_window'']
       [sample_waiting]"

definition sample_hardened :: schema where
  "sample_hardened =
     \<lparr>sch_tables = [sample_table ''webhook_events'' [''locked_until'', ''attempt_count''] [] [] [], sample_complaints],
      sch_sequences = []\<rparr>"

lemma sample_refused: "run_ops downgrade_hardening sample_hardened = Inl String_too_long"
  by code_simp

theorem long_status_refuses_downgrade_witness:
  "(\<exists>e. run_ops downgrade_hardening sample_hardened = Inl e) \<and>
   run_ops downgrade_hardening sample_hardened = Inl String_too_long"
proof
  have "find_table ''grievances'' sample_hardened = Some sample_complaints" "tb_rows sample_complaints = [sample_waiting]"
    by (simp_all add: find_table_def sample_hardened_def sample_complaints_def sample_table_def)
  then show "\<exists>e. run_ops downgrade_hardening sample_hardened = Inl e"
    by (intro long_status_refuses_downgrade [of _ sample_complaints sample_waiting])
       (simp_all add: cell_of_def sample_waiting_def gr_status_text_def)
qed (rule sample_refused)

section \<open>Widths\<close>

definition column_type :: "sql_table \<Rightarrow> string \<Rightarrow> sql_type option" where
  "column_type t c = map_option sc_type (find (\<lambda>k. name_eq c (sc_name k)) (tb_columns t))"

text \<open>Stored without an error in the column \<open>c\<close>.\<close>

definition holds :: "sql_table \<Rightarrow> string \<Rightarrow> string \<Rightarrow> bool" where
  "holds t c v = (case column_type t c of None \<Rightarrow> False | Some ty \<Rightarrow> fits ty (Cl_text v))"

lemma column_types:
  "column_type declared_grievances ''status'' = Some (Ty_string 32)"
  "column_type declared_grievance_events ''status'' = Some (Ty_string 32)"
  "column_type declared_grievances ''review_status'' = Some (Ty_string 32)"
  "column_type declared_grievances ''image_match_status'' = Some (Ty_string 16)"
  "column_type declared_grievances ''priority'' = Some (Ty_string 16)"
  "column_type declared_grievances ''term'' = Some (Ty_string 16)"
  "column_type declared_grievances ''disposition'' = Some (Ty_string 40)"
  "column_type declared_grievances ''safety_level'' = Some (Ty_string 16)"
  "column_type declared_pipeline_jobs ''stage'' = Some (Ty_string 32)"
  "column_type declared_grievances ''category'' = Some (Ty_string 64)"
  "column_type declared_grievances ''category_id'' = Some (Ty_string 96)"
  "column_type declared_grievances ''department_key'' = Some (Ty_string 64)"
  "column_type declared_grievances ''aggregation_key'' = Some (Ty_string 96)"
  "column_type declared_jurisdiction_routes ''category_id'' = Some (Ty_string 96)"
  "column_type declared_jurisdiction_routes ''department_key'' = Some (Ty_string 64)"
  by code_simp+

text \<open>Every row of the taxonomy fits the columns that complaints and routes copy it into.\<close>

definition category_held :: "string \<times> category \<Rightarrow> bool" where
  "category_held e =
     (holds declared_grievances ''category'' (fst e) \<and> holds declared_grievances ''category_id'' (fst e) \<and>
      holds declared_jurisdiction_routes ''category_id'' (fst e) \<and>
      holds declared_grievances ''department_key'' (cat_department_key (snd e)) \<and>
      holds declared_jurisdiction_routes ''department_key'' (cat_department_key (snd e)) \<and>
      (case cat_aggregation_key (snd e) of None \<Rightarrow> True | Some k \<Rightarrow> holds declared_grievances ''aggregation_key'' k))"

lemma py_len_le: "py_len s \<le> length s"
proof -
  have "length (py_chars s) \<le> length s"
    by (induction s rule: py_chars.induct) (use length_dropWhile_le order_trans in \<open>fastforce\<close>)+
  then show ?thesis by (simp add: py_len_def)
qed

lemma category_lengths:
  "list_all (\<lambda>c. length (cat_key c) \<le> 64 \<and> length (cat_department_key c) \<le> 64 \<and>
     (case cat_aggregation_key c of None \<Rightarrow> True | Some k \<Rightarrow> length k \<le> 96)) category_rows"
  by (simp add: row_defs str_or_def truthy_def)

lemma holds_iff: "column_type t c = Some (Ty_string n) \<Longrightarrow> holds t c v \<longleftrightarrow> py_len v \<le> n"
  by (simp add: holds_def fits_def)

lemma held_if_short: "column_type t c = Some (Ty_string n) \<Longrightarrow> length v \<le> n \<Longrightarrow> holds t c v"
  using py_len_le [of v] by (simp add: holds_iff)

lemma categories_held: "list_all category_held CANONICAL_CATEGORIES"
proof -
  have "category_held (cat_key c, c)" if "c \<in> set category_rows" for c
    using category_lengths that column_types(10-15)
    by (auto simp: list_all_iff category_held_def intro!: held_if_short split: option.splits)
  then show ?thesis by (auto simp: CANONICAL_CATEGORIES_def list_all_iff)
qed

lemma text_lengths:
  "length (gr_status_text st) \<le> 32" "length (review_text v) \<le> 32" "length (image_match_text im) \<le> 16"
  "length (priority_text p) \<le> 16" "length (term_text h) \<le> 16" "length (disposition_text d) \<le> 40"
  "length (safety_text sf) \<le> 16" "length (stage_name g) \<le> 32"
  by (simp_all add: gr_status_text_def review_text_def image_match_text_def priority_text_def term_text_def
      disposition_text_def safety_text_def stage_name_def
      split: gr_status.split review_status.split image_match.split priority.split term_hint.split
        disposition.split safety_level.split job_stage.split)

text \<open>C34. Every status, review status, photo verdict, priority, term, disposition, safety level and job stage
  that the code writes, and the keys of every category of the taxonomy, fit the columns they are
  stored in; no write of one of them is refused for its length.\<close>

theorem written_values_fit:
  "holds declared_grievances ''status'' (gr_status_text st) \<and>
   holds declared_grievance_events ''status'' (gr_status_text st) \<and>
   holds declared_grievances ''review_status'' (review_text v) \<and>
   holds declared_grievances ''image_match_status'' (image_match_text im) \<and>
   holds declared_grievances ''priority'' (priority_text p) \<and>
   holds declared_grievances ''term'' (term_text h) \<and>
   holds declared_grievances ''disposition'' (disposition_text d) \<and>
   holds declared_grievances ''safety_level'' (safety_text sf) \<and>
   holds declared_pipeline_jobs ''stage'' (stage_name g) \<and>
   list_all category_held CANONICAL_CATEGORIES"
  by (intro conjI categories_held held_if_short [OF column_types(1) text_lengths(1)]
      held_if_short [OF column_types(2) text_lengths(1)] held_if_short [OF column_types(3) text_lengths(2)]
      held_if_short [OF column_types(4) text_lengths(3)] held_if_short [OF column_types(5) text_lengths(4)]
      held_if_short [OF column_types(6) text_lengths(5)] held_if_short [OF column_types(7) text_lengths(6)]
      held_if_short [OF column_types(8) text_lengths(7)] held_if_short [OF column_types(9) text_lengths(8)])

end
