(* ===== verification/Seed.thy ===== *)
theory Seed
  imports Config ReposWork "HOL-Library.Char_ord" "HOL-Library.List_Lexorder"
begin

text \<open>
  \<^verbatim>\<open>scripts/seed_jurisdiction_routes.py\<close>: the operator's command that turns live dispatch on or off for a
  jurisdiction, by writing route rows. Which jurisdictions are stored is an argument; the rest of the
  database is \<open>db\<close>. The result of \<^verbatim>\<open>SystemExit\<close> is a value of \<open>exit\<close>.
\<close>

section \<open>The command\<close>

record seed_args =
  sa_enable :: bool
  sa_jurisdiction :: string
  sa_categories :: "string list"
  sa_reviewed_by :: "string option"

datatype exit =
    Unknown_jurisdiction string
  | Unknown_categories "string list"
  | Refusing_environment environment
  | Reviewer_required

definition route_key :: "route_row \<Rightarrow> string \<times> string \<times> string" where
  "route_key r = (rr_jurisdiction_id r, rr_taxonomy_version r, rr_category_id r)"

definition new_route :: "time \<Rightarrow> string \<Rightarrow> bool \<Rightarrow> string option \<Rightarrow> string \<Rightarrow> jurisdiction_route \<Rightarrow> route_row" where
  "new_route now jurisdiction_id enabled reviewed_by key base =
     \<lparr>rr_jurisdiction_id = jurisdiction_id, rr_taxonomy_version = TAXONOMY_VERSION, rr_category_id = key,
      rr_department_key = jr_department_key base, rr_owning_agency = jr_owning_agency base,
      rr_dispatch_enabled = enabled, rr_sla_hours = jr_sla_hours base, rr_source_url = None,
      rr_reviewed_by = reviewed_by, rr_effective_from = Some now, rr_effective_to = None\<rparr>"

definition decided_route :: "time \<Rightarrow> bool \<Rightarrow> string option \<Rightarrow> route_row \<Rightarrow> route_row" where
  "decided_route now enabled reviewed_by r =
     r\<lparr>rr_dispatch_enabled := enabled, rr_reviewed_by := reviewed_by, rr_effective_from := Some now,
       rr_effective_to := None\<rparr>"

text \<open>On conflict with the unique key the stored row is changed instead.\<close>

definition upsert_route ::
    "time \<Rightarrow> string \<Rightarrow> bool \<Rightarrow> string option \<Rightarrow> string \<Rightarrow> route_row list \<Rightarrow> route_row list" where
  "upsert_route now jurisdiction_id enabled reviewed_by key rs =
     (case dict_get (jp_routes DEMO_PROFILE) key of
        None \<Rightarrow> rs
      | Some base \<Rightarrow>
          let k = (jurisdiction_id, TAXONOMY_VERSION, key) in
          if list_ex (\<lambda>r. route_key r = k) rs
          then map (\<lambda>r. if route_key r = k then decided_route now enabled reviewed_by r else r) rs
          else rs @ [new_route now jurisdiction_id enabled reviewed_by key base])"

definition known_routes :: "string list" where
  "known_routes = map fst (jp_routes DEMO_PROFILE)"

definition seed_targets :: "string list \<Rightarrow> string list" where
  "seed_targets categories = (if categories = [] then sort known_routes else sort categories)"

definition seed ::
    "string list \<Rightarrow> time \<Rightarrow> string \<Rightarrow> string list \<Rightarrow> bool \<Rightarrow> string option \<Rightarrow> db \<Rightarrow> exit + (nat \<times> db)" where
  "seed jurisdictions now jurisdiction_id categories enabled reviewed_by d =
     (if jurisdiction_id \<notin> set jurisdictions then Inl (Unknown_jurisdiction jurisdiction_id)
      else
        let unknown = sort (remdups (filter (\<lambda>c. c \<notin> set known_routes) categories)) in
        if unknown \<noteq> [] then Inl (Unknown_categories unknown)
        else
          let targets = seed_targets categories in
          Inr (length targets,
               d\<lparr>db_routes :=
                   fold (upsert_route now jurisdiction_id enabled reviewed_by) targets (db_routes d)\<rparr>))"

text \<open>The numbers are those the command prints: rows written, and rows that dispatch afterwards.\<close>

definition seed_main ::
    "settings \<Rightarrow> string list \<Rightarrow> time \<Rightarrow> seed_args \<Rightarrow> db \<Rightarrow> exit + ((nat \<times> nat) \<times> db)" where
  "seed_main s jurisdictions now a d =
     (if s_environment s \<notin> {Development, Test} then Inl (Refusing_environment (s_environment s))
      else if sa_enable a \<and> \<not> truthy (sa_reviewed_by a) then Inl Reviewer_required
      else
        case seed jurisdictions now (sa_jurisdiction a) (sa_categories a) (sa_enable a) (sa_reviewed_by a) d of
          Inl e \<Rightarrow> Inl e
        | Inr (count, d1) \<Rightarrow>
            Inr ((count, length (filter (\<lambda>r. rr_jurisdiction_id r = sa_jurisdiction a \<and> rr_dispatch_enabled r)
                            (db_routes d1))), d1))"

section \<open>Rows by key\<close>

text \<open>What the constraint \<^verbatim>\<open>uq_jurisdiction_route_version_category\<close> keeps.\<close>

definition routes_unique :: "route_row list \<Rightarrow> bool" where
  "routes_unique rs \<longleftrightarrow> distinct (map route_key rs)"

definition route_at :: "string \<times> string \<times> string \<Rightarrow> route_row list \<Rightarrow> route_row option" where
  "route_at k rs = find (\<lambda>r. route_key r = k) rs"

lemma route_at_Some: "route_at k rs = Some r \<Longrightarrow> r \<in> set rs \<and> route_key r = k"
  by (auto simp: route_at_def find_Some_iff)

lemma route_at_in: "routes_unique rs \<Longrightarrow> r \<in> set rs \<Longrightarrow> route_at (route_key r) rs = Some r"
proof (induction rs)
  case (Cons x rs)
  then show ?case
    by (cases "x = r") (auto simp: routes_unique_def route_at_def image_iff)
qed simp

lemma route_key_decided [simp]: "route_key (decided_route now e v r) = route_key r"
  by (simp add: route_key_def decided_route_def)

lemma route_key_new [simp]: "route_key (new_route now j e v k base) = (j, TAXONOMY_VERSION, k)"
  by (simp add: route_key_def new_route_def)

lemma upsert_unique: "routes_unique rs \<Longrightarrow> routes_unique (upsert_route now j e v k rs)"
proof -
  have keys: "map route_key (map (\<lambda>r. if route_key r = q then decided_route now e v r else r) rs) = map route_key rs" for q
    by auto
  assume "routes_unique rs"
  then show ?thesis
    unfolding upsert_route_def Let_def routes_unique_def
    using keys by (auto simp: list_ex_iff simp del: map_map split: option.splits)
qed

lemma route_at_upsert:
  assumes "dict_get (jp_routes DEMO_PROFILE) key = Some base"
  shows "route_at k (upsert_route now j e v key rs) =
    (if k = (j, TAXONOMY_VERSION, key)
     then Some (case route_at k rs of None \<Rightarrow> new_route now j e v key base | Some r \<Rightarrow> decided_route now e v r)
     else route_at k rs)"
proof -
  have changed: "find (\<lambda>r. route_key r = k) (map (\<lambda>r. if route_key r = q then decided_route now e v r else r) rs) =
      (if k = q then map_option (decided_route now e v) (find (\<lambda>r. route_key r = k) rs)
       else find (\<lambda>r. route_key r = k) rs)" for q
    by (induction rs) auto
  have added: "find p (rs @ [y]) = (case find p rs of None \<Rightarrow> (if p y then Some y else None) | Some x \<Rightarrow> Some x)"
    for p and y :: route_row
    by (induction rs) auto
  have present: "list_ex (\<lambda>r. route_key r = q) rs \<longleftrightarrow> route_at q rs \<noteq> None" for q
    by (auto simp: route_at_def list_ex_iff find_None_iff)
  show ?thesis
  proof (cases "route_at (j, TAXONOMY_VERSION, key) rs")
    case None
    then have "upsert_route now j e v key rs = rs @ [new_route now j e v key base]"
      by (simp add: upsert_route_def assms present)
    then show ?thesis
      using None by (auto simp: route_at_def added split: option.splits)
  next
    case (Some r)
    then have "upsert_route now j e v key rs =
        map (\<lambda>r. if route_key r = (j, TAXONOMY_VERSION, key) then decided_route now e v r else r) rs"
      by (simp add: upsert_route_def assms present)
    then show ?thesis
      using Some changed [of "(j, TAXONOMY_VERSION, key)"] by (auto simp: route_at_def)
  qed
qed

lemma route_at_upsert_other:
  "k \<noteq> (j, TAXONOMY_VERSION, key) \<Longrightarrow> route_at k (upsert_route now j e v key rs) = route_at k rs"
proof (cases "dict_get (jp_routes DEMO_PROFILE) key")
  case None
  then show ?thesis by (simp add: upsert_route_def)
next
  case (Some base)
  assume "k \<noteq> (j, TAXONOMY_VERSION, key)"
  then show ?thesis by (simp add: route_at_upsert [OF Some])
qed

text \<open>A row as the operator decided it.\<close>

definition decided :: "time \<Rightarrow> bool \<Rightarrow> string option \<Rightarrow> route_row \<Rightarrow> bool" where
  "decided now e v r \<longleftrightarrow>
     rr_dispatch_enabled r = e \<and> rr_reviewed_by r = v \<and> rr_effective_from r = Some now \<and> rr_effective_to r = None"

lemma decided_simps [simp]:
  "decided now e v (decided_route now e v r)" "decided now e v (new_route now j e v k base)"
  by (simp_all add: decided_def decided_route_def new_route_def)

lemma known_base: "key \<in> set known_routes \<Longrightarrow> \<exists>base. dict_get (jp_routes DEMO_PROFILE) key = Some base"
  by (cases "dict_get (jp_routes DEMO_PROFILE) key") (auto simp: known_routes_def dict_get_def map_of_eq_None_iff)

lemma fold_unique: "routes_unique rs \<Longrightarrow> routes_unique (fold (upsert_route now j e v) keys rs)"
  by (induction keys arbitrary: rs) (auto intro: upsert_unique)

lemma fold_other:
  "k \<notin> (\<lambda>c. (j, TAXONOMY_VERSION, c)) ` set keys \<Longrightarrow>
   route_at k (fold (upsert_route now j e v) keys rs) = route_at k rs"
  by (induction keys arbitrary: rs) (auto simp: route_at_upsert_other)

lemma fold_target:
  assumes "set keys \<subseteq> set known_routes" "key \<in> set keys"
  shows "\<exists>r. route_at (j, TAXONOMY_VERSION, key) (fold (upsert_route now j e v) keys rs) = Some r \<and> decided now e v r"
  using assms
proof (induction keys rule: rev_induct)
  case (snoc k keys)
  show ?case
  proof (cases "k = key")
    case True
    obtain base where "dict_get (jp_routes DEMO_PROFILE) key = Some base"
      using snoc.prems known_base by blast
    then show ?thesis by (simp add: True route_at_upsert split: option.splits)
  next
    case False
    then show ?thesis using snoc by (simp add: route_at_upsert_other)
  qed
qed simp

section \<open>The routes in force\<close>

lemma loaded_distinct:
  assumes "routes_unique (db_routes d)"
  shows "distinct (map fst (load_jurisdiction_routes t j v d))"
proof -
  have "distinct (db_routes d)" "inj_on route_key (set (db_routes d))"
    using assms by (simp_all add: routes_unique_def distinct_map)
  then show ?thesis
    by (auto simp: load_jurisdiction_routes_def distinct_map o_def inj_on_def route_effective_def route_key_def)
qed

lemma loaded:
  assumes "routes_unique (db_routes d)"
  shows "dict_get (load_jurisdiction_routes t j v d) c =
    (case route_at (j, v, c) (db_routes d) of
       None \<Rightarrow> None | Some r \<Rightarrow> if route_effective j v t r then Some r else None)"
proof -
  have "dict_get (load_jurisdiction_routes t j v d) c = Some r \<longleftrightarrow>
      route_at (j, v, c) (db_routes d) = Some r \<and> route_effective j v t r" for r
  proof -
    have "dict_get (load_jurisdiction_routes t j v d) c = Some r \<longleftrightarrow>
        (c, r) \<in> set (load_jurisdiction_routes t j v d)"
      using loaded_distinct [OF assms] by (simp add: dict_get_distinct)
    also have "\<dots> \<longleftrightarrow> r \<in> set (db_routes d) \<and> route_key r = (j, v, c) \<and> route_effective j v t r"
      by (auto simp: load_jurisdiction_routes_def route_key_def route_effective_def)
    also have "\<dots> \<longleftrightarrow> route_at (j, v, c) (db_routes d) = Some r \<and> route_effective j v t r"
      using route_at_in [OF assms, of r] route_at_Some [of "(j, v, c)" "db_routes d" r] by auto
    finally show ?thesis .
  qed
  note got = this
  show ?thesis
  proof (cases "dict_get (load_jurisdiction_routes t j v d) c")
    case None
    then show ?thesis using got by (auto split: option.splits)
  next
    case (Some r)
    then show ?thesis using got [of r] by simp
  qed
qed

lemma known_canonical: "key \<in> set known_routes \<Longrightarrow> key \<noteq> [] \<and> canonical_category_key (Some key) = Some key"
proof -
  assume "key \<in> set known_routes"
  moreover have "known_routes = map fst CANONICAL_CATEGORIES"
    by (simp add: known_routes_def DEMO_PROFILE_def demo_route_def CANONICAL_CATEGORIES_def)
  ultimately have "dict_get CANONICAL_CATEGORIES key \<noteq> None"
    by (simp only: dict_get_def map_of_eq_None_iff rev_map [symmetric] set_map [symmetric] set_rev) simp
  then have "canonical_category_key (Some key) = Some key"
    by (rule canonical_fix)
  then show ?thesis by (auto simp: canonical_category_key_def)
qed

lemma none_unknown: "sort (remdups (filter p xs)) = [] \<longleftrightarrow> filter p xs = []"
  by (metis length_0_conv length_sort remdups_eq_nil_iff)

lemma seed_main_cases:
  assumes "seed_main s js now a d = Inr (n, d1)"
  shows "s_environment s \<in> {Development, Test}" "sa_enable a \<Longrightarrow> truthy (sa_reviewed_by a)"
    "sa_jurisdiction a \<in> set js" "set (seed_targets (sa_categories a)) \<subseteq> set known_routes"
    "d1 = d\<lparr>db_routes := fold (upsert_route now (sa_jurisdiction a) (sa_enable a) (sa_reviewed_by a))
       (seed_targets (sa_categories a)) (db_routes d)\<rparr>"
proof -
  let ?s = "seed js now (sa_jurisdiction a) (sa_categories a) (sa_enable a) (sa_reviewed_by a) d"
  have main: "s_environment s \<in> {Development, Test}" "sa_enable a \<longrightarrow> truthy (sa_reviewed_by a)"
      "\<exists>m. ?s = Inr (m, d1)"
    using assms by (simp_all add: seed_main_def split: if_splits sum.splits prod.splits)
  then show "s_environment s \<in> {Development, Test}" "sa_enable a \<Longrightarrow> truthy (sa_reviewed_by a)" by auto
  have seed: "sa_jurisdiction a \<in> set js" "filter (\<lambda>c. c \<notin> set known_routes) (sa_categories a) = []"
      "d1 = d\<lparr>db_routes := fold (upsert_route now (sa_jurisdiction a) (sa_enable a) (sa_reviewed_by a))
         (seed_targets (sa_categories a)) (db_routes d)\<rparr>"
    using main(3) by (simp_all add: seed_def Let_def none_unknown split: if_splits)
  then show "sa_jurisdiction a \<in> set js"
    "d1 = d\<lparr>db_routes := fold (upsert_route now (sa_jurisdiction a) (sa_enable a) (sa_reviewed_by a))
       (seed_targets (sa_categories a)) (db_routes d)\<rparr>" by simp_all
  show "set (seed_targets (sa_categories a)) \<subseteq> set known_routes"
    using seed(2) by (auto simp: seed_targets_def filter_empty_conv)
qed

lemma upsert_same:
  assumes "routes_unique rs" "route_at (j, TAXONOMY_VERSION, key) rs = Some r" "decided now e v r"
  shows "upsert_route now j e v key rs = rs"
proof (cases "dict_get (jp_routes DEMO_PROFILE) key")
  case (Some base)
  have same: "decided_route now e v r = r"
    using assms(3) by (cases r) (simp add: decided_def decided_route_def)
  have only: "q = r" if "q \<in> set rs" "route_key q = (j, TAXONOMY_VERSION, key)" for q
    using route_at_in [OF assms(1) that(1)] assms(2) that(2) by simp
  have "map (\<lambda>q. if route_key q = (j, TAXONOMY_VERSION, key) then decided_route now e v q else q) rs = rs"
  proof (rule map_idI)
    fix q
    assume q: "q \<in> set rs"
    show "(if route_key q = (j, TAXONOMY_VERSION, key) then decided_route now e v q else q) = q"
    proof (cases "route_key q = (j, TAXONOMY_VERSION, key)")
      case True
      then have "q = r" by (rule only [OF q])
      then show ?thesis using same by simp
    qed simp
  qed
  moreover have "list_ex (\<lambda>q. route_key q = (j, TAXONOMY_VERSION, key)) rs"
    using route_at_Some [OF assms(2)] by (auto simp: list_ex_iff)
  ultimately show ?thesis
    using Some by (simp add: upsert_route_def)
qed (simp add: upsert_route_def)

lemma fold_same:
  assumes "routes_unique rs"
    and "\<And>key. key \<in> set keys \<Longrightarrow> \<exists>r. route_at (j, TAXONOMY_VERSION, key) rs = Some r \<and> decided now e v r"
  shows "fold (upsert_route now j e v) keys rs = rs"
  using assms(2)
proof (induction keys)
  case (Cons k keys)
  then have "upsert_route now j e v k rs = rs"
    using upsert_same [OF assms(1)] by fastforce
  then show ?case using Cons by simp
qed simp

lemma seed_main_runs:
  assumes "s_environment s \<in> {Development, Test}" "sa_enable a \<Longrightarrow> truthy (sa_reviewed_by a)"
    "sa_jurisdiction a \<in> set js" "set (seed_targets (sa_categories a)) \<subseteq> set known_routes"
    and "rs = fold (upsert_route now (sa_jurisdiction a) (sa_enable a) (sa_reviewed_by a))
       (seed_targets (sa_categories a)) (db_routes d)"
  shows "seed_main s js now a d =
    Inr ((length (seed_targets (sa_categories a)),
          length (filter (\<lambda>r. rr_jurisdiction_id r = sa_jurisdiction a \<and> rr_dispatch_enabled r) rs)),
         d\<lparr>db_routes := rs\<rparr>)"
proof -
  have "filter (\<lambda>c. c \<notin> set known_routes) (sa_categories a) = []"
    using assms(4) by (auto simp: filter_empty_conv seed_targets_def split: if_splits)
  then have "seed js now (sa_jurisdiction a) (sa_categories a) (sa_enable a) (sa_reviewed_by a) d =
      Inr (length (seed_targets (sa_categories a)), d\<lparr>db_routes := rs\<rparr>)"
    using assms(3,5) by (simp add: seed_def Let_def none_unknown)
  then show ?thesis
    using assms(1,2) by (simp add: seed_main_def)
qed

lemma seed_main_again:
  assumes "routes_unique (db_routes d)" "seed_main s js now a d = Inr (n, d1)"
  shows "seed_main s js now a d1 = Inr (n, d1)"
proof -
  let ?f = "fold (upsert_route now (sa_jurisdiction a) (sa_enable a) (sa_reviewed_by a)) (seed_targets (sa_categories a))"
  note seeded = seed_main_cases [OF assms(2)]
  have d1: "db_routes d1 = ?f (db_routes d)"
    using seeded(5) by simp
  moreover have "?f (?f (db_routes d)) = ?f (db_routes d)"
    using fold_same [OF fold_unique [OF assms(1)]] fold_target [OF seeded(4)] by simp
  ultimately have "db_routes d1 = ?f (db_routes d1)" by simp
  from seed_main_runs [OF seeded(1-4) this] seed_main_runs [OF seeded(1-4) d1] assms(2)
  show ?thesis by simp
qed

lemma seeded_unique:
  assumes "routes_unique (db_routes d)" "seed_main s js now a d = Inr (n, d1)"
  shows "routes_unique (db_routes d1)"
  using fold_unique [OF assms(1)] seed_main_cases(5) [OF assms(2)] by simp

lemma targets_decided:
  assumes unique: "routes_unique (db_routes d)" and run: "seed_main s js now a d = Inr (n, d1)"
    and key: "key \<in> set (seed_targets (sa_categories a))" and t: "now \<le> t"
  shows "\<exists>r. resolve_route t (Some key) (sa_jurisdiction a) TAXONOMY_VERSION d1 = Some r \<and>
    jr_dispatch_enabled r = sa_enable a"
proof -
  let ?j = "sa_jurisdiction a"
  note seeded = seed_main_cases [OF run]
  obtain r where r: "route_at (?j, TAXONOMY_VERSION, key) (db_routes d1) = Some r"
      "decided now (sa_enable a) (sa_reviewed_by a) r"
    using fold_target [OF seeded(4) key, of ?j now "sa_enable a" "sa_reviewed_by a" "db_routes d"] seeded(5) by auto
  have "route_effective ?j TAXONOMY_VERSION t r"
    using r t route_at_Some [OF r(1)] by (simp add: route_effective_def decided_def route_key_def)
  then show ?thesis
    using known_canonical [of key] seeded(4) key r
    by (auto simp: resolve_route_def loaded [OF seeded_unique [OF unique run]] as_route_def decided_def)
qed

lemma others_kept:
  assumes unique: "routes_unique (db_routes d)" and run: "seed_main s js now a d = Inr (n, d1)"
    and differs: "resolve_route t key j v d1 \<noteq> resolve_route t key j v d"
  shows "j = sa_jurisdiction a \<and> v = TAXONOMY_VERSION \<and>
    canonical_category_key key \<in> Some ` set (seed_targets (sa_categories a))"
proof -
  let ?keys = "(\<lambda>c. (sa_jurisdiction a, TAXONOMY_VERSION, c)) ` set (seed_targets (sa_categories a))"
  obtain c where c: "canonical_category_key key = Some c"
    using differs by (auto simp: resolve_route_def split: option.splits)
  have "(j, v, c) \<in> ?keys"
  proof (rule ccontr)
    assume "(j, v, c) \<notin> ?keys"
    then have "route_at (j, v, c) (db_routes d1) = route_at (j, v, c) (db_routes d)"
      using fold_other seed_main_cases(5) [OF run] by simp
    then have "dict_get (load_jurisdiction_routes t j v d1) c = dict_get (load_jurisdiction_routes t j v d) c"
      by (simp add: loaded [OF seeded_unique [OF unique run]] loaded [OF unique])
    then show False
      using differs c by (simp add: resolve_route_def split: if_splits)
  qed
  then show ?thesis using c by auto
qed


lemma only_row:
  assumes "routes_unique rs" "route_at k rs = Some r"
  shows "filter (\<lambda>q. route_key q = k) rs = [r]"
  using assms
proof (induction rs)
  case (Cons q rs)
  have none: "filter (\<lambda>p. route_key p = route_key q) rs = []"
    using Cons.prems(1) by (auto simp: routes_unique_def filter_empty_conv) (metis image_eqI)
  show ?case
    using Cons none by (cases "route_key q = k") (auto simp: routes_unique_def route_at_def)
qed (simp add: route_at_def)

text \<open>C37. A successful \<^verbatim>\<open>--disable\<close> that names no reviewer, as the usage shows it, wipes from every row of its
  categories who had reviewed the route and since when it was in force: the reviewer is gone and the start
  is the time of the command. The rows stay; what they recorded does not.\<close>

theorem disabling_erases_reviewer:
  assumes "routes_unique (db_routes d)" "seed_main s js now a d = Inr (n, d1)"
    and "\<not> sa_enable a" "sa_reviewed_by a = None"
    and row: "r \<in> set (db_routes d)"
      "route_key r = (sa_jurisdiction a, TAXONOMY_VERSION, key)" "key \<in> set (seed_targets (sa_categories a))"
  shows "\<exists>r1. filter (\<lambda>q. route_key q = route_key r) (db_routes d1) = [r1] \<and>
    rr_reviewed_by r1 = None \<and> rr_effective_from r1 = Some now"
proof -
  note seeded = seed_main_cases [OF assms(2)]
  note unique1 = seeded_unique [OF assms(1,2)]
  obtain r1 where r1: "route_at (route_key r) (db_routes d1) = Some r1" "decided now False None r1"
    using fold_target [OF seeded(4) row(3), of "sa_jurisdiction a" now "sa_enable a" "sa_reviewed_by a" "db_routes d"]
      seeded(5) assms(3,4) row(2) by auto
  have "filter (\<lambda>q. route_key q = route_key r) (db_routes d1) = [r1]"
    using only_row [OF unique1 r1(1)] .
  then show ?thesis using r1(2) by (auto simp: decided_def)
qed

section \<open>Witnesses\<close>

definition sample_enable :: seed_args where
  "sample_enable =
     \<lparr>sa_enable = True, sa_jurisdiction = DEMO_JURISDICTION_ID, sa_categories = [''unmapped_service''],
      sa_reviewed_by = Some ''a@example.org''\<rparr>"

definition sample_disable :: seed_args where
  "sample_disable = sample_enable\<lparr>sa_enable := False, sa_reviewed_by := None\<rparr>"

definition sample_seeded :: db where
  "sample_seeded = empty_db\<lparr>db_routes := [sample_route_row\<lparr>rr_reviewed_by := Some ''a@example.org''\<rparr>]\<rparr>"

definition sample_dev :: "settings \<Rightarrow> settings" where
  "sample_dev s = s\<lparr>s_environment := Development\<rparr>"

lemma sample_targets: "seed_targets [''unmapped_service''] = [''unmapped_service'']"
  by (simp add: seed_targets_def)

lemma sample_known: "set (seed_targets [''unmapped_service'']) \<subseteq> set known_routes"
  by (simp add: sample_targets known_routes_def DEMO_PROFILE_def demo_route_def o_def canonical_keys)

lemma sample_unique: "routes_unique (db_routes sample_seeded)"
  by (simp add: routes_unique_def sample_seeded_def)

lemma sample_runs:
  "\<exists>n d1. seed_main (sample_dev s) [DEMO_JURISDICTION_ID] 5 sample_enable sample_seeded = Inr (n, d1)"
  "\<exists>n d1. seed_main (sample_dev s) [DEMO_JURISDICTION_ID] 5 sample_disable sample_seeded = Inr (n, d1)"
  using seed_main_runs [of "sample_dev s" sample_enable "[DEMO_JURISDICTION_ID]" _ 5 sample_seeded]
    seed_main_runs [of "sample_dev s" sample_disable "[DEMO_JURISDICTION_ID]" _ 5 sample_seeded] sample_known
  by (simp_all add: sample_dev_def sample_enable_def sample_disable_def truthy_def)


theorem disabling_erases_reviewer_witness:
  "\<exists>s n d1 r1. seed_main s [DEMO_JURISDICTION_ID] 5 sample_disable sample_seeded = Inr (n, d1) \<and>
     filter (\<lambda>q. route_key q = route_key (hd (db_routes sample_seeded))) (db_routes d1) = [r1] \<and>
     rr_reviewed_by (hd (db_routes sample_seeded)) = Some ''a@example.org'' \<and> rr_reviewed_by r1 = None"
proof -
  obtain s n d1 where run: "seed_main s [DEMO_JURISDICTION_ID] 5 sample_disable sample_seeded = Inr (n, d1)"
    using sample_runs(2) by blast
  let ?r = "hd (db_routes sample_seeded)"
  have r: "?r \<in> set (db_routes sample_seeded)" "rr_reviewed_by ?r = Some ''a@example.org''"
      "route_key ?r = (sa_jurisdiction sample_disable, TAXONOMY_VERSION, ''unmapped_service'')"
      "''unmapped_service'' \<in> set (seed_targets (sa_categories sample_disable))"
      "\<not> sa_enable sample_disable" "sa_reviewed_by sample_disable = None"
    by (simp_all add: sample_disable_def sample_enable_def sample_targets sample_seeded_def sample_route_row_def
        route_key_def)
  obtain r1 where "filter (\<lambda>q. route_key q = route_key ?r) (db_routes d1) = [r1]" "rr_reviewed_by r1 = None"
    using disabling_erases_reviewer [OF sample_unique run r(5,6,1,3,4)] by blast
  with r(2) run show ?thesis by blast
qed

end
