(* ===== verification/Shell.thy ===== *)
theory Shell
  imports Prelude Models Config Officials
begin

text \<open>
  The application shell: the log configuration and the two log formatters of
  \<^verbatim>\<open>config.py\<close>, the filter of \<^verbatim>\<open>logctx.py\<close> that puts the id of the current
  request on every log record, and the request middleware of \<^verbatim>\<open>app.py\<close>. A log record
  is its name, level, time, message, the entries that \<^verbatim>\<open>extra\<close> adds to its
  \<^verbatim>\<open>__dict__\<close> in their order, and the texts of the traceback and of the stack. The text of a
  float, of a list or of a dictionary and the local time of a record are fields of \<open>log_lib\<close>.
\<close>

section \<open>Levels and loggers\<close>

definition NOTSET :: nat where "NOTSET = 0"
definition DEBUG :: nat where "DEBUG = 10"
definition INFO :: nat where "INFO = 20"
definition WARNING :: nat where "WARNING = 30"
definition ERROR :: nat where "ERROR = 40"
definition CRITICAL :: nat where "CRITICAL = 50"

lemmas level_defs = NOTSET_def DEBUG_def INFO_def WARNING_def ERROR_def CRITICAL_def

definition levelname :: "nat \<Rightarrow> string" where
  "levelname l =
     (if l = NOTSET then ''NOTSET'' else if l = DEBUG then ''DEBUG'' else if l = INFO then ''INFO''
      else if l = WARNING then ''WARNING'' else if l = ERROR then ''ERROR''
      else if l = CRITICAL then ''CRITICAL'' else ''Level '' @ show_nat l)"

text \<open>\<^verbatim>\<open>getattr(logging, level.upper(), logging.INFO)\<close>: two attributes of the module in
  capitals are not levels, and \<^verbatim>\<open>setLevel\<close> refuses them.\<close>

definition level_of_text :: "string \<Rightarrow> exn + nat" where
  "level_of_text level =
     (let t = py_upper level in
      if t = ''CRITICAL'' \<or> t = ''FATAL'' then Inr CRITICAL
      else if t = ''ERROR'' then Inr ERROR
      else if t = ''WARNING'' \<or> t = ''WARN'' then Inr WARNING
      else if t = ''DEBUG'' then Inr DEBUG
      else if t = ''NOTSET'' then Inr NOTSET
      else if t = ''BASIC_FORMAT'' then Inl ValueError
      else if t = ''_STYLES'' then Inl TypeError
      else Inr INFO)"

datatype log_format = Json_lines | Text_lines

text \<open>What \<^verbatim>\<open>logging\<close> holds: the handler of the root logger, its level, and the levels set on
  named loggers.\<close>

record log_setup =
  ls_handler :: "log_format option"
  ls_root :: nat
  ls_levels :: "string \<Rightarrow> nat"

definition NOISY_LIBRARY_LOGGERS :: "string list" where
  "NOISY_LIBRARY_LOGGERS =
     [''fontTools'', ''fpdf'', ''PIL'', ''httpx'', ''httpcore'', ''python_multipart'']"

text \<open>The handler is replaced before the level is checked, so a refused level leaves the new
  handler behind.\<close>

definition configure_logging :: "string \<Rightarrow> string \<Rightarrow> log_setup \<Rightarrow> exn option \<times> log_setup" where
  "configure_logging level log_format st =
     (let st1 = st\<lparr>ls_handler :=
                  Some (if py_lower log_format = ''json'' then Json_lines else Text_lines)\<rparr>
      in case level_of_text level of
           Inl e \<Rightarrow> (Some e, st1)
         | Inr log_level \<Rightarrow>
             (let library_level = (if log_level \<le> DEBUG then NOTSET else WARNING)
              in (None, st1\<lparr>ls_root := log_level,
                            ls_levels := (\<lambda>name. if name \<in> set NOISY_LIBRARY_LOGGERS
                                                 then library_level else ls_levels st name)\<rparr>)))"

text \<open>\<^verbatim>\<open>getEffectiveLevel\<close>: the level of the nearest logger on the way to the root that has
  one; the segments of the name are given last first.\<close>

fun effective_level :: "log_setup \<Rightarrow> string list \<Rightarrow> nat" where
  "effective_level st [] = ls_root st"
| "effective_level st (s # ss) =
     (let l = ls_levels st (py_join ''.'' (rev (s # ss)))
      in if l \<noteq> NOTSET then l else effective_level st ss)"

definition enabled_for :: "log_setup \<Rightarrow> string \<Rightarrow> nat \<Rightarrow> bool" where
  "enabled_for st name level =
     (effective_level st (rev (py_split (CHR ''.'') name)) \<le> level)"

section \<open>Records\<close>

record log_record =
  lr_name :: string
  lr_level :: nat
  lr_created :: time
  lr_message :: string
  lr_extra :: jobject
  lr_exc :: "string option"
  lr_stack :: "string option"

text \<open>\<^verbatim>\<open>d[key] = value\<close>: an existing key keeps its place.\<close>

fun dict_set :: "string \<Rightarrow> json \<Rightarrow> jobject \<Rightarrow> jobject" where
  "dict_set k v [] = [(k, v)]"
| "dict_set k v ((k', v') # d) = (if k' = k then (k, v) # d else (k', v') # dict_set k v d)"

definition LOG_RECORD_RESERVED :: "string list" where
  "LOG_RECORD_RESERVED =
     [''name'', ''msg'', ''args'', ''levelname'', ''levelno'', ''pathname'', ''filename'',
      ''module'', ''exc_info'', ''exc_text'', ''stack_info'', ''lineno'', ''funcName'', ''created'',
      ''msecs'', ''relativeCreated'', ''thread'', ''threadName'', ''processName'', ''process'']"

text \<open>\<^verbatim>\<open>RequestIdFilter.filter\<close>, on a record and the value of the context variable.\<close>

definition request_id_filter :: "string option \<Rightarrow> log_record \<Rightarrow> log_record" where
  "request_id_filter var r =
     (if jget (lr_extra r) ''request_id'' = JNull
      then r\<lparr>lr_extra := dict_set ''request_id'' (jopt var) (lr_extra r)\<rparr> else r)"

text \<open>A call of a logger: the record the handler gets, where the logger is enabled for it.\<close>

definition emit :: "log_setup \<Rightarrow> string option \<Rightarrow> log_record \<Rightarrow> log_record list" where
  "emit st var r =
     (if ls_handler st \<noteq> None \<and> enabled_for st (lr_name r) (lr_level r)
      then [request_id_filter var r] else [])"

definition emits :: "log_setup \<Rightarrow> string option \<Rightarrow> log_record list \<Rightarrow> log_record list" where
  "emits st var rs = concat (map (emit st var) rs)"

section \<open>Formatters\<close>

record log_lib =
  ll_repr :: "real \<Rightarrow> string"
  ll_str :: "json \<Rightarrow> string"
  ll_asctime :: "time \<Rightarrow> string"

definition shown_field :: "string \<Rightarrow> bool" where
  "shown_field key = (key \<notin> set LOG_RECORD_RESERVED \<and> \<not> startswith key ''_'')"

text \<open>The code point of one character, given by its UTF-8 bytes.\<close>

definition code_point :: "string \<Rightarrow> nat" where
  "code_point s =
     (case map of_char s of
        [a] \<Rightarrow> a
      | [a, b] \<Rightarrow> (a mod 32) * 64 + b mod 64
      | [a, b, c] \<Rightarrow> (a mod 16) * 4096 + (b mod 64) * 64 + c mod 64
      | [a, b, c, e] \<Rightarrow> (a mod 8) * 262144 + (b mod 64) * 4096 + (c mod 64) * 64 + e mod 64
      | _ \<Rightarrow> 65533)"

definition unicode_escape :: "nat \<Rightarrow> string" where
  "unicode_escape n = CHR 0x5C # CHR ''u'' # hex_digits 4 n"

definition json_char :: "string \<Rightarrow> string" where
  "json_char s =
     (let n = code_point s in
      if n = 34 then [CHR 0x5C, CHR 0x22] else if n = 92 then [CHR 0x5C, CHR 0x5C]
      else if n = 10 then [CHR 0x5C, CHR ''n''] else if n = 13 then [CHR 0x5C, CHR ''r'']
      else if n = 9 then [CHR 0x5C, CHR ''t''] else if n = 12 then [CHR 0x5C, CHR ''f'']
      else if n = 8 then [CHR 0x5C, CHR ''b'']
      else if 32 \<le> n \<and> n \<le> 126 then [char_of n]
      else if n < 65536 then unicode_escape n
      else unicode_escape (55296 + (n - 65536) div 1024) @ unicode_escape (56320 + (n - 65536) mod 1024))"

definition json_str :: "string \<Rightarrow> string" where
  "json_str s = CHR 0x22 # concat (map json_char (py_chars s)) @ [CHR 0x22]"

definition show_int :: "int \<Rightarrow> string" where
  "show_int i = (if i < 0 then CHR ''-'' # show_nat (nat (- i)) else show_nat (nat i))"

text \<open>\<^verbatim>\<open>json.dumps(value, separators=(",", ":"))\<close>.\<close>

fun dumps :: "log_lib \<Rightarrow> json \<Rightarrow> string" where
  "dumps lib JNull = ''null''"
| "dumps lib (JBool b) = (if b then ''true'' else ''false'')"
| "dumps lib (JInt i) = show_int i"
| "dumps lib (JFloat x) = ll_repr lib x"
| "dumps lib (JStr s) = json_str s"
| "dumps lib (JArr xs) = ''['' @ py_join '','' (map (dumps lib) xs) @ '']''"
| "dumps lib (JObj d) =
     ''{'' @ py_join '','' (map (\<lambda>kv. json_str (fst kv) @ '':'' @ dumps lib (snd kv)) d) @ ''}''"

text \<open>\<^verbatim>\<open>JsonLogFormatter.format\<close>: a field of the record replaces a fixed key of the same name.\<close>

definition json_payload :: "log_record \<Rightarrow> jobject" where
  "json_payload r =
     (let fixed = [(''timestamp'', JStr (isoformat (lr_created r))),
                   (''level'', JStr (levelname (lr_level r))), (''logger'', JStr (lr_name r)),
                   (''message'', JStr (lr_message r))];
          fields = fold (\<lambda>(k, v) p. dict_set k v p)
                     (filter (\<lambda>kv. shown_field (fst kv)) (lr_extra r)) fixed;
          p1 = (case lr_exc r of None \<Rightarrow> fields | Some t \<Rightarrow> dict_set ''exception'' (JStr t) fields)
      in if truthy (lr_stack r) then dict_set ''stack'' (jopt (lr_stack r)) p1 else p1)"

definition json_line :: "log_lib \<Rightarrow> log_record \<Rightarrow> string" where
  "json_line lib r = dumps lib (JObj (json_payload r))"

text \<open>\<^verbatim>\<open>f"{value}"\<close>.\<close>

definition value_text :: "log_lib \<Rightarrow> json \<Rightarrow> string" where
  "value_text lib v = (case v of
     JStr s \<Rightarrow> s | JBool b \<Rightarrow> if b then ''True'' else ''False'' | JInt i \<Rightarrow> show_int i
   | JFloat x \<Rightarrow> ll_repr lib x | JNull \<Rightarrow> ''None'' | _ \<Rightarrow> ll_str lib v)"

text \<open>\<^verbatim>\<open>TextLogFormatter.format\<close>: the standard line with the traceback and the stack below
  it, then the fields that are not \<open>None\<close>.\<close>

definition text_fields :: "log_record \<Rightarrow> jobject" where
  "text_fields r = filter (\<lambda>kv. shown_field (fst kv) \<and> snd kv \<noteq> JNull) (lr_extra r)"

definition below :: "string \<Rightarrow> string option \<Rightarrow> string" where
  "below s t =
     (if truthy t then (if s \<noteq> [] \<and> last s = CHR 0x0A then s else s @ NL) @ the t else s)"

definition text_line :: "log_lib \<Rightarrow> log_record \<Rightarrow> string" where
  "text_line lib r =
     (let fields = py_join '' '' (map (\<lambda>kv. fst kv @ ''='' @ value_text lib (snd kv)) (text_fields r));
          head = ll_asctime lib (lr_created r) @ '' '' @ levelname (lr_level r) @ '' ['' @ lr_name r @
                 ''] '' @ lr_message r;
          line = below (below head (lr_exc r)) (lr_stack r)
      in if fields \<noteq> [] then line @ '' '' @ fields else line)"

definition format_record :: "log_lib \<Rightarrow> log_format \<Rightarrow> log_record \<Rightarrow> string" where
  "format_record lib f r = (case f of Json_lines \<Rightarrow> json_line lib r | Text_lines \<Rightarrow> text_line lib r)"

text \<open>What the stream handler has written after the records.\<close>

definition stream_of :: "log_lib \<Rightarrow> log_format \<Rightarrow> log_record list \<Rightarrow> string" where
  "stream_of lib f rs = concat (map (\<lambda>r. format_record lib f r @ NL) rs)"

section \<open>Start and requests\<close>

definition app_logger :: string where "app_logger = ''jan_setu.app''"

definition log_call :: "string \<Rightarrow> nat \<Rightarrow> time \<Rightarrow> string \<Rightarrow> jobject \<Rightarrow> log_record" where
  "log_call name level now msg extra =
     \<lparr>lr_name = name, lr_level = level, lr_created = now, lr_message = msg, lr_extra = extra,
      lr_exc = None, lr_stack = None\<rparr>"

text \<open>The import of \<^verbatim>\<open>app.py\<close>: the log is configured, then every insecure default is
  reported. An exception stops the import.\<close>

definition start_app ::
    "string \<Rightarrow> string \<Rightarrow> settings \<Rightarrow> time \<Rightarrow> log_setup \<Rightarrow> (exn + log_record list) \<times> log_setup" where
  "start_app level log_format s now st =
     (case configure_logging level log_format st of
        (Some e, st1) \<Rightarrow> (Inl e, st1)
      | (None, st1) \<Rightarrow>
          (Inr (emits st1 None
             (map (\<lambda>issue. log_call app_logger WARNING now ''insecure_production_default''
                             [(''issue'', JStr issue)])
               (insecure_production_defaults s))), st1))"

text \<open>\<^verbatim>\<open>elapsed_ms\<close>, on readings of the performance counter in nanoseconds:
  \<^verbatim>\<open>round\<close> to two digits of a millisecond, ties to the even digit.\<close>

definition round_even :: "int \<Rightarrow> int \<Rightarrow> int" where
  "round_even a b =
     (let q = a div b; r = a mod b
      in if 2 * r < b \<or> (2 * r = b \<and> even q) then q else q + 1)"

definition elapsed_ms :: "int \<Rightarrow> int \<Rightarrow> real" where
  "elapsed_ms started_at now = of_int (round_even (now - started_at) 10000) / 100"

record request =
  rq_request_id :: "string option"
  rq_method :: string
  rq_path :: string

record response =
  rp_status :: nat
  rp_headers :: "string \<rightharpoonup> string"

text \<open>The middleware \<^verbatim>\<open>log_request\<close>. \<open>call_next\<close> is the rest of the application: it gets
  the value that the context variable now has, the request and the tables, and gives the records it
  logs, its response or exception, and the tables. Header names are in lower case. The result
  holds the records of the log, in order.\<close>

definition log_request ::
    "log_setup \<Rightarrow> string \<Rightarrow> (exn \<Rightarrow> string) \<Rightarrow> int \<Rightarrow> int \<Rightarrow> time \<Rightarrow>
     (string \<Rightarrow> request \<Rightarrow> 'd \<Rightarrow> log_record list \<times> (exn + response) \<times> 'd) \<Rightarrow>
     request \<Rightarrow> 'd \<Rightarrow> log_record list \<times> (exn + response) \<times> 'd" where
  "log_request st fresh traceback started_at ended now call_next rq d =
     (let request_id = str_or (rq_request_id rq) fresh;
          log_context = [(''request_id'', JStr request_id), (''method'', JStr (rq_method rq)),
                         (''path'', JStr (rq_path rq))];
          duration = (''duration_ms'', JFloat (elapsed_ms started_at ended))
      in case call_next request_id rq d of (rs, out, d1) \<Rightarrow>
           (case out of
              Inl e \<Rightarrow>
                (emits st (Some request_id)
                   (rs @ [(log_call app_logger ERROR now ''request_failed'' (log_context @ [duration]))
                            \<lparr>lr_exc := Some (traceback e)\<rparr>]),
                 Inl e, d1)
            | Inr resp \<Rightarrow>
                (emits st (Some request_id)
                   (rs @ [log_call app_logger INFO now ''request_completed''
                            (log_context @ [(''status_code'', JInt (int (rp_status resp))), duration])]),
                 Inr (resp\<lparr>rp_headers := (rp_headers resp)(''x-request-id'' \<mapsto> request_id)\<rparr>), d1)))"

text \<open>\<^verbatim>\<open>uvicorn\<close> reloads on changes in development and test only.\<close>

definition run_reloads :: "settings \<Rightarrow> bool" where
  "run_reloads s = (s_environment s \<in> {Development, Test})"

text \<open>The endpoint of an official's action below the middleware: what it logs, and the response.
  An \<^verbatim>\<open>HTTPException\<close> becomes a response of its status.\<close>

definition respond :: "exn + 'a \<Rightarrow> exn + response" where
  "respond r = (case r of
     Inr _ \<Rightarrow> Inr \<lparr>rp_status = 200, rp_headers = Map.empty\<rparr>
   | Inl (HTTPException n) \<Rightarrow> Inr \<lparr>rp_status = n, rp_headers = Map.empty\<rparr>
   | Inl e \<Rightarrow> Inl e)"

definition act_text :: "official_act \<Rightarrow> string" where
  "act_text a = (case a of
     Act_approve \<Rightarrow> ''approve'' | Act_correct \<Rightarrow> ''correct'' | Act_redirect \<Rightarrow> ''redirect''
   | Act_reject \<Rightarrow> ''reject'' | Act_request_clarification \<Rightarrow> ''request_clarification'')"

definition official_action_logged ::
    "time \<Rightarrow> official \<Rightarrow> uuid \<Rightarrow> action_body \<Rightarrow> string \<Rightarrow> request \<Rightarrow> db \<Rightarrow>
     log_record list \<times> (exn + response) \<times> db" where
  "official_action_logged now o1 i b var rq d =
     (case official_action now var o1 i b d of (r, d1) \<Rightarrow>
        (case r of
           Inl _ \<Rightarrow> []
         | Inr _ \<Rightarrow> [log_call ''jan_setu.officials'' INFO now ''official_action_recorded''
                      [(''official_id'', JStr (of_id o1)), (''grievance_id'', JStr i),
                       (''action'', JStr (act_text (ab_action b))),
                       (''role'', JStr (role_text (of_role o1)))]],
         respond r, d1))"

section \<open>Configuration of the log\<close>

lemma library_level: "library \<in> set NOISY_LIBRARY_LOGGERS \<Longrightarrow> py_split (CHR ''.'') library = [library]"
  by (auto simp: NOISY_LIBRARY_LOGGERS_def)

lemma configured:
  "configure_logging level log_format st = (None, st1) \<longleftrightarrow>
     (\<exists>l. level_of_text level = Inr l \<and>
        st1 = \<lparr>ls_handler = Some (if py_lower log_format = ''json'' then Json_lines else Text_lines),
               ls_root = l,
               ls_levels = (\<lambda>name. if name \<in> set NOISY_LIBRARY_LOGGERS
                                   then if l \<le> DEBUG then NOTSET else WARNING
                                   else ls_levels st name)\<rparr>)"
  by (cases "level_of_text level") (auto simp: configure_logging_def Let_def)

text \<open>The last configuration decides: configuring again gives what configuring once would have
  given, and the chatty libraries log at INFO exactly when the application runs at DEBUG or
  below.\<close>

theorem configuration_last_wins:
  assumes "configure_logging level log_format st = (None, st1)"
    and "configure_logging level' log_format' st1 = (None, st2)"
  shows "configure_logging level' log_format' st = (None, st2)"
    and "library \<in> set NOISY_LIBRARY_LOGGERS \<Longrightarrow>
         enabled_for st2 library INFO \<longleftrightarrow> ls_root st2 \<le> DEBUG"
proof -
  show "configure_logging level' log_format' st = (None, st2)"
    using assms unfolding configured by (auto simp: fun_eq_iff)
  assume lib: "library \<in> set NOISY_LIBRARY_LOGGERS"
  then have "ls_levels st2 library = (if ls_root st2 \<le> DEBUG then NOTSET else WARNING)"
    using assms(2) unfolding configured by auto
  then show "enabled_for st2 library INFO \<longleftrightarrow> ls_root st2 \<le> DEBUG"
    by (simp add: enabled_for_def library_level [OF lib] level_defs Let_def)
qed

section \<open>Every record carries the id of its request\<close>

lemma jget_dict_set [simp]: "jget (dict_set k v d) k' = (if k' = k then v else jget d k')"
  by (induction k v d rule: dict_set.induct) (auto simp: jget_def)

lemma emits_simps [simp]:
  "emits st var [] = []" "emits st var (r # rs) = emit st var r @ emits st var rs"
  "emits st var (rs @ rs') = emits st var rs @ emits st var rs'"
  by (simp_all add: emits_def)

lemma filtered [simp]:
  "lr_name (request_id_filter var r) = lr_name r" "lr_level (request_id_filter var r) = lr_level r"
  "lr_message (request_id_filter var r) = lr_message r"
  by (simp_all add: request_id_filter_def)

lemma filter_sets_id:
  "jget (lr_extra r) ''request_id'' \<in> {JNull, JStr rid} \<Longrightarrow>
   jget (lr_extra (request_id_filter (Some rid) r)) ''request_id'' = JStr rid"
  by (auto simp: request_id_filter_def jopt_def)

lemma emits_carry_id:
  assumes "r \<in> set (emits st (Some rid) rs)"
    and "\<And>x. x \<in> set rs \<Longrightarrow> jget (lr_extra x) ''request_id'' \<in> {JNull, JStr rid}"
  shows "jget (lr_extra r) ''request_id'' = JStr rid"
  using assms filter_sets_id
  by (induction rs) (auto simp: emit_def simp del: insert_iff split: if_splits)

lemma enabled_mono: "enabled_for st name l \<Longrightarrow> l \<le> l' \<Longrightarrow> enabled_for st name l'"
  by (simp add: enabled_for_def)

lemma log_call_fields [simp]:
  "lr_name (log_call n l t m x) = n" "lr_level (log_call n l t m x) = l"
  "lr_message (log_call n l t m x) = m" "lr_extra (log_call n l t m x) = x"
  by (simp_all add: log_call_def)

lemma emits_other_loggers:
  "(\<And>x. x \<in> set rs \<Longrightarrow> lr_name x \<noteq> name) \<Longrightarrow> filter (\<lambda>r. lr_name r = name) (emits st var rs) = []"
  by (induction rs) (auto simp: emit_def)

text \<open>The middleware around any handler that sets no request id of its own and does not use the
  logger of the application.\<close>

lemma request_traced:
  assumes run: "log_request st fresh traceback t0 t1 now call_next rq d = (rs, out, d1)"
    and rid: "rid = str_or (rq_request_id rq) fresh"
    and inner: "call_next rid rq d = (rs', out', d1')"
    and own: "\<And>x. x \<in> set rs' \<Longrightarrow> jget (lr_extra x) ''request_id'' = JNull \<and> lr_name x \<noteq> app_logger"
  shows "\<And>r. r \<in> set rs \<Longrightarrow> jget (lr_extra r) ''request_id'' = JStr rid"
    and "d1 = d1'" and "\<And>e. out = Inl e \<longleftrightarrow> out' = Inl e"
    and "\<And>resp. out = Inr resp \<Longrightarrow> rp_headers resp ''x-request-id'' = Some rid"
    and "\<And>resp. out = Inr resp \<Longrightarrow> \<exists>resp'. out' = Inr resp' \<and> rp_status resp' = rp_status resp"
    and "ls_handler st \<noteq> None \<Longrightarrow> enabled_for st app_logger INFO \<Longrightarrow>
         map lr_message (filter (\<lambda>r. lr_name r = app_logger) rs) =
           [case out of Inl _ \<Rightarrow> ''request_failed'' | Inr _ \<Rightarrow> ''request_completed'']"
proof -
  define end_record where "end_record =
    (case out' of
       Inl e \<Rightarrow> (log_call app_logger ERROR now ''request_failed''
                  [(''request_id'', JStr rid), (''method'', JStr (rq_method rq)), (''path'', JStr (rq_path rq)),
                   (''duration_ms'', JFloat (elapsed_ms t0 t1))])\<lparr>lr_exc := Some (traceback e)\<rparr>
     | Inr resp \<Rightarrow> log_call app_logger INFO now ''request_completed''
                  [(''request_id'', JStr rid), (''method'', JStr (rq_method rq)), (''path'', JStr (rq_path rq)),
                   (''status_code'', JInt (int (rp_status resp))), (''duration_ms'', JFloat (elapsed_ms t0 t1))])"
  have rs: "rs = emits st (Some rid) (rs' @ [end_record])" and d1: "d1 = d1'"
    and out: "out = (case out' of Inl e \<Rightarrow> Inl e
                | Inr resp \<Rightarrow> Inr (resp\<lparr>rp_headers := (rp_headers resp)(''x-request-id'' \<mapsto> rid)\<rparr>))"
    using run inner by (auto simp: log_request_def rid [symmetric] end_record_def Let_def split: sum.splits)
  have end_id: "jget (lr_extra end_record) ''request_id'' = JStr rid"
    and end_name: "lr_name end_record = app_logger" and end_level: "INFO \<le> lr_level end_record"
    and end_text: "lr_message end_record = (case out' of Inl _ \<Rightarrow> ''request_failed'' | Inr _ \<Rightarrow> ''request_completed'')"
    by (simp_all add: end_record_def jget_def level_defs split: sum.splits)
  show "d1 = d1'" by (rule d1)
  show "out = Inl e \<longleftrightarrow> out' = Inl e" for e using out by (simp split: sum.splits)
  show "rp_headers resp ''x-request-id'' = Some rid" if "out = Inr resp" for resp
    using that out by (auto split: sum.splits)
  show "\<exists>resp'. out' = Inr resp' \<and> rp_status resp' = rp_status resp" if "out = Inr resp" for resp
    using that out by (auto split: sum.splits)
  show "jget (lr_extra r) ''request_id'' = JStr rid" if "r \<in> set rs" for r
    using that own end_id unfolding rs by (intro emits_carry_id [of r st rid "rs' @ [end_record]"]) auto
  assume h: "ls_handler st \<noteq> None" "enabled_for st app_logger INFO"
  have "filter (\<lambda>r. lr_name r = app_logger) (emits st (Some rid) rs') = []"
    using own by (intro emits_other_loggers) auto
  moreover have "emit st (Some rid) end_record = [request_id_filter (Some rid) end_record]"
    using h enabled_mono [OF h(2) end_level] by (simp add: emit_def end_name)
  ultimately show "map lr_message (filter (\<lambda>r. lr_name r = app_logger) rs) =
      [case out of Inl _ \<Rightarrow> ''request_failed'' | Inr _ \<Rightarrow> ''request_completed'']"
    by (simp add: rs end_name end_text out split: sum.splits)
qed

lemma respond_status:
  "respond r = Inr resp \<Longrightarrow>
     (\<exists>v. r = Inr v \<and> rp_status resp = 200) \<or> (r = Inl (HTTPException (rp_status resp)))"
  by (auto simp: respond_def split: sum.splits exn.splits)

lemma action_never_200: "fst (official_action now rid o1 i b d) \<noteq> Inl (HTTPException 200)"
  by (auto simp: official_action_def accessible_def set_grievance_fields_def Let_def
      split: option.splits sum.splits prod.splits if_splits)

lemma action_logged_names:
  "official_action_logged now o1 i b rid rq d = (rs, out, d1) \<Longrightarrow> x \<in> set rs \<Longrightarrow>
     jget (lr_extra x) ''request_id'' = JNull \<and> lr_name x \<noteq> app_logger"
  by (auto simp: official_action_logged_def app_logger_def jget_def split: prod.splits sum.splits)

lemma action_writes_id:
  assumes "official_action now rid o1 i b d = (Inr j, d1)"
  shows "\<exists>e. db_audit d1 = db_audit d @ [e] \<and> oa_request_id e = Some rid"
  using assms
  by (auto simp: official_action_def add_official_audit_def set_grievance_fields_def new_id_def Let_def
      split: option.splits sum.splits prod.splits if_splits)


section \<open>A JSON record is one line\<close>

definition plain :: "string \<Rightarrow> bool" where
  "plain s = list_all (\<lambda>c. 32 \<le> (of_char c :: nat) \<and> (of_char c :: nat) \<le> 126) s"

lemma plain_simps [simp]:
  "plain []" "plain (c # s) \<longleftrightarrow> 32 \<le> (of_char c :: nat) \<and> (of_char c :: nat) \<le> 126 \<and> plain s"
  "plain (s @ t) \<longleftrightarrow> plain s \<and> plain t"
  by (auto simp: plain_def)

lemma plain_concat: "(\<And>s. s \<in> set ss \<Longrightarrow> plain s) \<Longrightarrow> plain (concat ss)"
  by (induction ss) auto

lemma plain_join: "plain sep \<Longrightarrow> (\<And>s. s \<in> set ss \<Longrightarrow> plain s) \<Longrightarrow> plain (py_join sep ss)"
  by (induction sep ss rule: py_join.induct) auto

lemma plain_hex: "plain (hex_digits k n)"
proof (induction k arbitrary: n)
  case (Suc k)
  have "n mod 16 < 16" by simp
  with Suc show ?case by (auto simp: hex_char_def)
qed simp

lemma plain_json_char: "plain (json_char s)"
  by (simp add: json_char_def Let_def unicode_escape_def plain_hex)

lemma plain_json_str: "plain (json_str s)"
  by (auto simp: json_str_def intro!: plain_concat plain_json_char)

lemma plain_show_nat: "plain (show_nat n)"
  using show_nat_digits [of n] by (auto simp: plain_def is_digit_def Let_def list_all_iff)

lemma plain_dumps: "(\<And>x. plain (ll_repr lib x)) \<Longrightarrow> plain (dumps lib v)"
  by (induction lib v rule: dumps.induct)
     (auto simp: plain_json_str show_int_def plain_show_nat intro!: plain_join)

text \<open>With JSON logging, whatever a client sends cannot forge or break a log line: the text that the
  handler has written, cut at the newlines, is one printable ASCII line per record, in order.\<close>

theorem json_stream_reads_back:
  assumes "\<And>x. plain (ll_repr lib x)"
  shows "py_split (CHR 0x0A) (stream_of lib Json_lines rs) = map (json_line lib) rs @ [[]] \<and>
         list_all (\<lambda>r. plain (json_line lib r)) rs"
proof -
  have p: "plain (json_line lib r)" for r
    unfolding json_line_def by (rule plain_dumps) (rule assms)
  then have "CHR 0x0A \<notin> set (json_line lib r)" for r
    unfolding plain_def list_all_iff by fastforce
  then have "py_split (CHR 0x0A) (stream_of lib Json_lines rs) = map (json_line lib) rs @ [[]]"
    by (induction rs) (simp_all add: stream_of_def format_record_def NL_def py_split_append_sep)
  then show ?thesis using p by (simp add: list_all_iff)
qed

text \<open>A text line does not keep its fields apart: a client that sends the request id
  \<^verbatim>\<open>a status_code=200\<close> makes a line that a request with the id \<^verbatim>\<open>a\<close> and that status
  would make; and a field that is \<open>None\<close> is in the JSON object and not in the text.\<close>

lemma text_line_ambiguous:
  "text_line lib (log_call n l t m [(''request_id'', JStr ''a status_code=200'')]) =
   text_line lib (log_call n l t m [(''request_id'', JStr ''a''), (''status_code'', JInt 200)])"
proof -
  have "show_int 200 = ''200''" by code_simp
  then show ?thesis
    by (simp add: text_line_def text_fields_def log_call_def shown_field_def LOG_RECORD_RESERVED_def
        startswith_def value_text_def)
qed

lemma text_omits_none:
  "map fst (text_fields (log_call n l t m [(''request_id'', JNull)])) = []"
  "''request_id'' \<in> set (map fst (json_payload (log_call n l t m [(''request_id'', JNull)])))"
  by (simp_all add: text_fields_def json_payload_def log_call_def shown_field_def LOG_RECORD_RESERVED_def
      startswith_def Let_def truthy_def)

section \<open>Concrete runs\<close>

definition sample_log :: log_setup where
  "sample_log = \<lparr>ls_handler = Some Json_lines, ls_root = INFO, ls_levels = (\<lambda>_. NOTSET)\<rparr>"

definition sample_request :: request where
  "sample_request = \<lparr>rq_request_id = Some ''r7'', rq_method = ''POST'', rq_path = ''/official''\<rparr>"


theorem json_stream_reads_back_witness:
  "py_split (CHR 0x0A)
     (stream_of \<lparr>ll_repr = (\<lambda>_. ''0.5''), ll_str = (\<lambda>_. []), ll_asctime = (\<lambda>_. [])\<rparr> Json_lines
        [log_call ''a'' 20 0 (''x'' @ NL @ ''y'') [], log_call ''b'' 30 0 ''z'' [(''k'', JFloat 0)]]) ! 2 = []"
proof -
  let ?lib = "\<lparr>ll_repr = (\<lambda>_. ''0.5''), ll_str = (\<lambda>_. []), ll_asctime = (\<lambda>_. [])\<rparr> :: log_lib"
  have "plain (ll_repr ?lib x)" for x by simp
  from json_stream_reads_back [of ?lib, OF this] show ?thesis by simp
qed

end
