(* ===== verification/Spec2Isabelle.thy ===== *)
theory Spec2Isabelle
  imports Prelude Taxonomy Models Contracts Copy WaClient Conversation ReposChat Config Outbound
    ReposWork Throttle Dedup External Classify Pipeline Auth Processing Officials WebApi Gateway
    Lifecycle System Schema SchemaRuns Declared Migrations Upgrades Seed Shell
begin

text \<open>
  Jan Setu takes civic complaints over WhatsApp and a web form, lets language models extract a
  category and safety facts, decides by a fixed policy what happens to the complaint, lets the
  citizen confirm, merges duplicates, sends the complaint to a municipal department, and shows
  uncertain cases to officials. This development models the Python package
  \<^verbatim>\<open>src/jan_setu\<close>.

  \<^bold>\<open>How the parts interact.\<close> Meta posts to the webhook, which checks the signature and stores an event
  (\<open>Gateway\<close>). A driver leases the event, stores its messages, and runs one turn for each new one
  (\<open>Processing\<close>): the transaction of a turn consumes the message, tries the intercepts (sign-in tap,
  sign-in code, status query), and otherwise advances the dialog (\<open>Conversation\<close>), which returns the
  next state, replies and perhaps an action. Replies are stored in the transaction and sent
  afterwards (\<open>Outbound\<close>). Actions start the pipeline on the complaint (\<open>Pipeline\<close>), which calls speech
  recognition, geocoding and media (\<open>External\<close>), extraction (\<open>Classify\<close>), the policy (\<open>Taxonomy\<close>), the
  routes in force (\<open>ReposWork\<close>) and the duplicate search (\<open>Dedup\<close>). The web form (\<open>WebApi\<close>) stores a
  complaint and a job; the worker (\<open>Gateway\<close>) runs jobs and the sweeps that recover what a crash
  left. Citizens sign in by \<open>Auth\<close>; officials work through \<open>Officials\<close>. All state is in the database.

  \<^bold>\<open>Theories and the code they model.\<close>
  \<^item> \<open>Prelude\<close>: exceptions, clock, Python strings over UTF-8 bytes, tables as lists of rows.
  \<^item> \<open>Contracts\<close>: the interfaces as locales (a leased row, a unique insert, a row used once), each
    interpreted on the model in \<open>ReposChat\<close>, \<open>ReposWork\<close> and \<open>Auth\<close>.
  \<^item> \<open>Taxonomy\<close>: \<^verbatim>\<open>pipeline/taxonomy.py\<close>. \<open>Models\<close>: \<^verbatim>\<open>db/models.py\<close>, one record per table, the database
    is the record \<open>db\<close>. \<open>Config\<close>: \<^verbatim>\<open>config.py\<close>. \<open>Copy\<close>: \<^verbatim>\<open>whatsapp/copy.py\<close>.
  \<^item> \<open>WaClient\<close>: \<^verbatim>\<open>whatsapp/client.py\<close>. \<open>Conversation\<close>: \<^verbatim>\<open>whatsapp/conversation.py\<close>.
    \<open>Outbound\<close>: \<^verbatim>\<open>whatsapp/dispatch.py\<close>. \<open>Processing\<close>: \<^verbatim>\<open>whatsapp/processing.py\<close>.
  \<^item> \<open>ReposChat\<close> and \<open>ReposWork\<close>: \<^verbatim>\<open>repositories/*.py\<close> for contacts, conversations, messages and events,
    and for complaints, jobs and routes, with \<^verbatim>\<open>pipeline/routing.py\<close>.
  \<^item> \<open>Throttle\<close>, \<open>Dedup\<close>, \<open>External\<close>, \<open>Classify\<close>, \<open>Pipeline\<close>: \<^verbatim>\<open>pipeline/\<close> with \<^verbatim>\<open>throttle.py\<close>, \<^verbatim>\<open>dedup.py\<close>,
    the adapters \<^verbatim>\<open>media.py\<close>, \<^verbatim>\<open>stt.py\<close>, \<^verbatim>\<open>geocoding.py\<close>, \<^verbatim>\<open>dispatchers.py\<close>, then \<^verbatim>\<open>classify.py\<close>, and
    \<^verbatim>\<open>core.py\<close> with \<^verbatim>\<open>pdfgen.py\<close>.
  \<^item> \<open>Auth\<close>: \<^verbatim>\<open>auth.py\<close>, \<^verbatim>\<open>repositories/users.py\<close>, \<^verbatim>\<open>repositories/login_approvals.py\<close>.
    \<open>Officials\<close>: \<^verbatim>\<open>officials.py\<close>, \<^verbatim>\<open>repositories/officials.py\<close>. \<open>WebApi\<close>: \<^verbatim>\<open>web/api.py\<close>,
    \<^verbatim>\<open>schemas.py\<close>. \<open>Gateway\<close>: \<^verbatim>\<open>whatsapp/api.py\<close>, \<^verbatim>\<open>worker.py\<close>.
  \<^item> \<open>Lifecycle\<close>: the life cycle of a complaint as an abstract machine (\<open>life_step\<close>), simulations as a
    locale, and the steps of the pipeline as runs of the machine. \<open>System\<close>: the whole program as a
    transition system (\<open>request\<close>, \<open>served\<close>) that implements it; the locale is interpreted there.
  \<^item> \<open>Schema\<close>: tables, constraints, indexes and rows, and what the statements of a migration do to them
    (\<open>run_ddl\<close>). \<open>SchemaRuns\<close>: a script checked table by table. \<open>Declared\<close>: the tables as the classes of
    \<^verbatim>\<open>db/models.py\<close> declare them. \<open>Migrations\<close>: the seven scripts under \<^verbatim>\<open>migrations/versions/\<close>, upgrade and
    downgrade. \<open>Upgrades\<close>: what the scripts achieve.
  \<^item> \<open>Seed\<close>: \<^verbatim>\<open>scripts/seed_jurisdiction_routes.py\<close>, the command that writes the routes that \<open>ReposWork\<close> reads.
  \<^item> \<open>Shell\<close>: \<^verbatim>\<open>app.py\<close>, \<^verbatim>\<open>logctx.py\<close> and the logging of \<^verbatim>\<open>config.py\<close>, with an official's action run below
    the request middleware.

  Functions keep the names of the code without a leading underscore. A function that writes takes
  the database and returns it; one that commits more than once returns the committed database also
  when it raises (\<open>(exn + 'a) \<times> db\<close>), one inside a single transaction returns it only on success
  (\<open>exn + ('a \<times> db)\<close>).

  \<^bold>\<open>What the lemmas show.\<close>
  \<^item> Taxonomy and policy: which complaints are filed without review, and that an immediate danger never
    is; the import-time checks hold of the tables.
  \<^item> Dialog: an invariant of the collected context on all reachable states; cards are bound to their
    draft; the only exception it can raise.
  \<^item> Leases and queues: exclusive leases, at most five sends and five runs of a job, no send outside the
    service window, spaced provider calls, one ticket number per complaint, a round of the worker
    settles each job it claims.
  \<^item> Pipeline: the first pass is atomic and gated by the policy, what a confirmation does on each branch,
    dispatch only over an enabled route, failures of the department end after five attempts.
  \<^item> Life cycle: every request, event and worker round makes steps of the abstract machine only, so in
    every database the program reaches the history of a complaint agrees with its row.
  \<^item> Turns: a message is consumed once; filing needs the bound button; a delivery that is repeated runs
    no turn.
  \<^item> Access: one sign-in per approval, the hourly cap, rotation of refresh tokens, the scope and the
    audit of officials, the ownership of complaints, signed webhooks.
  \<^item> Schema: the upgrades build exactly the declared tables, each downgrade undoes its upgrade, upgrades
    keep the stored values, and the vocabularies of the code fit their columns.
  \<^item> Dispatch switch: the seeding command decides which routes dispatch and leaves all others alone.
  \<^item> Logging: the log records, the response header and the audit event of a request carry one id, the
    last log configuration decides, and a JSON log is one line per record whatever a client sends.
  \<^item> Faults of the code are theorems too: a retried event loses its turns, a new photo reopens a filed
    complaint, an unreadable receipt is retried for ever, a downgrade fails on stored complaints, and others.

  \<^bold>\<open>Bounds and fuel.\<close> Every loop of the code runs over a finite list, so the definitions are structural
  recursions or list functions and need no fuel. The clock is an integer number of microseconds.
  Coordinates and confidences are reals, so rounding and not-a-number values are out of reach.

  \<^bold>\<open>Parameters.\<close> The record \<open>world\<close> holds the answers of Graph, Sarvam, Nominatim, the language models,
  the municipal API and SMTP, the file store, the JSON parser and the PDF renderer; \<open>auth_lib\<close> holds
  the digest, the JWT library and the local time formats; HMAC is an argument of the webhook. Random
  values and clock readings are arguments. The services answer per call as functions of the request.

  \<^bold>\<open>Not modelled.\<close> The log calls of the other modules, the cross-origin settings, the engine and
  session of SQLAlchemy and the health probes (no state); rendering inside
  \<^verbatim>\<open>pdfgen.py\<close> (the PDF and image libraries); the call of Alembic in \<^verbatim>\<open>migrations/env.py\<close>,
  and whether stored rows satisfy a unique or foreign key that a migration adds; the front end (another language); database failures other than constraint violations, and
  interleavings inside one transaction, which the row locks and conditional updates of the code
  exclude where the contracts need it. Where the code reads and writes in separate statements
  without a lock, as in the rotation of refresh tokens, the steps are separate definitions.
\<close>

end
